(* ===== verification/Iec_Prelude.thy ===== *)
theory Iec_Prelude
  imports Main "HOL-Library.Word"
begin

text \<open>
  Shared vocabulary of the development: C and Go scalar types, faults of C code as values of a
  sum type, checked C \<open>int\<close> addition, the pieces of Go's \<open>strconv\<close> and
  \<open>strings\<close> the program uses, and the interface (locale) that every C enumeration with
  explicit codes satisfies.
\<close>

unbundle bit_operations_syntax

named_theorems fault_simps \<open>evaluation of fault-valued (sum typed) code\<close>
named_theorems enum_simps \<open>codes and decoders of C enumerations\<close>

section \<open>Scalar types\<close>

type_synonym int32 = "32 word"
type_synonym int64 = "64 word"
type_synonym uint8 = "8 word"
type_synonym uint16 = "16 word"
type_synonym uint32 = "32 word"
type_synonym uint64 = "64 word"

text \<open>IEEE-754 numbers are only moved, never computed with: they are their bit patterns.\<close>

type_synonym c_double = "64 word"
type_synonym c_float = "32 word"

section \<open>Faults of C code\<close>

text \<open>
  A C function that would run into undefined behaviour (or whose recursion outruns the fuel of
  the model) returns \<open>Inl\<close> of a fault; every other run returns \<open>Inr\<close>.
\<close>

datatype c_fault = OutOfFuel | SignedOverflow | BadIndex | NullDeref

fun and_then :: "'e + 'a \<Rightarrow> ('a \<Rightarrow> 'e + 'b) \<Rightarrow> 'e + 'b" where
  "and_then (Inl e) f = Inl e"
| "and_then (Inr a) f = f a"


lemma and_then_Inr_iff:
  "and_then m f = Inr b \<longleftrightarrow> (\<exists>a. m = Inr a \<and> f a = Inr b)"
  by (cases m) auto

lemma and_then_cong [fundef_cong]:
  "m = m' \<Longrightarrow> (\<And>a. m' = Inr a \<Longrightarrow> f a = f' a) \<Longrightarrow> and_then m f = and_then m' f'"
  by (cases m') auto

lemma and_then_assoc: "and_then (and_then m f) g = and_then m (\<lambda>a. and_then (f a) g)"
  by (cases m) auto

definition INT_MAX :: int where "INT_MAX = 2147483647"

definition INT_MIN :: int where "INT_MIN = -2147483648"

definition add_int :: "int \<Rightarrow> int \<Rightarrow> c_fault + int" where
  "add_int a b = (if INT_MIN \<le> a + b \<and> a + b \<le> INT_MAX then Inr (a + b) else Inl SignedOverflow)"

lemma add_int_ok: "0 \<le> a \<Longrightarrow> 0 \<le> b \<Longrightarrow> a + b \<le> INT_MAX \<Longrightarrow> add_int a b = Inr (a + b)"
  by (simp add: add_int_def INT_MIN_def)

lemma add_int_overflow: "INT_MAX < a + b \<Longrightarrow> add_int a b = Inl SignedOverflow"
  by (simp add: add_int_def)

section \<open>Go library functions\<close>

text \<open>\<open>strconv.Itoa\<close> and the \<open>%d\<close> verb: decimal digits, most significant first.\<close>

fun nat_digits :: "nat \<Rightarrow> string" where
  "nat_digits n = (if n < 10 then [char_of (48 + n)]
     else nat_digits (n div 10) @ [char_of (48 + n mod 10)])"

declare nat_digits.simps [simp del]

definition Itoa :: "int \<Rightarrow> string" where
  "Itoa i = (if i < 0 then CHR ''-'' # nat_digits (nat (- i)) else nat_digits (nat i))"

fun digits_value :: "nat \<Rightarrow> string \<Rightarrow> nat" where
  "digits_value a [] = a"
| "digits_value a (c # cs) = digits_value (10 * a + (of_char c - 48)) cs"

lemma digits_value_append: "digits_value a (xs @ ys) = digits_value (digits_value a xs) ys"
  by (induction xs arbitrary: a) auto

lemma digits_value_nat_digits: "digits_value 0 (nat_digits n) = n"
proof (induction n rule: nat_digits.induct)
  case (1 n)
  have d: "digits_value a [char_of (48 + k)] = 10 * a + k" if "k < 10" for a k :: nat
    using that by simp
  show ?case
  proof (cases "n < 10")
    case True
    then show ?thesis using d [of n 0] by (simp add: nat_digits.simps [of n])
  next
    case False
    then have "digits_value 0 (nat_digits n)
        = 10 * digits_value 0 (nat_digits (n div 10)) + n mod 10"
      using d [of "n mod 10"] by (simp add: nat_digits.simps [of n] digits_value_append)
    then show ?thesis using "1.IH" False by simp
  qed
qed

lemma nat_digits_inject: "nat_digits m = nat_digits n \<longleftrightarrow> m = n"
  by (metis digits_value_nat_digits)

lemma nat_digits_chars: "c \<in> set (nat_digits n) \<Longrightarrow> 48 \<le> (of_char c :: nat) \<and> (of_char c :: nat) \<le> 57"
proof (induction n rule: nat_digits.induct)
  case (1 n)
  then show ?case
    by (cases "n < 10") (auto simp: nat_digits.simps [of n])
qed

lemma nat_digits_no_minus: "CHR ''-'' \<notin> set (nat_digits n)"
  using nat_digits_chars [of "CHR ''-''" n] by auto

lemma Itoa_inject: "Itoa i = Itoa j \<longleftrightarrow> i = j"
proof -
  have hd_digit: "nat_digits n \<noteq> CHR ''-'' # cs" for n cs
    using nat_digits_no_minus [of n] by auto
  show ?thesis
    using hd_digit [of "nat i"] hd_digit [of "nat j"] hd_digit [of "nat i", THEN not_sym]
    by (auto simp: Itoa_def nat_digits_inject dest: sym)
qed

text \<open>\<open>strings.Join\<close>.\<close>

fun Join :: "string list \<Rightarrow> string \<Rightarrow> string" where
  "Join [] sep = []"
| "Join [s] sep = s"
| "Join (s # t # ss) sep = s @ sep @ Join (t # ss) sep"

text \<open>\<open>strings.Split\<close> for a separator of one byte.\<close>

fun Split :: "string \<Rightarrow> char \<Rightarrow> string list" where
  "Split [] c = [[]]"
| "Split (x # xs) c =
     (if x = c then [] # Split xs c
      else (case Split xs c of [] \<Rightarrow> [[x]] | s # ss \<Rightarrow> (x # s) # ss))"

lemma Split_not_Nil [simp]: "Split s c \<noteq> []"
  by (induction s) (auto split: list.splits)

lemma Split_no_sep: "c \<notin> set s \<Longrightarrow> Split s c = [s]"
  by (induction s) auto

lemma Split_sep: "c \<notin> set s \<Longrightarrow> Split (s @ c # t) c = s # Split t c"
  by (induction s) (auto split: list.splits)

lemma Split_no_char: "p \<in> set (Split s c) \<Longrightarrow> c \<notin> set p"
  by (induction s arbitrary: p) (auto split: list.splits if_splits)

lemma Join_Split: "Join (Split s c) [c] = s"
proof (induction s)
  case Nil
  show ?case by simp
next
  case (Cons x xs)
  show ?case
    using Cons by (cases "Split xs c"; cases "tl (Split xs c)") auto
qed

text \<open>\<open>strings.Repeat\<close>.\<close>

definition Repeat :: "string \<Rightarrow> nat \<Rightarrow> string" where
  "Repeat s n = concat (replicate n s)"

text \<open>
  The \<open>%q\<close> verb (\<open>strconv.Quote\<close>) on ASCII text; bytes from 128 on, which are UTF-8
  sequences in Go, are copied.
\<close>

definition hex_digit :: "nat \<Rightarrow> char" where
  "hex_digit n = (if n < 10 then char_of (48 + n) else char_of (87 + n))"

definition quote_char :: "char \<Rightarrow> string" where
  "quote_char c = (let n = of_char c :: nat; b = CHR 0x5C in
     if c = CHR 0x22 \<or> c = b then [b, c]
     else if n = 7 then [b, CHR ''a''] else if n = 8 then [b, CHR ''b'']
     else if n = 9 then [b, CHR ''t''] else if n = 10 then [b, CHR ''n'']
     else if n = 11 then [b, CHR ''v''] else if n = 12 then [b, CHR ''f'']
     else if n = 13 then [b, CHR ''r'']
     else if n < 32 \<or> n = 127 then [b, CHR ''x'', hex_digit (n div 16), hex_digit (n mod 16)]
     else [c])"

definition Quote :: "string \<Rightarrow> string" where
  "Quote s = CHR 0x22 # concat (map quote_char s) @ [CHR 0x22]"

section \<open>The interface of a C enumeration\<close>

text \<open>
  An enumeration is a datatype with a function giving each enumerator its C value and a partial
  inverse; both directions of every cast of the binding rest on these two laws.
\<close>

locale c_enum =
  fixes code :: "'e \<Rightarrow> int"
    and decode :: "int \<Rightarrow> 'e option"
  assumes decode_code: "decode (code e) = Some e"
    and code_decode: "decode i = Some e \<Longrightarrow> code e = i"
begin

lemma code_inj: "code a = code b \<longleftrightarrow> a = b"
  by (metis decode_code option.inject)

lemma decode_iff: "decode i = Some e \<longleftrightarrow> i = code e"
  by (metis decode_code code_decode)

lemma decode_None_iff: "decode i = None \<longleftrightarrow> (\<forall>e. code e \<noteq> i)"
  by (metis decode_iff not_None_eq)

lemma range_code: "range code = {i. decode i \<noteq> None}"
  by (auto simp: decode_code) (metis code_decode rangeI)

end

text \<open>
  A decoder that searches a list of all enumerators satisfies the interface as soon as the
  list is complete and no code occurs twice.
\<close>

definition find_code :: "('e \<Rightarrow> int) \<Rightarrow> 'e list \<Rightarrow> int \<Rightarrow> 'e option" where
  "find_code code es i = List.find (\<lambda>e. code e = i) es"

lemma find_code_Some: "find_code code es i = Some e \<Longrightarrow> code e = i \<and> e \<in> set es"
  by (auto simp: find_code_def find_Some_iff)

lemma find_code_complete:
  assumes "distinct (map code es)" and "e \<in> set es"
  shows "find_code code es (code e) = Some e"
  using assms
proof (induction es)
  case Nil
  then show ?case by simp
next
  case (Cons x xs)
  then show ?case by (auto simp: find_code_def rev_image_eqI)
qed

lemma c_enum_find_code:
  assumes "distinct (map code es)" and "\<And>e. e \<in> set es"
  shows "c_enum code (find_code code es)"
  by unfold_locales (auto simp: find_code_complete [OF assms] dest: find_code_Some)

end
