(* ===== verification/C_Common.thy ===== *)
theory C_Common
  imports Iec_Prelude
begin

text \<open>
  Containers and buffers of the C headers (\<open>common/inc\<close>): linked list, map, byte buffer, memory
  pool and allocator. Pointers to objects are \<open>ptr\<close>, a \<open>char*\<close> is the string it points to.
\<close>

text \<open>
  A C pointer that is only stored and compared: null, or the address of an object.
\<close>

datatype (plugins only: code size) ptr = NULL | Ptr nat

section \<open>Lists and maps\<close>

record sLinkedList =
  sLinkedList_data :: ptr
  sLinkedList_next :: ptr

record sMap =
  sMap_entries :: ptr
  sMap_compareKeys :: ptr

section \<open>Buffers\<close>

record ByteBuffer =
  ByteBuffer_buffer :: ptr
  ByteBuffer_maxSize :: int32
  ByteBuffer_size :: int32

record sBufferChain =
  sBufferChain_length :: int32
  sBufferChain_partLength :: int32
  sBufferChain_partMaxLength :: int32
  sBufferChain_buffer :: ptr
  sBufferChain_nextPart :: ptr

record MemoryArea =
  MemoryArea_memory :: ptr
  MemoryArea_currentPos :: int32
  MemoryArea_size :: int32

text \<open>The two \<open>char*\<close> of the allocator are addresses in its block, not strings.\<close>

record MemoryAllocator =
  MemoryAllocator_memoryBlock :: "string option"
  MemoryAllocator_currentPtr :: "string option"
  MemoryAllocator_size :: int32

end
