(* ===== verification/Asn_Runtime.thy ===== *)
theory Asn_Runtime
  imports C_Common
begin

text \<open>
  The runtime of the ASN.1 compiler the library embeds (\<open>mms/iso_mms/asn1c\<close>): tags, codec results,
  type descriptors and the primitive types of the MMS protocol data units.
\<close>

text \<open>
  \<open>A_SET_OF\<close> and \<open>A_SEQUENCE_OF\<close>: an array of pointers with its used and allocated sizes.
\<close>

record A_SET_OF =
  A_SET_OF_array :: ptr
  A_SET_OF_count :: int32
  A_SET_OF_size :: int32
  A_SET_OF_free :: ptr

section \<open>Tags, codecs and type descriptors\<close>

datatype (plugins only: code size) asn_tag_class =
  ASN_TAG_CLASS_UNIVERSAL | ASN_TAG_CLASS_APPLICATION | ASN_TAG_CLASS_CONTEXT |
  ASN_TAG_CLASS_PRIVATE

primrec asn_tag_class_code :: "asn_tag_class \<Rightarrow> int" where
  "asn_tag_class_code ASN_TAG_CLASS_UNIVERSAL = 0"
| "asn_tag_class_code ASN_TAG_CLASS_APPLICATION = 1"
| "asn_tag_class_code ASN_TAG_CLASS_CONTEXT = 2"
| "asn_tag_class_code ASN_TAG_CLASS_PRIVATE = 3"

record asn_codec_ctx_t =
  asn_codec_ctx_t_max_stack_size :: uint64

record asn_enc_rval_t =
  asn_enc_rval_t_encoded :: int64
  asn_enc_rval_t_failed_type :: ptr
  asn_enc_rval_t_structure_ptr :: ptr

datatype (plugins only: code size) asn_dec_rval_code_e =
  RC_OK | RC_WMORE | RC_FAIL

primrec asn_dec_rval_code_e_code :: "asn_dec_rval_code_e \<Rightarrow> int" where
  "asn_dec_rval_code_e_code RC_OK = 0"
| "asn_dec_rval_code_e_code RC_WMORE = 1"
| "asn_dec_rval_code_e_code RC_FAIL = 2"

record asn_dec_rval_t =
  asn_dec_rval_t_code :: asn_dec_rval_code_e
  asn_dec_rval_t_consumed :: uint64

record ASN__PRIMITIVE_TYPE_t =
  ASN__PRIMITIVE_TYPE_t_buf :: ptr
  ASN__PRIMITIVE_TYPE_t_size :: int32

datatype (plugins only: code size) xer_pbd_rval =
  XPBD_SYSTEM_FAILURE | XPBD_DECODER_LIMIT | XPBD_BROKEN_ENCODING | XPBD_NOT_BODY_IGNORE |
  XPBD_BODY_CONSUMED

primrec xer_pbd_rval_code :: "xer_pbd_rval \<Rightarrow> int" where
  "xer_pbd_rval_code XPBD_SYSTEM_FAILURE = 0"
| "xer_pbd_rval_code XPBD_DECODER_LIMIT = 1"
| "xer_pbd_rval_code XPBD_BROKEN_ENCODING = 2"
| "xer_pbd_rval_code XPBD_NOT_BODY_IGNORE = 3"
| "xer_pbd_rval_code XPBD_BODY_CONSUMED = 4"

datatype (plugins only: code size) asn_per_constraint_flags =
  APC_UNCONSTRAINED | APC_SEMI_CONSTRAINED | APC_CONSTRAINED | APC_EXTENSIBLE

primrec asn_per_constraint_flags_code :: "asn_per_constraint_flags \<Rightarrow> int" where
  "asn_per_constraint_flags_code APC_UNCONSTRAINED = 0"
| "asn_per_constraint_flags_code APC_SEMI_CONSTRAINED = 1"
| "asn_per_constraint_flags_code APC_CONSTRAINED = 2"
| "asn_per_constraint_flags_code APC_EXTENSIBLE = 4"

record asn_per_constraint_t =
  asn_per_constraint_t_flags :: asn_per_constraint_flags
  asn_per_constraint_t_range_bits :: int32
  asn_per_constraint_t_effective_bits :: int32
  asn_per_constraint_t_lower_bound :: int64
  asn_per_constraint_t_upper_bound :: int64

record asn_per_constraints_t =
  asn_per_constraints_t_value :: asn_per_constraint_t
  asn_per_constraints_t_size :: asn_per_constraint_t

record asn_per_data_t =
  asn_per_data_t_buffer :: ptr
  asn_per_data_t_nboff :: uint64
  asn_per_data_t_nbits :: uint64

record asn_per_outp_t =
  asn_per_outp_t_buffer :: ptr
  asn_per_outp_t_nboff :: uint64
  asn_per_outp_t_nbits :: uint64
  asn_per_outp_t_tmpspace :: "uint8 list"
  asn_per_outp_t_outper :: ptr
  asn_per_outp_t_op_key :: ptr
  asn_per_outp_t_flushed_bytes :: uint64

record asn_struct_ctx_t =
  asn_struct_ctx_t_phase :: "16 word"
  asn_struct_ctx_t_step :: "16 word"
  asn_struct_ctx_t_context :: int32
  asn_struct_ctx_t_ptr :: ptr
  asn_struct_ctx_t_left :: int64

record asn_TYPE_descriptor_t =
  asn_TYPE_descriptor_t_name :: "string option"
  asn_TYPE_descriptor_t_xml_tag :: "string option"
  asn_TYPE_descriptor_t_free_struct :: ptr
  asn_TYPE_descriptor_t_print_struct :: ptr
  asn_TYPE_descriptor_t_check_constraints :: ptr
  asn_TYPE_descriptor_t_ber_decoder :: ptr
  asn_TYPE_descriptor_t_der_encoder :: ptr
  asn_TYPE_descriptor_t_xer_decoder :: ptr
  asn_TYPE_descriptor_t_xer_encoder :: ptr
  asn_TYPE_descriptor_t_uper_decoder :: ptr
  asn_TYPE_descriptor_t_uper_encoder :: ptr
  asn_TYPE_descriptor_t_outmost_tag :: ptr
  asn_TYPE_descriptor_t_tags :: ptr
  asn_TYPE_descriptor_t_tags_count :: int32
  asn_TYPE_descriptor_t_all_tags :: ptr
  asn_TYPE_descriptor_t_all_tags_count :: int32
  asn_TYPE_descriptor_t_per_constraints :: ptr
  asn_TYPE_descriptor_t_elements :: ptr
  asn_TYPE_descriptor_t_elements_count :: int32
  asn_TYPE_descriptor_t_specifics :: ptr

datatype (plugins only: code size) asn_TYPE_flags_e =
  ATF_NOFLAGS | ATF_POINTER | ATF_OPEN_TYPE

primrec asn_TYPE_flags_e_code :: "asn_TYPE_flags_e \<Rightarrow> int" where
  "asn_TYPE_flags_e_code ATF_NOFLAGS = 0"
| "asn_TYPE_flags_e_code ATF_POINTER = 1"
| "asn_TYPE_flags_e_code ATF_OPEN_TYPE = 2"

record asn_TYPE_member_t =
  asn_TYPE_member_t_flags :: asn_TYPE_flags_e
  asn_TYPE_member_t_optional :: int32
  asn_TYPE_member_t_memb_offset :: int32
  asn_TYPE_member_t_tag :: uint32
  asn_TYPE_member_t_tag_mode :: int32
  asn_TYPE_member_t_type :: ptr
  asn_TYPE_member_t_memb_constraints :: ptr
  asn_TYPE_member_t_per_constraints :: ptr
  asn_TYPE_member_t_default_value :: ptr
  asn_TYPE_member_t_name :: "string option"

record asn_TYPE_tag2member_t =
  asn_TYPE_tag2member_t_el_tag :: uint32
  asn_TYPE_tag2member_t_el_no :: int32
  asn_TYPE_tag2member_t_toff_first :: int32
  asn_TYPE_tag2member_t_toff_last :: int32

record asn_CHOICE_specifics_t =
  asn_CHOICE_specifics_t_struct_size :: int32
  asn_CHOICE_specifics_t_ctx_offset :: int32
  asn_CHOICE_specifics_t_pres_offset :: int32
  asn_CHOICE_specifics_t_pres_size :: int32
  asn_CHOICE_specifics_t_tag2el :: ptr
  asn_CHOICE_specifics_t_tag2el_count :: int32
  asn_CHOICE_specifics_t_canonical_order :: ptr
  asn_CHOICE_specifics_t_ext_start :: int32

record asn_SEQUENCE_specifics_t =
  asn_SEQUENCE_specifics_t_struct_size :: int32
  asn_SEQUENCE_specifics_t_ctx_offset :: int32
  asn_SEQUENCE_specifics_t_tag2el :: ptr
  asn_SEQUENCE_specifics_t_tag2el_count :: int32
  asn_SEQUENCE_specifics_t_oms :: ptr
  asn_SEQUENCE_specifics_t_roms_count :: int32
  asn_SEQUENCE_specifics_t_aoms_count :: int32
  asn_SEQUENCE_specifics_t_ext_after :: int32
  asn_SEQUENCE_specifics_t_ext_before :: int32

record asn_SET_OF_specifics_t =
  asn_SET_OF_specifics_t_struct_size :: int32
  asn_SET_OF_specifics_t_ctx_offset :: int32
  asn_SET_OF_specifics_t_as_XMLValueList :: int32

record asn_INTEGER_enum_map_t =
  asn_INTEGER_enum_map_t_nat_value :: int64
  asn_INTEGER_enum_map_t_enum_len :: uint64
  asn_INTEGER_enum_map_t_enum_name :: "string option"

record asn_INTEGER_specifics_t =
  asn_INTEGER_specifics_t_value2enum :: ptr
  asn_INTEGER_specifics_t_enum2value :: ptr
  asn_INTEGER_specifics_t_map_count :: int32
  asn_INTEGER_specifics_t_extension :: int32
  asn_INTEGER_specifics_t_strict_enumeration :: int32

type_synonym INTEGER_t = ASN__PRIMITIVE_TYPE_t

section \<open>Primitive types and the XML encoding\<close>

record OCTET_STRING_t =
  OCTET_STRING_t_buf :: ptr
  OCTET_STRING_t_size :: int32
  OCTET_STRING_t__asn_ctx :: asn_struct_ctx_t

record asn_OCTET_STRING_specifics_t =
  asn_OCTET_STRING_specifics_t_struct_size :: int32
  asn_OCTET_STRING_specifics_t_ctx_offset :: int32
  asn_OCTET_STRING_specifics_t_subvariant :: int32

record BIT_STRING_t =
  BIT_STRING_t_buf :: ptr
  BIT_STRING_t_size :: int32
  BIT_STRING_t_bits_unused :: int32
  BIT_STRING_t__asn_ctx :: asn_struct_ctx_t

datatype (plugins only: code size) pxml_chunk_type_e =
  PXML_TEXT | PXML_TAG | PXML_COMMENT | PXML_TAG_END | PXML_COMMENT_END

primrec pxml_chunk_type_e_code :: "pxml_chunk_type_e \<Rightarrow> int" where
  "pxml_chunk_type_e_code PXML_TEXT = 0"
| "pxml_chunk_type_e_code PXML_TAG = 1"
| "pxml_chunk_type_e_code PXML_COMMENT = 2"
| "pxml_chunk_type_e_code PXML_TAG_END = 3"
| "pxml_chunk_type_e_code PXML_COMMENT_END = 4"

datatype (plugins only: code size) pxer_chunk_type_e =
  PXER_TAG | PXER_TEXT | PXER_COMMENT

primrec pxer_chunk_type_e_code :: "pxer_chunk_type_e \<Rightarrow> int" where
  "pxer_chunk_type_e_code PXER_TAG = 0"
| "pxer_chunk_type_e_code PXER_TEXT = 1"
| "pxer_chunk_type_e_code PXER_COMMENT = 2"

datatype (plugins only: code size) xer_check_tag_e =
  XCT_BROKEN | XCT_OPENING | XCT_CLOSING | XCT_BOTH | XCT__UNK__MASK | XCT_UNKNOWN_OP |
  XCT_UNKNOWN_CL | XCT_UNKNOWN_BO

primrec xer_check_tag_e_code :: "xer_check_tag_e \<Rightarrow> int" where
  "xer_check_tag_e_code XCT_BROKEN = 0"
| "xer_check_tag_e_code XCT_OPENING = 1"
| "xer_check_tag_e_code XCT_CLOSING = 2"
| "xer_check_tag_e_code XCT_BOTH = 3"
| "xer_check_tag_e_code XCT__UNK__MASK = 4"
| "xer_check_tag_e_code XCT_UNKNOWN_OP = 5"
| "xer_check_tag_e_code XCT_UNKNOWN_CL = 6"
| "xer_check_tag_e_code XCT_UNKNOWN_BO = 7"

datatype (plugins only: code size) xer_encoder_flags_e =
  XER_F_BASIC | XER_F_CANONICAL

primrec xer_encoder_flags_e_code :: "xer_encoder_flags_e \<Rightarrow> int" where
  "xer_encoder_flags_e_code XER_F_BASIC = 1"
| "xer_encoder_flags_e_code XER_F_CANONICAL = 2"

type_synonym BOOLEAN_t = int32

type_synonym NULL_t = int32

type_synonym FloatingPoint_t = OCTET_STRING_t

type_synonym GeneralizedTime_t = OCTET_STRING_t

type_synonym VisibleString_t = OCTET_STRING_t

type_synonym UTF8String_t = OCTET_STRING_t

type_synonym Identifier_t = VisibleString_t

type_synonym Integer8_t = int64

type_synonym Integer16_t = int64

type_synonym Integer32_t = int64

type_synonym Unsigned8_t = int64

type_synonym Unsigned16_t = int64

type_synonym Unsigned32_t = INTEGER_t

type_synonym MMSString_t = UTF8String_t

type_synonym TimeOfDay_t = OCTET_STRING_t

type_synonym UtcTime_t = OCTET_STRING_t

section \<open>Tags\<close>

definition BER_TAG_CLASS :: "uint32 \<Rightarrow> uint32" where
  "BER_TAG_CLASS tag = tag AND 0x3"

definition BER_TAG_VALUE :: "uint32 \<Rightarrow> uint32" where
  "BER_TAG_VALUE tag = drop_bit 2 tag"

definition BER_TLV_CONSTRUCTED :: "uint8 \<Rightarrow> int" where
  "BER_TLV_CONSTRUCTED b = (if b AND 0x20 \<noteq> 0 then 1 else 0)"

text \<open>The class and the number determine the tag: the two macros lose nothing.\<close>

lemma BER_TAG_CLASS_take_bit: "BER_TAG_CLASS tag = take_bit 2 tag"
  by (simp add: BER_TAG_CLASS_def take_bit_eq_mask mask_eq_exp_minus_1)

lemma BER_tag_class_value: "push_bit 2 (BER_TAG_VALUE tag) + BER_TAG_CLASS tag = tag"
  unfolding BER_TAG_CLASS_take_bit BER_TAG_VALUE_def by (rule bits_ident)

section \<open>The stack check\<close>

text \<open>
  \<open>_ASN_STACK_OVERFLOW_CHECK\<close>: the codec context with its address, and the address of the
  function's own parameter. \<open>disabled\<close> is the build with an address sanitizer. Pointer
  differences and the cast limit are \<open>ptrdiff_t\<close>, signed 64-bit words.
\<close>

definition ASN_STACK_OVERFLOW_CHECK :: "bool \<Rightarrow> (int64 \<times> asn_codec_ctx_t) option \<Rightarrow> int64 \<Rightarrow> int32" where
  "ASN_STACK_OVERFLOW_CHECK disabled ctx here =
     (if disabled then 0
      else case ctx of
        None \<Rightarrow> 0
      | Some (addr, c) \<Rightarrow>
          if asn_codec_ctx_t_max_stack_size c \<noteq> 0 then
            let usedstack = addr - here;
                usedstack = (if 0 < sint usedstack then - usedstack else usedstack) in
            if sint usedstack < sint (- asn_codec_ctx_t_max_stack_size c) then -1 else 0
          else 0)"

lemma sint_64: "sint (x :: 64 word) = (if uint x < 2 ^ 63 then uint x else uint x - 2 ^ 64)"
proof -
  have u: "0 \<le> uint x" "uint x < 2 ^ 64" using uint_lt2p [of x] by simp_all
  have "bit (uint x) 63 \<longleftrightarrow> \<not> uint x < 2 ^ 63"
  proof (cases "uint x < 2 ^ 63")
    case False
    with u have "uint x div 2 ^ 63 = 1" by simp
    with False show ?thesis by (simp add: bit_iff_odd)
  qed (use u in \<open>simp add: bit_iff_odd\<close>)
  with u show ?thesis
    by (simp add: sint_uint signed_take_bit_eq_take_bit_minus take_bit_int_eq_self)
qed

lemma uint_minus_64: "uint (- x :: 64 word) = (if x = 0 then 0 else 2 ^ 64 - uint x)"
proof (cases "x = 0")
  case False
  moreover have "uint x \<noteq> 0" using False by (simp add: uint_0_iff)
  ultimately have "0 < uint x" "uint x < 2 ^ 64" using uint_lt2p [of x] by (simp_all add: order_less_le)
  then have "(- uint x) mod 2 ^ 64 = 2 ^ 64 - uint x" by (simp add: zmod_zminus1_eq_if)
  with False show ?thesis by (simp add: uint_word_ariths)
qed simp

lemma sint_minus_64: "sint (x :: 64 word) \<noteq> - (2 ^ 63) \<Longrightarrow> sint (- x) = - sint x"
  using uint_lt2p [of x] by (auto simp: sint_64 uint_minus_64 split: if_splits)


end
