(* ===== verification/Asn_Output.thy ===== *)
theory Asn_Output
  imports Asn_Runtime
begin

text \<open>
  Output of the ASN.1 runtime (\<open>asn_internal.h\<close>) and the results its codecs return
  (\<open>asn_codecs.h\<close>), which the headers hold as macros. An application's callback consumes bytes; it
  is a function of the state behind its key, and a negative result makes the surrounding function
  go to its \<open>cb_failed\<close> label. A macro in statement position is a function of the state it leaves,
  with \<open>True\<close> when it went there. \<open>ASN_DEBUG\<close> prints nothing in this configuration.
\<close>

section \<open>Results of codecs\<close>

definition ASN_ENCODE_FAILED :: "ptr \<Rightarrow> ptr \<Rightarrow> asn_enc_rval_t" where
  "ASN_ENCODE_FAILED td sptr = \<lparr>asn_enc_rval_t_encoded = -1, asn_enc_rval_t_failed_type = td,
     asn_enc_rval_t_structure_ptr = sptr\<rparr>"

definition ASN_ENCODED_OK :: "asn_enc_rval_t \<Rightarrow> asn_enc_rval_t" where
  "ASN_ENCODED_OK rval = rval\<lparr>asn_enc_rval_t_structure_ptr := NULL, asn_enc_rval_t_failed_type := NULL\<rparr>"

definition ASN_DECODE_FAILED :: asn_dec_rval_t where
  "ASN_DECODE_FAILED = \<lparr>asn_dec_rval_t_code = RC_FAIL, asn_dec_rval_t_consumed = 0\<rparr>"

definition ASN_DECODE_STARVED :: asn_dec_rval_t where
  "ASN_DECODE_STARVED = \<lparr>asn_dec_rval_t_code = RC_WMORE, asn_dec_rval_t_consumed = 0\<rparr>"

section \<open>Callbacks\<close>

type_synonym 'k consumer = "'k \<Rightarrow> string \<Rightarrow> int \<times> 'k"

definition ASN_E_cbc :: "'k consumer \<Rightarrow> string \<Rightarrow> 'k \<Rightarrow> bool \<times> 'k" where
  "ASN_E_cbc cb buf app_key = (let (r, app_key) = cb app_key buf in (r < 0, app_key))"

definition ASN_CALLBACK :: "'k consumer \<Rightarrow> string \<Rightarrow> 'k \<Rightarrow> bool \<times> 'k" where
  "ASN_CALLBACK cb buf app_key = ASN_E_cbc cb buf app_key"

text \<open>\<open>||\<close> stops at the first failure.\<close>

definition c_or :: "('k \<Rightarrow> bool \<times> 'k) \<Rightarrow> ('k \<Rightarrow> bool \<times> 'k) \<Rightarrow> 'k \<Rightarrow> bool \<times> 'k" where
  "c_or f g k = (case f k of (True, k) \<Rightarrow> (True, k) | (False, k) \<Rightarrow> g k)"

definition ASN_CALLBACK2 :: "'k consumer \<Rightarrow> string \<Rightarrow> string \<Rightarrow> 'k \<Rightarrow> bool \<times> 'k" where
  "ASN_CALLBACK2 cb buf1 buf2 = c_or (ASN_E_cbc cb buf1) (ASN_E_cbc cb buf2)"

definition ASN_CALLBACK3 :: "'k consumer \<Rightarrow> string \<Rightarrow> string \<Rightarrow> string \<Rightarrow> 'k \<Rightarrow> bool \<times> 'k" where
  "ASN_CALLBACK3 cb buf1 buf2 buf3 = c_or (ASN_E_cbc cb buf1) (c_or (ASN_E_cbc cb buf2) (ASN_E_cbc cb buf3))"

section \<open>Indentation\<close>

fun indent_loop :: "'k consumer \<Rightarrow> nat \<Rightarrow> 'k \<Rightarrow> bool \<times> 'k" where
  "indent_loop cb 0 k = (False, k)"
| "indent_loop cb (Suc n) k = c_or (ASN_CALLBACK cb ''    '') (indent_loop cb n) k"

text \<open>
  \<open>_i_ASN_TEXT_INDENT\<close>: the count of encoded bytes, an \<open>ssize_t\<close>, grows by an \<open>int\<close> computed from
  the level; the loop does not run for a negative one.
\<close>

definition ASN_TEXT_INDENT :: "'k consumer \<Rightarrow> bool \<Rightarrow> int \<Rightarrow> asn_enc_rval_t \<times> 'k \<Rightarrow>
    c_fault + bool \<times> asn_enc_rval_t \<times> 'k" where
  "ASN_TEXT_INDENT cb nl level = (\<lambda>(er, k).
     case c_or (if nl then ASN_CALLBACK cb [CHR 0x0A] else Pair False) (indent_loop cb (nat level)) k of
       (True, k) \<Rightarrow> Inr (True, er, k)
     | (False, k) \<Rightarrow>
         if 4 * level < INT_MIN \<or> INT_MAX < 4 * level then Inl SignedOverflow
         else and_then (add_int (if nl then 1 else 0) (4 * level)) (\<lambda>n.
           Inr (False, er\<lparr>asn_enc_rval_t_encoded := asn_enc_rval_t_encoded er + word_of_int n\<rparr>, k)))"

text \<open>\<open>_i_INDENT\<close> makes the function around it return \<open>-1\<close>.\<close>

definition INDENT :: "'k consumer \<Rightarrow> bool \<Rightarrow> int \<Rightarrow> 'k \<Rightarrow> int option \<times> 'k" where
  "INDENT cb nl ilevel k =
     (case c_or (if nl then ASN_E_cbc cb [CHR 0x0A] else Pair False) (indent_loop cb (nat ilevel)) k of
        (True, k) \<Rightarrow> (Some (-1), k)
      | (False, k) \<Rightarrow> (None, k))"

section \<open>What is written\<close>

text \<open>Bytes given to a callback piece by piece, until it refuses one.\<close>

fun consume_all :: "'k consumer \<Rightarrow> string list \<Rightarrow> 'k \<Rightarrow> bool \<times> 'k" where
  "consume_all cb [] k = (False, k)"
| "consume_all cb (p # ps) k = c_or (ASN_E_cbc cb p) (consume_all cb ps) k"

definition indentation :: "bool \<Rightarrow> nat \<Rightarrow> string list" where
  "indentation nl level = (if nl then [[CHR 0x0A]] else []) @ replicate level ''    ''"

lemma c_or_assoc: "c_or (c_or f g) h = c_or f (c_or g h)"
  by (auto simp: c_or_def fun_eq_iff split: prod.split bool.split)

lemma c_or_skip [simp]: "c_or (Pair False) g = g"
  by (simp add: c_or_def fun_eq_iff)

lemma consume_all_simps [simp]:
  "consume_all cb [] = Pair False"
  "consume_all cb (p # ps) = c_or (ASN_E_cbc cb p) (consume_all cb ps)"
  by (rule ext, simp)+

declare consume_all.simps [simp del]

lemma c_or_end [simp]: "c_or f (Pair False) = f"
  by (auto simp: c_or_def fun_eq_iff split: prod.split bool.split)

lemma consume_all_append: "consume_all cb (ps @ qs) = c_or (consume_all cb ps) (consume_all cb qs)"
  by (induction ps) (simp_all add: c_or_assoc)

lemma ASN_CALLBACK_eq: "ASN_CALLBACK cb b = ASN_E_cbc cb b"
  by (rule ext) (simp add: ASN_CALLBACK_def)

lemma callbacks_consume:
  "ASN_CALLBACK cb b = consume_all cb [b]"
  "ASN_CALLBACK2 cb b c = consume_all cb [b, c]"
  "ASN_CALLBACK3 cb b c d = consume_all cb [b, c, d]"
  by (simp_all add: ASN_CALLBACK_eq ASN_CALLBACK2_def ASN_CALLBACK3_def)

lemma indent_loop_consume: "indent_loop cb n = consume_all cb (replicate n ''    '')"
proof (induction n)
  case 0
  show ?case by (rule ext) simp
next
  case (Suc n)
  have "indent_loop cb (Suc n) = c_or (ASN_CALLBACK cb ''    '') (indent_loop cb n)" by (rule ext) simp
  then show ?case using Suc by (simp add: ASN_CALLBACK_eq)
qed

lemma indent_consume:
  "c_or (if nl then ASN_E_cbc cb [CHR 0x0A] else Pair False) (indent_loop cb n)
     = consume_all cb (indentation nl n)"
  by (simp add: indentation_def indent_loop_consume)

lemma indentation_length: "length (concat (indentation nl n)) = (if nl then 1 else 0) + 4 * n"
  by (induction n) (auto simp: indentation_def)

section \<open>Properties\<close>

text \<open>
  Indenting gives the callback a line break, if asked, and four spaces per level, in this order and
  up to the first piece it refuses. When it takes all of them the count of encoded bytes grows by
  exactly the bytes it was given, and when it refuses one the count stays; for the levels at which
  the count fits a C \<open>int\<close> nothing overflows. The variant without a count gives it the same.
\<close>

theorem text_indent_counts:
  assumes "0 \<le> level" and "4 * level < INT_MAX"
  shows "ASN_TEXT_INDENT cb nl level (er, k) =
     (let (failed, k') = consume_all cb (indentation nl (nat level)) k in
      Inr (failed, if failed then er else er\<lparr>asn_enc_rval_t_encoded := asn_enc_rval_t_encoded er
        + of_nat (length (concat (indentation nl (nat level))))\<rparr>, k'))
   \<and> INDENT cb nl level k = map_prod (\<lambda>failed. if failed then Some (-1) else None) id
        (consume_all cb (indentation nl (nat level)) k)"
proof -
  have "(if nl then 1 else 0) + 4 * level = int (length (concat (indentation nl (nat level))))"
    using assms(1) by (simp add: indentation_length)
  then have "(word_of_int ((if nl then 1 else 0) + 4 * level) :: int64)
      = of_nat (length (concat (indentation nl (nat level))))"
    by (simp only: of_int_of_nat_eq)
  moreover have "add_int (if nl then 1 else 0) (4 * level) = Inr ((if nl then 1 else 0) + 4 * level)"
    using assms by (intro add_int_ok) auto
  moreover have "\<not> (4 * level < INT_MIN \<or> INT_MAX < 4 * level)"
    using assms by (simp add: INT_MIN_def)
  moreover obtain failed k' where "consume_all cb (indentation nl (nat level)) k = (failed, k')"
    by (rule prod.exhaust)
  ultimately show ?thesis
    by (cases failed) (simp_all only: ASN_TEXT_INDENT_def INDENT_def ASN_CALLBACK_eq indent_consume Let_def
        prod.case bool.case if_True if_False map_prod_simp id_apply and_then.simps)
qed

text \<open>A callback that collects up to six bytes.\<close>

definition six_bytes :: "string consumer" where
  "six_bytes k buf = (if length (k @ buf) \<le> 6 then (0, k @ buf) else (-1, k))"

theorem text_indent_counts_witness:
  "ASN_TEXT_INDENT six_bytes True 1 (\<lparr>asn_enc_rval_t_encoded = 7, asn_enc_rval_t_failed_type = NULL,
      asn_enc_rval_t_structure_ptr = NULL\<rparr>, []) =
     Inr (False, \<lparr>asn_enc_rval_t_encoded = 12, asn_enc_rval_t_failed_type = NULL,
      asn_enc_rval_t_structure_ptr = NULL\<rparr>, CHR 0x0A # ''    '')
   \<and> INDENT six_bytes True 2 [] = (Some (-1), CHR 0x0A # ''    '')"
  using text_indent_counts [of 1 six_bytes True "\<lparr>asn_enc_rval_t_encoded = 7, asn_enc_rval_t_failed_type = NULL,
      asn_enc_rval_t_structure_ptr = NULL\<rparr>" "[]"] text_indent_counts [of 2 six_bytes True _ "[]"]
  by (simp add: INT_MAX_def indentation_def six_bytes_def ASN_E_cbc_def c_or_def numeral_2_eq_2)

end
