(* ===== verification/Asn_Errors.thy ===== *)
theory Asn_Errors
  imports Asn_Runtime
begin

text \<open>
  The MMS data units of association and of errors, service options, object names, and the data
  choice. A C union is a datatype with a constructor per member; the \<open>present\<close> tag beside it is a
  field of the enclosing record, as in C.
\<close>

type_synonym ServiceSupportOptions_t = BIT_STRING_t

type_synonym ParameterSupportOptions_t = BIT_STRING_t

type_synonym DataAccessError_t = INTEGER_t

type_synonym ConcludeRequestPDU_t = NULL_t

type_synonym ConcludeResponsePDU_t = NULL_t

datatype (plugins only: code size) ServiceError__errorClass_PR =
  ServiceError__errorClass_PR_NOTHING | ServiceError__errorClass_PR_vmdstate |
  ServiceError__errorClass_PR_applicationreference | ServiceError__errorClass_PR_definition |
  ServiceError__errorClass_PR_resource | ServiceError__errorClass_PR_service |
  ServiceError__errorClass_PR_servicepreempt | ServiceError__errorClass_PR_timeresolution |
  ServiceError__errorClass_PR_access | ServiceError__errorClass_PR_initiate |
  ServiceError__errorClass_PR_conclude | ServiceError__errorClass_PR_cancel |
  ServiceError__errorClass_PR_file | ServiceError__errorClass_PR_others

primrec ServiceError__errorClass_PR_code :: "ServiceError__errorClass_PR \<Rightarrow> int" where
  "ServiceError__errorClass_PR_code ServiceError__errorClass_PR_NOTHING = 0"
| "ServiceError__errorClass_PR_code ServiceError__errorClass_PR_vmdstate = 1"
| "ServiceError__errorClass_PR_code ServiceError__errorClass_PR_applicationreference = 2"
| "ServiceError__errorClass_PR_code ServiceError__errorClass_PR_definition = 3"
| "ServiceError__errorClass_PR_code ServiceError__errorClass_PR_resource = 4"
| "ServiceError__errorClass_PR_code ServiceError__errorClass_PR_service = 5"
| "ServiceError__errorClass_PR_code ServiceError__errorClass_PR_servicepreempt = 6"
| "ServiceError__errorClass_PR_code ServiceError__errorClass_PR_timeresolution = 7"
| "ServiceError__errorClass_PR_code ServiceError__errorClass_PR_access = 8"
| "ServiceError__errorClass_PR_code ServiceError__errorClass_PR_initiate = 9"
| "ServiceError__errorClass_PR_code ServiceError__errorClass_PR_conclude = 10"
| "ServiceError__errorClass_PR_code ServiceError__errorClass_PR_cancel = 11"
| "ServiceError__errorClass_PR_code ServiceError__errorClass_PR_file = 12"
| "ServiceError__errorClass_PR_code ServiceError__errorClass_PR_others = 13"

datatype (plugins only: code size) e_ServiceError__errorClass__vmdstate =
  ServiceError__errorClass__vmdstate_other |
  ServiceError__errorClass__vmdstate_vmdstateconflict |
  ServiceError__errorClass__vmdstate_vmdoperationalproblem |
  ServiceError__errorClass__vmdstate_domaintransferproblem |
  ServiceError__errorClass__vmdstate_statemachineidinvalid

primrec e_ServiceError__errorClass__vmdstate_code :: "e_ServiceError__errorClass__vmdstate \<Rightarrow> int" where
  "e_ServiceError__errorClass__vmdstate_code ServiceError__errorClass__vmdstate_other = 0"
| "e_ServiceError__errorClass__vmdstate_code ServiceError__errorClass__vmdstate_vmdstateconflict = 1"
| "e_ServiceError__errorClass__vmdstate_code ServiceError__errorClass__vmdstate_vmdoperationalproblem = 2"
| "e_ServiceError__errorClass__vmdstate_code ServiceError__errorClass__vmdstate_domaintransferproblem = 3"
| "e_ServiceError__errorClass__vmdstate_code ServiceError__errorClass__vmdstate_statemachineidinvalid = 4"

datatype (plugins only: code size) e_ServiceError__errorClass__applicationreference =
  ServiceError__errorClass__applicationreference_other |
  ServiceError__errorClass__applicationreference_aplicationunreachable |
  ServiceError__errorClass__applicationreference_connectionlost |
  ServiceError__errorClass__applicationreference_applicationreferenceinvalid |
  ServiceError__errorClass__applicationreference_contextunsupported

primrec e_ServiceError__errorClass__applicationreference_code :: "e_ServiceError__errorClass__applicationreference \<Rightarrow> int" where
  "e_ServiceError__errorClass__applicationreference_code ServiceError__errorClass__applicationreference_other = 0"
| "e_ServiceError__errorClass__applicationreference_code ServiceError__errorClass__applicationreference_aplicationunreachable = 1"
| "e_ServiceError__errorClass__applicationreference_code ServiceError__errorClass__applicationreference_connectionlost = 2"
| "e_ServiceError__errorClass__applicationreference_code ServiceError__errorClass__applicationreference_applicationreferenceinvalid = 3"
| "e_ServiceError__errorClass__applicationreference_code ServiceError__errorClass__applicationreference_contextunsupported = 4"

datatype (plugins only: code size) e_ServiceError__errorClass__definition =
  ServiceError__errorClass__definition_other |
  ServiceError__errorClass__definition_objectundefined |
  ServiceError__errorClass__definition_invalidaddress |
  ServiceError__errorClass__definition_typeunsupported |
  ServiceError__errorClass__definition_typeinconsistent |
  ServiceError__errorClass__definition_objectexists |
  ServiceError__errorClass__definition_objectattributeinconsistent

primrec e_ServiceError__errorClass__definition_code :: "e_ServiceError__errorClass__definition \<Rightarrow> int" where
  "e_ServiceError__errorClass__definition_code ServiceError__errorClass__definition_other = 0"
| "e_ServiceError__errorClass__definition_code ServiceError__errorClass__definition_objectundefined = 1"
| "e_ServiceError__errorClass__definition_code ServiceError__errorClass__definition_invalidaddress = 2"
| "e_ServiceError__errorClass__definition_code ServiceError__errorClass__definition_typeunsupported = 3"
| "e_ServiceError__errorClass__definition_code ServiceError__errorClass__definition_typeinconsistent = 4"
| "e_ServiceError__errorClass__definition_code ServiceError__errorClass__definition_objectexists = 5"
| "e_ServiceError__errorClass__definition_code ServiceError__errorClass__definition_objectattributeinconsistent = 6"

datatype (plugins only: code size) e_ServiceError__errorClass__resource =
  ServiceError__errorClass__resource_other |
  ServiceError__errorClass__resource_memoryunavailable |
  ServiceError__errorClass__resource_processorresourceunavailable |
  ServiceError__errorClass__resource_massstorageunavailable |
  ServiceError__errorClass__resource_capabilityunavailable |
  ServiceError__errorClass__resource_capabilityunknown

primrec e_ServiceError__errorClass__resource_code :: "e_ServiceError__errorClass__resource \<Rightarrow> int" where
  "e_ServiceError__errorClass__resource_code ServiceError__errorClass__resource_other = 0"
| "e_ServiceError__errorClass__resource_code ServiceError__errorClass__resource_memoryunavailable = 1"
| "e_ServiceError__errorClass__resource_code ServiceError__errorClass__resource_processorresourceunavailable = 2"
| "e_ServiceError__errorClass__resource_code ServiceError__errorClass__resource_massstorageunavailable = 3"
| "e_ServiceError__errorClass__resource_code ServiceError__errorClass__resource_capabilityunavailable = 4"
| "e_ServiceError__errorClass__resource_code ServiceError__errorClass__resource_capabilityunknown = 5"

datatype (plugins only: code size) e_ServiceError__errorClass__service =
  ServiceError__errorClass__service_other |
  ServiceError__errorClass__service_primitivesoutofsequence |
  ServiceError__errorClass__service_objectstateconflict |
  ServiceError__errorClass__service_pdusize |
  ServiceError__errorClass__service_continuationinvalid |
  ServiceError__errorClass__service_objectconstraintconflict

primrec e_ServiceError__errorClass__service_code :: "e_ServiceError__errorClass__service \<Rightarrow> int" where
  "e_ServiceError__errorClass__service_code ServiceError__errorClass__service_other = 0"
| "e_ServiceError__errorClass__service_code ServiceError__errorClass__service_primitivesoutofsequence = 1"
| "e_ServiceError__errorClass__service_code ServiceError__errorClass__service_objectstateconflict = 2"
| "e_ServiceError__errorClass__service_code ServiceError__errorClass__service_pdusize = 3"
| "e_ServiceError__errorClass__service_code ServiceError__errorClass__service_continuationinvalid = 4"
| "e_ServiceError__errorClass__service_code ServiceError__errorClass__service_objectconstraintconflict = 5"

datatype (plugins only: code size) e_ServiceError__errorClass__servicepreempt =
  ServiceError__errorClass__servicepreempt_other |
  ServiceError__errorClass__servicepreempt_timeout |
  ServiceError__errorClass__servicepreempt_deadlock |
  ServiceError__errorClass__servicepreempt_cancel

primrec e_ServiceError__errorClass__servicepreempt_code :: "e_ServiceError__errorClass__servicepreempt \<Rightarrow> int" where
  "e_ServiceError__errorClass__servicepreempt_code ServiceError__errorClass__servicepreempt_other = 0"
| "e_ServiceError__errorClass__servicepreempt_code ServiceError__errorClass__servicepreempt_timeout = 1"
| "e_ServiceError__errorClass__servicepreempt_code ServiceError__errorClass__servicepreempt_deadlock = 2"
| "e_ServiceError__errorClass__servicepreempt_code ServiceError__errorClass__servicepreempt_cancel = 3"

datatype (plugins only: code size) e_ServiceError__errorClass__timeresolution =
  ServiceError__errorClass__timeresolution_other |
  ServiceError__errorClass__timeresolution_unsupportabletimeresolution

primrec e_ServiceError__errorClass__timeresolution_code :: "e_ServiceError__errorClass__timeresolution \<Rightarrow> int" where
  "e_ServiceError__errorClass__timeresolution_code ServiceError__errorClass__timeresolution_other = 0"
| "e_ServiceError__errorClass__timeresolution_code ServiceError__errorClass__timeresolution_unsupportabletimeresolution = 1"

datatype (plugins only: code size) e_ServiceError__errorClass__access =
  ServiceError__errorClass__access_other |
  ServiceError__errorClass__access_objectaccessunsupported |
  ServiceError__errorClass__access_objectnonexistent |
  ServiceError__errorClass__access_objectaccessdenied |
  ServiceError__errorClass__access_objectinvalidated

primrec e_ServiceError__errorClass__access_code :: "e_ServiceError__errorClass__access \<Rightarrow> int" where
  "e_ServiceError__errorClass__access_code ServiceError__errorClass__access_other = 0"
| "e_ServiceError__errorClass__access_code ServiceError__errorClass__access_objectaccessunsupported = 1"
| "e_ServiceError__errorClass__access_code ServiceError__errorClass__access_objectnonexistent = 2"
| "e_ServiceError__errorClass__access_code ServiceError__errorClass__access_objectaccessdenied = 3"
| "e_ServiceError__errorClass__access_code ServiceError__errorClass__access_objectinvalidated = 4"

datatype (plugins only: code size) e_ServiceError__errorClass__initiate =
  ServiceError__errorClass__initiate_other |
  ServiceError__errorClass__initiate_versionincompatible |
  ServiceError__errorClass__initiate_maxsegmentinsufficient |
  ServiceError__errorClass__initiate_maxservicesoutstandingcallinginsufficient |
  ServiceError__errorClass__initiate_maxservicesoutstandingcalledinsufficient |
  ServiceError__errorClass__initiate_serviceCBBinsufficient |
  ServiceError__errorClass__initiate_parameterCBBinsufficient |
  ServiceError__errorClass__initiate_nestinglevelinsufficient

primrec e_ServiceError__errorClass__initiate_code :: "e_ServiceError__errorClass__initiate \<Rightarrow> int" where
  "e_ServiceError__errorClass__initiate_code ServiceError__errorClass__initiate_other = 0"
| "e_ServiceError__errorClass__initiate_code ServiceError__errorClass__initiate_versionincompatible = 1"
| "e_ServiceError__errorClass__initiate_code ServiceError__errorClass__initiate_maxsegmentinsufficient = 2"
| "e_ServiceError__errorClass__initiate_code ServiceError__errorClass__initiate_maxservicesoutstandingcallinginsufficient = 3"
| "e_ServiceError__errorClass__initiate_code ServiceError__errorClass__initiate_maxservicesoutstandingcalledinsufficient = 4"
| "e_ServiceError__errorClass__initiate_code ServiceError__errorClass__initiate_serviceCBBinsufficient = 5"
| "e_ServiceError__errorClass__initiate_code ServiceError__errorClass__initiate_parameterCBBinsufficient = 6"
| "e_ServiceError__errorClass__initiate_code ServiceError__errorClass__initiate_nestinglevelinsufficient = 7"

datatype (plugins only: code size) e_ServiceError__errorClass__conclude =
  ServiceError__errorClass__conclude_other |
  ServiceError__errorClass__conclude_furthercommunicationrequired

primrec e_ServiceError__errorClass__conclude_code :: "e_ServiceError__errorClass__conclude \<Rightarrow> int" where
  "e_ServiceError__errorClass__conclude_code ServiceError__errorClass__conclude_other = 0"
| "e_ServiceError__errorClass__conclude_code ServiceError__errorClass__conclude_furthercommunicationrequired = 1"

datatype (plugins only: code size) e_ServiceError__errorClass__cancel =
  ServiceError__errorClass__cancel_other | ServiceError__errorClass__cancel_invokeidunknown |
  ServiceError__errorClass__cancel_cancelnotpossible

primrec e_ServiceError__errorClass__cancel_code :: "e_ServiceError__errorClass__cancel \<Rightarrow> int" where
  "e_ServiceError__errorClass__cancel_code ServiceError__errorClass__cancel_other = 0"
| "e_ServiceError__errorClass__cancel_code ServiceError__errorClass__cancel_invokeidunknown = 1"
| "e_ServiceError__errorClass__cancel_code ServiceError__errorClass__cancel_cancelnotpossible = 2"

datatype (plugins only: code size) e_ServiceError__errorClass__file =
  ServiceError__errorClass__file_other | ServiceError__errorClass__file_filenameambiguous |
  ServiceError__errorClass__file_filebusy |
  ServiceError__errorClass__file_filenamesyntaxError |
  ServiceError__errorClass__file_contenttypeinvalid |
  ServiceError__errorClass__file_positioninvalid |
  ServiceError__errorClass__file_fileaccesdenied |
  ServiceError__errorClass__file_filenonexistent |
  ServiceError__errorClass__file_duplicatefilename |
  ServiceError__errorClass__file_insufficientspaceinfilestore

primrec e_ServiceError__errorClass__file_code :: "e_ServiceError__errorClass__file \<Rightarrow> int" where
  "e_ServiceError__errorClass__file_code ServiceError__errorClass__file_other = 0"
| "e_ServiceError__errorClass__file_code ServiceError__errorClass__file_filenameambiguous = 1"
| "e_ServiceError__errorClass__file_code ServiceError__errorClass__file_filebusy = 2"
| "e_ServiceError__errorClass__file_code ServiceError__errorClass__file_filenamesyntaxError = 3"
| "e_ServiceError__errorClass__file_code ServiceError__errorClass__file_contenttypeinvalid = 4"
| "e_ServiceError__errorClass__file_code ServiceError__errorClass__file_positioninvalid = 5"
| "e_ServiceError__errorClass__file_code ServiceError__errorClass__file_fileaccesdenied = 6"
| "e_ServiceError__errorClass__file_code ServiceError__errorClass__file_filenonexistent = 7"
| "e_ServiceError__errorClass__file_code ServiceError__errorClass__file_duplicatefilename = 8"
| "e_ServiceError__errorClass__file_code ServiceError__errorClass__file_insufficientspaceinfilestore = 9"

datatype (plugins only: code size) ServiceError__errorClass_u =
    ServiceError__errorClass_u_vmdstate INTEGER_t
  | ServiceError__errorClass_u_applicationreference INTEGER_t
  | ServiceError__errorClass_u_definition INTEGER_t
  | ServiceError__errorClass_u_resource INTEGER_t
  | ServiceError__errorClass_u_service INTEGER_t
  | ServiceError__errorClass_u_servicepreempt INTEGER_t
  | ServiceError__errorClass_u_timeresolution INTEGER_t
  | ServiceError__errorClass_u_access INTEGER_t
  | ServiceError__errorClass_u_initiate INTEGER_t
  | ServiceError__errorClass_u_conclude INTEGER_t
  | ServiceError__errorClass_u_cancel INTEGER_t
  | ServiceError__errorClass_u_file INTEGER_t
  | ServiceError__errorClass_u_others INTEGER_t

record ServiceError__errorClass =
  ServiceError__errorClass_present :: ServiceError__errorClass_PR
  ServiceError__errorClass_choice :: ServiceError__errorClass_u
  ServiceError__errorClass__asn_ctx :: asn_struct_ctx_t

record ServiceError_t =
  ServiceError_t_errorClass :: ServiceError__errorClass
  ServiceError_t_additionalCode :: ptr
  ServiceError_t_additionalDescription :: ptr
  ServiceError_t__asn_ctx :: asn_struct_ctx_t

type_synonym InitiateErrorPdu_t = ServiceError_t

datatype (plugins only: code size) RejectPDU__rejectReason_PR =
  RejectPDU__rejectReason_PR_NOTHING | RejectPDU__rejectReason_PR_confirmedRequestPDU |
  RejectPDU__rejectReason_PR_confirmedResponsePDU |
  RejectPDU__rejectReason_PR_confirmedErrorPDU | RejectPDU__rejectReason_PR_unconfirmedPDU |
  RejectPDU__rejectReason_PR_pduError | RejectPDU__rejectReason_PR_cancelRequestPDU |
  RejectPDU__rejectReason_PR_cancelResponsePDU | RejectPDU__rejectReason_PR_cancelErrorPDU |
  RejectPDU__rejectReason_PR_concludeRequestPDU |
  RejectPDU__rejectReason_PR_concludeResponsePDU | RejectPDU__rejectReason_PR_concludeErrorPDU

primrec RejectPDU__rejectReason_PR_code :: "RejectPDU__rejectReason_PR \<Rightarrow> int" where
  "RejectPDU__rejectReason_PR_code RejectPDU__rejectReason_PR_NOTHING = 0"
| "RejectPDU__rejectReason_PR_code RejectPDU__rejectReason_PR_confirmedRequestPDU = 1"
| "RejectPDU__rejectReason_PR_code RejectPDU__rejectReason_PR_confirmedResponsePDU = 2"
| "RejectPDU__rejectReason_PR_code RejectPDU__rejectReason_PR_confirmedErrorPDU = 3"
| "RejectPDU__rejectReason_PR_code RejectPDU__rejectReason_PR_unconfirmedPDU = 4"
| "RejectPDU__rejectReason_PR_code RejectPDU__rejectReason_PR_pduError = 5"
| "RejectPDU__rejectReason_PR_code RejectPDU__rejectReason_PR_cancelRequestPDU = 6"
| "RejectPDU__rejectReason_PR_code RejectPDU__rejectReason_PR_cancelResponsePDU = 7"
| "RejectPDU__rejectReason_PR_code RejectPDU__rejectReason_PR_cancelErrorPDU = 8"
| "RejectPDU__rejectReason_PR_code RejectPDU__rejectReason_PR_concludeRequestPDU = 9"
| "RejectPDU__rejectReason_PR_code RejectPDU__rejectReason_PR_concludeResponsePDU = 10"
| "RejectPDU__rejectReason_PR_code RejectPDU__rejectReason_PR_concludeErrorPDU = 11"

datatype (plugins only: code size) e_RejectPDU__rejectReason__confirmedRequestPDU =
  RejectPDU__rejectReason__confirmedRequestPDU_other |
  RejectPDU__rejectReason__confirmedRequestPDU_unrecognizedService |
  RejectPDU__rejectReason__confirmedRequestPDU_unrecognizedModifier |
  RejectPDU__rejectReason__confirmedRequestPDU_invalidInvokeID |
  RejectPDU__rejectReason__confirmedRequestPDU_invalidArgument |
  RejectPDU__rejectReason__confirmedRequestPDU_invalidModifier |
  RejectPDU__rejectReason__confirmedRequestPDU_maxServOutstandingEexceeded |
  RejectPDU__rejectReason__confirmedRequestPDU_maxRecursionExceeded |
  RejectPDU__rejectReason__confirmedRequestPDU_valueOutOfRange

primrec e_RejectPDU__rejectReason__confirmedRequestPDU_code :: "e_RejectPDU__rejectReason__confirmedRequestPDU \<Rightarrow> int" where
  "e_RejectPDU__rejectReason__confirmedRequestPDU_code RejectPDU__rejectReason__confirmedRequestPDU_other = 0"
| "e_RejectPDU__rejectReason__confirmedRequestPDU_code RejectPDU__rejectReason__confirmedRequestPDU_unrecognizedService = 1"
| "e_RejectPDU__rejectReason__confirmedRequestPDU_code RejectPDU__rejectReason__confirmedRequestPDU_unrecognizedModifier = 2"
| "e_RejectPDU__rejectReason__confirmedRequestPDU_code RejectPDU__rejectReason__confirmedRequestPDU_invalidInvokeID = 3"
| "e_RejectPDU__rejectReason__confirmedRequestPDU_code RejectPDU__rejectReason__confirmedRequestPDU_invalidArgument = 4"
| "e_RejectPDU__rejectReason__confirmedRequestPDU_code RejectPDU__rejectReason__confirmedRequestPDU_invalidModifier = 5"
| "e_RejectPDU__rejectReason__confirmedRequestPDU_code RejectPDU__rejectReason__confirmedRequestPDU_maxServOutstandingEexceeded = 6"
| "e_RejectPDU__rejectReason__confirmedRequestPDU_code RejectPDU__rejectReason__confirmedRequestPDU_maxRecursionExceeded = 8"
| "e_RejectPDU__rejectReason__confirmedRequestPDU_code RejectPDU__rejectReason__confirmedRequestPDU_valueOutOfRange = 9"

datatype (plugins only: code size) e_RejectPDU__rejectReason__confirmedResponsePDU =
  RejectPDU__rejectReason__confirmedResponsePDU_other |
  RejectPDU__rejectReason__confirmedResponsePDU_unrecognizedService |
  RejectPDU__rejectReason__confirmedResponsePDU_invalidInvokeID |
  RejectPDU__rejectReason__confirmedResponsePDU_invalidResult |
  RejectPDU__rejectReason__confirmedResponsePDU_maxRecursionExceeded |
  RejectPDU__rejectReason__confirmedResponsePDU_valueOutOfRange

primrec e_RejectPDU__rejectReason__confirmedResponsePDU_code :: "e_RejectPDU__rejectReason__confirmedResponsePDU \<Rightarrow> int" where
  "e_RejectPDU__rejectReason__confirmedResponsePDU_code RejectPDU__rejectReason__confirmedResponsePDU_other = 0"
| "e_RejectPDU__rejectReason__confirmedResponsePDU_code RejectPDU__rejectReason__confirmedResponsePDU_unrecognizedService = 1"
| "e_RejectPDU__rejectReason__confirmedResponsePDU_code RejectPDU__rejectReason__confirmedResponsePDU_invalidInvokeID = 2"
| "e_RejectPDU__rejectReason__confirmedResponsePDU_code RejectPDU__rejectReason__confirmedResponsePDU_invalidResult = 3"
| "e_RejectPDU__rejectReason__confirmedResponsePDU_code RejectPDU__rejectReason__confirmedResponsePDU_maxRecursionExceeded = 5"
| "e_RejectPDU__rejectReason__confirmedResponsePDU_code RejectPDU__rejectReason__confirmedResponsePDU_valueOutOfRange = 6"

datatype (plugins only: code size) e_RejectPDU__rejectReason__confirmedErrorPDU =
  RejectPDU__rejectReason__confirmedErrorPDU_other |
  RejectPDU__rejectReason__confirmedErrorPDU_unrecognizedService |
  RejectPDU__rejectReason__confirmedErrorPDU_invalidInvokeID |
  RejectPDU__rejectReason__confirmedErrorPDU_invalidServiceError |
  RejectPDU__rejectReason__confirmedErrorPDU_valueOutOfRange

primrec e_RejectPDU__rejectReason__confirmedErrorPDU_code :: "e_RejectPDU__rejectReason__confirmedErrorPDU \<Rightarrow> int" where
  "e_RejectPDU__rejectReason__confirmedErrorPDU_code RejectPDU__rejectReason__confirmedErrorPDU_other = 0"
| "e_RejectPDU__rejectReason__confirmedErrorPDU_code RejectPDU__rejectReason__confirmedErrorPDU_unrecognizedService = 1"
| "e_RejectPDU__rejectReason__confirmedErrorPDU_code RejectPDU__rejectReason__confirmedErrorPDU_invalidInvokeID = 2"
| "e_RejectPDU__rejectReason__confirmedErrorPDU_code RejectPDU__rejectReason__confirmedErrorPDU_invalidServiceError = 3"
| "e_RejectPDU__rejectReason__confirmedErrorPDU_code RejectPDU__rejectReason__confirmedErrorPDU_valueOutOfRange = 4"

datatype (plugins only: code size) e_RejectPDU__rejectReason__unconfirmedPDU =
  RejectPDU__rejectReason__unconfirmedPDU_other |
  RejectPDU__rejectReason__unconfirmedPDU_unrecognizedService |
  RejectPDU__rejectReason__unconfirmedPDU_invalidArgument |
  RejectPDU__rejectReason__unconfirmedPDU_maxRecursionExceeded |
  RejectPDU__rejectReason__unconfirmedPDU_valueOutOfRange

primrec e_RejectPDU__rejectReason__unconfirmedPDU_code :: "e_RejectPDU__rejectReason__unconfirmedPDU \<Rightarrow> int" where
  "e_RejectPDU__rejectReason__unconfirmedPDU_code RejectPDU__rejectReason__unconfirmedPDU_other = 0"
| "e_RejectPDU__rejectReason__unconfirmedPDU_code RejectPDU__rejectReason__unconfirmedPDU_unrecognizedService = 1"
| "e_RejectPDU__rejectReason__unconfirmedPDU_code RejectPDU__rejectReason__unconfirmedPDU_invalidArgument = 2"
| "e_RejectPDU__rejectReason__unconfirmedPDU_code RejectPDU__rejectReason__unconfirmedPDU_maxRecursionExceeded = 3"
| "e_RejectPDU__rejectReason__unconfirmedPDU_code RejectPDU__rejectReason__unconfirmedPDU_valueOutOfRange = 4"

datatype (plugins only: code size) e_RejectPDU__rejectReason__pduError =
  RejectPDU__rejectReason__pduError_unknownPduType |
  RejectPDU__rejectReason__pduError_invalidPdu |
  RejectPDU__rejectReason__pduError_illegalAcseMapping

primrec e_RejectPDU__rejectReason__pduError_code :: "e_RejectPDU__rejectReason__pduError \<Rightarrow> int" where
  "e_RejectPDU__rejectReason__pduError_code RejectPDU__rejectReason__pduError_unknownPduType = 0"
| "e_RejectPDU__rejectReason__pduError_code RejectPDU__rejectReason__pduError_invalidPdu = 1"
| "e_RejectPDU__rejectReason__pduError_code RejectPDU__rejectReason__pduError_illegalAcseMapping = 2"

datatype (plugins only: code size) e_RejectPDU__rejectReason__concludeRequestPDU =
  RejectPDU__rejectReason__concludeRequestPDU_other |
  RejectPDU__rejectReason__concludeRequestPDU_invalidArgument

primrec e_RejectPDU__rejectReason__concludeRequestPDU_code :: "e_RejectPDU__rejectReason__concludeRequestPDU \<Rightarrow> int" where
  "e_RejectPDU__rejectReason__concludeRequestPDU_code RejectPDU__rejectReason__concludeRequestPDU_other = 0"
| "e_RejectPDU__rejectReason__concludeRequestPDU_code RejectPDU__rejectReason__concludeRequestPDU_invalidArgument = 1"

datatype (plugins only: code size) e_RejectPDU__rejectReason__concludeResponsePDU =
  RejectPDU__rejectReason__concludeResponsePDU_other |
  RejectPDU__rejectReason__concludeResponsePDU_invalidResult

primrec e_RejectPDU__rejectReason__concludeResponsePDU_code :: "e_RejectPDU__rejectReason__concludeResponsePDU \<Rightarrow> int" where
  "e_RejectPDU__rejectReason__concludeResponsePDU_code RejectPDU__rejectReason__concludeResponsePDU_other = 0"
| "e_RejectPDU__rejectReason__concludeResponsePDU_code RejectPDU__rejectReason__concludeResponsePDU_invalidResult = 1"

datatype (plugins only: code size) e_RejectPDU__rejectReason__concludeErrorPDU =
  RejectPDU__rejectReason__concludeErrorPDU_other |
  RejectPDU__rejectReason__concludeErrorPDU_invalidServiceError |
  RejectPDU__rejectReason__concludeErrorPDU_valueOutOfRange

primrec e_RejectPDU__rejectReason__concludeErrorPDU_code :: "e_RejectPDU__rejectReason__concludeErrorPDU \<Rightarrow> int" where
  "e_RejectPDU__rejectReason__concludeErrorPDU_code RejectPDU__rejectReason__concludeErrorPDU_other = 0"
| "e_RejectPDU__rejectReason__concludeErrorPDU_code RejectPDU__rejectReason__concludeErrorPDU_invalidServiceError = 1"
| "e_RejectPDU__rejectReason__concludeErrorPDU_code RejectPDU__rejectReason__concludeErrorPDU_valueOutOfRange = 2"

datatype (plugins only: code size) RejectPDU__rejectReason_u =
    RejectPDU__rejectReason_u_confirmedRequestPDU int64
  | RejectPDU__rejectReason_u_confirmedResponsePDU int64
  | RejectPDU__rejectReason_u_confirmedErrorPDU int64
  | RejectPDU__rejectReason_u_unconfirmedPDU int64
  | RejectPDU__rejectReason_u_pduError INTEGER_t
  | RejectPDU__rejectReason_u_cancelRequestPDU NULL_t
  | RejectPDU__rejectReason_u_cancelResponsePDU NULL_t
  | RejectPDU__rejectReason_u_cancelErrorPDU NULL_t
  | RejectPDU__rejectReason_u_concludeRequestPDU int64
  | RejectPDU__rejectReason_u_concludeResponsePDU int64
  | RejectPDU__rejectReason_u_concludeErrorPDU int64

record RejectPDU__rejectReason =
  RejectPDU__rejectReason_present :: RejectPDU__rejectReason_PR
  RejectPDU__rejectReason_choice :: RejectPDU__rejectReason_u
  RejectPDU__rejectReason__asn_ctx :: asn_struct_ctx_t

record RejectPDU_t =
  RejectPDU_t_originalInvokeID :: ptr
  RejectPDU_t_rejectReason :: RejectPDU__rejectReason
  RejectPDU_t__asn_ctx :: asn_struct_ctx_t

datatype (plugins only: code size) e_ServiceSupportOptions =
  ServiceSupportOptions_status | ServiceSupportOptions_getNameList |
  ServiceSupportOptions_identify | ServiceSupportOptions_rename | ServiceSupportOptions_read |
  ServiceSupportOptions_write | ServiceSupportOptions_getVariableAccessAttributes |
  ServiceSupportOptions_defineNamedVariable | ServiceSupportOptions_defineScatteredAccess |
  ServiceSupportOptions_getScatteredAccessAttributes |
  ServiceSupportOptions_deleteVariableAccess | ServiceSupportOptions_defineNamedVariableList |
  ServiceSupportOptions_getNamedVariableListAttributes |
  ServiceSupportOptions_deleteNamedVariableList | ServiceSupportOptions_defineNamedType |
  ServiceSupportOptions_getNamedTypeAttributes | ServiceSupportOptions_deleteNamedType |
  ServiceSupportOptions_input | ServiceSupportOptions_output |
  ServiceSupportOptions_takeControl | ServiceSupportOptions_relinquishControl |
  ServiceSupportOptions_defineSemaphore | ServiceSupportOptions_deleteSemaphore |
  ServiceSupportOptions_reportSemaphoreStatus |
  ServiceSupportOptions_reportPoolSemaphoreStatus |
  ServiceSupportOptions_reportSemaphoreEntryStatus |
  ServiceSupportOptions_initiateDownloadSequence | ServiceSupportOptions_downloadSegment |
  ServiceSupportOptions_terminateDownloadSequence |
  ServiceSupportOptions_initiateUploadSequence | ServiceSupportOptions_uploadSegment |
  ServiceSupportOptions_terminateUploadSequence | ServiceSupportOptions_requestDomainDownload |
  ServiceSupportOptions_requestDomainUpload | ServiceSupportOptions_loadDomainContent |
  ServiceSupportOptions_storeDomainContent | ServiceSupportOptions_deleteDomain |
  ServiceSupportOptions_getDomainAttributes | ServiceSupportOptions_createProgramInvocation |
  ServiceSupportOptions_deleteProgramInvocation | ServiceSupportOptions_start |
  ServiceSupportOptions_stop | ServiceSupportOptions_resume | ServiceSupportOptions_reset |
  ServiceSupportOptions_kill | ServiceSupportOptions_getProgramInvocationAttributes |
  ServiceSupportOptions_obtainFile | ServiceSupportOptions_defineEventCondition |
  ServiceSupportOptions_deleteEventCondition |
  ServiceSupportOptions_getEventConditionAttributes |
  ServiceSupportOptions_reportEventConditionStatus |
  ServiceSupportOptions_alterEventConditionMonitoring | ServiceSupportOptions_triggerEvent |
  ServiceSupportOptions_defineEventAction | ServiceSupportOptions_deleteEventAction |
  ServiceSupportOptions_getEventActionAttributes |
  ServiceSupportOptions_reportEventActionStatus | ServiceSupportOptions_defineEventEnrollment |
  ServiceSupportOptions_deleteEventEnrollment | ServiceSupportOptions_alterEventEnrollment |
  ServiceSupportOptions_reportEventEnrollmentStatus |
  ServiceSupportOptions_getEventEnrollmentAttributes |
  ServiceSupportOptions_acknowledgeEventNotification | ServiceSupportOptions_getAlarmSummary |
  ServiceSupportOptions_getAlarmEnrollmentSummary | ServiceSupportOptions_readJournal |
  ServiceSupportOptions_writeJournal | ServiceSupportOptions_initializeJournal |
  ServiceSupportOptions_reportJournalStatus | ServiceSupportOptions_createJournal |
  ServiceSupportOptions_deleteJournal | ServiceSupportOptions_getCapabilityList |
  ServiceSupportOptions_fileOpen | ServiceSupportOptions_fileRead |
  ServiceSupportOptions_fileClose | ServiceSupportOptions_fileRename |
  ServiceSupportOptions_fileDelete | ServiceSupportOptions_fileDirectory |
  ServiceSupportOptions_unsolicitedStatus | ServiceSupportOptions_informationReport |
  ServiceSupportOptions_eventNotification | ServiceSupportOptions_attachToEventCondition |
  ServiceSupportOptions_attachToSemaphore | ServiceSupportOptions_conclude |
  ServiceSupportOptions_cancel

primrec e_ServiceSupportOptions_code :: "e_ServiceSupportOptions \<Rightarrow> int" where
  "e_ServiceSupportOptions_code ServiceSupportOptions_status = 0"
| "e_ServiceSupportOptions_code ServiceSupportOptions_getNameList = 1"
| "e_ServiceSupportOptions_code ServiceSupportOptions_identify = 2"
| "e_ServiceSupportOptions_code ServiceSupportOptions_rename = 3"
| "e_ServiceSupportOptions_code ServiceSupportOptions_read = 4"
| "e_ServiceSupportOptions_code ServiceSupportOptions_write = 5"
| "e_ServiceSupportOptions_code ServiceSupportOptions_getVariableAccessAttributes = 6"
| "e_ServiceSupportOptions_code ServiceSupportOptions_defineNamedVariable = 7"
| "e_ServiceSupportOptions_code ServiceSupportOptions_defineScatteredAccess = 8"
| "e_ServiceSupportOptions_code ServiceSupportOptions_getScatteredAccessAttributes = 9"
| "e_ServiceSupportOptions_code ServiceSupportOptions_deleteVariableAccess = 10"
| "e_ServiceSupportOptions_code ServiceSupportOptions_defineNamedVariableList = 11"
| "e_ServiceSupportOptions_code ServiceSupportOptions_getNamedVariableListAttributes = 12"
| "e_ServiceSupportOptions_code ServiceSupportOptions_deleteNamedVariableList = 13"
| "e_ServiceSupportOptions_code ServiceSupportOptions_defineNamedType = 14"
| "e_ServiceSupportOptions_code ServiceSupportOptions_getNamedTypeAttributes = 15"
| "e_ServiceSupportOptions_code ServiceSupportOptions_deleteNamedType = 16"
| "e_ServiceSupportOptions_code ServiceSupportOptions_input = 17"
| "e_ServiceSupportOptions_code ServiceSupportOptions_output = 18"
| "e_ServiceSupportOptions_code ServiceSupportOptions_takeControl = 19"
| "e_ServiceSupportOptions_code ServiceSupportOptions_relinquishControl = 20"
| "e_ServiceSupportOptions_code ServiceSupportOptions_defineSemaphore = 21"
| "e_ServiceSupportOptions_code ServiceSupportOptions_deleteSemaphore = 22"
| "e_ServiceSupportOptions_code ServiceSupportOptions_reportSemaphoreStatus = 23"
| "e_ServiceSupportOptions_code ServiceSupportOptions_reportPoolSemaphoreStatus = 24"
| "e_ServiceSupportOptions_code ServiceSupportOptions_reportSemaphoreEntryStatus = 25"
| "e_ServiceSupportOptions_code ServiceSupportOptions_initiateDownloadSequence = 26"
| "e_ServiceSupportOptions_code ServiceSupportOptions_downloadSegment = 27"
| "e_ServiceSupportOptions_code ServiceSupportOptions_terminateDownloadSequence = 28"
| "e_ServiceSupportOptions_code ServiceSupportOptions_initiateUploadSequence = 29"
| "e_ServiceSupportOptions_code ServiceSupportOptions_uploadSegment = 30"
| "e_ServiceSupportOptions_code ServiceSupportOptions_terminateUploadSequence = 31"
| "e_ServiceSupportOptions_code ServiceSupportOptions_requestDomainDownload = 32"
| "e_ServiceSupportOptions_code ServiceSupportOptions_requestDomainUpload = 33"
| "e_ServiceSupportOptions_code ServiceSupportOptions_loadDomainContent = 34"
| "e_ServiceSupportOptions_code ServiceSupportOptions_storeDomainContent = 35"
| "e_ServiceSupportOptions_code ServiceSupportOptions_deleteDomain = 36"
| "e_ServiceSupportOptions_code ServiceSupportOptions_getDomainAttributes = 37"
| "e_ServiceSupportOptions_code ServiceSupportOptions_createProgramInvocation = 38"
| "e_ServiceSupportOptions_code ServiceSupportOptions_deleteProgramInvocation = 39"
| "e_ServiceSupportOptions_code ServiceSupportOptions_start = 40"
| "e_ServiceSupportOptions_code ServiceSupportOptions_stop = 41"
| "e_ServiceSupportOptions_code ServiceSupportOptions_resume = 42"
| "e_ServiceSupportOptions_code ServiceSupportOptions_reset = 43"
| "e_ServiceSupportOptions_code ServiceSupportOptions_kill = 44"
| "e_ServiceSupportOptions_code ServiceSupportOptions_getProgramInvocationAttributes = 45"
| "e_ServiceSupportOptions_code ServiceSupportOptions_obtainFile = 46"
| "e_ServiceSupportOptions_code ServiceSupportOptions_defineEventCondition = 47"
| "e_ServiceSupportOptions_code ServiceSupportOptions_deleteEventCondition = 48"
| "e_ServiceSupportOptions_code ServiceSupportOptions_getEventConditionAttributes = 49"
| "e_ServiceSupportOptions_code ServiceSupportOptions_reportEventConditionStatus = 50"
| "e_ServiceSupportOptions_code ServiceSupportOptions_alterEventConditionMonitoring = 51"
| "e_ServiceSupportOptions_code ServiceSupportOptions_triggerEvent = 52"
| "e_ServiceSupportOptions_code ServiceSupportOptions_defineEventAction = 53"
| "e_ServiceSupportOptions_code ServiceSupportOptions_deleteEventAction = 54"
| "e_ServiceSupportOptions_code ServiceSupportOptions_getEventActionAttributes = 55"
| "e_ServiceSupportOptions_code ServiceSupportOptions_reportEventActionStatus = 56"
| "e_ServiceSupportOptions_code ServiceSupportOptions_defineEventEnrollment = 57"
| "e_ServiceSupportOptions_code ServiceSupportOptions_deleteEventEnrollment = 58"
| "e_ServiceSupportOptions_code ServiceSupportOptions_alterEventEnrollment = 59"
| "e_ServiceSupportOptions_code ServiceSupportOptions_reportEventEnrollmentStatus = 60"
| "e_ServiceSupportOptions_code ServiceSupportOptions_getEventEnrollmentAttributes = 61"
| "e_ServiceSupportOptions_code ServiceSupportOptions_acknowledgeEventNotification = 62"
| "e_ServiceSupportOptions_code ServiceSupportOptions_getAlarmSummary = 63"
| "e_ServiceSupportOptions_code ServiceSupportOptions_getAlarmEnrollmentSummary = 64"
| "e_ServiceSupportOptions_code ServiceSupportOptions_readJournal = 65"
| "e_ServiceSupportOptions_code ServiceSupportOptions_writeJournal = 66"
| "e_ServiceSupportOptions_code ServiceSupportOptions_initializeJournal = 67"
| "e_ServiceSupportOptions_code ServiceSupportOptions_reportJournalStatus = 68"
| "e_ServiceSupportOptions_code ServiceSupportOptions_createJournal = 69"
| "e_ServiceSupportOptions_code ServiceSupportOptions_deleteJournal = 70"
| "e_ServiceSupportOptions_code ServiceSupportOptions_getCapabilityList = 71"
| "e_ServiceSupportOptions_code ServiceSupportOptions_fileOpen = 72"
| "e_ServiceSupportOptions_code ServiceSupportOptions_fileRead = 73"
| "e_ServiceSupportOptions_code ServiceSupportOptions_fileClose = 74"
| "e_ServiceSupportOptions_code ServiceSupportOptions_fileRename = 75"
| "e_ServiceSupportOptions_code ServiceSupportOptions_fileDelete = 76"
| "e_ServiceSupportOptions_code ServiceSupportOptions_fileDirectory = 77"
| "e_ServiceSupportOptions_code ServiceSupportOptions_unsolicitedStatus = 78"
| "e_ServiceSupportOptions_code ServiceSupportOptions_informationReport = 79"
| "e_ServiceSupportOptions_code ServiceSupportOptions_eventNotification = 80"
| "e_ServiceSupportOptions_code ServiceSupportOptions_attachToEventCondition = 81"
| "e_ServiceSupportOptions_code ServiceSupportOptions_attachToSemaphore = 82"
| "e_ServiceSupportOptions_code ServiceSupportOptions_conclude = 83"
| "e_ServiceSupportOptions_code ServiceSupportOptions_cancel = 84"

datatype (plugins only: code size) e_ParameterSupportOptions =
  ParameterSupportOptions_str1 | ParameterSupportOptions_str2 | ParameterSupportOptions_vnam |
  ParameterSupportOptions_valt | ParameterSupportOptions_vadr | ParameterSupportOptions_vsca |
  ParameterSupportOptions_tpy | ParameterSupportOptions_vlis | ParameterSupportOptions_real |
  ParameterSupportOptions_cei

primrec e_ParameterSupportOptions_code :: "e_ParameterSupportOptions \<Rightarrow> int" where
  "e_ParameterSupportOptions_code ParameterSupportOptions_str1 = 0"
| "e_ParameterSupportOptions_code ParameterSupportOptions_str2 = 1"
| "e_ParameterSupportOptions_code ParameterSupportOptions_vnam = 2"
| "e_ParameterSupportOptions_code ParameterSupportOptions_valt = 3"
| "e_ParameterSupportOptions_code ParameterSupportOptions_vadr = 4"
| "e_ParameterSupportOptions_code ParameterSupportOptions_vsca = 5"
| "e_ParameterSupportOptions_code ParameterSupportOptions_tpy = 6"
| "e_ParameterSupportOptions_code ParameterSupportOptions_vlis = 7"
| "e_ParameterSupportOptions_code ParameterSupportOptions_real = 8"
| "e_ParameterSupportOptions_code ParameterSupportOptions_cei = 10"

datatype (plugins only: code size) e_DataAccessError =
  DataAccessError_objectinvalidated | DataAccessError_hardwarefault |
  DataAccessError_temporarilyunavailable | DataAccessError_objectaccessdenied |
  DataAccessError_objectundefined | DataAccessError_invalidaddress |
  DataAccessError_typeunsupported | DataAccessError_typeinconsistent |
  DataAccessError_objectattributeinconsistent | DataAccessError_objectaccessunsupported |
  DataAccessError_objectnonexistent | DataAccessError_objectvalueinvalid

primrec e_DataAccessError_code :: "e_DataAccessError \<Rightarrow> int" where
  "e_DataAccessError_code DataAccessError_objectinvalidated = 0"
| "e_DataAccessError_code DataAccessError_hardwarefault = 1"
| "e_DataAccessError_code DataAccessError_temporarilyunavailable = 2"
| "e_DataAccessError_code DataAccessError_objectaccessdenied = 3"
| "e_DataAccessError_code DataAccessError_objectundefined = 4"
| "e_DataAccessError_code DataAccessError_invalidaddress = 5"
| "e_DataAccessError_code DataAccessError_typeunsupported = 6"
| "e_DataAccessError_code DataAccessError_typeinconsistent = 7"
| "e_DataAccessError_code DataAccessError_objectattributeinconsistent = 8"
| "e_DataAccessError_code DataAccessError_objectaccessunsupported = 9"
| "e_DataAccessError_code DataAccessError_objectnonexistent = 10"
| "e_DataAccessError_code DataAccessError_objectvalueinvalid = 11"

datatype (plugins only: code size) ObjectName_PR =
  ObjectName_PR_NOTHING | ObjectName_PR_vmdspecific | ObjectName_PR_domainspecific |
  ObjectName_PR_aaspecific

primrec ObjectName_PR_code :: "ObjectName_PR \<Rightarrow> int" where
  "ObjectName_PR_code ObjectName_PR_NOTHING = 0"
| "ObjectName_PR_code ObjectName_PR_vmdspecific = 1"
| "ObjectName_PR_code ObjectName_PR_domainspecific = 2"
| "ObjectName_PR_code ObjectName_PR_aaspecific = 3"

record ObjectName__domainspecific =
  ObjectName__domainspecific_domainId :: Identifier_t
  ObjectName__domainspecific_itemId :: Identifier_t
  ObjectName__domainspecific__asn_ctx :: asn_struct_ctx_t

datatype (plugins only: code size) ObjectName_u =
    ObjectName_u_vmdspecific Identifier_t
  | ObjectName_u_domainspecific ObjectName__domainspecific
  | ObjectName_u_aaspecific Identifier_t

record ObjectName_t =
  ObjectName_t_present :: ObjectName_PR
  ObjectName_t_choice :: ObjectName_u
  ObjectName_t__asn_ctx :: asn_struct_ctx_t

datatype (plugins only: code size) ObjectClass_PR =
  ObjectClass_PR_NOTHING | ObjectClass_PR_basicObjectClass

primrec ObjectClass_PR_code :: "ObjectClass_PR \<Rightarrow> int" where
  "ObjectClass_PR_code ObjectClass_PR_NOTHING = 0"
| "ObjectClass_PR_code ObjectClass_PR_basicObjectClass = 1"

datatype (plugins only: code size) e_ObjectClass__basicObjectClass =
  ObjectClass__basicObjectClass_namedVariable | ObjectClass__basicObjectClass_scatteredAccess |
  ObjectClass__basicObjectClass_namedVariableList | ObjectClass__basicObjectClass_namedType |
  ObjectClass__basicObjectClass_semaphore | ObjectClass__basicObjectClass_eventCondition |
  ObjectClass__basicObjectClass_eventAction | ObjectClass__basicObjectClass_eventEnrollment |
  ObjectClass__basicObjectClass_journal | ObjectClass__basicObjectClass_domain |
  ObjectClass__basicObjectClass_programInvocation |
  ObjectClass__basicObjectClass_operatorStation | ObjectClass__basicObjectClass_dataExchange |
  ObjectClass__basicObjectClass_accessControlList

primrec e_ObjectClass__basicObjectClass_code :: "e_ObjectClass__basicObjectClass \<Rightarrow> int" where
  "e_ObjectClass__basicObjectClass_code ObjectClass__basicObjectClass_namedVariable = 0"
| "e_ObjectClass__basicObjectClass_code ObjectClass__basicObjectClass_scatteredAccess = 1"
| "e_ObjectClass__basicObjectClass_code ObjectClass__basicObjectClass_namedVariableList = 2"
| "e_ObjectClass__basicObjectClass_code ObjectClass__basicObjectClass_namedType = 3"
| "e_ObjectClass__basicObjectClass_code ObjectClass__basicObjectClass_semaphore = 4"
| "e_ObjectClass__basicObjectClass_code ObjectClass__basicObjectClass_eventCondition = 5"
| "e_ObjectClass__basicObjectClass_code ObjectClass__basicObjectClass_eventAction = 6"
| "e_ObjectClass__basicObjectClass_code ObjectClass__basicObjectClass_eventEnrollment = 7"
| "e_ObjectClass__basicObjectClass_code ObjectClass__basicObjectClass_journal = 8"
| "e_ObjectClass__basicObjectClass_code ObjectClass__basicObjectClass_domain = 9"
| "e_ObjectClass__basicObjectClass_code ObjectClass__basicObjectClass_programInvocation = 10"
| "e_ObjectClass__basicObjectClass_code ObjectClass__basicObjectClass_operatorStation = 11"
| "e_ObjectClass__basicObjectClass_code ObjectClass__basicObjectClass_dataExchange = 12"
| "e_ObjectClass__basicObjectClass_code ObjectClass__basicObjectClass_accessControlList = 13"

datatype (plugins only: code size) ObjectClass_u =
    ObjectClass_u_basicObjectClass INTEGER_t

record ObjectClass_t =
  ObjectClass_t_present :: ObjectClass_PR
  ObjectClass_t_choice :: ObjectClass_u
  ObjectClass_t__asn_ctx :: asn_struct_ctx_t

datatype (plugins only: code size) Address_PR =
  Address_PR_NOTHING | Address_PR_numericAddress | Address_PR_symbolicAddress |
  Address_PR_unconstrainedAddress

primrec Address_PR_code :: "Address_PR \<Rightarrow> int" where
  "Address_PR_code Address_PR_NOTHING = 0"
| "Address_PR_code Address_PR_numericAddress = 1"
| "Address_PR_code Address_PR_symbolicAddress = 2"
| "Address_PR_code Address_PR_unconstrainedAddress = 3"

datatype (plugins only: code size) Address_u =
    Address_u_numericAddress Unsigned32_t
  | Address_u_symbolicAddress VisibleString_t
  | Address_u_unconstrainedAddress OCTET_STRING_t

record Address_t =
  Address_t_present :: Address_PR
  Address_t_choice :: Address_u
  Address_t__asn_ctx :: asn_struct_ctx_t

record InitRequestDetail_t =
  InitRequestDetail_t_proposedVersionNumber :: Integer16_t
  InitRequestDetail_t_proposedParameterCBB :: ParameterSupportOptions_t
  InitRequestDetail_t_servicesSupportedCalling :: ServiceSupportOptions_t
  InitRequestDetail_t__asn_ctx :: asn_struct_ctx_t

record InitResponseDetail_t =
  InitResponseDetail_t_negotiatedVersionNumber :: Integer16_t
  InitResponseDetail_t_negotiatedParameterCBB :: ParameterSupportOptions_t
  InitResponseDetail_t_servicesSupportedCalled :: ServiceSupportOptions_t
  InitResponseDetail_t__asn_ctx :: asn_struct_ctx_t

record InitiateRequestPdu_t =
  InitiateRequestPdu_t_localDetailCalling :: ptr
  InitiateRequestPdu_t_proposedMaxServOutstandingCalling :: Integer16_t
  InitiateRequestPdu_t_proposedMaxServOutstandingCalled :: Integer16_t
  InitiateRequestPdu_t_proposedDataStructureNestingLevel :: ptr
  InitiateRequestPdu_t_mmsInitRequestDetail :: InitRequestDetail_t
  InitiateRequestPdu_t__asn_ctx :: asn_struct_ctx_t

record InitiateResponsePdu_t =
  InitiateResponsePdu_t_localDetailCalled :: ptr
  InitiateResponsePdu_t_negotiatedMaxServOutstandingCalling :: Integer16_t
  InitiateResponsePdu_t_negotiatedMaxServOutstandingCalled :: Integer16_t
  InitiateResponsePdu_t_negotiatedDataStructureNestingLevel :: ptr
  InitiateResponsePdu_t_mmsInitResponseDetail :: InitResponseDetail_t
  InitiateResponsePdu_t__asn_ctx :: asn_struct_ctx_t

record ConfirmedErrorPDU_t =
  ConfirmedErrorPDU_t_invokeID :: Unsigned32_t
  ConfirmedErrorPDU_t_serviceError :: ServiceError_t
  ConfirmedErrorPDU_t__asn_ctx :: asn_struct_ctx_t

record DataSequence_t =
  DataSequence_t_list :: A_SET_OF
  DataSequence_t__asn_ctx :: asn_struct_ctx_t

datatype (plugins only: code size) Data_PR =
  Data_PR_NOTHING | Data_PR_array | Data_PR_structure | Data_PR_boolean | Data_PR_bitstring |
  Data_PR_integer | Data_PR_unsigned | Data_PR_floatingpoint | Data_PR_octetstring |
  Data_PR_visiblestring | Data_PR_generalizedtime | Data_PR_binarytime | Data_PR_bcd |
  Data_PR_booleanArray | Data_PR_mMSString | Data_PR_utctime

primrec Data_PR_code :: "Data_PR \<Rightarrow> int" where
  "Data_PR_code Data_PR_NOTHING = 0"
| "Data_PR_code Data_PR_array = 1"
| "Data_PR_code Data_PR_structure = 2"
| "Data_PR_code Data_PR_boolean = 3"
| "Data_PR_code Data_PR_bitstring = 4"
| "Data_PR_code Data_PR_integer = 5"
| "Data_PR_code Data_PR_unsigned = 6"
| "Data_PR_code Data_PR_floatingpoint = 7"
| "Data_PR_code Data_PR_octetstring = 8"
| "Data_PR_code Data_PR_visiblestring = 9"
| "Data_PR_code Data_PR_generalizedtime = 10"
| "Data_PR_code Data_PR_binarytime = 11"
| "Data_PR_code Data_PR_bcd = 12"
| "Data_PR_code Data_PR_booleanArray = 13"
| "Data_PR_code Data_PR_mMSString = 14"
| "Data_PR_code Data_PR_utctime = 15"

datatype (plugins only: code size) Data_u =
    Data_u_array ptr
  | Data_u_structure ptr
  | Data_u_boolean BOOLEAN_t
  | Data_u_bitstring BIT_STRING_t
  | Data_u_integer INTEGER_t
  | Data_u_Unsigned INTEGER_t
  | Data_u_floatingpoint FloatingPoint_t
  | Data_u_octetstring OCTET_STRING_t
  | Data_u_visiblestring VisibleString_t
  | Data_u_generalizedtime GeneralizedTime_t
  | Data_u_binarytime TimeOfDay_t
  | Data_u_bcd INTEGER_t
  | Data_u_booleanArray BIT_STRING_t
  | Data_u_mMSString MMSString_t
  | Data_u_utctime UtcTime_t

record Data_t =
  Data_t_present :: Data_PR
  Data_t_choice :: Data_u
  Data_t__asn_ctx :: asn_struct_ctx_t

end
