(* ===== verification/Asn_Variables.thy ===== *)
theory Asn_Variables
  imports Asn_Errors
begin

text \<open>
  How MMS requests name variables: specifications, alternate and scattered access, type
  specifications and access results.
\<close>

datatype (plugins only: code size) AlternateAccess__Member_PR =
  AlternateAccess__Member_PR_NOTHING | AlternateAccess__Member_PR_unnamed |
  AlternateAccess__Member_PR_named

primrec AlternateAccess__Member_PR_code :: "AlternateAccess__Member_PR \<Rightarrow> int" where
  "AlternateAccess__Member_PR_code AlternateAccess__Member_PR_NOTHING = 0"
| "AlternateAccess__Member_PR_code AlternateAccess__Member_PR_unnamed = 1"
| "AlternateAccess__Member_PR_code AlternateAccess__Member_PR_named = 2"

record AlternateAccess__Member__named =
  AlternateAccess__Member__named_componentName :: Identifier_t
  AlternateAccess__Member__named_access :: ptr
  AlternateAccess__Member__named__asn_ctx :: asn_struct_ctx_t

datatype (plugins only: code size) AlternateAccess__Member_u =
    AlternateAccess__Member_u_unnamed ptr
  | AlternateAccess__Member_u_named AlternateAccess__Member__named

record AlternateAccess__Member =
  AlternateAccess__Member_present :: AlternateAccess__Member_PR
  AlternateAccess__Member_choice :: AlternateAccess__Member_u
  AlternateAccess__Member__asn_ctx :: asn_struct_ctx_t

record AlternateAccess_t =
  AlternateAccess_t_list :: A_SET_OF
  AlternateAccess_t__asn_ctx :: asn_struct_ctx_t

datatype (plugins only: code size) AlternateAccessSelection_PR =
  AlternateAccessSelection_PR_NOTHING | AlternateAccessSelection_PR_selectAlternateAccess |
  AlternateAccessSelection_PR_selectAccess

primrec AlternateAccessSelection_PR_code :: "AlternateAccessSelection_PR \<Rightarrow> int" where
  "AlternateAccessSelection_PR_code AlternateAccessSelection_PR_NOTHING = 0"
| "AlternateAccessSelection_PR_code AlternateAccessSelection_PR_selectAlternateAccess = 1"
| "AlternateAccessSelection_PR_code AlternateAccessSelection_PR_selectAccess = 2"

datatype (plugins only: code size) AlternateAccessSelection__selectAlternateAccess__accessSelection_PR =
  AlternateAccessSelection__selectAlternateAccess__accessSelection_PR_NOTHING |
  AlternateAccessSelection__selectAlternateAccess__accessSelection_PR_component |
  AlternateAccessSelection__selectAlternateAccess__accessSelection_PR_index |
  AlternateAccessSelection__selectAlternateAccess__accessSelection_PR_indexRange |
  AlternateAccessSelection__selectAlternateAccess__accessSelection_PR_allElements

primrec AlternateAccessSelection__selectAlternateAccess__accessSelection_PR_code :: "AlternateAccessSelection__selectAlternateAccess__accessSelection_PR \<Rightarrow> int" where
  "AlternateAccessSelection__selectAlternateAccess__accessSelection_PR_code AlternateAccessSelection__selectAlternateAccess__accessSelection_PR_NOTHING = 0"
| "AlternateAccessSelection__selectAlternateAccess__accessSelection_PR_code AlternateAccessSelection__selectAlternateAccess__accessSelection_PR_component = 1"
| "AlternateAccessSelection__selectAlternateAccess__accessSelection_PR_code AlternateAccessSelection__selectAlternateAccess__accessSelection_PR_index = 2"
| "AlternateAccessSelection__selectAlternateAccess__accessSelection_PR_code AlternateAccessSelection__selectAlternateAccess__accessSelection_PR_indexRange = 3"
| "AlternateAccessSelection__selectAlternateAccess__accessSelection_PR_code AlternateAccessSelection__selectAlternateAccess__accessSelection_PR_allElements = 4"

datatype (plugins only: code size) AlternateAccessSelection__selectAccess_PR =
  AlternateAccessSelection__selectAccess_PR_NOTHING |
  AlternateAccessSelection__selectAccess_PR_component |
  AlternateAccessSelection__selectAccess_PR_index |
  AlternateAccessSelection__selectAccess_PR_indexRange |
  AlternateAccessSelection__selectAccess_PR_allElements

primrec AlternateAccessSelection__selectAccess_PR_code :: "AlternateAccessSelection__selectAccess_PR \<Rightarrow> int" where
  "AlternateAccessSelection__selectAccess_PR_code AlternateAccessSelection__selectAccess_PR_NOTHING = 0"
| "AlternateAccessSelection__selectAccess_PR_code AlternateAccessSelection__selectAccess_PR_component = 1"
| "AlternateAccessSelection__selectAccess_PR_code AlternateAccessSelection__selectAccess_PR_index = 2"
| "AlternateAccessSelection__selectAccess_PR_code AlternateAccessSelection__selectAccess_PR_indexRange = 3"
| "AlternateAccessSelection__selectAccess_PR_code AlternateAccessSelection__selectAccess_PR_allElements = 4"

record AlternateAccessSelection__selectAlternateAccess__accessSelection__indexRange =
  AlternateAccessSelection__selectAlternateAccess__accessSelection__indexRange_lowIndex :: Unsigned32_t
  AlternateAccessSelection__selectAlternateAccess__accessSelection__indexRange_numberOfElements :: Unsigned32_t
  AlternateAccessSelection__selectAlternateAccess__accessSelection__indexRange__asn_ctx :: asn_struct_ctx_t

datatype (plugins only: code size) AlternateAccessSelection__selectAlternateAccess__accessSelection_u =
    AlternateAccessSelection__selectAlternateAccess__accessSelection_u_component Identifier_t
  | AlternateAccessSelection__selectAlternateAccess__accessSelection_u_index Unsigned32_t
  | AlternateAccessSelection__selectAlternateAccess__accessSelection_u_indexRange AlternateAccessSelection__selectAlternateAccess__accessSelection__indexRange
  | AlternateAccessSelection__selectAlternateAccess__accessSelection_u_allElements NULL_t

record AlternateAccessSelection__selectAlternateAccess__accessSelection =
  AlternateAccessSelection__selectAlternateAccess__accessSelection_present :: AlternateAccessSelection__selectAlternateAccess__accessSelection_PR
  AlternateAccessSelection__selectAlternateAccess__accessSelection_choice :: AlternateAccessSelection__selectAlternateAccess__accessSelection_u
  AlternateAccessSelection__selectAlternateAccess__accessSelection__asn_ctx :: asn_struct_ctx_t

record AlternateAccessSelection__selectAlternateAccess =
  AlternateAccessSelection__selectAlternateAccess_accessSelection :: AlternateAccessSelection__selectAlternateAccess__accessSelection
  AlternateAccessSelection__selectAlternateAccess_alternateAccess :: ptr
  AlternateAccessSelection__selectAlternateAccess__asn_ctx :: asn_struct_ctx_t

record AlternateAccessSelection__selectAccess__indexRange =
  AlternateAccessSelection__selectAccess__indexRange_lowIndex :: Unsigned32_t
  AlternateAccessSelection__selectAccess__indexRange_numberOfElements :: Unsigned32_t
  AlternateAccessSelection__selectAccess__indexRange__asn_ctx :: asn_struct_ctx_t

datatype (plugins only: code size) AlternateAccessSelection__selectAccess_u =
    AlternateAccessSelection__selectAccess_u_component Identifier_t
  | AlternateAccessSelection__selectAccess_u_index Unsigned32_t
  | AlternateAccessSelection__selectAccess_u_indexRange AlternateAccessSelection__selectAccess__indexRange
  | AlternateAccessSelection__selectAccess_u_allElements NULL_t

record AlternateAccessSelection__selectAccess =
  AlternateAccessSelection__selectAccess_present :: AlternateAccessSelection__selectAccess_PR
  AlternateAccessSelection__selectAccess_choice :: AlternateAccessSelection__selectAccess_u
  AlternateAccessSelection__selectAccess__asn_ctx :: asn_struct_ctx_t

datatype (plugins only: code size) AlternateAccessSelection_u =
    AlternateAccessSelection_u_selectAlternateAccess AlternateAccessSelection__selectAlternateAccess
  | AlternateAccessSelection_u_selectAccess AlternateAccessSelection__selectAccess

record AlternateAccessSelection_t =
  AlternateAccessSelection_t_present :: AlternateAccessSelection_PR
  AlternateAccessSelection_t_choice :: AlternateAccessSelection_u
  AlternateAccessSelection_t__asn_ctx :: asn_struct_ctx_t

record IndexRangeSeq_t =
  IndexRangeSeq_t_lowIndex :: Unsigned32_t
  IndexRangeSeq_t_numberOfElements :: Unsigned32_t
  IndexRangeSeq_t__asn_ctx :: asn_struct_ctx_t

record ScatteredAccessDescription__Member =
  ScatteredAccessDescription__Member_componentName :: ptr
  ScatteredAccessDescription__Member_variableSpecification :: ptr
  ScatteredAccessDescription__Member_alternateAccess :: ptr
  ScatteredAccessDescription__Member__asn_ctx :: asn_struct_ctx_t

record ScatteredAccessDescription_t =
  ScatteredAccessDescription_t_list :: A_SET_OF
  ScatteredAccessDescription_t__asn_ctx :: asn_struct_ctx_t

record StructComponent_t =
  StructComponent_t_componentName :: ptr
  StructComponent_t_componentType :: ptr
  StructComponent_t__asn_ctx :: asn_struct_ctx_t

datatype (plugins only: code size) TypeSpecification_PR =
  TypeSpecification_PR_NOTHING | TypeSpecification_PR_typeName | TypeSpecification_PR_array |
  TypeSpecification_PR_structure | TypeSpecification_PR_boolean |
  TypeSpecification_PR_bitstring | TypeSpecification_PR_integer |
  TypeSpecification_PR_unsigned | TypeSpecification_PR_floatingpoint |
  TypeSpecification_PR_octetstring | TypeSpecification_PR_visiblestring |
  TypeSpecification_PR_generalizedtime | TypeSpecification_PR_binarytime |
  TypeSpecification_PR_bcd | TypeSpecification_PR_objId | TypeSpecification_PR_mMSString |
  TypeSpecification_PR_utctime

primrec TypeSpecification_PR_code :: "TypeSpecification_PR \<Rightarrow> int" where
  "TypeSpecification_PR_code TypeSpecification_PR_NOTHING = 0"
| "TypeSpecification_PR_code TypeSpecification_PR_typeName = 1"
| "TypeSpecification_PR_code TypeSpecification_PR_array = 2"
| "TypeSpecification_PR_code TypeSpecification_PR_structure = 3"
| "TypeSpecification_PR_code TypeSpecification_PR_boolean = 4"
| "TypeSpecification_PR_code TypeSpecification_PR_bitstring = 5"
| "TypeSpecification_PR_code TypeSpecification_PR_integer = 6"
| "TypeSpecification_PR_code TypeSpecification_PR_unsigned = 7"
| "TypeSpecification_PR_code TypeSpecification_PR_floatingpoint = 8"
| "TypeSpecification_PR_code TypeSpecification_PR_octetstring = 9"
| "TypeSpecification_PR_code TypeSpecification_PR_visiblestring = 10"
| "TypeSpecification_PR_code TypeSpecification_PR_generalizedtime = 11"
| "TypeSpecification_PR_code TypeSpecification_PR_binarytime = 12"
| "TypeSpecification_PR_code TypeSpecification_PR_bcd = 13"
| "TypeSpecification_PR_code TypeSpecification_PR_objId = 14"
| "TypeSpecification_PR_code TypeSpecification_PR_mMSString = 15"
| "TypeSpecification_PR_code TypeSpecification_PR_utctime = 16"

record TypeSpecification__array =
  TypeSpecification__array_packed :: ptr
  TypeSpecification__array_numberOfElements :: Unsigned32_t
  TypeSpecification__array_elementType :: ptr
  TypeSpecification__array__asn_ctx :: asn_struct_ctx_t

record TypeSpecification__structure__components =
  TypeSpecification__structure__components_list :: A_SET_OF
  TypeSpecification__structure__components__asn_ctx :: asn_struct_ctx_t

record TypeSpecification__structure =
  TypeSpecification__structure_packed :: ptr
  TypeSpecification__structure_components :: TypeSpecification__structure__components
  TypeSpecification__structure__asn_ctx :: asn_struct_ctx_t

record TypeSpecification__floatingpoint =
  TypeSpecification__floatingpoint_formatwidth :: Unsigned8_t
  TypeSpecification__floatingpoint_exponentwidth :: Unsigned8_t
  TypeSpecification__floatingpoint__asn_ctx :: asn_struct_ctx_t

datatype (plugins only: code size) TypeSpecification_u =
    TypeSpecification_u_typeName ObjectName_t
  | TypeSpecification_u_array TypeSpecification__array
  | TypeSpecification_u_structure TypeSpecification__structure
  | TypeSpecification_u_boolean NULL_t
  | TypeSpecification_u_bitstring Integer32_t
  | TypeSpecification_u_integer Unsigned8_t
  | TypeSpecification_u_Unsigned Unsigned8_t
  | TypeSpecification_u_floatingpoint TypeSpecification__floatingpoint
  | TypeSpecification_u_octetstring Integer32_t
  | TypeSpecification_u_visiblestring Integer32_t
  | TypeSpecification_u_generalizedtime NULL_t
  | TypeSpecification_u_binarytime BOOLEAN_t
  | TypeSpecification_u_bcd Unsigned8_t
  | TypeSpecification_u_objId NULL_t
  | TypeSpecification_u_mMSString Integer32_t
  | TypeSpecification_u_utctime NULL_t

record TypeSpecification_t =
  TypeSpecification_t_present :: TypeSpecification_PR
  TypeSpecification_t_choice :: TypeSpecification_u
  TypeSpecification_t__asn_ctx :: asn_struct_ctx_t

datatype (plugins only: code size) VariableAccessSpecification_PR =
  VariableAccessSpecification_PR_NOTHING | VariableAccessSpecification_PR_listOfVariable |
  VariableAccessSpecification_PR_variableListName

primrec VariableAccessSpecification_PR_code :: "VariableAccessSpecification_PR \<Rightarrow> int" where
  "VariableAccessSpecification_PR_code VariableAccessSpecification_PR_NOTHING = 0"
| "VariableAccessSpecification_PR_code VariableAccessSpecification_PR_listOfVariable = 1"
| "VariableAccessSpecification_PR_code VariableAccessSpecification_PR_variableListName = 2"

record VariableAccessSpecification__listOfVariable =
  VariableAccessSpecification__listOfVariable_list :: A_SET_OF
  VariableAccessSpecification__listOfVariable__asn_ctx :: asn_struct_ctx_t

datatype (plugins only: code size) VariableAccessSpecification_u =
    VariableAccessSpecification_u_listOfVariable VariableAccessSpecification__listOfVariable
  | VariableAccessSpecification_u_variableListName ObjectName_t

record VariableAccessSpecification_t =
  VariableAccessSpecification_t_present :: VariableAccessSpecification_PR
  VariableAccessSpecification_t_choice :: VariableAccessSpecification_u
  VariableAccessSpecification_t__asn_ctx :: asn_struct_ctx_t

datatype (plugins only: code size) VariableSpecification_PR =
  VariableSpecification_PR_NOTHING | VariableSpecification_PR_name |
  VariableSpecification_PR_address | VariableSpecification_PR_variableDescription |
  VariableSpecification_PR_scatteredAccessDescription | VariableSpecification_PR_invalidated

primrec VariableSpecification_PR_code :: "VariableSpecification_PR \<Rightarrow> int" where
  "VariableSpecification_PR_code VariableSpecification_PR_NOTHING = 0"
| "VariableSpecification_PR_code VariableSpecification_PR_name = 1"
| "VariableSpecification_PR_code VariableSpecification_PR_address = 2"
| "VariableSpecification_PR_code VariableSpecification_PR_variableDescription = 3"
| "VariableSpecification_PR_code VariableSpecification_PR_scatteredAccessDescription = 4"
| "VariableSpecification_PR_code VariableSpecification_PR_invalidated = 5"

record VariableSpecification__variableDescription =
  VariableSpecification__variableDescription_address :: Address_t
  VariableSpecification__variableDescription_typeSpecification :: TypeSpecification_t
  VariableSpecification__variableDescription__asn_ctx :: asn_struct_ctx_t

datatype (plugins only: code size) VariableSpecification_u =
    VariableSpecification_u_name ObjectName_t
  | VariableSpecification_u_address Address_t
  | VariableSpecification_u_variableDescription VariableSpecification__variableDescription
  | VariableSpecification_u_scatteredAccessDescription ptr
  | VariableSpecification_u_invalidated NULL_t

record VariableSpecification_t =
  VariableSpecification_t_present :: VariableSpecification_PR
  VariableSpecification_t_choice :: VariableSpecification_u
  VariableSpecification_t__asn_ctx :: asn_struct_ctx_t

record ListOfVariableSeq_t =
  ListOfVariableSeq_t_variableSpecification :: VariableSpecification_t
  ListOfVariableSeq_t_alternateAccess :: ptr
  ListOfVariableSeq_t__asn_ctx :: asn_struct_ctx_t

datatype (plugins only: code size) AccessResult_PR =
  AccessResult_PR_NOTHING | AccessResult_PR_failure | AccessResult_PR_array |
  AccessResult_PR_structure | AccessResult_PR_boolean | AccessResult_PR_bitstring |
  AccessResult_PR_integer | AccessResult_PR_unsigned | AccessResult_PR_floatingpoint |
  AccessResult_PR_octetstring | AccessResult_PR_visiblestring |
  AccessResult_PR_generalizedtime | AccessResult_PR_binarytime | AccessResult_PR_bcd |
  AccessResult_PR_booleanArray | AccessResult_PR_mMSString | AccessResult_PR_utctime

primrec AccessResult_PR_code :: "AccessResult_PR \<Rightarrow> int" where
  "AccessResult_PR_code AccessResult_PR_NOTHING = 0"
| "AccessResult_PR_code AccessResult_PR_failure = 1"
| "AccessResult_PR_code AccessResult_PR_array = 2"
| "AccessResult_PR_code AccessResult_PR_structure = 3"
| "AccessResult_PR_code AccessResult_PR_boolean = 4"
| "AccessResult_PR_code AccessResult_PR_bitstring = 5"
| "AccessResult_PR_code AccessResult_PR_integer = 6"
| "AccessResult_PR_code AccessResult_PR_unsigned = 7"
| "AccessResult_PR_code AccessResult_PR_floatingpoint = 8"
| "AccessResult_PR_code AccessResult_PR_octetstring = 9"
| "AccessResult_PR_code AccessResult_PR_visiblestring = 10"
| "AccessResult_PR_code AccessResult_PR_generalizedtime = 11"
| "AccessResult_PR_code AccessResult_PR_binarytime = 12"
| "AccessResult_PR_code AccessResult_PR_bcd = 13"
| "AccessResult_PR_code AccessResult_PR_booleanArray = 14"
| "AccessResult_PR_code AccessResult_PR_mMSString = 15"
| "AccessResult_PR_code AccessResult_PR_utctime = 16"

datatype (plugins only: code size) AccessResult_u =
    AccessResult_u_failure DataAccessError_t
  | AccessResult_u_array DataSequence_t
  | AccessResult_u_structure DataSequence_t
  | AccessResult_u_boolean BOOLEAN_t
  | AccessResult_u_bitstring BIT_STRING_t
  | AccessResult_u_integer INTEGER_t
  | AccessResult_u_Unsigned INTEGER_t
  | AccessResult_u_floatingpoint FloatingPoint_t
  | AccessResult_u_octetstring OCTET_STRING_t
  | AccessResult_u_visiblestring VisibleString_t
  | AccessResult_u_generalizedtime GeneralizedTime_t
  | AccessResult_u_binarytime TimeOfDay_t
  | AccessResult_u_bcd INTEGER_t
  | AccessResult_u_booleanArray BIT_STRING_t
  | AccessResult_u_mMSString MMSString_t
  | AccessResult_u_utctime UtcTime_t

record AccessResult_t =
  AccessResult_t_present :: AccessResult_PR
  AccessResult_t_choice :: AccessResult_u
  AccessResult_t__asn_ctx :: asn_struct_ctx_t

end
