(* ===== verification/Asn_Services.thy ===== *)
theory Asn_Services
  imports Asn_Variables
begin

text \<open>
  Requests and responses of the confirmed services the library uses: name lists, variable
  attributes, named variable lists, reading and writing.
\<close>

type_synonym DefineNamedVariableListResponse_t = NULL_t

type_synonym GetNamedVariableListAttributesRequest_t = ObjectName_t

record DefineNamedVariableListRequest__listOfVariable__Member =
  DefineNamedVariableListRequest__listOfVariable__Member_variableSpecification :: VariableSpecification_t
  DefineNamedVariableListRequest__listOfVariable__Member_alternateAccess :: ptr
  DefineNamedVariableListRequest__listOfVariable__Member__asn_ctx :: asn_struct_ctx_t

record DefineNamedVariableListRequest__listOfVariable =
  DefineNamedVariableListRequest__listOfVariable_list :: A_SET_OF
  DefineNamedVariableListRequest__listOfVariable__asn_ctx :: asn_struct_ctx_t

record DefineNamedVariableListRequest_t =
  DefineNamedVariableListRequest_t_variableListName :: ObjectName_t
  DefineNamedVariableListRequest_t_listOfVariable :: DefineNamedVariableListRequest__listOfVariable
  DefineNamedVariableListRequest_t__asn_ctx :: asn_struct_ctx_t

datatype (plugins only: code size) e_DeleteNamedVariableListRequest__scopeOfDelete =
  DeleteNamedVariableListRequest__scopeOfDelete_specific |
  DeleteNamedVariableListRequest__scopeOfDelete_aaspecific |
  DeleteNamedVariableListRequest__scopeOfDelete_domain |
  DeleteNamedVariableListRequest__scopeOfDelete_vmd

primrec e_DeleteNamedVariableListRequest__scopeOfDelete_code :: "e_DeleteNamedVariableListRequest__scopeOfDelete \<Rightarrow> int" where
  "e_DeleteNamedVariableListRequest__scopeOfDelete_code DeleteNamedVariableListRequest__scopeOfDelete_specific = 0"
| "e_DeleteNamedVariableListRequest__scopeOfDelete_code DeleteNamedVariableListRequest__scopeOfDelete_aaspecific = 1"
| "e_DeleteNamedVariableListRequest__scopeOfDelete_code DeleteNamedVariableListRequest__scopeOfDelete_domain = 2"
| "e_DeleteNamedVariableListRequest__scopeOfDelete_code DeleteNamedVariableListRequest__scopeOfDelete_vmd = 3"

record DeleteNamedVariableListRequest__listOfVariableListName =
  DeleteNamedVariableListRequest__listOfVariableListName_list :: A_SET_OF
  DeleteNamedVariableListRequest__listOfVariableListName__asn_ctx :: asn_struct_ctx_t

record DeleteNamedVariableListRequest_t =
  DeleteNamedVariableListRequest_t_scopeOfDelete :: ptr
  DeleteNamedVariableListRequest_t_listOfVariableListName :: ptr
  DeleteNamedVariableListRequest_t_domainName :: ptr
  DeleteNamedVariableListRequest_t__asn_ctx :: asn_struct_ctx_t

record DeleteNamedVariableListResponse_t =
  DeleteNamedVariableListResponse_t_numberMatched :: Unsigned32_t
  DeleteNamedVariableListResponse_t_numberDeleted :: Unsigned32_t
  DeleteNamedVariableListResponse_t__asn_ctx :: asn_struct_ctx_t

datatype (plugins only: code size) GetNameListRequest__objectScope_PR =
  GetNameListRequest__objectScope_PR_NOTHING | GetNameListRequest__objectScope_PR_vmdSpecific |
  GetNameListRequest__objectScope_PR_domainSpecific |
  GetNameListRequest__objectScope_PR_aaSpecific

primrec GetNameListRequest__objectScope_PR_code :: "GetNameListRequest__objectScope_PR \<Rightarrow> int" where
  "GetNameListRequest__objectScope_PR_code GetNameListRequest__objectScope_PR_NOTHING = 0"
| "GetNameListRequest__objectScope_PR_code GetNameListRequest__objectScope_PR_vmdSpecific = 1"
| "GetNameListRequest__objectScope_PR_code GetNameListRequest__objectScope_PR_domainSpecific = 2"
| "GetNameListRequest__objectScope_PR_code GetNameListRequest__objectScope_PR_aaSpecific = 3"

datatype (plugins only: code size) GetNameListRequest__objectScope_u =
    GetNameListRequest__objectScope_u_vmdSpecific NULL_t
  | GetNameListRequest__objectScope_u_domainSpecific Identifier_t
  | GetNameListRequest__objectScope_u_aaSpecific NULL_t

record GetNameListRequest__objectScope =
  GetNameListRequest__objectScope_present :: GetNameListRequest__objectScope_PR
  GetNameListRequest__objectScope_choice :: GetNameListRequest__objectScope_u
  GetNameListRequest__objectScope__asn_ctx :: asn_struct_ctx_t

record GetNameListRequest_t =
  GetNameListRequest_t_objectClass :: ObjectClass_t
  GetNameListRequest_t_objectScope :: GetNameListRequest__objectScope
  GetNameListRequest_t_continueAfter :: ptr
  GetNameListRequest_t__asn_ctx :: asn_struct_ctx_t

record GetNameListResponse__listOfIdentifier =
  GetNameListResponse__listOfIdentifier_list :: A_SET_OF
  GetNameListResponse__listOfIdentifier__asn_ctx :: asn_struct_ctx_t

record GetNameListResponse_t =
  GetNameListResponse_t_listOfIdentifier :: GetNameListResponse__listOfIdentifier
  GetNameListResponse_t_moreFollows :: ptr
  GetNameListResponse_t__asn_ctx :: asn_struct_ctx_t

record GetNamedVariableListAttributesResponse__listOfVariable__Member =
  GetNamedVariableListAttributesResponse__listOfVariable__Member_variableSpecification :: VariableSpecification_t
  GetNamedVariableListAttributesResponse__listOfVariable__Member_alternateAccess :: ptr
  GetNamedVariableListAttributesResponse__listOfVariable__Member__asn_ctx :: asn_struct_ctx_t

record GetNamedVariableListAttributesResponse__listOfVariable =
  GetNamedVariableListAttributesResponse__listOfVariable_list :: A_SET_OF
  GetNamedVariableListAttributesResponse__listOfVariable__asn_ctx :: asn_struct_ctx_t

record GetNamedVariableListAttributesResponse_t =
  GetNamedVariableListAttributesResponse_t_mmsDeletable :: BOOLEAN_t
  GetNamedVariableListAttributesResponse_t_listOfVariable :: GetNamedVariableListAttributesResponse__listOfVariable
  GetNamedVariableListAttributesResponse_t__asn_ctx :: asn_struct_ctx_t

datatype (plugins only: code size) GetVariableAccessAttributesRequest_PR =
  GetVariableAccessAttributesRequest_PR_NOTHING | GetVariableAccessAttributesRequest_PR_name |
  GetVariableAccessAttributesRequest_PR_address

primrec GetVariableAccessAttributesRequest_PR_code :: "GetVariableAccessAttributesRequest_PR \<Rightarrow> int" where
  "GetVariableAccessAttributesRequest_PR_code GetVariableAccessAttributesRequest_PR_NOTHING = 0"
| "GetVariableAccessAttributesRequest_PR_code GetVariableAccessAttributesRequest_PR_name = 1"
| "GetVariableAccessAttributesRequest_PR_code GetVariableAccessAttributesRequest_PR_address = 2"

datatype (plugins only: code size) GetVariableAccessAttributesRequest_u =
    GetVariableAccessAttributesRequest_u_name ObjectName_t
  | GetVariableAccessAttributesRequest_u_address Address_t

record GetVariableAccessAttributesRequest_t =
  GetVariableAccessAttributesRequest_t_present :: GetVariableAccessAttributesRequest_PR
  GetVariableAccessAttributesRequest_t_choice :: GetVariableAccessAttributesRequest_u
  GetVariableAccessAttributesRequest_t__asn_ctx :: asn_struct_ctx_t

record GetVariableAccessAttributesResponse_t =
  GetVariableAccessAttributesResponse_t_mmsDeletable :: BOOLEAN_t
  GetVariableAccessAttributesResponse_t_address :: ptr
  GetVariableAccessAttributesResponse_t_typeSpecification :: TypeSpecification_t
  GetVariableAccessAttributesResponse_t__asn_ctx :: asn_struct_ctx_t

record ReadRequest_t =
  ReadRequest_t_specificationWithResult :: ptr
  ReadRequest_t_variableAccessSpecification :: VariableAccessSpecification_t
  ReadRequest_t__asn_ctx :: asn_struct_ctx_t

record ReadResponse__listOfAccessResult =
  ReadResponse__listOfAccessResult_list :: A_SET_OF
  ReadResponse__listOfAccessResult__asn_ctx :: asn_struct_ctx_t

record ReadResponse_t =
  ReadResponse_t_variableAccessSpecification :: ptr
  ReadResponse_t_listOfAccessResult :: ReadResponse__listOfAccessResult
  ReadResponse_t__asn_ctx :: asn_struct_ctx_t

record WriteRequest__listOfData =
  WriteRequest__listOfData_list :: A_SET_OF
  WriteRequest__listOfData__asn_ctx :: asn_struct_ctx_t

record WriteRequest_t =
  WriteRequest_t_variableAccessSpecification :: VariableAccessSpecification_t
  WriteRequest_t_listOfData :: WriteRequest__listOfData
  WriteRequest_t__asn_ctx :: asn_struct_ctx_t

datatype (plugins only: code size) WriteResponse__Member_PR =
  WriteResponse__Member_PR_NOTHING | WriteResponse__Member_PR_failure |
  WriteResponse__Member_PR_success

primrec WriteResponse__Member_PR_code :: "WriteResponse__Member_PR \<Rightarrow> int" where
  "WriteResponse__Member_PR_code WriteResponse__Member_PR_NOTHING = 0"
| "WriteResponse__Member_PR_code WriteResponse__Member_PR_failure = 1"
| "WriteResponse__Member_PR_code WriteResponse__Member_PR_success = 2"

datatype (plugins only: code size) WriteResponse__Member_u =
    WriteResponse__Member_u_failure DataAccessError_t
  | WriteResponse__Member_u_success NULL_t

record WriteResponse__Member =
  WriteResponse__Member_present :: WriteResponse__Member_PR
  WriteResponse__Member_choice :: WriteResponse__Member_u
  WriteResponse__Member__asn_ctx :: asn_struct_ctx_t

record WriteResponse_t =
  WriteResponse_t_list :: A_SET_OF
  WriteResponse_t__asn_ctx :: asn_struct_ctx_t

end
