(* ===== verification/Asn_Pdus.thy ===== *)
theory Asn_Pdus
  imports Asn_Services
begin

text \<open>
  The choices over the services, the protocol data units around them, and the MMS data unit.
\<close>

datatype (plugins only: code size) ConfirmedServiceRequest_PR =
  ConfirmedServiceRequest_PR_NOTHING | ConfirmedServiceRequest_PR_getNameList |
  ConfirmedServiceRequest_PR_read | ConfirmedServiceRequest_PR_write |
  ConfirmedServiceRequest_PR_getVariableAccessAttributes |
  ConfirmedServiceRequest_PR_defineNamedVariableList |
  ConfirmedServiceRequest_PR_getNamedVariableListAttributes |
  ConfirmedServiceRequest_PR_deleteNamedVariableList

primrec ConfirmedServiceRequest_PR_code :: "ConfirmedServiceRequest_PR \<Rightarrow> int" where
  "ConfirmedServiceRequest_PR_code ConfirmedServiceRequest_PR_NOTHING = 0"
| "ConfirmedServiceRequest_PR_code ConfirmedServiceRequest_PR_getNameList = 1"
| "ConfirmedServiceRequest_PR_code ConfirmedServiceRequest_PR_read = 2"
| "ConfirmedServiceRequest_PR_code ConfirmedServiceRequest_PR_write = 3"
| "ConfirmedServiceRequest_PR_code ConfirmedServiceRequest_PR_getVariableAccessAttributes = 4"
| "ConfirmedServiceRequest_PR_code ConfirmedServiceRequest_PR_defineNamedVariableList = 5"
| "ConfirmedServiceRequest_PR_code ConfirmedServiceRequest_PR_getNamedVariableListAttributes = 6"
| "ConfirmedServiceRequest_PR_code ConfirmedServiceRequest_PR_deleteNamedVariableList = 7"

datatype (plugins only: code size) ConfirmedServiceRequest_u =
    ConfirmedServiceRequest_u_getNameList GetNameListRequest_t
  | ConfirmedServiceRequest_u_read ReadRequest_t
  | ConfirmedServiceRequest_u_write WriteRequest_t
  | ConfirmedServiceRequest_u_getVariableAccessAttributes GetVariableAccessAttributesRequest_t
  | ConfirmedServiceRequest_u_defineNamedVariableList DefineNamedVariableListRequest_t
  | ConfirmedServiceRequest_u_getNamedVariableListAttributes GetNamedVariableListAttributesRequest_t
  | ConfirmedServiceRequest_u_deleteNamedVariableList DeleteNamedVariableListRequest_t

record ConfirmedServiceRequest_t =
  ConfirmedServiceRequest_t_present :: ConfirmedServiceRequest_PR
  ConfirmedServiceRequest_t_choice :: ConfirmedServiceRequest_u
  ConfirmedServiceRequest_t__asn_ctx :: asn_struct_ctx_t

record ConfirmedRequestPdu_t =
  ConfirmedRequestPdu_t_invokeID :: Unsigned32_t
  ConfirmedRequestPdu_t_confirmedServiceRequest :: ConfirmedServiceRequest_t
  ConfirmedRequestPdu_t__asn_ctx :: asn_struct_ctx_t

datatype (plugins only: code size) ConfirmedServiceResponse_PR =
  ConfirmedServiceResponse_PR_NOTHING | ConfirmedServiceResponse_PR_getNameList |
  ConfirmedServiceResponse_PR_read | ConfirmedServiceResponse_PR_write |
  ConfirmedServiceResponse_PR_getVariableAccessAttributes |
  ConfirmedServiceResponse_PR_defineNamedVariableList |
  ConfirmedServiceResponse_PR_getNamedVariableListAttributes |
  ConfirmedServiceResponse_PR_deleteNamedVariableList

primrec ConfirmedServiceResponse_PR_code :: "ConfirmedServiceResponse_PR \<Rightarrow> int" where
  "ConfirmedServiceResponse_PR_code ConfirmedServiceResponse_PR_NOTHING = 0"
| "ConfirmedServiceResponse_PR_code ConfirmedServiceResponse_PR_getNameList = 1"
| "ConfirmedServiceResponse_PR_code ConfirmedServiceResponse_PR_read = 2"
| "ConfirmedServiceResponse_PR_code ConfirmedServiceResponse_PR_write = 3"
| "ConfirmedServiceResponse_PR_code ConfirmedServiceResponse_PR_getVariableAccessAttributes = 4"
| "ConfirmedServiceResponse_PR_code ConfirmedServiceResponse_PR_defineNamedVariableList = 5"
| "ConfirmedServiceResponse_PR_code ConfirmedServiceResponse_PR_getNamedVariableListAttributes = 6"
| "ConfirmedServiceResponse_PR_code ConfirmedServiceResponse_PR_deleteNamedVariableList = 7"

datatype (plugins only: code size) ConfirmedServiceResponse_u =
    ConfirmedServiceResponse_u_getNameList GetNameListResponse_t
  | ConfirmedServiceResponse_u_read ReadResponse_t
  | ConfirmedServiceResponse_u_write WriteResponse_t
  | ConfirmedServiceResponse_u_getVariableAccessAttributes GetVariableAccessAttributesResponse_t
  | ConfirmedServiceResponse_u_defineNamedVariableList DefineNamedVariableListResponse_t
  | ConfirmedServiceResponse_u_getNamedVariableListAttributes GetNamedVariableListAttributesResponse_t
  | ConfirmedServiceResponse_u_deleteNamedVariableList DeleteNamedVariableListResponse_t

record ConfirmedServiceResponse_t =
  ConfirmedServiceResponse_t_present :: ConfirmedServiceResponse_PR
  ConfirmedServiceResponse_t_choice :: ConfirmedServiceResponse_u
  ConfirmedServiceResponse_t__asn_ctx :: asn_struct_ctx_t

record ConfirmedResponsePdu_t =
  ConfirmedResponsePdu_t_invokeID :: Unsigned32_t
  ConfirmedResponsePdu_t_confirmedServiceResponse :: ConfirmedServiceResponse_t
  ConfirmedResponsePdu_t__asn_ctx :: asn_struct_ctx_t

datatype (plugins only: code size) MmsPdu_PR =
  MmsPdu_PR_NOTHING | MmsPdu_PR_confirmedRequestPdu | MmsPdu_PR_confirmedResponsePdu |
  MmsPdu_PR_confirmedErrorPDU | MmsPdu_PR_unconfirmedPDU | MmsPdu_PR_rejectPDU |
  MmsPdu_PR_initiateRequestPdu | MmsPdu_PR_initiateResponsePdu | MmsPdu_PR_initiateErrorPdu |
  MmsPdu_PR_concludeRequestPDU | MmsPdu_PR_concludeResponsePDU

primrec MmsPdu_PR_code :: "MmsPdu_PR \<Rightarrow> int" where
  "MmsPdu_PR_code MmsPdu_PR_NOTHING = 0"
| "MmsPdu_PR_code MmsPdu_PR_confirmedRequestPdu = 1"
| "MmsPdu_PR_code MmsPdu_PR_confirmedResponsePdu = 2"
| "MmsPdu_PR_code MmsPdu_PR_confirmedErrorPDU = 3"
| "MmsPdu_PR_code MmsPdu_PR_unconfirmedPDU = 4"
| "MmsPdu_PR_code MmsPdu_PR_rejectPDU = 5"
| "MmsPdu_PR_code MmsPdu_PR_initiateRequestPdu = 6"
| "MmsPdu_PR_code MmsPdu_PR_initiateResponsePdu = 7"
| "MmsPdu_PR_code MmsPdu_PR_initiateErrorPdu = 8"
| "MmsPdu_PR_code MmsPdu_PR_concludeRequestPDU = 9"
| "MmsPdu_PR_code MmsPdu_PR_concludeResponsePDU = 10"

datatype (plugins only: code size) UnconfirmedService_PR =
  UnconfirmedService_PR_NOTHING | UnconfirmedService_PR_informationReport

primrec UnconfirmedService_PR_code :: "UnconfirmedService_PR \<Rightarrow> int" where
  "UnconfirmedService_PR_code UnconfirmedService_PR_NOTHING = 0"
| "UnconfirmedService_PR_code UnconfirmedService_PR_informationReport = 1"

record InformationReport__listOfAccessResult =
  InformationReport__listOfAccessResult_list :: A_SET_OF
  InformationReport__listOfAccessResult__asn_ctx :: asn_struct_ctx_t

record InformationReport_t =
  InformationReport_t_variableAccessSpecification :: VariableAccessSpecification_t
  InformationReport_t_listOfAccessResult :: InformationReport__listOfAccessResult
  InformationReport_t__asn_ctx :: asn_struct_ctx_t

datatype (plugins only: code size) UnconfirmedService_u =
    UnconfirmedService_u_informationReport InformationReport_t

record UnconfirmedService_t =
  UnconfirmedService_t_present :: UnconfirmedService_PR
  UnconfirmedService_t_choice :: UnconfirmedService_u
  UnconfirmedService_t__asn_ctx :: asn_struct_ctx_t

record UnconfirmedPDU_t =
  UnconfirmedPDU_t_unconfirmedService :: UnconfirmedService_t
  UnconfirmedPDU_t__asn_ctx :: asn_struct_ctx_t

datatype (plugins only: code size) MmsPdu_u =
    MmsPdu_u_confirmedRequestPdu ConfirmedRequestPdu_t
  | MmsPdu_u_confirmedResponsePdu ConfirmedResponsePdu_t
  | MmsPdu_u_confirmedErrorPDU ConfirmedErrorPDU_t
  | MmsPdu_u_unconfirmedPDU UnconfirmedPDU_t
  | MmsPdu_u_rejectPDU RejectPDU_t
  | MmsPdu_u_initiateRequestPdu InitiateRequestPdu_t
  | MmsPdu_u_initiateResponsePdu InitiateResponsePdu_t
  | MmsPdu_u_initiateErrorPdu InitiateErrorPdu_t
  | MmsPdu_u_concludeRequestPDU ConcludeRequestPDU_t
  | MmsPdu_u_concludeResponsePDU ConcludeResponsePDU_t

record MmsPdu_t =
  MmsPdu_t_present :: MmsPdu_PR
  MmsPdu_t_choice :: MmsPdu_u
  MmsPdu_t__asn_ctx :: asn_struct_ctx_t

end
