(* ===== verification/Cdc_Options.thy ===== *)
theory Cdc_Options
  imports Iec_Prelude
begin

text \<open>
  The options of the common data classes (\<open>iec61850_cdc.h\<close>).
\<close>

definition CDC_OPTION_PICS_SUBST :: int where "CDC_OPTION_PICS_SUBST = 1"

definition CDC_OPTION_BLK_ENA :: int where "CDC_OPTION_BLK_ENA = 2"

definition CDC_OPTION_DESC :: int where "CDC_OPTION_DESC = 4"

definition CDC_OPTION_DESC_UNICODE :: int where "CDC_OPTION_DESC_UNICODE = 8"

definition CDC_OPTION_AC_DLNDA :: int where "CDC_OPTION_AC_DLNDA = 16"

definition CDC_OPTION_AC_DLN :: int where "CDC_OPTION_AC_DLN = 32"

definition CDC_OPTION_UNIT :: int where "CDC_OPTION_UNIT = 64"

definition CDC_OPTION_FROZEN_VALUE :: int where "CDC_OPTION_FROZEN_VALUE = 128"

definition CDC_OPTION_ADDR :: int where "CDC_OPTION_ADDR = 256"

definition CDC_OPTION_ADDINFO :: int where "CDC_OPTION_ADDINFO = 512"

definition CDC_OPTION_INST_MAG :: int where "CDC_OPTION_INST_MAG = 1024"

definition CDC_OPTION_RANGE :: int where "CDC_OPTION_RANGE = 2048"

definition CDC_OPTION_UNIT_MULTIPLIER :: int where "CDC_OPTION_UNIT_MULTIPLIER = 4096"

definition CDC_OPTION_AC_SCAV :: int where "CDC_OPTION_AC_SCAV = 8192"

definition CDC_OPTION_MIN :: int where "CDC_OPTION_MIN = 16384"

definition CDC_OPTION_MAX :: int where "CDC_OPTION_MAX = 32768"

definition CDC_OPTION_AC_CLC_O :: int where "CDC_OPTION_AC_CLC_O = 65536"

definition CDC_OPTION_RANGE_ANG :: int where "CDC_OPTION_RANGE_ANG = 131072"

definition CDC_OPTION_PHASE_A :: int where "CDC_OPTION_PHASE_A = 262144"

definition CDC_OPTION_PHASE_B :: int where "CDC_OPTION_PHASE_B = 524288"

definition CDC_OPTION_PHASE_C :: int where "CDC_OPTION_PHASE_C = 1048576"

definition CDC_OPTION_PHASE_NEUT :: int where "CDC_OPTION_PHASE_NEUT = 2097152"

definition CDC_OPTION_PHASES_ABC :: int where "CDC_OPTION_PHASES_ABC = 1835008"

definition CDC_OPTION_PHASES_ALL :: int where "CDC_OPTION_PHASES_ALL = 3932160"

definition CDC_OPTION_STEP_SIZE :: int where "CDC_OPTION_STEP_SIZE = 4194304"

definition CDC_OPTION_ANGLE_REF :: int where "CDC_OPTION_ANGLE_REF = 8388608"

definition CDC_OPTION_DPL_HWREV :: int where "CDC_OPTION_DPL_HWREV = 131072"

definition CDC_OPTION_DPL_SWREV :: int where "CDC_OPTION_DPL_SWREV = 262144"

definition CDC_OPTION_DPL_SERNUM :: int where "CDC_OPTION_DPL_SERNUM = 524288"

definition CDC_OPTION_DPL_MODEL :: int where "CDC_OPTION_DPL_MODEL = 1048576"

definition CDC_OPTION_DPL_LOCATION :: int where "CDC_OPTION_DPL_LOCATION = 2097152"

definition CDC_OPTION_AC_LN0_M :: int where "CDC_OPTION_AC_LN0_M = 16777216"

definition CDC_OPTION_AC_LN0_EX :: int where "CDC_OPTION_AC_LN0_EX = 33554432"

definition CDC_OPTION_AC_DLD_M :: int where "CDC_OPTION_AC_DLD_M = 67108864"

definition CDC_CTL_MODEL_NONE :: int where "CDC_CTL_MODEL_NONE = 0"

definition CDC_CTL_MODEL_DIRECT_NORMAL :: int where "CDC_CTL_MODEL_DIRECT_NORMAL = 1"

definition CDC_CTL_MODEL_SBO_NORMAL :: int where "CDC_CTL_MODEL_SBO_NORMAL = 2"

definition CDC_CTL_MODEL_DIRECT_ENHANCED :: int where "CDC_CTL_MODEL_DIRECT_ENHANCED = 3"

definition CDC_CTL_MODEL_SBO_ENHANCED :: int where "CDC_CTL_MODEL_SBO_ENHANCED = 4"

definition CDC_CTL_MODEL_HAS_CANCEL :: int where "CDC_CTL_MODEL_HAS_CANCEL = 16"

definition CDC_CTL_MODEL_IS_TIME_ACTIVATED :: int where "CDC_CTL_MODEL_IS_TIME_ACTIVATED = 32"

definition CDC_CTL_OPTION_ORIGIN :: int where "CDC_CTL_OPTION_ORIGIN = 64"

definition CDC_CTL_OPTION_CTL_NUM :: int where "CDC_CTL_OPTION_CTL_NUM = 128"

definition CDC_CTL_OPTION_ST_SELD :: int where "CDC_CTL_OPTION_ST_SELD = 256"

definition CDC_CTL_OPTION_OP_RCVD :: int where "CDC_CTL_OPTION_OP_RCVD = 512"

definition CDC_CTL_OPTION_OP_OK :: int where "CDC_CTL_OPTION_OP_OK = 1024"

definition CDC_CTL_OPTION_T_OP_OK :: int where "CDC_CTL_OPTION_T_OP_OK = 2048"

definition CDC_CTL_OPTION_SBO_TIMEOUT :: int where "CDC_CTL_OPTION_SBO_TIMEOUT = 4096"

definition CDC_CTL_OPTION_SBO_CLASS :: int where "CDC_CTL_OPTION_SBO_CLASS = 8192"

definition CDC_CTL_OPTION_OPER_TIMEOUT :: int where "CDC_CTL_OPTION_OPER_TIMEOUT = 16384"

definition CDC_OPTION_61400_MIN_MX_VAL :: int where "CDC_OPTION_61400_MIN_MX_VAL = 1024"

definition CDC_OPTION_61400_MAX_MX_VAL :: int where "CDC_OPTION_61400_MAX_MX_VAL = 2048"

definition CDC_OPTION_61400_TOT_AV_VAL :: int where "CDC_OPTION_61400_TOT_AV_VAL = 4096"

definition CDC_OPTION_61400_SDV_VAL :: int where "CDC_OPTION_61400_SDV_VAL = 8192"

definition CDC_OPTION_61400_INC_RATE :: int where "CDC_OPTION_61400_INC_RATE = 16384"

definition CDC_OPTION_61400_DEC_RATE :: int where "CDC_OPTION_61400_DEC_RATE = 32768"

definition CDC_OPTION_61400_SP_ACS :: int where "CDC_OPTION_61400_SP_ACS = 65536"

definition CDC_OPTION_61400_CHA_PER_RS :: int where "CDC_OPTION_61400_CHA_PER_RS = 131072"

definition CDC_OPTION_61400_CM_ACS :: int where "CDC_OPTION_61400_CM_ACS = 262144"

definition CDC_OPTION_61400_TM_TOT :: int where "CDC_OPTION_61400_TM_TOT = 524288"

definition CDC_OPTION_61400_COUNTING_DAILY :: int where "CDC_OPTION_61400_COUNTING_DAILY = 1048576"

definition CDC_OPTION_61400_COUNTING_MONTHLY :: int where "CDC_OPTION_61400_COUNTING_MONTHLY = 2097152"

definition CDC_OPTION_61400_COUNTING_YEARLY :: int where "CDC_OPTION_61400_COUNTING_YEARLY = 4194304"

definition CDC_OPTION_61400_COUNTING_TOTAL :: int where "CDC_OPTION_61400_COUNTING_TOTAL = 8388608"

definition CDC_OPTION_61400_COUNTING_ALL :: int where "CDC_OPTION_61400_COUNTING_ALL = 15728640"

end
