(* ===== verification/Common_Types.thy ===== *)
theory Common_Types
  imports Iec_Prelude
begin

text \<open>
  The declarations of \<open>inc/iec61850/inc/iec61850_common.h\<close>: editions, ACSI classes,
  control models and their error codes, trigger options, report options, originator
  categories, functional constraints, quality flags and double-point positions. An
  enumeration is a datatype with its C values (\<open>_code\<close>), the list of its enumerators
  (\<open>_all\<close>) and its partial inverse (\<open>_decode\<close>), interpreted as a \<open>c_enum\<close>; a
  \<open>#define\<close> of a number is a definition of the same name.
\<close>

section \<open>Editions\<close>

definition IEC_61850_EDITION_1 :: int where "IEC_61850_EDITION_1 = 0"

definition IEC_61850_EDITION_2 :: int where "IEC_61850_EDITION_2 = 1"

definition IEC_61850_EDITION_2_1 :: int where "IEC_61850_EDITION_2_1 = 2"

section \<open>Physical communication address\<close>

text \<open>\<open>dstAddress\<close> is an array of six octets.\<close>

record PhyComAddress =
  vlanPriority :: uint8
  vlanId :: uint16
  appId :: uint16
  dstAddress :: "uint8 list"

definition PhyComAddress_wf :: "PhyComAddress \<Rightarrow> bool" where
  "PhyComAddress_wf a \<longleftrightarrow> length (dstAddress a) = 6"

section \<open>ACSI classes and control models\<close>

datatype (plugins only: code size) ACSIClass =
  ACSI_CLASS_DATA_OBJECT | ACSI_CLASS_DATA_SET | ACSI_CLASS_BRCB | ACSI_CLASS_URCB |
  ACSI_CLASS_LCB | ACSI_CLASS_LOG | ACSI_CLASS_SGCB | ACSI_CLASS_GoCB | ACSI_CLASS_GsCB |
  ACSI_CLASS_MSVCB | ACSI_CLASS_USVCB

primrec ACSIClass_code :: "ACSIClass \<Rightarrow> int" where
  "ACSIClass_code ACSI_CLASS_DATA_OBJECT = 0"
| "ACSIClass_code ACSI_CLASS_DATA_SET = 1"
| "ACSIClass_code ACSI_CLASS_BRCB = 2"
| "ACSIClass_code ACSI_CLASS_URCB = 3"
| "ACSIClass_code ACSI_CLASS_LCB = 4"
| "ACSIClass_code ACSI_CLASS_LOG = 5"
| "ACSIClass_code ACSI_CLASS_SGCB = 6"
| "ACSIClass_code ACSI_CLASS_GoCB = 7"
| "ACSIClass_code ACSI_CLASS_GsCB = 8"
| "ACSIClass_code ACSI_CLASS_MSVCB = 9"
| "ACSIClass_code ACSI_CLASS_USVCB = 10"

definition ACSIClass_all :: "ACSIClass list" where
  "ACSIClass_all = [
    ACSI_CLASS_DATA_OBJECT, ACSI_CLASS_DATA_SET, ACSI_CLASS_BRCB, ACSI_CLASS_URCB,
    ACSI_CLASS_LCB, ACSI_CLASS_LOG, ACSI_CLASS_SGCB, ACSI_CLASS_GoCB, ACSI_CLASS_GsCB,
    ACSI_CLASS_MSVCB, ACSI_CLASS_USVCB]"

definition ACSIClass_decode :: "int \<Rightarrow> ACSIClass option" where
  "ACSIClass_decode = find_code ACSIClass_code ACSIClass_all"

lemma ACSIClass_all_complete [enum_simps]: "e \<in> set ACSIClass_all"
  by (cases e) (simp_all add: ACSIClass_all_def)

interpretation ACSIClass: c_enum ACSIClass_code ACSIClass_decode
  unfolding ACSIClass_decode_def
  by (rule c_enum_find_code [OF _ ACSIClass_all_complete]) (simp add: ACSIClass_all_def)

datatype (plugins only: code size) ControlModel =
  CONTROL_MODEL_STATUS_ONLY | CONTROL_MODEL_DIRECT_NORMAL | CONTROL_MODEL_SBO_NORMAL |
  CONTROL_MODEL_DIRECT_ENHANCED | CONTROL_MODEL_SBO_ENHANCED

primrec ControlModel_code :: "ControlModel \<Rightarrow> int" where
  "ControlModel_code CONTROL_MODEL_STATUS_ONLY = 0"
| "ControlModel_code CONTROL_MODEL_DIRECT_NORMAL = 1"
| "ControlModel_code CONTROL_MODEL_SBO_NORMAL = 2"
| "ControlModel_code CONTROL_MODEL_DIRECT_ENHANCED = 3"
| "ControlModel_code CONTROL_MODEL_SBO_ENHANCED = 4"

definition ControlModel_all :: "ControlModel list" where
  "ControlModel_all = [
    CONTROL_MODEL_STATUS_ONLY, CONTROL_MODEL_DIRECT_NORMAL, CONTROL_MODEL_SBO_NORMAL,
    CONTROL_MODEL_DIRECT_ENHANCED, CONTROL_MODEL_SBO_ENHANCED]"

definition ControlModel_decode :: "int \<Rightarrow> ControlModel option" where
  "ControlModel_decode = find_code ControlModel_code ControlModel_all"

lemma ControlModel_all_complete [enum_simps]: "e \<in> set ControlModel_all"
  by (cases e) (simp_all add: ControlModel_all_def)

interpretation ControlModel: c_enum ControlModel_code ControlModel_decode
  unfolding ControlModel_decode_def
  by (rule c_enum_find_code [OF _ ControlModel_all_complete]) (simp add: ControlModel_all_def)

section \<open>Trigger options\<close>

definition TRG_OPT_DATA_CHANGED :: int where "TRG_OPT_DATA_CHANGED = 1"

definition TRG_OPT_QUALITY_CHANGED :: int where "TRG_OPT_QUALITY_CHANGED = 2"

definition TRG_OPT_DATA_UPDATE :: int where "TRG_OPT_DATA_UPDATE = 4"

definition TRG_OPT_INTEGRITY :: int where "TRG_OPT_INTEGRITY = 8"

definition TRG_OPT_GI :: int where "TRG_OPT_GI = 16"

definition TRG_OPT_TRANSIENT :: int where "TRG_OPT_TRANSIENT = 128"

section \<open>Report options\<close>

definition RPT_OPT_SEQ_NUM :: int where "RPT_OPT_SEQ_NUM = 1"

definition RPT_OPT_TIME_STAMP :: int where "RPT_OPT_TIME_STAMP = 2"

definition RPT_OPT_REASON_FOR_INCLUSION :: int where "RPT_OPT_REASON_FOR_INCLUSION = 4"

definition RPT_OPT_DATA_SET :: int where "RPT_OPT_DATA_SET = 8"

definition RPT_OPT_DATA_REFERENCE :: int where "RPT_OPT_DATA_REFERENCE = 16"

definition RPT_OPT_BUFFER_OVERFLOW :: int where "RPT_OPT_BUFFER_OVERFLOW = 32"

definition RPT_OPT_ENTRY_ID :: int where "RPT_OPT_ENTRY_ID = 64"

definition RPT_OPT_CONF_REV :: int where "RPT_OPT_CONF_REV = 128"

section \<open>Originator categories\<close>

definition CONTROL_ORCAT_NOT_SUPPORTED :: int where "CONTROL_ORCAT_NOT_SUPPORTED = 0"

definition CONTROL_ORCAT_BAY_CONTROL :: int where "CONTROL_ORCAT_BAY_CONTROL = 1"

definition CONTROL_ORCAT_STATION_CONTROL :: int where "CONTROL_ORCAT_STATION_CONTROL = 2"

definition CONTROL_ORCAT_REMOTE_CONTROL :: int where "CONTROL_ORCAT_REMOTE_CONTROL = 3"

definition CONTROL_ORCAT_AUTOMATIC_BAY :: int where "CONTROL_ORCAT_AUTOMATIC_BAY = 4"

definition CONTROL_ORCAT_AUTOMATIC_STATION :: int where "CONTROL_ORCAT_AUTOMATIC_STATION = 5"

definition CONTROL_ORCAT_AUTOMATIC_REMOTE :: int where "CONTROL_ORCAT_AUTOMATIC_REMOTE = 6"

definition CONTROL_ORCAT_MAINTENANCE :: int where "CONTROL_ORCAT_MAINTENANCE = 7"

definition CONTROL_ORCAT_PROCESS :: int where "CONTROL_ORCAT_PROCESS = 8"

section \<open>Control errors\<close>

datatype (plugins only: code size) ControlAddCause =
  ADD_CAUSE_UNKNOWN | ADD_CAUSE_NOT_SUPPORTED | ADD_CAUSE_BLOCKED_BY_SWITCHING_HIERARCHY |
  ADD_CAUSE_SELECT_FAILED | ADD_CAUSE_INVALID_POSITION | ADD_CAUSE_POSITION_REACHED |
  ADD_CAUSE_PARAMETER_CHANGE_IN_EXECUTION | ADD_CAUSE_STEP_LIMIT | ADD_CAUSE_BLOCKED_BY_MODE |
  ADD_CAUSE_BLOCKED_BY_PROCESS | ADD_CAUSE_BLOCKED_BY_INTERLOCKING |
  ADD_CAUSE_BLOCKED_BY_SYNCHROCHECK | ADD_CAUSE_COMMAND_ALREADY_IN_EXECUTION |
  ADD_CAUSE_BLOCKED_BY_HEALTH | ADD_CAUSE_1_OF_N_CONTROL | ADD_CAUSE_ABORTION_BY_CANCEL |
  ADD_CAUSE_TIME_LIMIT_OVER | ADD_CAUSE_ABORTION_BY_TRIP | ADD_CAUSE_OBJECT_NOT_SELECTED |
  ADD_CAUSE_OBJECT_ALREADY_SELECTED | ADD_CAUSE_NO_ACCESS_AUTHORITY |
  ADD_CAUSE_ENDED_WITH_OVERSHOOT | ADD_CAUSE_ABORTION_DUE_TO_DEVIATION |
  ADD_CAUSE_ABORTION_BY_COMMUNICATION_LOSS | ADD_CAUSE_ABORTION_BY_COMMAND | ADD_CAUSE_NONE |
  ADD_CAUSE_INCONSISTENT_PARAMETERS | ADD_CAUSE_LOCKED_BY_OTHER_CLIENT

primrec ControlAddCause_code :: "ControlAddCause \<Rightarrow> int" where
  "ControlAddCause_code ADD_CAUSE_UNKNOWN = 0"
| "ControlAddCause_code ADD_CAUSE_NOT_SUPPORTED = 1"
| "ControlAddCause_code ADD_CAUSE_BLOCKED_BY_SWITCHING_HIERARCHY = 2"
| "ControlAddCause_code ADD_CAUSE_SELECT_FAILED = 3"
| "ControlAddCause_code ADD_CAUSE_INVALID_POSITION = 4"
| "ControlAddCause_code ADD_CAUSE_POSITION_REACHED = 5"
| "ControlAddCause_code ADD_CAUSE_PARAMETER_CHANGE_IN_EXECUTION = 6"
| "ControlAddCause_code ADD_CAUSE_STEP_LIMIT = 7"
| "ControlAddCause_code ADD_CAUSE_BLOCKED_BY_MODE = 8"
| "ControlAddCause_code ADD_CAUSE_BLOCKED_BY_PROCESS = 9"
| "ControlAddCause_code ADD_CAUSE_BLOCKED_BY_INTERLOCKING = 10"
| "ControlAddCause_code ADD_CAUSE_BLOCKED_BY_SYNCHROCHECK = 11"
| "ControlAddCause_code ADD_CAUSE_COMMAND_ALREADY_IN_EXECUTION = 12"
| "ControlAddCause_code ADD_CAUSE_BLOCKED_BY_HEALTH = 13"
| "ControlAddCause_code ADD_CAUSE_1_OF_N_CONTROL = 14"
| "ControlAddCause_code ADD_CAUSE_ABORTION_BY_CANCEL = 15"
| "ControlAddCause_code ADD_CAUSE_TIME_LIMIT_OVER = 16"
| "ControlAddCause_code ADD_CAUSE_ABORTION_BY_TRIP = 17"
| "ControlAddCause_code ADD_CAUSE_OBJECT_NOT_SELECTED = 18"
| "ControlAddCause_code ADD_CAUSE_OBJECT_ALREADY_SELECTED = 19"
| "ControlAddCause_code ADD_CAUSE_NO_ACCESS_AUTHORITY = 20"
| "ControlAddCause_code ADD_CAUSE_ENDED_WITH_OVERSHOOT = 21"
| "ControlAddCause_code ADD_CAUSE_ABORTION_DUE_TO_DEVIATION = 22"
| "ControlAddCause_code ADD_CAUSE_ABORTION_BY_COMMUNICATION_LOSS = 23"
| "ControlAddCause_code ADD_CAUSE_ABORTION_BY_COMMAND = 24"
| "ControlAddCause_code ADD_CAUSE_NONE = 25"
| "ControlAddCause_code ADD_CAUSE_INCONSISTENT_PARAMETERS = 26"
| "ControlAddCause_code ADD_CAUSE_LOCKED_BY_OTHER_CLIENT = 27"

definition ControlAddCause_all :: "ControlAddCause list" where
  "ControlAddCause_all = [
    ADD_CAUSE_UNKNOWN, ADD_CAUSE_NOT_SUPPORTED, ADD_CAUSE_BLOCKED_BY_SWITCHING_HIERARCHY,
    ADD_CAUSE_SELECT_FAILED, ADD_CAUSE_INVALID_POSITION, ADD_CAUSE_POSITION_REACHED,
    ADD_CAUSE_PARAMETER_CHANGE_IN_EXECUTION, ADD_CAUSE_STEP_LIMIT, ADD_CAUSE_BLOCKED_BY_MODE,
    ADD_CAUSE_BLOCKED_BY_PROCESS, ADD_CAUSE_BLOCKED_BY_INTERLOCKING,
    ADD_CAUSE_BLOCKED_BY_SYNCHROCHECK, ADD_CAUSE_COMMAND_ALREADY_IN_EXECUTION,
    ADD_CAUSE_BLOCKED_BY_HEALTH, ADD_CAUSE_1_OF_N_CONTROL, ADD_CAUSE_ABORTION_BY_CANCEL,
    ADD_CAUSE_TIME_LIMIT_OVER, ADD_CAUSE_ABORTION_BY_TRIP, ADD_CAUSE_OBJECT_NOT_SELECTED,
    ADD_CAUSE_OBJECT_ALREADY_SELECTED, ADD_CAUSE_NO_ACCESS_AUTHORITY,
    ADD_CAUSE_ENDED_WITH_OVERSHOOT, ADD_CAUSE_ABORTION_DUE_TO_DEVIATION,
    ADD_CAUSE_ABORTION_BY_COMMUNICATION_LOSS, ADD_CAUSE_ABORTION_BY_COMMAND, ADD_CAUSE_NONE,
    ADD_CAUSE_INCONSISTENT_PARAMETERS, ADD_CAUSE_LOCKED_BY_OTHER_CLIENT]"

definition ControlAddCause_decode :: "int \<Rightarrow> ControlAddCause option" where
  "ControlAddCause_decode = find_code ControlAddCause_code ControlAddCause_all"

lemma ControlAddCause_all_complete [enum_simps]: "e \<in> set ControlAddCause_all"
  by (cases e) (simp_all add: ControlAddCause_all_def)

interpretation ControlAddCause: c_enum ControlAddCause_code ControlAddCause_decode
  unfolding ControlAddCause_decode_def
  by (rule c_enum_find_code [OF _ ControlAddCause_all_complete]) (simp add: ControlAddCause_all_def)

datatype (plugins only: code size) ControlLastApplError =
  CONTROL_ERROR_NO_ERROR | CONTROL_ERROR_UNKNOWN | CONTROL_ERROR_TIMEOUT_TEST |
  CONTROL_ERROR_OPERATOR_TEST

primrec ControlLastApplError_code :: "ControlLastApplError \<Rightarrow> int" where
  "ControlLastApplError_code CONTROL_ERROR_NO_ERROR = 0"
| "ControlLastApplError_code CONTROL_ERROR_UNKNOWN = 1"
| "ControlLastApplError_code CONTROL_ERROR_TIMEOUT_TEST = 2"
| "ControlLastApplError_code CONTROL_ERROR_OPERATOR_TEST = 3"

definition ControlLastApplError_all :: "ControlLastApplError list" where
  "ControlLastApplError_all = [
    CONTROL_ERROR_NO_ERROR, CONTROL_ERROR_UNKNOWN, CONTROL_ERROR_TIMEOUT_TEST,
    CONTROL_ERROR_OPERATOR_TEST]"

definition ControlLastApplError_decode :: "int \<Rightarrow> ControlLastApplError option" where
  "ControlLastApplError_decode = find_code ControlLastApplError_code ControlLastApplError_all"

lemma ControlLastApplError_all_complete [enum_simps]: "e \<in> set ControlLastApplError_all"
  by (cases e) (simp_all add: ControlLastApplError_all_def)

interpretation ControlLastApplError: c_enum ControlLastApplError_code ControlLastApplError_decode
  unfolding ControlLastApplError_decode_def
  by (rule c_enum_find_code [OF _ ControlLastApplError_all_complete]) (simp add: ControlLastApplError_all_def)

section \<open>Functional constraints\<close>

datatype (plugins only: code size) FunctionalConstraint =
  IEC61850_FC_ST | IEC61850_FC_MX | IEC61850_FC_SP | IEC61850_FC_SV | IEC61850_FC_CF |
  IEC61850_FC_DC | IEC61850_FC_SG | IEC61850_FC_SE | IEC61850_FC_SR | IEC61850_FC_OR |
  IEC61850_FC_BL | IEC61850_FC_EX | IEC61850_FC_CO | IEC61850_FC_US | IEC61850_FC_MS |
  IEC61850_FC_RP | IEC61850_FC_BR | IEC61850_FC_LG | IEC61850_FC_GO | IEC61850_FC_ALL |
  IEC61850_FC_NONE

primrec FunctionalConstraint_code :: "FunctionalConstraint \<Rightarrow> int" where
  "FunctionalConstraint_code IEC61850_FC_ST = 0"
| "FunctionalConstraint_code IEC61850_FC_MX = 1"
| "FunctionalConstraint_code IEC61850_FC_SP = 2"
| "FunctionalConstraint_code IEC61850_FC_SV = 3"
| "FunctionalConstraint_code IEC61850_FC_CF = 4"
| "FunctionalConstraint_code IEC61850_FC_DC = 5"
| "FunctionalConstraint_code IEC61850_FC_SG = 6"
| "FunctionalConstraint_code IEC61850_FC_SE = 7"
| "FunctionalConstraint_code IEC61850_FC_SR = 8"
| "FunctionalConstraint_code IEC61850_FC_OR = 9"
| "FunctionalConstraint_code IEC61850_FC_BL = 10"
| "FunctionalConstraint_code IEC61850_FC_EX = 11"
| "FunctionalConstraint_code IEC61850_FC_CO = 12"
| "FunctionalConstraint_code IEC61850_FC_US = 13"
| "FunctionalConstraint_code IEC61850_FC_MS = 14"
| "FunctionalConstraint_code IEC61850_FC_RP = 15"
| "FunctionalConstraint_code IEC61850_FC_BR = 16"
| "FunctionalConstraint_code IEC61850_FC_LG = 17"
| "FunctionalConstraint_code IEC61850_FC_GO = 18"
| "FunctionalConstraint_code IEC61850_FC_ALL = 99"
| "FunctionalConstraint_code IEC61850_FC_NONE = -1"

primrec FunctionalConstraint_name :: "FunctionalConstraint \<Rightarrow> string" where
  "FunctionalConstraint_name IEC61850_FC_ST = ''IEC61850_FC_ST''"
| "FunctionalConstraint_name IEC61850_FC_MX = ''IEC61850_FC_MX''"
| "FunctionalConstraint_name IEC61850_FC_SP = ''IEC61850_FC_SP''"
| "FunctionalConstraint_name IEC61850_FC_SV = ''IEC61850_FC_SV''"
| "FunctionalConstraint_name IEC61850_FC_CF = ''IEC61850_FC_CF''"
| "FunctionalConstraint_name IEC61850_FC_DC = ''IEC61850_FC_DC''"
| "FunctionalConstraint_name IEC61850_FC_SG = ''IEC61850_FC_SG''"
| "FunctionalConstraint_name IEC61850_FC_SE = ''IEC61850_FC_SE''"
| "FunctionalConstraint_name IEC61850_FC_SR = ''IEC61850_FC_SR''"
| "FunctionalConstraint_name IEC61850_FC_OR = ''IEC61850_FC_OR''"
| "FunctionalConstraint_name IEC61850_FC_BL = ''IEC61850_FC_BL''"
| "FunctionalConstraint_name IEC61850_FC_EX = ''IEC61850_FC_EX''"
| "FunctionalConstraint_name IEC61850_FC_CO = ''IEC61850_FC_CO''"
| "FunctionalConstraint_name IEC61850_FC_US = ''IEC61850_FC_US''"
| "FunctionalConstraint_name IEC61850_FC_MS = ''IEC61850_FC_MS''"
| "FunctionalConstraint_name IEC61850_FC_RP = ''IEC61850_FC_RP''"
| "FunctionalConstraint_name IEC61850_FC_BR = ''IEC61850_FC_BR''"
| "FunctionalConstraint_name IEC61850_FC_LG = ''IEC61850_FC_LG''"
| "FunctionalConstraint_name IEC61850_FC_GO = ''IEC61850_FC_GO''"
| "FunctionalConstraint_name IEC61850_FC_ALL = ''IEC61850_FC_ALL''"
| "FunctionalConstraint_name IEC61850_FC_NONE = ''IEC61850_FC_NONE''"

definition FunctionalConstraint_all :: "FunctionalConstraint list" where
  "FunctionalConstraint_all = [
    IEC61850_FC_ST, IEC61850_FC_MX, IEC61850_FC_SP, IEC61850_FC_SV, IEC61850_FC_CF,
    IEC61850_FC_DC, IEC61850_FC_SG, IEC61850_FC_SE, IEC61850_FC_SR, IEC61850_FC_OR,
    IEC61850_FC_BL, IEC61850_FC_EX, IEC61850_FC_CO, IEC61850_FC_US, IEC61850_FC_MS,
    IEC61850_FC_RP, IEC61850_FC_BR, IEC61850_FC_LG, IEC61850_FC_GO, IEC61850_FC_ALL,
    IEC61850_FC_NONE]"

definition FunctionalConstraint_decode :: "int \<Rightarrow> FunctionalConstraint option" where
  "FunctionalConstraint_decode = find_code FunctionalConstraint_code FunctionalConstraint_all"

lemma FunctionalConstraint_all_complete [enum_simps]: "e \<in> set FunctionalConstraint_all"
  by (cases e) (simp_all add: FunctionalConstraint_all_def)

interpretation FunctionalConstraint: c_enum FunctionalConstraint_code FunctionalConstraint_decode
  unfolding FunctionalConstraint_decode_def
  by (rule c_enum_find_code [OF _ FunctionalConstraint_all_complete]) (simp add: FunctionalConstraint_all_def)

section \<open>Quality\<close>

definition QUALITY_VALIDITY_GOOD :: int where "QUALITY_VALIDITY_GOOD = 0"

definition QUALITY_VALIDITY_INVALID :: int where "QUALITY_VALIDITY_INVALID = 2"

definition QUALITY_VALIDITY_RESERVED :: int where "QUALITY_VALIDITY_RESERVED = 1"

definition QUALITY_VALIDITY_QUESTIONABLE :: int where "QUALITY_VALIDITY_QUESTIONABLE = 3"

definition QUALITY_DETAIL_OVERFLOW :: int where "QUALITY_DETAIL_OVERFLOW = 4"

definition QUALITY_DETAIL_OUT_OF_RANGE :: int where "QUALITY_DETAIL_OUT_OF_RANGE = 8"

definition QUALITY_DETAIL_BAD_REFERENCE :: int where "QUALITY_DETAIL_BAD_REFERENCE = 16"

definition QUALITY_DETAIL_OSCILLATORY :: int where "QUALITY_DETAIL_OSCILLATORY = 32"

definition QUALITY_DETAIL_FAILURE :: int where "QUALITY_DETAIL_FAILURE = 64"

definition QUALITY_DETAIL_OLD_DATA :: int where "QUALITY_DETAIL_OLD_DATA = 128"

definition QUALITY_DETAIL_INCONSISTENT :: int where "QUALITY_DETAIL_INCONSISTENT = 256"

definition QUALITY_DETAIL_INACCURATE :: int where "QUALITY_DETAIL_INACCURATE = 512"

definition QUALITY_SOURCE_SUBSTITUTED :: int where "QUALITY_SOURCE_SUBSTITUTED = 1024"

definition QUALITY_TEST :: int where "QUALITY_TEST = 2048"

definition QUALITY_OPERATOR_BLOCKED :: int where "QUALITY_OPERATOR_BLOCKED = 4096"

definition QUALITY_DERIVED :: int where "QUALITY_DERIVED = 8192"

section \<open>Double point position\<close>

datatype (plugins only: code size) Dbpos =
  DBPOS_INTERMEDIATE_STATE | DBPOS_OFF | DBPOS_ON | DBPOS_BAD_STATE

primrec Dbpos_code :: "Dbpos \<Rightarrow> int" where
  "Dbpos_code DBPOS_INTERMEDIATE_STATE = 0"
| "Dbpos_code DBPOS_OFF = 1"
| "Dbpos_code DBPOS_ON = 2"
| "Dbpos_code DBPOS_BAD_STATE = 3"

definition Dbpos_all :: "Dbpos list" where
  "Dbpos_all = [
    DBPOS_INTERMEDIATE_STATE, DBPOS_OFF, DBPOS_ON, DBPOS_BAD_STATE]"

definition Dbpos_decode :: "int \<Rightarrow> Dbpos option" where
  "Dbpos_decode = find_code Dbpos_code Dbpos_all"

lemma Dbpos_all_complete [enum_simps]: "e \<in> set Dbpos_all"
  by (cases e) (simp_all add: Dbpos_all_def)

interpretation Dbpos: c_enum Dbpos_code Dbpos_decode
  unfolding Dbpos_decode_def
  by (rule c_enum_find_code [OF _ Dbpos_all_complete]) (simp add: Dbpos_all_def)

end
