(* ===== verification/Mms_Types.thy ===== *)
theory Mms_Types
  imports Iec_Prelude
begin

text \<open>
  The type declarations of the MMS layer: \<open>inc/mms/inc/mms_common.h\<close> (error codes, MMS
  types, access specifications, application references), the data access errors of
  \<open>mms_value.h\<close>, the write indications and the variable specification of
  \<open>mms_types.h\<close>.
\<close>

section \<open>MMS error codes\<close>

datatype (plugins only: code size) MmsError =
  MMS_ERROR_NONE | MMS_ERROR_CONNECTION_REJECTED | MMS_ERROR_CONNECTION_LOST |
  MMS_ERROR_SERVICE_TIMEOUT | MMS_ERROR_PARSING_RESPONSE | MMS_ERROR_HARDWARE_FAULT |
  MMS_ERROR_CONCLUDE_REJECTED | MMS_ERROR_INVALID_ARGUMENTS |
  MMS_ERROR_OUTSTANDING_CALL_LIMIT | MMS_ERROR_OTHER | MMS_ERROR_VMDSTATE_OTHER |
  MMS_ERROR_APPLICATION_REFERENCE_OTHER | MMS_ERROR_DEFINITION_OTHER |
  MMS_ERROR_DEFINITION_INVALID_ADDRESS | MMS_ERROR_DEFINITION_TYPE_UNSUPPORTED |
  MMS_ERROR_DEFINITION_TYPE_INCONSISTENT | MMS_ERROR_DEFINITION_OBJECT_UNDEFINED |
  MMS_ERROR_DEFINITION_OBJECT_EXISTS | MMS_ERROR_DEFINITION_OBJECT_ATTRIBUTE_INCONSISTENT |
  MMS_ERROR_RESOURCE_OTHER | MMS_ERROR_RESOURCE_CAPABILITY_UNAVAILABLE |
  MMS_ERROR_SERVICE_OTHER | MMS_ERROR_SERVICE_OBJECT_CONSTRAINT_CONFLICT |
  MMS_ERROR_SERVICE_PREEMPT_OTHER | MMS_ERROR_TIME_RESOLUTION_OTHER | MMS_ERROR_ACCESS_OTHER |
  MMS_ERROR_ACCESS_OBJECT_NON_EXISTENT | MMS_ERROR_ACCESS_OBJECT_ACCESS_UNSUPPORTED |
  MMS_ERROR_ACCESS_OBJECT_ACCESS_DENIED | MMS_ERROR_ACCESS_OBJECT_INVALIDATED |
  MMS_ERROR_ACCESS_OBJECT_VALUE_INVALID | MMS_ERROR_ACCESS_TEMPORARILY_UNAVAILABLE |
  MMS_ERROR_FILE_OTHER | MMS_ERROR_FILE_FILENAME_AMBIGUOUS | MMS_ERROR_FILE_FILE_BUSY |
  MMS_ERROR_FILE_FILENAME_SYNTAX_ERROR | MMS_ERROR_FILE_CONTENT_TYPE_INVALID |
  MMS_ERROR_FILE_POSITION_INVALID | MMS_ERROR_FILE_FILE_ACCESS_DENIED |
  MMS_ERROR_FILE_FILE_NON_EXISTENT | MMS_ERROR_FILE_DUPLICATE_FILENAME |
  MMS_ERROR_FILE_INSUFFICIENT_SPACE_IN_FILESTORE | MMS_ERROR_REJECT_OTHER |
  MMS_ERROR_REJECT_UNKNOWN_PDU_TYPE | MMS_ERROR_REJECT_INVALID_PDU |
  MMS_ERROR_REJECT_UNRECOGNIZED_SERVICE | MMS_ERROR_REJECT_UNRECOGNIZED_MODIFIER |
  MMS_ERROR_REJECT_REQUEST_INVALID_ARGUMENT

primrec MmsError_code :: "MmsError \<Rightarrow> int" where
  "MmsError_code MMS_ERROR_NONE = 0"
| "MmsError_code MMS_ERROR_CONNECTION_REJECTED = 1"
| "MmsError_code MMS_ERROR_CONNECTION_LOST = 2"
| "MmsError_code MMS_ERROR_SERVICE_TIMEOUT = 3"
| "MmsError_code MMS_ERROR_PARSING_RESPONSE = 4"
| "MmsError_code MMS_ERROR_HARDWARE_FAULT = 5"
| "MmsError_code MMS_ERROR_CONCLUDE_REJECTED = 6"
| "MmsError_code MMS_ERROR_INVALID_ARGUMENTS = 7"
| "MmsError_code MMS_ERROR_OUTSTANDING_CALL_LIMIT = 8"
| "MmsError_code MMS_ERROR_OTHER = 9"
| "MmsError_code MMS_ERROR_VMDSTATE_OTHER = 10"
| "MmsError_code MMS_ERROR_APPLICATION_REFERENCE_OTHER = 20"
| "MmsError_code MMS_ERROR_DEFINITION_OTHER = 30"
| "MmsError_code MMS_ERROR_DEFINITION_INVALID_ADDRESS = 31"
| "MmsError_code MMS_ERROR_DEFINITION_TYPE_UNSUPPORTED = 32"
| "MmsError_code MMS_ERROR_DEFINITION_TYPE_INCONSISTENT = 33"
| "MmsError_code MMS_ERROR_DEFINITION_OBJECT_UNDEFINED = 34"
| "MmsError_code MMS_ERROR_DEFINITION_OBJECT_EXISTS = 35"
| "MmsError_code MMS_ERROR_DEFINITION_OBJECT_ATTRIBUTE_INCONSISTENT = 36"
| "MmsError_code MMS_ERROR_RESOURCE_OTHER = 40"
| "MmsError_code MMS_ERROR_RESOURCE_CAPABILITY_UNAVAILABLE = 41"
| "MmsError_code MMS_ERROR_SERVICE_OTHER = 50"
| "MmsError_code MMS_ERROR_SERVICE_OBJECT_CONSTRAINT_CONFLICT = 55"
| "MmsError_code MMS_ERROR_SERVICE_PREEMPT_OTHER = 60"
| "MmsError_code MMS_ERROR_TIME_RESOLUTION_OTHER = 70"
| "MmsError_code MMS_ERROR_ACCESS_OTHER = 80"
| "MmsError_code MMS_ERROR_ACCESS_OBJECT_NON_EXISTENT = 81"
| "MmsError_code MMS_ERROR_ACCESS_OBJECT_ACCESS_UNSUPPORTED = 82"
| "MmsError_code MMS_ERROR_ACCESS_OBJECT_ACCESS_DENIED = 83"
| "MmsError_code MMS_ERROR_ACCESS_OBJECT_INVALIDATED = 84"
| "MmsError_code MMS_ERROR_ACCESS_OBJECT_VALUE_INVALID = 85"
| "MmsError_code MMS_ERROR_ACCESS_TEMPORARILY_UNAVAILABLE = 86"
| "MmsError_code MMS_ERROR_FILE_OTHER = 90"
| "MmsError_code MMS_ERROR_FILE_FILENAME_AMBIGUOUS = 91"
| "MmsError_code MMS_ERROR_FILE_FILE_BUSY = 92"
| "MmsError_code MMS_ERROR_FILE_FILENAME_SYNTAX_ERROR = 93"
| "MmsError_code MMS_ERROR_FILE_CONTENT_TYPE_INVALID = 94"
| "MmsError_code MMS_ERROR_FILE_POSITION_INVALID = 95"
| "MmsError_code MMS_ERROR_FILE_FILE_ACCESS_DENIED = 96"
| "MmsError_code MMS_ERROR_FILE_FILE_NON_EXISTENT = 97"
| "MmsError_code MMS_ERROR_FILE_DUPLICATE_FILENAME = 98"
| "MmsError_code MMS_ERROR_FILE_INSUFFICIENT_SPACE_IN_FILESTORE = 99"
| "MmsError_code MMS_ERROR_REJECT_OTHER = 100"
| "MmsError_code MMS_ERROR_REJECT_UNKNOWN_PDU_TYPE = 101"
| "MmsError_code MMS_ERROR_REJECT_INVALID_PDU = 102"
| "MmsError_code MMS_ERROR_REJECT_UNRECOGNIZED_SERVICE = 103"
| "MmsError_code MMS_ERROR_REJECT_UNRECOGNIZED_MODIFIER = 104"
| "MmsError_code MMS_ERROR_REJECT_REQUEST_INVALID_ARGUMENT = 105"

definition MmsError_all :: "MmsError list" where
  "MmsError_all = [
    MMS_ERROR_NONE, MMS_ERROR_CONNECTION_REJECTED, MMS_ERROR_CONNECTION_LOST,
    MMS_ERROR_SERVICE_TIMEOUT, MMS_ERROR_PARSING_RESPONSE, MMS_ERROR_HARDWARE_FAULT,
    MMS_ERROR_CONCLUDE_REJECTED, MMS_ERROR_INVALID_ARGUMENTS, MMS_ERROR_OUTSTANDING_CALL_LIMIT,
    MMS_ERROR_OTHER, MMS_ERROR_VMDSTATE_OTHER, MMS_ERROR_APPLICATION_REFERENCE_OTHER,
    MMS_ERROR_DEFINITION_OTHER, MMS_ERROR_DEFINITION_INVALID_ADDRESS,
    MMS_ERROR_DEFINITION_TYPE_UNSUPPORTED, MMS_ERROR_DEFINITION_TYPE_INCONSISTENT,
    MMS_ERROR_DEFINITION_OBJECT_UNDEFINED, MMS_ERROR_DEFINITION_OBJECT_EXISTS,
    MMS_ERROR_DEFINITION_OBJECT_ATTRIBUTE_INCONSISTENT, MMS_ERROR_RESOURCE_OTHER,
    MMS_ERROR_RESOURCE_CAPABILITY_UNAVAILABLE, MMS_ERROR_SERVICE_OTHER,
    MMS_ERROR_SERVICE_OBJECT_CONSTRAINT_CONFLICT, MMS_ERROR_SERVICE_PREEMPT_OTHER,
    MMS_ERROR_TIME_RESOLUTION_OTHER, MMS_ERROR_ACCESS_OTHER,
    MMS_ERROR_ACCESS_OBJECT_NON_EXISTENT, MMS_ERROR_ACCESS_OBJECT_ACCESS_UNSUPPORTED,
    MMS_ERROR_ACCESS_OBJECT_ACCESS_DENIED, MMS_ERROR_ACCESS_OBJECT_INVALIDATED,
    MMS_ERROR_ACCESS_OBJECT_VALUE_INVALID, MMS_ERROR_ACCESS_TEMPORARILY_UNAVAILABLE,
    MMS_ERROR_FILE_OTHER, MMS_ERROR_FILE_FILENAME_AMBIGUOUS, MMS_ERROR_FILE_FILE_BUSY,
    MMS_ERROR_FILE_FILENAME_SYNTAX_ERROR, MMS_ERROR_FILE_CONTENT_TYPE_INVALID,
    MMS_ERROR_FILE_POSITION_INVALID, MMS_ERROR_FILE_FILE_ACCESS_DENIED,
    MMS_ERROR_FILE_FILE_NON_EXISTENT, MMS_ERROR_FILE_DUPLICATE_FILENAME,
    MMS_ERROR_FILE_INSUFFICIENT_SPACE_IN_FILESTORE, MMS_ERROR_REJECT_OTHER,
    MMS_ERROR_REJECT_UNKNOWN_PDU_TYPE, MMS_ERROR_REJECT_INVALID_PDU,
    MMS_ERROR_REJECT_UNRECOGNIZED_SERVICE, MMS_ERROR_REJECT_UNRECOGNIZED_MODIFIER,
    MMS_ERROR_REJECT_REQUEST_INVALID_ARGUMENT]"

definition MmsError_decode :: "int \<Rightarrow> MmsError option" where
  "MmsError_decode = find_code MmsError_code MmsError_all"

lemma MmsError_all_complete [enum_simps]: "e \<in> set MmsError_all"
  by (cases e) (simp_all add: MmsError_all_def)

interpretation MmsError: c_enum MmsError_code MmsError_decode
  unfolding MmsError_decode_def
  by (rule c_enum_find_code [OF _ MmsError_all_complete]) (simp add: MmsError_all_def)

section \<open>MMS types\<close>

datatype (plugins only: code size) MmsType =
  MMS_ARRAY | MMS_STRUCTURE | MMS_BOOLEAN | MMS_BIT_STRING | MMS_INTEGER | MMS_UNSIGNED |
  MMS_FLOAT | MMS_OCTET_STRING | MMS_VISIBLE_STRING | MMS_GENERALIZED_TIME | MMS_BINARY_TIME |
  MMS_BCD | MMS_OBJ_ID | MMS_STRING | MMS_UTC_TIME | MMS_DATA_ACCESS_ERROR

primrec MmsType_code :: "MmsType \<Rightarrow> int" where
  "MmsType_code MMS_ARRAY = 0"
| "MmsType_code MMS_STRUCTURE = 1"
| "MmsType_code MMS_BOOLEAN = 2"
| "MmsType_code MMS_BIT_STRING = 3"
| "MmsType_code MMS_INTEGER = 4"
| "MmsType_code MMS_UNSIGNED = 5"
| "MmsType_code MMS_FLOAT = 6"
| "MmsType_code MMS_OCTET_STRING = 7"
| "MmsType_code MMS_VISIBLE_STRING = 8"
| "MmsType_code MMS_GENERALIZED_TIME = 9"
| "MmsType_code MMS_BINARY_TIME = 10"
| "MmsType_code MMS_BCD = 11"
| "MmsType_code MMS_OBJ_ID = 12"
| "MmsType_code MMS_STRING = 13"
| "MmsType_code MMS_UTC_TIME = 14"
| "MmsType_code MMS_DATA_ACCESS_ERROR = 15"

primrec MmsType_name :: "MmsType \<Rightarrow> string" where
  "MmsType_name MMS_ARRAY = ''MMS_ARRAY''"
| "MmsType_name MMS_STRUCTURE = ''MMS_STRUCTURE''"
| "MmsType_name MMS_BOOLEAN = ''MMS_BOOLEAN''"
| "MmsType_name MMS_BIT_STRING = ''MMS_BIT_STRING''"
| "MmsType_name MMS_INTEGER = ''MMS_INTEGER''"
| "MmsType_name MMS_UNSIGNED = ''MMS_UNSIGNED''"
| "MmsType_name MMS_FLOAT = ''MMS_FLOAT''"
| "MmsType_name MMS_OCTET_STRING = ''MMS_OCTET_STRING''"
| "MmsType_name MMS_VISIBLE_STRING = ''MMS_VISIBLE_STRING''"
| "MmsType_name MMS_GENERALIZED_TIME = ''MMS_GENERALIZED_TIME''"
| "MmsType_name MMS_BINARY_TIME = ''MMS_BINARY_TIME''"
| "MmsType_name MMS_BCD = ''MMS_BCD''"
| "MmsType_name MMS_OBJ_ID = ''MMS_OBJ_ID''"
| "MmsType_name MMS_STRING = ''MMS_STRING''"
| "MmsType_name MMS_UTC_TIME = ''MMS_UTC_TIME''"
| "MmsType_name MMS_DATA_ACCESS_ERROR = ''MMS_DATA_ACCESS_ERROR''"

definition MmsType_all :: "MmsType list" where
  "MmsType_all = [
    MMS_ARRAY, MMS_STRUCTURE, MMS_BOOLEAN, MMS_BIT_STRING, MMS_INTEGER, MMS_UNSIGNED,
    MMS_FLOAT, MMS_OCTET_STRING, MMS_VISIBLE_STRING, MMS_GENERALIZED_TIME, MMS_BINARY_TIME,
    MMS_BCD, MMS_OBJ_ID, MMS_STRING, MMS_UTC_TIME, MMS_DATA_ACCESS_ERROR]"

definition MmsType_decode :: "int \<Rightarrow> MmsType option" where
  "MmsType_decode = find_code MmsType_code MmsType_all"

lemma MmsType_all_complete [enum_simps]: "e \<in> set MmsType_all"
  by (cases e) (simp_all add: MmsType_all_def)

interpretation MmsType: c_enum MmsType_code MmsType_decode
  unfolding MmsType_decode_def
  by (rule c_enum_find_code [OF _ MmsType_all_complete]) (simp add: MmsType_all_def)

section \<open>Data access errors and write indications\<close>

datatype (plugins only: code size) MmsDataAccessError =
  DATA_ACCESS_ERROR_SUCCESS_NO_UPDATE | DATA_ACCESS_ERROR_NO_RESPONSE |
  DATA_ACCESS_ERROR_SUCCESS | DATA_ACCESS_ERROR_OBJECT_INVALIDATED |
  DATA_ACCESS_ERROR_HARDWARE_FAULT | DATA_ACCESS_ERROR_TEMPORARILY_UNAVAILABLE |
  DATA_ACCESS_ERROR_OBJECT_ACCESS_DENIED | DATA_ACCESS_ERROR_OBJECT_UNDEFINED |
  DATA_ACCESS_ERROR_INVALID_ADDRESS | DATA_ACCESS_ERROR_TYPE_UNSUPPORTED |
  DATA_ACCESS_ERROR_TYPE_INCONSISTENT | DATA_ACCESS_ERROR_OBJECT_ATTRIBUTE_INCONSISTENT |
  DATA_ACCESS_ERROR_OBJECT_ACCESS_UNSUPPORTED | DATA_ACCESS_ERROR_OBJECT_NONE_EXISTENT |
  DATA_ACCESS_ERROR_OBJECT_VALUE_INVALID | DATA_ACCESS_ERROR_UNKNOWN

primrec MmsDataAccessError_code :: "MmsDataAccessError \<Rightarrow> int" where
  "MmsDataAccessError_code DATA_ACCESS_ERROR_SUCCESS_NO_UPDATE = -3"
| "MmsDataAccessError_code DATA_ACCESS_ERROR_NO_RESPONSE = -2"
| "MmsDataAccessError_code DATA_ACCESS_ERROR_SUCCESS = -1"
| "MmsDataAccessError_code DATA_ACCESS_ERROR_OBJECT_INVALIDATED = 0"
| "MmsDataAccessError_code DATA_ACCESS_ERROR_HARDWARE_FAULT = 1"
| "MmsDataAccessError_code DATA_ACCESS_ERROR_TEMPORARILY_UNAVAILABLE = 2"
| "MmsDataAccessError_code DATA_ACCESS_ERROR_OBJECT_ACCESS_DENIED = 3"
| "MmsDataAccessError_code DATA_ACCESS_ERROR_OBJECT_UNDEFINED = 4"
| "MmsDataAccessError_code DATA_ACCESS_ERROR_INVALID_ADDRESS = 5"
| "MmsDataAccessError_code DATA_ACCESS_ERROR_TYPE_UNSUPPORTED = 6"
| "MmsDataAccessError_code DATA_ACCESS_ERROR_TYPE_INCONSISTENT = 7"
| "MmsDataAccessError_code DATA_ACCESS_ERROR_OBJECT_ATTRIBUTE_INCONSISTENT = 8"
| "MmsDataAccessError_code DATA_ACCESS_ERROR_OBJECT_ACCESS_UNSUPPORTED = 9"
| "MmsDataAccessError_code DATA_ACCESS_ERROR_OBJECT_NONE_EXISTENT = 10"
| "MmsDataAccessError_code DATA_ACCESS_ERROR_OBJECT_VALUE_INVALID = 11"
| "MmsDataAccessError_code DATA_ACCESS_ERROR_UNKNOWN = 12"

definition MmsDataAccessError_all :: "MmsDataAccessError list" where
  "MmsDataAccessError_all = [
    DATA_ACCESS_ERROR_SUCCESS_NO_UPDATE, DATA_ACCESS_ERROR_NO_RESPONSE,
    DATA_ACCESS_ERROR_SUCCESS, DATA_ACCESS_ERROR_OBJECT_INVALIDATED,
    DATA_ACCESS_ERROR_HARDWARE_FAULT, DATA_ACCESS_ERROR_TEMPORARILY_UNAVAILABLE,
    DATA_ACCESS_ERROR_OBJECT_ACCESS_DENIED, DATA_ACCESS_ERROR_OBJECT_UNDEFINED,
    DATA_ACCESS_ERROR_INVALID_ADDRESS, DATA_ACCESS_ERROR_TYPE_UNSUPPORTED,
    DATA_ACCESS_ERROR_TYPE_INCONSISTENT, DATA_ACCESS_ERROR_OBJECT_ATTRIBUTE_INCONSISTENT,
    DATA_ACCESS_ERROR_OBJECT_ACCESS_UNSUPPORTED, DATA_ACCESS_ERROR_OBJECT_NONE_EXISTENT,
    DATA_ACCESS_ERROR_OBJECT_VALUE_INVALID, DATA_ACCESS_ERROR_UNKNOWN]"

definition MmsDataAccessError_decode :: "int \<Rightarrow> MmsDataAccessError option" where
  "MmsDataAccessError_decode = find_code MmsDataAccessError_code MmsDataAccessError_all"

lemma MmsDataAccessError_all_complete [enum_simps]: "e \<in> set MmsDataAccessError_all"
  by (cases e) (simp_all add: MmsDataAccessError_all_def)

interpretation MmsDataAccessError: c_enum MmsDataAccessError_code MmsDataAccessError_decode
  unfolding MmsDataAccessError_decode_def
  by (rule c_enum_find_code [OF _ MmsDataAccessError_all_complete]) (simp add: MmsDataAccessError_all_def)

datatype (plugins only: code size) MmsValueIndication =
  MMS_VALUE_NO_RESPONSE | MMS_VALUE_OK | MMS_VALUE_ACCESS_DENIED | MMS_VALUE_VALUE_INVALID |
  MMS_VALUE_TEMPORARILY_UNAVAILABLE | MMS_VALUE_OBJECT_ACCESS_UNSUPPORTED

primrec MmsValueIndication_code :: "MmsValueIndication \<Rightarrow> int" where
  "MmsValueIndication_code MMS_VALUE_NO_RESPONSE = 0"
| "MmsValueIndication_code MMS_VALUE_OK = 1"
| "MmsValueIndication_code MMS_VALUE_ACCESS_DENIED = 2"
| "MmsValueIndication_code MMS_VALUE_VALUE_INVALID = 3"
| "MmsValueIndication_code MMS_VALUE_TEMPORARILY_UNAVAILABLE = 4"
| "MmsValueIndication_code MMS_VALUE_OBJECT_ACCESS_UNSUPPORTED = 5"

definition MmsValueIndication_all :: "MmsValueIndication list" where
  "MmsValueIndication_all = [
    MMS_VALUE_NO_RESPONSE, MMS_VALUE_OK, MMS_VALUE_ACCESS_DENIED, MMS_VALUE_VALUE_INVALID,
    MMS_VALUE_TEMPORARILY_UNAVAILABLE, MMS_VALUE_OBJECT_ACCESS_UNSUPPORTED]"

definition MmsValueIndication_decode :: "int \<Rightarrow> MmsValueIndication option" where
  "MmsValueIndication_decode = find_code MmsValueIndication_code MmsValueIndication_all"

lemma MmsValueIndication_all_complete [enum_simps]: "e \<in> set MmsValueIndication_all"
  by (cases e) (simp_all add: MmsValueIndication_all_def)

interpretation MmsValueIndication: c_enum MmsValueIndication_code MmsValueIndication_decode
  unfolding MmsValueIndication_decode_def
  by (rule c_enum_find_code [OF _ MmsValueIndication_all_complete]) (simp add: MmsValueIndication_all_def)

section \<open>Access specifications and references\<close>

text \<open>A pointer field that may be null is an option; a \<open>char*\<close> is the string it holds.\<close>

record MmsVariableAccessSpecification =
  domainId :: "string option"
  itemId :: "string option"
  arrayIndex :: int
  componentName :: "string option"

record ItuObjectIdentifier =
  arc :: "uint16 list"
  arcCount :: int

record IsoApplicationReference =
  apTitle :: ItuObjectIdentifier
  aeQualifier :: int

definition ItuObjectIdentifier_wf :: "ItuObjectIdentifier \<Rightarrow> bool" where
  "ItuObjectIdentifier_wf oid \<longleftrightarrow> length (arc oid) = 10 \<and> 0 \<le> arcCount oid \<and> arcCount oid \<le> 10"

section \<open>Variable specifications\<close>

text \<open>
  \<open>struct sMmsVariableSpecification\<close>: the union \<open>typeSpec\<close> is a datatype with one
  constructor per member, the specification of an element of an array or structure is the
  value its pointer leads to.
\<close>

datatype (plugins only: code size) MmsVariableSpecification =
  MmsVariableSpecification (spec_type: MmsType) (spec_name: "string option")
    (spec_typeSpec: uMmsTypeSpecification)
and uMmsTypeSpecification =
    TS_array int MmsVariableSpecification
  | TS_structure int "MmsVariableSpecification list"
  | TS_boolean int
  | TS_integer int
  | TS_unsignedInteger int
  | TS_floatingpoint uint8 uint8
  | TS_bitString int
  | TS_octetString int
  | TS_visibleString int
  | TS_mmsString int
  | TS_utctime int
  | TS_binaryTime int

end
