(* ===== verification/Client_Types.thy ===== *)
theory Client_Types
  imports Common_Types Mms_Types
begin

text \<open>
  The type declarations of \<open>inc/iec61850/inc/iec61850_client.h\<close> that the binding uses:
  connection states, client error codes, reasons for inclusion, the element masks of
  report, GOOSE and sampled-value control blocks, and control action types.
\<close>

section \<open>Connection state and errors\<close>

record LastApplError =
  ctlNum :: int
  last_error :: ControlLastApplError
  addCause :: ControlAddCause

datatype (plugins only: code size) IedConnectionState =
  IED_STATE_CLOSED | IED_STATE_CONNECTING | IED_STATE_CONNECTED | IED_STATE_CLOSING

primrec IedConnectionState_code :: "IedConnectionState \<Rightarrow> int" where
  "IedConnectionState_code IED_STATE_CLOSED = 0"
| "IedConnectionState_code IED_STATE_CONNECTING = 1"
| "IedConnectionState_code IED_STATE_CONNECTED = 2"
| "IedConnectionState_code IED_STATE_CLOSING = 3"

primrec IedConnectionState_name :: "IedConnectionState \<Rightarrow> string" where
  "IedConnectionState_name IED_STATE_CLOSED = ''IED_STATE_CLOSED''"
| "IedConnectionState_name IED_STATE_CONNECTING = ''IED_STATE_CONNECTING''"
| "IedConnectionState_name IED_STATE_CONNECTED = ''IED_STATE_CONNECTED''"
| "IedConnectionState_name IED_STATE_CLOSING = ''IED_STATE_CLOSING''"

definition IedConnectionState_all :: "IedConnectionState list" where
  "IedConnectionState_all = [
    IED_STATE_CLOSED, IED_STATE_CONNECTING, IED_STATE_CONNECTED, IED_STATE_CLOSING]"

definition IedConnectionState_decode :: "int \<Rightarrow> IedConnectionState option" where
  "IedConnectionState_decode = find_code IedConnectionState_code IedConnectionState_all"

lemma IedConnectionState_all_complete [enum_simps]: "e \<in> set IedConnectionState_all"
  by (cases e) (simp_all add: IedConnectionState_all_def)

interpretation IedConnectionState: c_enum IedConnectionState_code IedConnectionState_decode
  unfolding IedConnectionState_decode_def
  by (rule c_enum_find_code [OF _ IedConnectionState_all_complete]) (simp add: IedConnectionState_all_def)

datatype (plugins only: code size) IedClientError =
  IED_ERROR_OK | IED_ERROR_NOT_CONNECTED | IED_ERROR_ALREADY_CONNECTED |
  IED_ERROR_CONNECTION_LOST | IED_ERROR_SERVICE_NOT_SUPPORTED | IED_ERROR_CONNECTION_REJECTED |
  IED_ERROR_OUTSTANDING_CALL_LIMIT_REACHED | IED_ERROR_USER_PROVIDED_INVALID_ARGUMENT |
  IED_ERROR_ENABLE_REPORT_FAILED_DATASET_MISMATCH | IED_ERROR_OBJECT_REFERENCE_INVALID |
  IED_ERROR_UNEXPECTED_VALUE_RECEIVED | IED_ERROR_TIMEOUT | IED_ERROR_ACCESS_DENIED |
  IED_ERROR_OBJECT_DOES_NOT_EXIST | IED_ERROR_OBJECT_EXISTS |
  IED_ERROR_OBJECT_ACCESS_UNSUPPORTED | IED_ERROR_TYPE_INCONSISTENT |
  IED_ERROR_TEMPORARILY_UNAVAILABLE | IED_ERROR_OBJECT_UNDEFINED | IED_ERROR_INVALID_ADDRESS |
  IED_ERROR_HARDWARE_FAULT | IED_ERROR_TYPE_UNSUPPORTED |
  IED_ERROR_OBJECT_ATTRIBUTE_INCONSISTENT | IED_ERROR_OBJECT_VALUE_INVALID |
  IED_ERROR_OBJECT_INVALIDATED | IED_ERROR_MALFORMED_MESSAGE |
  IED_ERROR_OBJECT_CONSTRAINT_CONFLICT | IED_ERROR_SERVICE_NOT_IMPLEMENTED | IED_ERROR_UNKNOWN

primrec IedClientError_code :: "IedClientError \<Rightarrow> int" where
  "IedClientError_code IED_ERROR_OK = 0"
| "IedClientError_code IED_ERROR_NOT_CONNECTED = 1"
| "IedClientError_code IED_ERROR_ALREADY_CONNECTED = 2"
| "IedClientError_code IED_ERROR_CONNECTION_LOST = 3"
| "IedClientError_code IED_ERROR_SERVICE_NOT_SUPPORTED = 4"
| "IedClientError_code IED_ERROR_CONNECTION_REJECTED = 5"
| "IedClientError_code IED_ERROR_OUTSTANDING_CALL_LIMIT_REACHED = 6"
| "IedClientError_code IED_ERROR_USER_PROVIDED_INVALID_ARGUMENT = 10"
| "IedClientError_code IED_ERROR_ENABLE_REPORT_FAILED_DATASET_MISMATCH = 11"
| "IedClientError_code IED_ERROR_OBJECT_REFERENCE_INVALID = 12"
| "IedClientError_code IED_ERROR_UNEXPECTED_VALUE_RECEIVED = 13"
| "IedClientError_code IED_ERROR_TIMEOUT = 20"
| "IedClientError_code IED_ERROR_ACCESS_DENIED = 21"
| "IedClientError_code IED_ERROR_OBJECT_DOES_NOT_EXIST = 22"
| "IedClientError_code IED_ERROR_OBJECT_EXISTS = 23"
| "IedClientError_code IED_ERROR_OBJECT_ACCESS_UNSUPPORTED = 24"
| "IedClientError_code IED_ERROR_TYPE_INCONSISTENT = 25"
| "IedClientError_code IED_ERROR_TEMPORARILY_UNAVAILABLE = 26"
| "IedClientError_code IED_ERROR_OBJECT_UNDEFINED = 27"
| "IedClientError_code IED_ERROR_INVALID_ADDRESS = 28"
| "IedClientError_code IED_ERROR_HARDWARE_FAULT = 29"
| "IedClientError_code IED_ERROR_TYPE_UNSUPPORTED = 30"
| "IedClientError_code IED_ERROR_OBJECT_ATTRIBUTE_INCONSISTENT = 31"
| "IedClientError_code IED_ERROR_OBJECT_VALUE_INVALID = 32"
| "IedClientError_code IED_ERROR_OBJECT_INVALIDATED = 33"
| "IedClientError_code IED_ERROR_MALFORMED_MESSAGE = 34"
| "IedClientError_code IED_ERROR_OBJECT_CONSTRAINT_CONFLICT = 35"
| "IedClientError_code IED_ERROR_SERVICE_NOT_IMPLEMENTED = 98"
| "IedClientError_code IED_ERROR_UNKNOWN = 99"

primrec IedClientError_name :: "IedClientError \<Rightarrow> string" where
  "IedClientError_name IED_ERROR_OK = ''IED_ERROR_OK''"
| "IedClientError_name IED_ERROR_NOT_CONNECTED = ''IED_ERROR_NOT_CONNECTED''"
| "IedClientError_name IED_ERROR_ALREADY_CONNECTED = ''IED_ERROR_ALREADY_CONNECTED''"
| "IedClientError_name IED_ERROR_CONNECTION_LOST = ''IED_ERROR_CONNECTION_LOST''"
| "IedClientError_name IED_ERROR_SERVICE_NOT_SUPPORTED = ''IED_ERROR_SERVICE_NOT_SUPPORTED''"
| "IedClientError_name IED_ERROR_CONNECTION_REJECTED = ''IED_ERROR_CONNECTION_REJECTED''"
| "IedClientError_name IED_ERROR_OUTSTANDING_CALL_LIMIT_REACHED = ''IED_ERROR_OUTSTANDING_CALL_LIMIT_REACHED''"
| "IedClientError_name IED_ERROR_USER_PROVIDED_INVALID_ARGUMENT = ''IED_ERROR_USER_PROVIDED_INVALID_ARGUMENT''"
| "IedClientError_name IED_ERROR_ENABLE_REPORT_FAILED_DATASET_MISMATCH = ''IED_ERROR_ENABLE_REPORT_FAILED_DATASET_MISMATCH''"
| "IedClientError_name IED_ERROR_OBJECT_REFERENCE_INVALID = ''IED_ERROR_OBJECT_REFERENCE_INVALID''"
| "IedClientError_name IED_ERROR_UNEXPECTED_VALUE_RECEIVED = ''IED_ERROR_UNEXPECTED_VALUE_RECEIVED''"
| "IedClientError_name IED_ERROR_TIMEOUT = ''IED_ERROR_TIMEOUT''"
| "IedClientError_name IED_ERROR_ACCESS_DENIED = ''IED_ERROR_ACCESS_DENIED''"
| "IedClientError_name IED_ERROR_OBJECT_DOES_NOT_EXIST = ''IED_ERROR_OBJECT_DOES_NOT_EXIST''"
| "IedClientError_name IED_ERROR_OBJECT_EXISTS = ''IED_ERROR_OBJECT_EXISTS''"
| "IedClientError_name IED_ERROR_OBJECT_ACCESS_UNSUPPORTED = ''IED_ERROR_OBJECT_ACCESS_UNSUPPORTED''"
| "IedClientError_name IED_ERROR_TYPE_INCONSISTENT = ''IED_ERROR_TYPE_INCONSISTENT''"
| "IedClientError_name IED_ERROR_TEMPORARILY_UNAVAILABLE = ''IED_ERROR_TEMPORARILY_UNAVAILABLE''"
| "IedClientError_name IED_ERROR_OBJECT_UNDEFINED = ''IED_ERROR_OBJECT_UNDEFINED''"
| "IedClientError_name IED_ERROR_INVALID_ADDRESS = ''IED_ERROR_INVALID_ADDRESS''"
| "IedClientError_name IED_ERROR_HARDWARE_FAULT = ''IED_ERROR_HARDWARE_FAULT''"
| "IedClientError_name IED_ERROR_TYPE_UNSUPPORTED = ''IED_ERROR_TYPE_UNSUPPORTED''"
| "IedClientError_name IED_ERROR_OBJECT_ATTRIBUTE_INCONSISTENT = ''IED_ERROR_OBJECT_ATTRIBUTE_INCONSISTENT''"
| "IedClientError_name IED_ERROR_OBJECT_VALUE_INVALID = ''IED_ERROR_OBJECT_VALUE_INVALID''"
| "IedClientError_name IED_ERROR_OBJECT_INVALIDATED = ''IED_ERROR_OBJECT_INVALIDATED''"
| "IedClientError_name IED_ERROR_MALFORMED_MESSAGE = ''IED_ERROR_MALFORMED_MESSAGE''"
| "IedClientError_name IED_ERROR_OBJECT_CONSTRAINT_CONFLICT = ''IED_ERROR_OBJECT_CONSTRAINT_CONFLICT''"
| "IedClientError_name IED_ERROR_SERVICE_NOT_IMPLEMENTED = ''IED_ERROR_SERVICE_NOT_IMPLEMENTED''"
| "IedClientError_name IED_ERROR_UNKNOWN = ''IED_ERROR_UNKNOWN''"

definition IedClientError_all :: "IedClientError list" where
  "IedClientError_all = [
    IED_ERROR_OK, IED_ERROR_NOT_CONNECTED, IED_ERROR_ALREADY_CONNECTED,
    IED_ERROR_CONNECTION_LOST, IED_ERROR_SERVICE_NOT_SUPPORTED, IED_ERROR_CONNECTION_REJECTED,
    IED_ERROR_OUTSTANDING_CALL_LIMIT_REACHED, IED_ERROR_USER_PROVIDED_INVALID_ARGUMENT,
    IED_ERROR_ENABLE_REPORT_FAILED_DATASET_MISMATCH, IED_ERROR_OBJECT_REFERENCE_INVALID,
    IED_ERROR_UNEXPECTED_VALUE_RECEIVED, IED_ERROR_TIMEOUT, IED_ERROR_ACCESS_DENIED,
    IED_ERROR_OBJECT_DOES_NOT_EXIST, IED_ERROR_OBJECT_EXISTS,
    IED_ERROR_OBJECT_ACCESS_UNSUPPORTED, IED_ERROR_TYPE_INCONSISTENT,
    IED_ERROR_TEMPORARILY_UNAVAILABLE, IED_ERROR_OBJECT_UNDEFINED, IED_ERROR_INVALID_ADDRESS,
    IED_ERROR_HARDWARE_FAULT, IED_ERROR_TYPE_UNSUPPORTED,
    IED_ERROR_OBJECT_ATTRIBUTE_INCONSISTENT, IED_ERROR_OBJECT_VALUE_INVALID,
    IED_ERROR_OBJECT_INVALIDATED, IED_ERROR_MALFORMED_MESSAGE,
    IED_ERROR_OBJECT_CONSTRAINT_CONFLICT, IED_ERROR_SERVICE_NOT_IMPLEMENTED, IED_ERROR_UNKNOWN]"

definition IedClientError_decode :: "int \<Rightarrow> IedClientError option" where
  "IedClientError_decode = find_code IedClientError_code IedClientError_all"

lemma IedClientError_all_complete [enum_simps]: "e \<in> set IedClientError_all"
  by (cases e) (simp_all add: IedClientError_all_def)

interpretation IedClientError: c_enum IedClientError_code IedClientError_decode
  unfolding IedClientError_decode_def
  by (rule c_enum_find_code [OF _ IedClientError_all_complete]) (simp add: IedClientError_all_def)

section \<open>Sampled value control blocks\<close>

definition IEC61850_SV_OPT_REFRESH_TIME :: int where "IEC61850_SV_OPT_REFRESH_TIME = 1"

definition IEC61850_SV_OPT_SAMPLE_SYNC :: int where "IEC61850_SV_OPT_SAMPLE_SYNC = 2"

definition IEC61850_SV_OPT_SAMPLE_RATE :: int where "IEC61850_SV_OPT_SAMPLE_RATE = 4"

definition IEC61850_SV_OPT_DATA_SET :: int where "IEC61850_SV_OPT_DATA_SET = 8"

definition IEC61850_SV_OPT_SECURITY :: int where "IEC61850_SV_OPT_SECURITY = 16"

definition IEC61850_SV_SMPMOD_SAMPLES_PER_PERIOD :: int where "IEC61850_SV_SMPMOD_SAMPLES_PER_PERIOD = 0"

definition IEC61850_SV_SMPMOD_SAMPLES_PER_SECOND :: int where "IEC61850_SV_SMPMOD_SAMPLES_PER_SECOND = 1"

definition IEC61850_SV_SMPMOD_SECONDS_PER_SAMPLE :: int where "IEC61850_SV_SMPMOD_SECONDS_PER_SAMPLE = 2"

section \<open>GOOSE control blocks\<close>

definition GOCB_ELEMENT_GO_ENA :: int where "GOCB_ELEMENT_GO_ENA = 1"

definition GOCB_ELEMENT_GO_ID :: int where "GOCB_ELEMENT_GO_ID = 2"

definition GOCB_ELEMENT_DATSET :: int where "GOCB_ELEMENT_DATSET = 4"

definition GOCB_ELEMENT_CONF_REV :: int where "GOCB_ELEMENT_CONF_REV = 8"

definition GOCB_ELEMENT_NDS_COMM :: int where "GOCB_ELEMENT_NDS_COMM = 16"

definition GOCB_ELEMENT_DST_ADDRESS :: int where "GOCB_ELEMENT_DST_ADDRESS = 32"

definition GOCB_ELEMENT_MIN_TIME :: int where "GOCB_ELEMENT_MIN_TIME = 64"

definition GOCB_ELEMENT_MAX_TIME :: int where "GOCB_ELEMENT_MAX_TIME = 128"

definition GOCB_ELEMENT_FIXED_OFFS :: int where "GOCB_ELEMENT_FIXED_OFFS = 256"

definition GOCB_ELEMENT_ALL :: int where "GOCB_ELEMENT_ALL = 511"

section \<open>Reasons for inclusion\<close>

definition IEC61850_REASON_NOT_INCLUDED :: int where "IEC61850_REASON_NOT_INCLUDED = 0"

definition IEC61850_REASON_DATA_CHANGE :: int where "IEC61850_REASON_DATA_CHANGE = 1"

definition IEC61850_REASON_QUALITY_CHANGE :: int where "IEC61850_REASON_QUALITY_CHANGE = 2"

definition IEC61850_REASON_DATA_UPDATE :: int where "IEC61850_REASON_DATA_UPDATE = 4"

definition IEC61850_REASON_INTEGRITY :: int where "IEC61850_REASON_INTEGRITY = 8"

definition IEC61850_REASON_GI :: int where "IEC61850_REASON_GI = 16"

definition IEC61850_REASON_UNKNOWN :: int where "IEC61850_REASON_UNKNOWN = 32"

section \<open>Elements of a report control block\<close>

definition RCB_ELEMENT_RPT_ID :: int where "RCB_ELEMENT_RPT_ID = 1"

definition RCB_ELEMENT_RPT_ENA :: int where "RCB_ELEMENT_RPT_ENA = 2"

definition RCB_ELEMENT_RESV :: int where "RCB_ELEMENT_RESV = 4"

definition RCB_ELEMENT_DATSET :: int where "RCB_ELEMENT_DATSET = 8"

definition RCB_ELEMENT_CONF_REV :: int where "RCB_ELEMENT_CONF_REV = 16"

definition RCB_ELEMENT_OPT_FLDS :: int where "RCB_ELEMENT_OPT_FLDS = 32"

definition RCB_ELEMENT_BUF_TM :: int where "RCB_ELEMENT_BUF_TM = 64"

definition RCB_ELEMENT_SQ_NUM :: int where "RCB_ELEMENT_SQ_NUM = 128"

definition RCB_ELEMENT_TRG_OPS :: int where "RCB_ELEMENT_TRG_OPS = 256"

definition RCB_ELEMENT_INTG_PD :: int where "RCB_ELEMENT_INTG_PD = 512"

definition RCB_ELEMENT_GI :: int where "RCB_ELEMENT_GI = 1024"

definition RCB_ELEMENT_PURGE_BUF :: int where "RCB_ELEMENT_PURGE_BUF = 2048"

definition RCB_ELEMENT_ENTRY_ID :: int where "RCB_ELEMENT_ENTRY_ID = 4096"

definition RCB_ELEMENT_TIME_OF_ENTRY :: int where "RCB_ELEMENT_TIME_OF_ENTRY = 8192"

definition RCB_ELEMENT_RESV_TMS :: int where "RCB_ELEMENT_RESV_TMS = 16384"

definition RCB_ELEMENT_OWNER :: int where "RCB_ELEMENT_OWNER = 32768"

section \<open>Control actions\<close>

datatype (plugins only: code size) ControlActionType =
  CONTROL_ACTION_TYPE_SELECT | CONTROL_ACTION_TYPE_OPERATE | CONTROL_ACTION_TYPE_CANCEL

primrec ControlActionType_code :: "ControlActionType \<Rightarrow> int" where
  "ControlActionType_code CONTROL_ACTION_TYPE_SELECT = 0"
| "ControlActionType_code CONTROL_ACTION_TYPE_OPERATE = 1"
| "ControlActionType_code CONTROL_ACTION_TYPE_CANCEL = 2"

definition ControlActionType_all :: "ControlActionType list" where
  "ControlActionType_all = [
    CONTROL_ACTION_TYPE_SELECT, CONTROL_ACTION_TYPE_OPERATE, CONTROL_ACTION_TYPE_CANCEL]"

definition ControlActionType_decode :: "int \<Rightarrow> ControlActionType option" where
  "ControlActionType_decode = find_code ControlActionType_code ControlActionType_all"

lemma ControlActionType_all_complete [enum_simps]: "e \<in> set ControlActionType_all"
  by (cases e) (simp_all add: ControlActionType_all_def)

interpretation ControlActionType: c_enum ControlActionType_code ControlActionType_decode
  unfolding ControlActionType_decode_def
  by (rule c_enum_find_code [OF _ ControlActionType_all_complete]) (simp add: ControlActionType_all_def)

end
