(* ===== verification/Go_Types.thy ===== *)
theory Go_Types
  imports Client_Types
begin

text \<open>
  The Go side of the shared constants: \<open>types.go\<close> (functional constraints, MMS types,
  \<open>Err\<close>), \<open>mmsTypeName\<close> of \<open>iec61850_control.go\<close>, the client states of
  \<open>iec61850_client.go\<close> and the report constants and \<open>ReasonForInclusion.String\<close> of
  \<open>iec61850_report.go\<close>. Go repeats by hand the numbers the C headers define, under the
  same names, and casts between the two; a constant of Go's has the prefix \<open>Go_\<close> here.
  The lemmas say that the two sides agree, name by name, and where they do not.
\<close>

section \<open>Constants of types.go\<close>

definition Go_IEC61850_FC_ST :: int where "Go_IEC61850_FC_ST = 0"

definition Go_IEC61850_FC_MX :: int where "Go_IEC61850_FC_MX = 1"

definition Go_IEC61850_FC_SP :: int where "Go_IEC61850_FC_SP = 2"

definition Go_IEC61850_FC_SV :: int where "Go_IEC61850_FC_SV = 3"

definition Go_IEC61850_FC_CF :: int where "Go_IEC61850_FC_CF = 4"

definition Go_IEC61850_FC_DC :: int where "Go_IEC61850_FC_DC = 5"

definition Go_IEC61850_FC_SG :: int where "Go_IEC61850_FC_SG = 6"

definition Go_IEC61850_FC_SE :: int where "Go_IEC61850_FC_SE = 7"

definition Go_IEC61850_FC_SR :: int where "Go_IEC61850_FC_SR = 8"

definition Go_IEC61850_FC_OR :: int where "Go_IEC61850_FC_OR = 9"

definition Go_IEC61850_FC_BL :: int where "Go_IEC61850_FC_BL = 10"

definition Go_IEC61850_FC_EX :: int where "Go_IEC61850_FC_EX = 11"

definition Go_IEC61850_FC_CO :: int where "Go_IEC61850_FC_CO = 12"

definition Go_IEC61850_FC_US :: int where "Go_IEC61850_FC_US = 13"

definition Go_IEC61850_FC_MS :: int where "Go_IEC61850_FC_MS = 14"

definition Go_IEC61850_FC_RP :: int where "Go_IEC61850_FC_RP = 15"

definition Go_IEC61850_FC_BR :: int where "Go_IEC61850_FC_BR = 16"

definition Go_IEC61850_FC_LG :: int where "Go_IEC61850_FC_LG = 17"

definition Go_IEC61850_FC_GO :: int where "Go_IEC61850_FC_GO = 18"

definition Go_IEC61850_FC_ALL :: int where "Go_IEC61850_FC_ALL = 99"

definition Go_IEC61850_FC_NONE :: int where "Go_IEC61850_FC_NONE = -1"

definition Go_FunctionalConstraint_consts :: "(string \<times> int) list" where
  "Go_FunctionalConstraint_consts = [
    (''IEC61850_FC_ST'', Go_IEC61850_FC_ST),
    (''IEC61850_FC_MX'', Go_IEC61850_FC_MX),
    (''IEC61850_FC_SP'', Go_IEC61850_FC_SP),
    (''IEC61850_FC_SV'', Go_IEC61850_FC_SV),
    (''IEC61850_FC_CF'', Go_IEC61850_FC_CF),
    (''IEC61850_FC_DC'', Go_IEC61850_FC_DC),
    (''IEC61850_FC_SG'', Go_IEC61850_FC_SG),
    (''IEC61850_FC_SE'', Go_IEC61850_FC_SE),
    (''IEC61850_FC_SR'', Go_IEC61850_FC_SR),
    (''IEC61850_FC_OR'', Go_IEC61850_FC_OR),
    (''IEC61850_FC_BL'', Go_IEC61850_FC_BL),
    (''IEC61850_FC_EX'', Go_IEC61850_FC_EX),
    (''IEC61850_FC_CO'', Go_IEC61850_FC_CO),
    (''IEC61850_FC_US'', Go_IEC61850_FC_US),
    (''IEC61850_FC_MS'', Go_IEC61850_FC_MS),
    (''IEC61850_FC_RP'', Go_IEC61850_FC_RP),
    (''IEC61850_FC_BR'', Go_IEC61850_FC_BR),
    (''IEC61850_FC_LG'', Go_IEC61850_FC_LG),
    (''IEC61850_FC_GO'', Go_IEC61850_FC_GO),
    (''IEC61850_FC_ALL'', Go_IEC61850_FC_ALL),
    (''IEC61850_FC_NONE'', Go_IEC61850_FC_NONE)]"

definition Go_MMS_ARRAY :: int where "Go_MMS_ARRAY = 0"

definition Go_MMS_STRUCTURE :: int where "Go_MMS_STRUCTURE = 1"

definition Go_MMS_BOOLEAN :: int where "Go_MMS_BOOLEAN = 2"

definition Go_MMS_BIT_STRING :: int where "Go_MMS_BIT_STRING = 3"

definition Go_MMS_INTEGER :: int where "Go_MMS_INTEGER = 4"

definition Go_MMS_UNSIGNED :: int where "Go_MMS_UNSIGNED = 5"

definition Go_MMS_FLOAT :: int where "Go_MMS_FLOAT = 6"

definition Go_MMS_OCTET_STRING :: int where "Go_MMS_OCTET_STRING = 7"

definition Go_MMS_VISIBLE_STRING :: int where "Go_MMS_VISIBLE_STRING = 8"

definition Go_MMS_GENERALIZED_TIME :: int where "Go_MMS_GENERALIZED_TIME = 9"

definition Go_MMS_BINARY_TIME :: int where "Go_MMS_BINARY_TIME = 10"

definition Go_MMS_BCD :: int where "Go_MMS_BCD = 11"

definition Go_MMS_OBJ_ID :: int where "Go_MMS_OBJ_ID = 12"

definition Go_MMS_STRING :: int where "Go_MMS_STRING = 13"

definition Go_MMS_UTC_TIME :: int where "Go_MMS_UTC_TIME = 14"

definition Go_MMS_DATA_ACCESS_ERROR :: int where "Go_MMS_DATA_ACCESS_ERROR = 15"

definition Go_MMSType_consts :: "(string \<times> int) list" where
  "Go_MMSType_consts = [
    (''MMS_ARRAY'', Go_MMS_ARRAY),
    (''MMS_STRUCTURE'', Go_MMS_STRUCTURE),
    (''MMS_BOOLEAN'', Go_MMS_BOOLEAN),
    (''MMS_BIT_STRING'', Go_MMS_BIT_STRING),
    (''MMS_INTEGER'', Go_MMS_INTEGER),
    (''MMS_UNSIGNED'', Go_MMS_UNSIGNED),
    (''MMS_FLOAT'', Go_MMS_FLOAT),
    (''MMS_OCTET_STRING'', Go_MMS_OCTET_STRING),
    (''MMS_VISIBLE_STRING'', Go_MMS_VISIBLE_STRING),
    (''MMS_GENERALIZED_TIME'', Go_MMS_GENERALIZED_TIME),
    (''MMS_BINARY_TIME'', Go_MMS_BINARY_TIME),
    (''MMS_BCD'', Go_MMS_BCD),
    (''MMS_OBJ_ID'', Go_MMS_OBJ_ID),
    (''MMS_STRING'', Go_MMS_STRING),
    (''MMS_UTC_TIME'', Go_MMS_UTC_TIME),
    (''MMS_DATA_ACCESS_ERROR'', Go_MMS_DATA_ACCESS_ERROR)]"

definition Go_MMS_NIL :: int where "Go_MMS_NIL = -1"

section \<open>Constants of the client and of reports\<close>

definition Go_IED_STATE_CLOSED :: int where "Go_IED_STATE_CLOSED = 0"

definition Go_IED_STATE_CONNECTING :: int where "Go_IED_STATE_CONNECTING = 1"

definition Go_IED_STATE_CONNECTED :: int where "Go_IED_STATE_CONNECTED = 2"

definition Go_IED_STATE_CLOSING :: int where "Go_IED_STATE_CLOSING = 3"

definition Go_ClientState_consts :: "(string \<times> int) list" where
  "Go_ClientState_consts = [
    (''IED_STATE_CLOSED'', Go_IED_STATE_CLOSED),
    (''IED_STATE_CONNECTING'', Go_IED_STATE_CONNECTING),
    (''IED_STATE_CONNECTED'', Go_IED_STATE_CONNECTED),
    (''IED_STATE_CLOSING'', Go_IED_STATE_CLOSING)]"

definition Go_TRG_OPT_DATA_CHANGED :: int where "Go_TRG_OPT_DATA_CHANGED = 1"

definition Go_TRG_OPT_QUALITY_CHANGED :: int where "Go_TRG_OPT_QUALITY_CHANGED = 2"

definition Go_TRG_OPT_DATA_UPDATE :: int where "Go_TRG_OPT_DATA_UPDATE = 4"

definition Go_TRG_OPT_INTEGRITY :: int where "Go_TRG_OPT_INTEGRITY = 8"

definition Go_TRG_OPT_GI :: int where "Go_TRG_OPT_GI = 16"

definition Go_TRG_OPT_consts :: "(string \<times> int) list" where
  "Go_TRG_OPT_consts = [
    (''TRG_OPT_DATA_CHANGED'', Go_TRG_OPT_DATA_CHANGED),
    (''TRG_OPT_QUALITY_CHANGED'', Go_TRG_OPT_QUALITY_CHANGED),
    (''TRG_OPT_DATA_UPDATE'', Go_TRG_OPT_DATA_UPDATE),
    (''TRG_OPT_INTEGRITY'', Go_TRG_OPT_INTEGRITY),
    (''TRG_OPT_GI'', Go_TRG_OPT_GI)]"

definition Go_RPT_OPT_SEQ_NUM :: int where "Go_RPT_OPT_SEQ_NUM = 1"

definition Go_RPT_OPT_TIME_STAMP :: int where "Go_RPT_OPT_TIME_STAMP = 2"

definition Go_RPT_OPT_REASON_FOR_INCLUDE :: int where "Go_RPT_OPT_REASON_FOR_INCLUDE = 4"

definition Go_RPT_OPT_DATA_SET :: int where "Go_RPT_OPT_DATA_SET = 8"

definition Go_RPT_OPT_DATA_REFERENCE :: int where "Go_RPT_OPT_DATA_REFERENCE = 16"

definition Go_RPT_OPT_BUFFER_OVERFLOW :: int where "Go_RPT_OPT_BUFFER_OVERFLOW = 32"

definition Go_RPT_OPT_ENTRY_ID :: int where "Go_RPT_OPT_ENTRY_ID = 64"

definition Go_RPT_OPT_CONF_REV :: int where "Go_RPT_OPT_CONF_REV = 128"

definition Go_RPT_OPT_consts :: "(string \<times> int) list" where
  "Go_RPT_OPT_consts = [
    (''RPT_OPT_SEQ_NUM'', Go_RPT_OPT_SEQ_NUM),
    (''RPT_OPT_TIME_STAMP'', Go_RPT_OPT_TIME_STAMP),
    (''RPT_OPT_REASON_FOR_INCLUDE'', Go_RPT_OPT_REASON_FOR_INCLUDE),
    (''RPT_OPT_DATA_SET'', Go_RPT_OPT_DATA_SET),
    (''RPT_OPT_DATA_REFERENCE'', Go_RPT_OPT_DATA_REFERENCE),
    (''RPT_OPT_BUFFER_OVERFLOW'', Go_RPT_OPT_BUFFER_OVERFLOW),
    (''RPT_OPT_ENTRY_ID'', Go_RPT_OPT_ENTRY_ID),
    (''RPT_OPT_CONF_REV'', Go_RPT_OPT_CONF_REV)]"

definition Go_REASON_NOT_INCLUDED :: int where "Go_REASON_NOT_INCLUDED = 0"

definition Go_REASON_DATA_CHANGE :: int where "Go_REASON_DATA_CHANGE = 1"

definition Go_REASON_QUAL_CHANGE :: int where "Go_REASON_QUAL_CHANGE = 2"

definition Go_REASON_DATA_UPDATE :: int where "Go_REASON_DATA_UPDATE = 4"

definition Go_REASON_INTEGRITY :: int where "Go_REASON_INTEGRITY = 8"

definition Go_REASON_GI :: int where "Go_REASON_GI = 16"

definition Go_REASON_UNKNOWN :: int where "Go_REASON_UNKNOWN = 32"

definition Go_REASON_consts :: "(string \<times> int) list" where
  "Go_REASON_consts = [
    (''REASON_NOT_INCLUDED'', Go_REASON_NOT_INCLUDED),
    (''REASON_DATA_CHANGE'', Go_REASON_DATA_CHANGE),
    (''REASON_QUAL_CHANGE'', Go_REASON_QUAL_CHANGE),
    (''REASON_DATA_UPDATE'', Go_REASON_DATA_UPDATE),
    (''REASON_INTEGRITY'', Go_REASON_INTEGRITY),
    (''REASON_GI'', Go_REASON_GI),
    (''REASON_UNKNOWN'', Go_REASON_UNKNOWN)]"

section \<open>Err\<close>

definition Err :: "int \<Rightarrow> string" where
  "Err e = (
    if e = IedClientError_code IED_ERROR_OK then ''IED_ERROR_OK''
    else if e = IedClientError_code IED_ERROR_NOT_CONNECTED then ''IED_ERROR_NOT_CONNECTED''
    else if e = IedClientError_code IED_ERROR_ALREADY_CONNECTED then ''IED_ERROR_ALREADY_CONNECTED''
    else if e = IedClientError_code IED_ERROR_CONNECTION_LOST then ''IED_ERROR_CONNECTION_LOST''
    else if e = IedClientError_code IED_ERROR_SERVICE_NOT_SUPPORTED then ''IED_ERROR_SERVICE_NOT_SUPPORTED''
    else if e = IedClientError_code IED_ERROR_CONNECTION_REJECTED then ''IED_ERROR_CONNECTION_REJECTED''
    else if e = IedClientError_code IED_ERROR_OUTSTANDING_CALL_LIMIT_REACHED then ''IED_ERROR_OUTSTANDING_CALL_LIMIT_REACHED''
    else if e = IedClientError_code IED_ERROR_USER_PROVIDED_INVALID_ARGUMENT then ''IED_ERROR_USER_PROVIDED_INVALID_ARGUMENT''
    else if e = IedClientError_code IED_ERROR_ENABLE_REPORT_FAILED_DATASET_MISMATCH then ''IED_ERROR_ENABLE_REPORT_FAILED_DATASET_MISMATCH''
    else if e = IedClientError_code IED_ERROR_OBJECT_REFERENCE_INVALID then ''IED_ERROR_OBJECT_REFERENCE_INVALID''
    else if e = IedClientError_code IED_ERROR_UNEXPECTED_VALUE_RECEIVED then ''IED_ERROR_UNEXPECTED_VALUE_RECEIVED''
    else if e = IedClientError_code IED_ERROR_TIMEOUT then ''IED_ERROR_TIMEOUT''
    else if e = IedClientError_code IED_ERROR_ACCESS_DENIED then ''IED_ERROR_ACCESS_DENIED''
    else if e = IedClientError_code IED_ERROR_OBJECT_DOES_NOT_EXIST then ''IED_ERROR_OBJECT_DOES_NOT_EXIST''
    else if e = IedClientError_code IED_ERROR_OBJECT_EXISTS then ''IED_ERROR_OBJECT_EXISTS''
    else if e = IedClientError_code IED_ERROR_OBJECT_ACCESS_UNSUPPORTED then ''IED_ERROR_OBJECT_ACCESS_UNSUPPORTED''
    else if e = IedClientError_code IED_ERROR_TYPE_INCONSISTENT then ''IED_ERROR_TYPE_INCONSISTENT''
    else if e = IedClientError_code IED_ERROR_TEMPORARILY_UNAVAILABLE then ''IED_ERROR_TEMPORARILY_UNAVAILABLE''
    else if e = IedClientError_code IED_ERROR_OBJECT_UNDEFINED then ''IED_ERROR_OBJECT_UNDEFINED''
    else if e = IedClientError_code IED_ERROR_INVALID_ADDRESS then ''IED_ERROR_INVALID_ADDRESS''
    else if e = IedClientError_code IED_ERROR_HARDWARE_FAULT then ''IED_ERROR_HARDWARE_FAULT''
    else if e = IedClientError_code IED_ERROR_TYPE_UNSUPPORTED then ''IED_ERROR_TYPE_UNSUPPORTED''
    else if e = IedClientError_code IED_ERROR_OBJECT_ATTRIBUTE_INCONSISTENT then ''IED_ERROR_OBJECT_ATTRIBUTE_INCONSISTENT''
    else if e = IedClientError_code IED_ERROR_OBJECT_VALUE_INVALID then ''IED_ERROR_OBJECT_VALUE_INVALID''
    else if e = IedClientError_code IED_ERROR_OBJECT_INVALIDATED then ''IED_ERROR_OBJECT_INVALIDATED''
    else if e = IedClientError_code IED_ERROR_MALFORMED_MESSAGE then ''IED_ERROR_MALFORMED_MESSAGE''
    else if e = IedClientError_code IED_ERROR_SERVICE_NOT_IMPLEMENTED then ''IED_ERROR_SERVICE_NOT_IMPLEMENTED''
    else if e = IedClientError_code IED_ERROR_UNKNOWN then ''IED_ERROR_UNKNOWN''
    else ''IED_ERROR_UNDEFINED'')"

section \<open>mmsTypeName\<close>

definition mmsTypeName :: "int \<Rightarrow> string" where
  "mmsTypeName t = (
    if t = Go_MMS_ARRAY then ''MMS_ARRAY''
    else if t = Go_MMS_STRUCTURE then ''MMS_STRUCTURE''
    else if t = Go_MMS_BOOLEAN then ''MMS_BOOLEAN''
    else if t = Go_MMS_BIT_STRING then ''MMS_BIT_STRING''
    else if t = Go_MMS_INTEGER then ''MMS_INTEGER''
    else if t = Go_MMS_UNSIGNED then ''MMS_UNSIGNED''
    else if t = Go_MMS_FLOAT then ''MMS_FLOAT''
    else if t = Go_MMS_OCTET_STRING then ''MMS_OCTET_STRING''
    else if t = Go_MMS_VISIBLE_STRING then ''MMS_VISIBLE_STRING''
    else if t = Go_MMS_GENERALIZED_TIME then ''MMS_GENERALIZED_TIME''
    else if t = Go_MMS_BINARY_TIME then ''MMS_BINARY_TIME''
    else if t = Go_MMS_BCD then ''MMS_BCD''
    else if t = Go_MMS_OBJ_ID then ''MMS_OBJ_ID''
    else if t = Go_MMS_STRING then ''MMS_STRING''
    else if t = Go_MMS_UTC_TIME then ''MMS_UTC_TIME''
    else if t = Go_MMS_DATA_ACCESS_ERROR then ''MMS_DATA_ACCESS_ERROR''
    else ''unknown'')"

section \<open>ReasonForInclusion.String\<close>

text \<open>The slice \<open>parts\<close>: one name per known bit that is set, from the lowest bit up.\<close>

definition ReasonForInclusion_parts :: "int \<Rightarrow> string list" where
  "ReasonForInclusion_parts ri =
     (if ri AND Go_REASON_DATA_CHANGE \<noteq> 0 then [''DATA_CHANGE''] else []) @
     (if ri AND Go_REASON_QUAL_CHANGE \<noteq> 0 then [''QUAL_CHANGE''] else []) @
     (if ri AND Go_REASON_DATA_UPDATE \<noteq> 0 then [''DATA_UPDATE''] else []) @
     (if ri AND Go_REASON_INTEGRITY \<noteq> 0 then [''INTEGRITY''] else []) @
     (if ri AND Go_REASON_GI \<noteq> 0 then [''GI''] else []) @
     (if ri AND Go_REASON_UNKNOWN \<noteq> 0 then [''UNKNOWN''] else [])"

definition ReasonForInclusion_String :: "int \<Rightarrow> string" where
  "ReasonForInclusion_String ri =
     (if ri = 0 then ''0''
      else let parts = ReasonForInclusion_parts ri in
        if length parts = 0 then ''raw='' @ Itoa ri else Join parts ''|'')"

lemmas Go_REASON_defs = Go_REASON_NOT_INCLUDED_def Go_REASON_DATA_CHANGE_def
  Go_REASON_QUAL_CHANGE_def Go_REASON_DATA_UPDATE_def Go_REASON_INTEGRITY_def
  Go_REASON_GI_def Go_REASON_UNKNOWN_def

lemma reason_bits:
  fixes r :: int
  shows "r AND 1 \<noteq> 0 \<longleftrightarrow> bit r 0" "r AND 2 \<noteq> 0 \<longleftrightarrow> bit r 1" "r AND 4 \<noteq> 0 \<longleftrightarrow> bit r 2"
    "r AND 8 \<noteq> 0 \<longleftrightarrow> bit r 3" "r AND 16 \<noteq> 0 \<longleftrightarrow> bit r 4" "r AND 32 \<noteq> 0 \<longleftrightarrow> bit r 5"
  using and_exp_eq_0_iff_not_bit [of r 0] and_exp_eq_0_iff_not_bit [of r 1]
    and_exp_eq_0_iff_not_bit [of r 2] and_exp_eq_0_iff_not_bit [of r 3]
    and_exp_eq_0_iff_not_bit [of r 4] and_exp_eq_0_iff_not_bit [of r 5]
  by simp_all

definition bit_names :: "bool list \<Rightarrow> string list" where
  "bit_names bs = concat (map2 (\<lambda>b n. if b then [n] else []) bs
     [''DATA_CHANGE'', ''QUAL_CHANGE'', ''DATA_UPDATE'', ''INTEGRITY'', ''GI'', ''UNKNOWN''])"

lemma parts_bits: "ReasonForInclusion_parts r = bit_names (map (bit r) [0, 1, 2, 3, 4, 5])"
  by (simp only: ReasonForInclusion_parts_def Go_REASON_defs reason_bits bit_names_def) simp

text \<open>The sixty-four possible lists of names are told apart by their joined strings.\<close>

lemma bit_names_Nil_iff:
  "bit_names [b0, b1, b2, b3, b4, b5] = [] \<longleftrightarrow> \<not> (b0 \<or> b1 \<or> b2 \<or> b3 \<or> b4 \<or> b5)"
  by (simp add: bit_names_def)

lemma Split_Join_names:
  assumes "ps \<noteq> []" and "\<And>p. p \<in> set ps \<Longrightarrow> c \<notin> set p"
  shows "Split (Join ps [c]) c = ps"
  using assms
proof (induction ps "[c]" rule: Join.induct)
  case 1
  then show ?case by simp
next
  case (2 s)
  then show ?case by (simp add: Split_no_sep)
next
  case (3 s t ss)
  then show ?case by (simp add: Split_sep)
qed

lemma set_selected: "set (concat (map2 (\<lambda>b n. if b then [n] else []) bs ns)) \<subseteq> set ns"
  by (auto dest: set_zip_rightD split: if_splits)

lemma selected_inject:
  assumes "length as = length ns" and "length bs = length ns" and "distinct ns"
  shows "concat (map2 (\<lambda>b n. if b then [n] else []) as ns)
      = concat (map2 (\<lambda>b n. if b then [n] else []) bs ns) \<longleftrightarrow> as = bs"
  using assms
proof (induction ns arbitrary: as bs)
  case Nil
  then show ?case by simp
next
  case (Cons n ns)
  then obtain a as' b bs' where ab: "as = a # as'" "bs = b # bs'"
    by (metis length_Suc_conv list.size(4) add.right_neutral add_Suc_right)
  have "n \<notin> set (concat (map2 (\<lambda>b n. if b then [n] else []) cs ns))" for cs
    using Cons.prems(3) set_selected [of cs ns] by auto
  then have "n # xs \<noteq> concat (map2 (\<lambda>b n. if b then [n] else []) cs ns)" for xs cs
    by (metis list.set_intros(1))
  then show ?case
    using Cons.IH [of as' bs'] Cons.prems ab by (auto dest: sym)
qed

lemma bit_names_inject:
  "length as = 6 \<Longrightarrow> length bs = 6 \<Longrightarrow> bit_names as = bit_names bs \<longleftrightarrow> as = bs"
  unfolding bit_names_def by (rule selected_inject) simp_all

lemma bit_names_subset: "set (bit_names bs) \<subseteq>
  {''DATA_CHANGE'', ''QUAL_CHANGE'', ''DATA_UPDATE'', ''INTEGRITY'', ''GI'', ''UNKNOWN''}"
  using set_selected unfolding bit_names_def by (metis list.set)

lemma bit_names_no_bar:
  assumes "p \<in> set (bit_names bs)"
  shows "CHR ''|'' \<notin> set p"
  using subsetD [OF bit_names_subset assms] by auto

definition reason_bits_of :: "int \<Rightarrow> bool list" where
  "reason_bits_of r = map (bit r) [0, 1, 2, 3, 4, 5]"

lemma reason_bits_of_iff: "reason_bits_of a = reason_bits_of b \<longleftrightarrow> a AND 63 = b AND 63"
proof -
  have b63: "bit (63::int) n \<longleftrightarrow> n < 6" for n
    using bit_mask_iff [of 6 n, where 'a = int] by (simp add: mask_eq_exp_minus_1)
  have six: "n < 6 \<longleftrightarrow> n = 0 \<or> n = 1 \<or> n = 2 \<or> n = 3 \<or> n = 4 \<or> n = 5" for n :: nat
    by arith
  have "a AND 63 = b AND 63 \<longleftrightarrow> (\<forall>n. n < 6 \<longrightarrow> bit a n = bit b n)"
    by (auto simp: bit_eq_iff bit_and_iff b63)
  also have "\<dots> \<longleftrightarrow> reason_bits_of a = reason_bits_of b"
    unfolding six reason_bits_of_def list.map list.inject by blast
  finally show ?thesis by simp
qed

text \<open>A rendered reason determines the known bits, or the whole number when no known bit is set.\<close>

lemma String_cases:
  "ReasonForInclusion_String r =
     (if r = 0 then ''0''
      else if r AND 63 = 0 then ''raw='' @ Itoa r
      else Join (bit_names (reason_bits_of r)) ''|'')"
proof -
  have "bit_names (reason_bits_of r) = [] \<longleftrightarrow> reason_bits_of r = reason_bits_of 0"
    by (simp add: reason_bits_of_def bit_names_Nil_iff)
  also have "\<dots> \<longleftrightarrow> r AND 63 = 0"
    by (subst reason_bits_of_iff) simp
  finally show ?thesis
    by (simp only: ReasonForInclusion_String_def parts_bits reason_bits_of_def [symmetric] Let_def
        length_0_conv split: if_split)
qed

lemma known_bits_joined:
  assumes "r AND 63 \<noteq> 0"
  shows "Split (Join (bit_names (reason_bits_of r)) ''|'') CHR ''|'' = bit_names (reason_bits_of r)"
proof -
  have "reason_bits_of r \<noteq> reason_bits_of 0"
    using assms by (subst reason_bits_of_iff) simp
  then have "bit_names (reason_bits_of r) \<noteq> []"
    by (simp add: reason_bits_of_def bit_names_Nil_iff)
  then show ?thesis
    by (rule Split_Join_names) (rule bit_names_no_bar)
qed

lemma known_bits_hd:
  assumes "r AND 63 \<noteq> 0"
  shows "Join (bit_names (reason_bits_of r)) ''|'' \<noteq> ''0''"
    "Join (bit_names (reason_bits_of r)) ''|'' \<noteq> ''raw='' @ s"
proof -
  let ?names = "[''DATA_CHANGE'', ''QUAL_CHANGE'', ''DATA_UPDATE'', ''INTEGRITY'', ''GI'', ''UNKNOWN'']"
  obtain p ps where ps: "bit_names (reason_bits_of r) = p # ps"
    using known_bits_joined [OF assms] by (cases "bit_names (reason_bits_of r)") auto
  have "p \<in> set ?names"
    using subsetD [OF bit_names_subset, of p "reason_bits_of r"] by (simp add: ps)
  moreover have "hd (Join (p # ps) ''|'') = hd p" if "p \<noteq> []"
    using that by (cases ps) auto
  ultimately have "hd (Join (p # ps) ''|'') \<in> {CHR ''D'', CHR ''Q'', CHR ''I'', CHR ''G'', CHR ''U''}"
    by auto
  then show "Join (bit_names (reason_bits_of r)) ''|'' \<noteq> ''0''"
    "Join (bit_names (reason_bits_of r)) ''|'' \<noteq> ''raw='' @ s"
    by (auto simp: ps)
qed

lemma String_eq_iff:
  "ReasonForInclusion_String a = ReasonForInclusion_String b \<longleftrightarrow>
     a = b \<or> (a AND 63 = b AND 63 \<and> a AND 63 \<noteq> 0)"
proof -
  have join_eq: "Join (bit_names (reason_bits_of a)) ''|'' = Join (bit_names (reason_bits_of b)) ''|''
      \<longleftrightarrow> a AND 63 = b AND 63" if "a AND 63 \<noteq> 0" "b AND 63 \<noteq> 0"
  proof -
    have "bit_names (reason_bits_of a) = bit_names (reason_bits_of b)
        \<longleftrightarrow> reason_bits_of a = reason_bits_of b"
      by (rule bit_names_inject) (simp_all add: reason_bits_of_def)
    then show ?thesis
      using known_bits_joined [OF that(1)] known_bits_joined [OF that(2)] reason_bits_of_iff [of a b] by metis
  qed
  show ?thesis
  proof (cases "a AND 63 = 0"; cases "b AND 63 = 0")
    assume "a AND 63 = 0" "b AND 63 = 0"
    then show ?thesis by (auto simp: String_cases Itoa_inject)
  next
    assume "a AND 63 = 0" "b AND 63 \<noteq> 0"
    moreover from this have "a \<noteq> b" "b \<noteq> 0" by auto
    ultimately show ?thesis
      using known_bits_hd [of b, THEN not_sym] by (simp add: String_cases)
  next
    assume "a AND 63 \<noteq> 0" "b AND 63 = 0"
    moreover from this have "a \<noteq> b" "a \<noteq> 0" by auto
    ultimately show ?thesis
      using known_bits_hd [of a] by (simp add: String_cases)
  next
    assume nz: "a AND 63 \<noteq> 0" "b AND 63 \<noteq> 0"
    moreover from this have "a \<noteq> 0" "b \<noteq> 0" by auto
    ultimately show ?thesis
      using join_eq [OF nz] by (auto simp: String_cases)
  qed
qed


section \<open>Agreement of the two sides\<close>

lemmas Go_FC_defs = Go_IEC61850_FC_ST_def Go_IEC61850_FC_MX_def Go_IEC61850_FC_SP_def
  Go_IEC61850_FC_SV_def Go_IEC61850_FC_CF_def Go_IEC61850_FC_DC_def Go_IEC61850_FC_SG_def
  Go_IEC61850_FC_SE_def Go_IEC61850_FC_SR_def Go_IEC61850_FC_OR_def Go_IEC61850_FC_BL_def
  Go_IEC61850_FC_EX_def Go_IEC61850_FC_CO_def Go_IEC61850_FC_US_def Go_IEC61850_FC_MS_def
  Go_IEC61850_FC_RP_def Go_IEC61850_FC_BR_def Go_IEC61850_FC_LG_def Go_IEC61850_FC_GO_def
  Go_IEC61850_FC_ALL_def Go_IEC61850_FC_NONE_def

lemmas Go_MMS_defs = Go_MMS_ARRAY_def Go_MMS_STRUCTURE_def Go_MMS_BOOLEAN_def
  Go_MMS_BIT_STRING_def Go_MMS_INTEGER_def Go_MMS_UNSIGNED_def Go_MMS_FLOAT_def
  Go_MMS_OCTET_STRING_def Go_MMS_VISIBLE_STRING_def Go_MMS_GENERALIZED_TIME_def
  Go_MMS_BINARY_TIME_def Go_MMS_BCD_def Go_MMS_OBJ_ID_def Go_MMS_STRING_def
  Go_MMS_UTC_TIME_def Go_MMS_DATA_ACCESS_ERROR_def

lemma FunctionalConstraint_agrees:
  "map_of Go_FunctionalConstraint_consts (FunctionalConstraint_name e)
     = Some (FunctionalConstraint_code e)"
proof -
  have "list_all (\<lambda>e. map_of Go_FunctionalConstraint_consts (FunctionalConstraint_name e)
      = Some (FunctionalConstraint_code e)) FunctionalConstraint_all"
    by code_simp
  then show ?thesis by (simp add: list_all_iff FunctionalConstraint_all_complete)
qed

lemma MMSType_agrees:
  "map_of Go_MMSType_consts (MmsType_name e) = Some (MmsType_code e)"
  by (cases e) (simp_all add: Go_MMSType_consts_def Go_MMS_defs)

lemma ClientState_agrees:
  "map_of Go_ClientState_consts (IedConnectionState_name e) = Some (IedConnectionState_code e)"
  by (cases e) (simp_all add: Go_ClientState_consts_def Go_IED_STATE_CLOSED_def
      Go_IED_STATE_CONNECTING_def Go_IED_STATE_CONNECTED_def Go_IED_STATE_CLOSING_def)

lemma masks_agree:
  "map snd Go_TRG_OPT_consts
     = [TRG_OPT_DATA_CHANGED, TRG_OPT_QUALITY_CHANGED, TRG_OPT_DATA_UPDATE, TRG_OPT_INTEGRITY, TRG_OPT_GI]"
  "map snd Go_RPT_OPT_consts
     = [RPT_OPT_SEQ_NUM, RPT_OPT_TIME_STAMP, RPT_OPT_REASON_FOR_INCLUSION, RPT_OPT_DATA_SET,
        RPT_OPT_DATA_REFERENCE, RPT_OPT_BUFFER_OVERFLOW, RPT_OPT_ENTRY_ID, RPT_OPT_CONF_REV]"
  "map snd Go_REASON_consts
     = [IEC61850_REASON_NOT_INCLUDED, IEC61850_REASON_DATA_CHANGE, IEC61850_REASON_QUALITY_CHANGE,
        IEC61850_REASON_DATA_UPDATE, IEC61850_REASON_INTEGRITY, IEC61850_REASON_GI,
        IEC61850_REASON_UNKNOWN]"
  by (simp_all add: Go_TRG_OPT_consts_def Go_RPT_OPT_consts_def Go_REASON_consts_def
      Go_TRG_OPT_DATA_CHANGED_def Go_TRG_OPT_QUALITY_CHANGED_def Go_TRG_OPT_DATA_UPDATE_def
      Go_TRG_OPT_INTEGRITY_def Go_TRG_OPT_GI_def TRG_OPT_DATA_CHANGED_def
      TRG_OPT_QUALITY_CHANGED_def TRG_OPT_DATA_UPDATE_def TRG_OPT_INTEGRITY_def TRG_OPT_GI_def
      Go_RPT_OPT_SEQ_NUM_def Go_RPT_OPT_TIME_STAMP_def Go_RPT_OPT_REASON_FOR_INCLUDE_def
      Go_RPT_OPT_DATA_SET_def Go_RPT_OPT_DATA_REFERENCE_def Go_RPT_OPT_BUFFER_OVERFLOW_def
      Go_RPT_OPT_ENTRY_ID_def Go_RPT_OPT_CONF_REV_def RPT_OPT_SEQ_NUM_def RPT_OPT_TIME_STAMP_def
      RPT_OPT_REASON_FOR_INCLUSION_def RPT_OPT_DATA_SET_def RPT_OPT_DATA_REFERENCE_def
      RPT_OPT_BUFFER_OVERFLOW_def RPT_OPT_ENTRY_ID_def RPT_OPT_CONF_REV_def Go_REASON_defs
      IEC61850_REASON_NOT_INCLUDED_def IEC61850_REASON_DATA_CHANGE_def
      IEC61850_REASON_QUALITY_CHANGE_def IEC61850_REASON_DATA_UPDATE_def
      IEC61850_REASON_INTEGRITY_def IEC61850_REASON_GI_def IEC61850_REASON_UNKNOWN_def)


lemma Err_code:
  "Err (IedClientError_code e) =
     (if e = IED_ERROR_OBJECT_CONSTRAINT_CONFLICT then ''IED_ERROR_UNDEFINED''
      else IedClientError_name e)"
  by (cases e) (simp_all add: Err_def)

lemma Err_other:
  assumes "IedClientError_decode i = None"
  shows "Err i = ''IED_ERROR_UNDEFINED''"
proof -
  have "i \<noteq> IedClientError_code e" for e
    using assms IedClientError.decode_None_iff by auto
  then show ?thesis by (simp only: Err_def if_False)
qed

text \<open>
  \<open>Err\<close> renders every client error code of the C header as the enumerator's own name,
  except \<open>IED_ERROR_OBJECT_CONSTRAINT_CONFLICT\<close> (35), which it has no case for and renders
  like a number that is no error code at all.
\<close>

theorem Err_renders_client_errors:
  "Err i = (case IedClientError_decode i of
      None \<Rightarrow> ''IED_ERROR_UNDEFINED''
    | Some e \<Rightarrow> if e = IED_ERROR_OBJECT_CONSTRAINT_CONFLICT then ''IED_ERROR_UNDEFINED''
        else IedClientError_name e)"
proof (cases "IedClientError_decode i")
  case None
  then show ?thesis by (simp add: Err_other)
next
  case (Some e)
  then have "i = IedClientError_code e" by (simp add: IedClientError.decode_iff)
  then show ?thesis by (simp only: Err_code IedClientError.decode_code option.case)
qed

lemma mmsTypeName_code: "mmsTypeName (MmsType_code e) = MmsType_name e"
  by (cases e) (simp_all add: mmsTypeName_def Go_MMS_defs)

text \<open>
  \<open>ReasonForInclusion.String\<close> loses nothing but unknown bits next to known ones: two
  reasons are rendered alike exactly when they are equal or have the same, non-empty set of
  the six known bits.
\<close>

theorem reason_string_determines_known_bits:
  "ReasonForInclusion_String a = ReasonForInclusion_String b \<longleftrightarrow>
     a = b \<or> (a AND 63 = b AND 63 \<and> a AND 63 \<noteq> 0)"
  by (rule String_eq_iff)

end
