(* ===== verification/Mms_Api.thy ===== *)
theory Mms_Api
  imports Go_Types
begin

text \<open>
  The part of libiec61850 the binding reads values through. The library is linked as a binary,
  so its functions are the fields of a record that every definition below takes as a
  parameter; the field types are the prototypes of \<open>inc/mms/inc/mms_value.h\<close> and
  \<open>inc/iec61850/inc/iec61850_client.h\<close>. A non-null \<open>MmsValue*\<close> is of the type variable
  \<open>'v\<close>, a pointer that may be null of type \<open>'v option\<close>.

  \<open>mms_tree\<close> is the value such a pointer stands for, and \<open>represents\<close> says that the
  accessors, called on the pointer, answer with the parts of that value: for an array or a
  structure the size, the elements in order (a missing one is null) and null from the end on.
\<close>

section \<open>Accessors\<close>

record 'v mms_api =
  MmsValue_getType :: "'v \<Rightarrow> int"
  MmsValue_getArraySize :: "'v \<Rightarrow> uint32"
  MmsValue_getElement :: "'v \<Rightarrow> int \<Rightarrow> 'v option"
  MmsValue_getBoolean :: "'v \<Rightarrow> bool"
  MmsValue_toDouble :: "'v \<Rightarrow> c_double"
  MmsValue_toInt64 :: "'v \<Rightarrow> int64"
  MmsValue_toString :: "'v \<Rightarrow> string option"
  MmsValue_getBitStringAsInteger :: "'v \<Rightarrow> uint32"
  MmsValue_toUnixTimestamp :: "'v \<Rightarrow> uint32"

record ('r, 'v) report_api =
  ClientReport_getDataSetName :: "'r \<Rightarrow> string option"
  ClientReport_getDataSetValues :: "'r \<Rightarrow> 'v option"
  ClientReport_hasSeqNum :: "'r \<Rightarrow> bool"
  ClientReport_getSeqNum :: "'r \<Rightarrow> uint16"
  ClientReport_hasTimestamp :: "'r \<Rightarrow> bool"
  ClientReport_getTimestamp :: "'r \<Rightarrow> uint64"
  ClientReport_hasReasonForInclusion :: "'r \<Rightarrow> bool"
  ClientReport_getReasonForInclusion :: "'r \<Rightarrow> int \<Rightarrow> int"

section \<open>Values\<close>

datatype mms_tree =
    MBool bool
  | MFloat c_double
  | MInteger int64
  | MUnsigned int64
  | MString "string option"
  | MVisibleString "string option"
  | MOctetString "string option"
  | MBitString uint32
  | MUtcTime uint32
  | MOther MmsType
  | MStructure "mms_tree option list"
  | MArray "mms_tree option list"

fun tree_type :: "mms_tree \<Rightarrow> MmsType" where
  "tree_type (MBool _) = MMS_BOOLEAN"
| "tree_type (MFloat _) = MMS_FLOAT"
| "tree_type (MInteger _) = MMS_INTEGER"
| "tree_type (MUnsigned _) = MMS_UNSIGNED"
| "tree_type (MString _) = MMS_STRING"
| "tree_type (MVisibleString _) = MMS_VISIBLE_STRING"
| "tree_type (MOctetString _) = MMS_OCTET_STRING"
| "tree_type (MBitString _) = MMS_BIT_STRING"
| "tree_type (MUtcTime _) = MMS_UTC_TIME"
| "tree_type (MOther t) = t"
| "tree_type (MStructure _) = MMS_STRUCTURE"
| "tree_type (MArray _) = MMS_ARRAY"

text \<open>The types no accessor of the binding reads.\<close>

definition opaque_types :: "MmsType list" where
  "opaque_types = [MMS_GENERALIZED_TIME, MMS_BINARY_TIME, MMS_BCD, MMS_OBJ_ID,
     MMS_DATA_ACCESS_ERROR]"

fun leaf_data :: "'v mms_api \<Rightarrow> 'v \<Rightarrow> mms_tree \<Rightarrow> bool" where
  "leaf_data api v (MBool b) \<longleftrightarrow> MmsValue_getBoolean api v = b"
| "leaf_data api v (MFloat d) \<longleftrightarrow> MmsValue_toDouble api v = d"
| "leaf_data api v (MInteger n) \<longleftrightarrow> MmsValue_toInt64 api v = n"
| "leaf_data api v (MUnsigned n) \<longleftrightarrow> MmsValue_toInt64 api v = n"
| "leaf_data api v (MString s) \<longleftrightarrow> MmsValue_toString api v = s"
| "leaf_data api v (MVisibleString s) \<longleftrightarrow> MmsValue_toString api v = s"
| "leaf_data api v (MOctetString s) \<longleftrightarrow> MmsValue_toString api v = s"
| "leaf_data api v (MBitString n) \<longleftrightarrow> MmsValue_getBitStringAsInteger api v = n"
| "leaf_data api v (MUtcTime n) \<longleftrightarrow> MmsValue_toUnixTimestamp api v = n"
| "leaf_data api v (MOther t) \<longleftrightarrow> t \<in> set opaque_types"
| "leaf_data api v (MStructure _) \<longleftrightarrow> True"
| "leaf_data api v (MArray _) \<longleftrightarrow> True"

fun represents :: "'v mms_api \<Rightarrow> 'v \<Rightarrow> mms_tree \<Rightarrow> bool"
  and represents_elems :: "'v mms_api \<Rightarrow> 'v \<Rightarrow> int \<Rightarrow> mms_tree option list \<Rightarrow> bool" where
  "represents api v (MStructure ts) \<longleftrightarrow>
     MmsValue_getType api v = MmsType_code MMS_STRUCTURE \<and>
     sint (MmsValue_getArraySize api v) = int (length ts) \<and> represents_elems api v 0 ts"
| "represents api v (MArray ts) \<longleftrightarrow>
     MmsValue_getType api v = MmsType_code MMS_ARRAY \<and>
     sint (MmsValue_getArraySize api v) = int (length ts) \<and> represents_elems api v 0 ts"
| "represents api v t \<longleftrightarrow>
     MmsValue_getType api v = MmsType_code (tree_type t) \<and> leaf_data api v t"
| "represents_elems api v i [] \<longleftrightarrow> (\<forall>j \<ge> i. MmsValue_getElement api v j = None)"
| "represents_elems api v i (None # ts) \<longleftrightarrow>
     MmsValue_getElement api v i = None \<and> represents_elems api v (i + 1) ts"
| "represents_elems api v i (Some t # ts) \<longleftrightarrow>
     (case MmsValue_getElement api v i of
        None \<Rightarrow> False
      | Some w \<Rightarrow> represents api w t \<and> represents_elems api v (i + 1) ts)"

lemma represents_type: "represents api v t \<Longrightarrow> MmsValue_getType api v = MmsType_code (tree_type t)"
  by (cases t) auto

lemma represents_elems_nth:
  assumes "represents_elems api v i ts" and "k < length ts"
  shows "case ts ! k of
      None \<Rightarrow> MmsValue_getElement api v (i + int k) = None
    | Some t \<Rightarrow> \<exists>w. MmsValue_getElement api v (i + int k) = Some w \<and> represents api w t"
  using assms
proof (induction ts arbitrary: i k)
  case Nil
  then show ?case by simp
next
  case (Cons t ts)
  show ?case
  proof (cases k)
    case 0
    with Cons.prems show ?thesis by (cases t) (auto split: option.splits)
  next
    case (Suc m)
    have "represents_elems api v (i + 1) ts"
      using Cons.prems(1) by (cases t) (auto split: option.splits)
    moreover have "m < length ts" using Cons.prems(2) Suc by simp
    ultimately show ?thesis
      using Cons.IH [of "i + 1" m] unfolding Suc nth_Cons_Suc
      by (cases "ts ! m") (simp_all add: algebra_simps)
  qed
qed

lemma represents_elems_beyond:
  assumes "represents_elems api v i ts" and "i + int (length ts) \<le> j"
  shows "MmsValue_getElement api v j = None"
  using assms
proof (induction ts arbitrary: i)
  case Nil
  then show ?case by simp
next
  case (Cons t ts)
  then show ?case
    by (cases t) (auto split: option.splits)
qed

section \<open>An instance\<close>

text \<open>
  Accessors over the values themselves, which answer as \<open>represents\<close> asks; the witnesses
  of theorems about an arbitrary library are stated for this one.
\<close>

fun tree_elems :: "mms_tree \<Rightarrow> mms_tree option list" where
  "tree_elems (MStructure ts) = ts"
| "tree_elems (MArray ts) = ts"
| "tree_elems _ = []"

fun tree_string :: "mms_tree \<Rightarrow> string option" where
  "tree_string (MString s) = s"
| "tree_string (MVisibleString s) = s"
| "tree_string (MOctetString s) = s"
| "tree_string _ = None"

fun tree_int :: "mms_tree \<Rightarrow> int64" where
  "tree_int (MInteger n) = n"
| "tree_int (MUnsigned n) = n"
| "tree_int _ = 0"

definition tree_api :: "mms_tree mms_api" where
  "tree_api = \<lparr>
     MmsValue_getType = (\<lambda>t. MmsType_code (tree_type t)),
     MmsValue_getArraySize = (\<lambda>t. of_nat (length (tree_elems t))),
     MmsValue_getElement = (\<lambda>t i.
       if 0 \<le> i \<and> i < int (length (tree_elems t)) then tree_elems t ! nat i else None),
     MmsValue_getBoolean = (\<lambda>t. t = MBool True),
     MmsValue_toDouble = (\<lambda>t. case t of MFloat d \<Rightarrow> d | _ \<Rightarrow> 0),
     MmsValue_toInt64 = tree_int,
     MmsValue_toString = tree_string,
     MmsValue_getBitStringAsInteger = (\<lambda>t. case t of MBitString n \<Rightarrow> n | _ \<Rightarrow> 0),
     MmsValue_toUnixTimestamp = (\<lambda>t. case t of MUtcTime n \<Rightarrow> n | _ \<Rightarrow> 0)\<rparr>"

text \<open>A report over it: the elements, and constant answers for the rest.\<close>

definition tree_report :: "(mms_tree, mms_tree) report_api" where
  "tree_report = \<lparr>
     ClientReport_getDataSetName = (\<lambda>_. Some ''LD/LLN0$DS''),
     ClientReport_getDataSetValues = Some,
     ClientReport_hasSeqNum = (\<lambda>_. True),
     ClientReport_getSeqNum = (\<lambda>_. 7),
     ClientReport_hasTimestamp = (\<lambda>_. False),
     ClientReport_getTimestamp = (\<lambda>_. 99),
     ClientReport_hasReasonForInclusion = (\<lambda>_. True),
     ClientReport_getReasonForInclusion = (\<lambda>_ i. i)\<rparr>"

lemmas tree_api_simps = tree_api_def tree_report_def

section \<open>Values of Go's empty interface\<close>

text \<open>
  The dynamic values the binding puts into an \<open>interface{}\<close>, each constructor one dynamic
  type: \<open>nil\<close>, \<open>bool\<close>, \<open>float64\<close>, \<open>int64\<close>, \<open>uint32\<close>, \<open>int\<close>,
  \<open>string\<close>, \<open>[]interface{}\<close> and \<open>[]GoMmsValue\<close>. A nil slice and an empty slice
  have the same length and elements and are not told apart.
\<close>

datatype go_value =
    GoNil
  | GoBool bool
  | GoFloat64 c_double
  | GoInt64 int64
  | GoUint32 uint32
  | GoInt int
  | GoString string
  | GoSlice "go_value list"
  | GoMmsValues "GoMmsValue list"
and GoMmsValue = GoMmsValue (Type: int) (Value: go_value)

text \<open>\<open>C.GoString\<close> guarded by a null test: a null \<open>char*\<close> reads as the empty string.\<close>

definition GoString_or_empty :: "string option \<Rightarrow> string" where
  "GoString_or_empty s = (case s of None \<Rightarrow> [] | Some x \<Rightarrow> x)"

lemma GoString_or_empty_simps [simp]:
  "GoString_or_empty None = []" "GoString_or_empty (Some s) = s"
  by (simp_all add: GoString_or_empty_def)

end
