(* ===== verification/Scl_Xml.thy ===== *)
theory Scl_Xml
  imports Mms_Api
begin

text \<open>
  The SCL document (\<open>scl_xml/scl.go\<close>): its data types, the two look-ups the data set code
  rests on, \<open>GetDOType\<close> with its cache and \<open>GetDataSet\<close>, and the printers, which are
  modelled as the list of lines they print. The definitions start from the parsed document;
  reading one is in \<open>Scl_Parse\<close>.
\<close>

section \<open>Data types\<close>

text \<open>Sub-data instances contain attribute instances and each other.\<close>

record Val = val_Value :: string

datatype DAI = DAI (dai_Name: string) (dai_Val: Val) (dai_SDI: "SDI list")
  and SDI = SDI (sdi_Name: string) (sdi_DAI: "DAI list") (sdi_SDI: "SDI list")

record DOI =
  doi_Desc :: string
  doi_Name :: string
  doi_DAI :: "DAI list"
  doi_SDI :: "SDI list"

record FCDAEntry =
  fcda_LDInst :: string
  fcda_Prefix :: string
  fcda_LNClass :: string
  fcda_LNInst :: string
  fcda_DOName :: string
  fcda_DAName :: string
  fcda_FC :: string

record DataSet =
  ds_Name :: string
  ds_Desc :: string
  ds_FCDA :: "FCDAEntry list"

record LN0 =
  ln0_Inst :: string
  ln0_LnType :: string
  ln0_LnClass :: string
  ln0_DataSets :: "DataSet list"

record LN =
  ln_Inst :: string
  ln_Prefix :: string
  ln_LnType :: string
  ln_LnClass :: string
  ln_DOI :: "DOI list"

record LDevice =
  ld_Inst :: string
  ld_LN :: "LN list"
  ld_LN0 :: LN0

record AccessPoint =
  ap_Name :: string
  ap_LDevice :: "LDevice list"

record IED =
  ied_Name :: string
  ied_Type :: string
  ied_Desc :: string
  ied_ConfigVersion :: string
  ied_AccessPoint :: "AccessPoint list"

datatype DA = DA (da_Name: string) (da_Type: string) (da_FC: string) (da_Val: go_value) (da_DA: "DA list")

record SDO =
  sdo_Name :: string
  sdo_Type :: string
  sdo_DA :: "DA list"

record DO =
  do_Name :: string
  do_Type :: string
  do_Desc :: string
  do_DA :: "DA list"

record DOType =
  dot_ID :: string
  dot_DA :: "DA list"
  dot_Desc :: string
  dot_SDO :: "SDO list"

record LNodeType =
  lnt_ID :: string
  lnt_LNClass :: string
  lnt_Desc :: string
  lnt_DO :: "DO list"

record BDA =
  bda_Name :: string
  bda_Type :: string
  bda_Val :: go_value

record DAType =
  dat_ID :: string
  dat_BDA :: "BDA list"
  dat_DA :: "DA list"

record EnumVal =
  ev_Ord :: int
  ev_Name :: string

record EnumType =
  et_ID :: string
  et_EnumVal :: "EnumVal list"

record DataTypeTemplates =
  dtt_LNodeType :: "LNodeType list"
  dtt_DOType :: "DOType list"
  dtt_DAType :: "DAType list"
  dtt_EnumType :: "EnumType list"

record SCL =
  scl_IED :: "IED list"
  scl_DataTypeTemplates :: DataTypeTemplates

record DataSetDetail = DataSet +
  dsd_IEDName :: string
  dsd_DOTypes :: "string \<rightharpoonup> DOType"
  dsd_DataTypeTemplates :: DataTypeTemplates

section \<open>GetDOType\<close>

definition empty_DOType :: DOType where
  "empty_DOType = \<lparr>dot_ID = [], dot_DA = [], dot_Desc = [], dot_SDO = []\<rparr>"

text \<open>The two search loops: the first logical node type that fits decides, found or not.\<close>

definition find_doTypeId :: "DataTypeTemplates \<Rightarrow> string \<Rightarrow> string \<Rightarrow> string \<Rightarrow> string" where
  "find_doTypeId templates prefix lnClass nm =
     (case List.find (\<lambda>t. lnt_ID t = prefix @ lnClass \<or> lnt_LNClass t = lnClass) (dtt_LNodeType templates) of
        None \<Rightarrow> []
      | Some lNodeType \<Rightarrow>
          (case List.find (\<lambda>d. do_Name d = nm) (lnt_DO lNodeType) of
             None \<Rightarrow> []
           | Some d \<Rightarrow> do_Type d))"

definition find_DOType :: "DataTypeTemplates \<Rightarrow> string \<Rightarrow> DOType option" where
  "find_DOType templates doTypeId = List.find (\<lambda>t. dot_ID t = doTypeId) (dtt_DOType templates)"

definition do_type_key :: "string \<Rightarrow> string \<Rightarrow> string \<Rightarrow> string" where
  "do_type_key prefix lnClass nm = prefix @ lnClass @ ''/'' @ nm"

definition GetDOType :: "string \<Rightarrow> string \<Rightarrow> string \<Rightarrow> DataSetDetail \<Rightarrow> DOType \<times> DataSetDetail" where
  "GetDOType prefix lnClass nm ds =
     (let key = do_type_key prefix lnClass nm in
      case dsd_DOTypes ds key of
        Some typ \<Rightarrow> (typ, ds)
      | None \<Rightarrow>
          (case find_DOType (dsd_DataTypeTemplates ds)
              (find_doTypeId (dsd_DataTypeTemplates ds) prefix lnClass nm) of
             Some doType \<Rightarrow> (doType, ds\<lparr>dsd_DOTypes := (dsd_DOTypes ds)(key \<mapsto> doType)\<rparr>)
           | None \<Rightarrow> (empty_DOType, ds)))"

section \<open>GetDataSet\<close>

text \<open>
  The loops over devices and data sets. The loop over the devices of an access point stops at
  the first one with the name, whether or not it has the data set; the search goes on with the
  next access point.
\<close>

fun find_in_devices :: "string \<Rightarrow> string \<Rightarrow> string \<Rightarrow> LDevice list \<Rightarrow> DataSet option" where
  "find_in_devices iedName arg0 arg1 [] = None"
| "find_in_devices iedName arg0 arg1 (lDevice # lDevices) =
     (if iedName @ ld_Inst lDevice = arg0 then
        List.find (\<lambda>d. ln0_LnClass (ld_LN0 lDevice) @ ''.'' @ ds_Name d = arg1)
          (ln0_DataSets (ld_LN0 lDevice))
      else find_in_devices iedName arg0 arg1 lDevices)"

fun find_in_points :: "string \<Rightarrow> string \<Rightarrow> string \<Rightarrow> AccessPoint list \<Rightarrow> DataSet option" where
  "find_in_points iedName arg0 arg1 [] = None"
| "find_in_points iedName arg0 arg1 (ap # aps) =
     (case find_in_devices iedName arg0 arg1 (ap_LDevice ap) of
        Some d \<Rightarrow> Some d
      | None \<Rightarrow> find_in_points iedName arg0 arg1 aps)"

fun find_in_ieds :: "string \<Rightarrow> string \<Rightarrow> IED list \<Rightarrow> (string \<times> DataSet) option" where
  "find_in_ieds arg0 arg1 [] = None"
| "find_in_ieds arg0 arg1 (ied # ieds) =
     (case find_in_points (ied_Name ied) arg0 arg1 (ied_AccessPoint ied) of
        Some d \<Rightarrow> Some (ied_Name ied, d)
      | None \<Rightarrow> find_in_ieds arg0 arg1 ieds)"

definition data_set_detail :: "SCL \<Rightarrow> string \<Rightarrow> DataSet \<Rightarrow> DataSetDetail" where
  "data_set_detail scl iedName d = \<lparr>ds_Name = ds_Name d, ds_Desc = ds_Desc d, ds_FCDA = ds_FCDA d,
     dsd_IEDName = iedName, dsd_DOTypes = Map.empty,
     dsd_DataTypeTemplates = scl_DataTypeTemplates scl\<rparr>"

definition GetDataSet :: "SCL \<Rightarrow> string \<Rightarrow> string + DataSetDetail" where
  "GetDataSet scl ref =
     (case Split ref (CHR ''/'') of
        [arg0, arg1] \<Rightarrow>
          (case find_in_ieds arg0 arg1 (scl_IED scl) of
             Some (iedName, d) \<Rightarrow> Inr (data_set_detail scl iedName d)
           | None \<Rightarrow> Inl (''can not found dataset ref: '' @ ref))
      | _ \<Rightarrow> Inl (''error parse dataset ref: '' @ ref))"

section \<open>Printing\<close>

definition getIndentation :: "nat \<Rightarrow> string" where
  "getIndentation n = Repeat ''  '' n"

definition Val_Print :: "nat \<Rightarrow> Val \<Rightarrow> string list" where
  "Val_Print n val = [getIndentation n @ ''Value: '' @ val_Value val]"

text \<open>\<open>SDI.Print\<close> prints the attribute instances of an SDI, not the SDIs nested in it.\<close>

definition SDI_Print :: "nat \<Rightarrow> SDI \<Rightarrow> string list" where
  "SDI_Print n sdi = (getIndentation n @ ''SDI: '' @ sdi_Name sdi)
     # concat (map (\<lambda>dai. (getIndentation (n + 1) @ ''DAI: '' @ dai_Name dai)
          # Val_Print (n + 2) (dai_Val dai)) (sdi_DAI sdi))"

definition DAI_Print :: "nat \<Rightarrow> DAI \<Rightarrow> string list" where
  "DAI_Print n dai =
     (getIndentation n @ ''DAI Name: '' @ dai_Name dai @ '', Value: '' @ val_Value (dai_Val dai))
     # concat (map (SDI_Print (n + 1)) (dai_SDI dai))"

definition DOI_Print :: "nat \<Rightarrow> DOI \<Rightarrow> string list" where
  "DOI_Print n doi = (getIndentation n @ ''DOI Name: '' @ doi_Name doi @ '', Desc: '' @ doi_Desc doi)
     # concat (map (DAI_Print (n + 1)) (doi_DAI doi)) @ concat (map (SDI_Print (n + 1)) (doi_SDI doi))"

definition LN_Print :: "nat \<Rightarrow> LN \<Rightarrow> string list" where
  "LN_Print n ln = (getIndentation n @ ''LN Inst: '' @ ln_Inst ln @ '', Prefix: '' @ ln_Prefix ln
       @ '', LnType: '' @ ln_LnType ln @ '', LnClass: '' @ ln_LnClass ln)
     # concat (map (DOI_Print (n + 1)) (ln_DOI ln))"

definition IED_Print :: "nat \<Rightarrow> IED \<Rightarrow> string list" where
  "IED_Print n ied = (getIndentation n @ ''IED Name: '' @ ied_Name ied @ '', Type: '' @ ied_Type ied
       @ '', Desc: '' @ ied_Desc ied)
     # concat (map (\<lambda>ap. (getIndentation (n + 1) @ ''AccessPoint: '' @ ap_Name ap)
          # concat (map (\<lambda>ld. (getIndentation (n + 2) @ ''LDevice: '' @ ld_Inst ld)
              # concat (map (LN_Print (n + 3)) (ld_LN ld))) (ap_LDevice ap))) (ied_AccessPoint ied))"

definition DO_Print :: "nat \<Rightarrow> DO \<Rightarrow> string list" where
  "DO_Print n d = (if do_Name d \<noteq> [] \<and> do_Type d \<noteq> []
     then [getIndentation n @ ''DO: '' @ do_Name d @ '', Type: '' @ do_Type d] else [])"

fun DA_Print :: "nat \<Rightarrow> DA \<Rightarrow> string list" where
  "DA_Print n (DA nm ty fc val das) = (if nm \<noteq> [] \<and> ty \<noteq> []
     then (getIndentation n @ ''DA: '' @ nm @ '', Type: '' @ ty) # concat (map (DA_Print (n + 1)) das)
     else [])"

definition BDA_Print :: "nat \<Rightarrow> BDA \<Rightarrow> string list" where
  "BDA_Print n bda = (if bda_Name bda \<noteq> [] \<and> bda_Type bda \<noteq> []
     then [getIndentation n @ ''BDA: '' @ bda_Name bda @ '', Type: '' @ bda_Type bda] else [])"

definition DataTypeTemplates_Print :: "nat \<Rightarrow> DataTypeTemplates \<Rightarrow> string list" where
  "DataTypeTemplates_Print n dt = (getIndentation n @ ''DataTypeTemplates:'')
     # concat (map (\<lambda>t. (getIndentation (n + 1) @ ''LNodeType: '' @ lnt_ID t)
         # concat (map (DO_Print (n + 2)) (lnt_DO t))) (dtt_LNodeType dt))
     @ concat (map (\<lambda>t. (getIndentation (n + 1) @ ''DOType: '' @ dot_ID t)
         # concat (map (DA_Print (n + 2)) (dot_DA t))) (dtt_DOType dt))
     @ concat (map (\<lambda>t. (getIndentation (n + 1) @ ''DAType: '' @ dat_ID t)
         # concat (map (BDA_Print (n + 2)) (dat_BDA t)) @ concat (map (DA_Print (n + 2)) (dat_DA t)))
         (dtt_DAType dt))
     @ concat (map (\<lambda>t. (getIndentation (n + 1) @ ''EnumType: '' @ et_ID t)
         # map (\<lambda>v. getIndentation (n + 2) @ ''EnumVal: Ord: '' @ Itoa (ev_Ord v) @ '', Name: '' @ ev_Name v)
             (et_EnumVal t)) (dtt_EnumType dt))"

definition SCL_Print :: "SCL \<Rightarrow> string list" where
  "SCL_Print scl = concat (map (IED_Print 0) (scl_IED scl))
     @ DataTypeTemplates_Print 0 (scl_DataTypeTemplates scl)"

section \<open>What the look-ups find\<close>

text \<open>The answer the cache stands for.\<close>

definition lookup_DOType :: "DataTypeTemplates \<Rightarrow> string \<Rightarrow> string \<Rightarrow> string \<Rightarrow> DOType" where
  "lookup_DOType templates prefix lnClass nm =
     (case find_DOType templates (find_doTypeId templates prefix lnClass nm) of
        None \<Rightarrow> empty_DOType | Some t \<Rightarrow> t)"

text \<open>
  IEC 61850 logical node classes have four letters, and neither they nor the prefixes contain a
  slash; then a key of the cache stands for one question.
\<close>

definition regular_name :: "string \<Rightarrow> string \<Rightarrow> bool" where
  "regular_name prefix lnClass \<longleftrightarrow>
     length lnClass = 4 \<and> CHR ''/'' \<notin> set lnClass \<and> CHR ''/'' \<notin> set prefix"

lemma do_type_key_inject:
  assumes "regular_name p c" and "regular_name p' c'" and "do_type_key p c n = do_type_key p' c' n'"
  shows "p = p' \<and> c = c' \<and> n = n'"
proof -
  have "Split (do_type_key p c n) (CHR ''/'') = (p @ c) # Split n (CHR ''/'')"
    and "Split (do_type_key p' c' n') (CHR ''/'') = (p' @ c') # Split n' (CHR ''/'')"
    using assms(1,2) Split_sep [of "CHR ''/''" "p @ c" n] Split_sep [of "CHR ''/''" "p' @ c'" n']
    by (simp_all add: do_type_key_def regular_name_def)
  with assms(3) have "p @ c = p' @ c'" by simp
  with assms show ?thesis by (simp add: do_type_key_def regular_name_def)
qed

definition cache_ok :: "DataSetDetail \<Rightarrow> bool" where
  "cache_ok ds \<longleftrightarrow> (\<forall>key t. dsd_DOTypes ds key = Some t \<longrightarrow>
     (\<exists>p c n. regular_name p c \<and> key = do_type_key p c n
       \<and> t = lookup_DOType (dsd_DataTypeTemplates ds) p c n))"

lemma cache_ok_insert:
  assumes "cache_ok ds" and "regular_name p c"
  shows "cache_ok (ds\<lparr>dsd_DOTypes := (dsd_DOTypes ds)
    (do_type_key p c n \<mapsto> lookup_DOType (dsd_DataTypeTemplates ds) p c n)\<rparr>)"
  using assms unfolding cache_ok_def by (auto split: if_splits)

lemma GetDOType_transparent:
  assumes "cache_ok ds" and "regular_name p c"
  shows "fst (GetDOType p c n ds) = lookup_DOType (dsd_DataTypeTemplates ds) p c n"
    and "cache_ok (snd (GetDOType p c n ds))"
    and "\<exists>m. snd (GetDOType p c n ds) = ds\<lparr>dsd_DOTypes := m\<rparr>"
proof -
  let ?found = "find_DOType (dsd_DataTypeTemplates ds) (find_doTypeId (dsd_DataTypeTemplates ds) p c n)"
  show "fst (GetDOType p c n ds) = lookup_DOType (dsd_DataTypeTemplates ds) p c n"
  proof (cases "dsd_DOTypes ds (do_type_key p c n)")
    case None
    then show ?thesis by (simp add: GetDOType_def lookup_DOType_def split: option.split)
  next
    case (Some t)
    with assms obtain p' c' n' where k: "regular_name p' c'" "do_type_key p c n = do_type_key p' c' n'"
      and t: "t = lookup_DOType (dsd_DataTypeTemplates ds) p' c' n'"
      unfolding cache_ok_def by blast
    from do_type_key_inject [OF assms(2) k] have "p = p'" "c = c'" "n = n'" by simp_all
    with Some t show ?thesis by (simp add: GetDOType_def)
  qed
  have snd: "snd (GetDOType p c n ds) = ds \<or>
      snd (GetDOType p c n ds) = ds\<lparr>dsd_DOTypes := (dsd_DOTypes ds)
        (do_type_key p c n \<mapsto> lookup_DOType (dsd_DataTypeTemplates ds) p c n)\<rparr>"
    by (auto simp: GetDOType_def lookup_DOType_def Let_def split: option.splits)
  then show "cache_ok (snd (GetDOType p c n ds))"
    using assms(1) cache_ok_insert [OF assms] by (elim disjE) simp_all
  show "\<exists>m. snd (GetDOType p c n ds) = ds\<lparr>dsd_DOTypes := m\<rparr>"
  proof (rule exI)
    show "snd (GetDOType p c n ds) = ds\<lparr>dsd_DOTypes := dsd_DOTypes (snd (GetDOType p c n ds))\<rparr>"
      using snd by (elim disjE) simp_all
  qed
qed

text \<open>The devices of a document, with the name of their IED, in the order they are searched.\<close>

definition devices :: "SCL \<Rightarrow> (string \<times> LDevice) list" where
  "devices scl = concat (map (\<lambda>ied. concat (map (\<lambda>ap. map (Pair (ied_Name ied)) (ap_LDevice ap))
     (ied_AccessPoint ied))) (scl_IED scl))"

definition data_set_ref :: "string \<Rightarrow> LDevice \<Rightarrow> DataSet \<Rightarrow> string" where
  "data_set_ref iedName ld d = iedName @ ld_Inst ld @ ''/'' @ ln0_LnClass (ld_LN0 ld) @ ''.'' @ ds_Name d"

lemma find_in_devices_sound:
  assumes "find_in_devices nm a0 a1 lds = Some d"
  shows "\<exists>ld \<in> set lds. nm @ ld_Inst ld = a0 \<and> d \<in> set (ln0_DataSets (ld_LN0 ld))
    \<and> ln0_LnClass (ld_LN0 ld) @ ''.'' @ ds_Name d = a1"
  using assms by (induction lds) (auto split: if_splits simp: find_Some_iff)

lemma find_in_points_sound:
  assumes "find_in_points nm a0 a1 aps = Some d"
  shows "\<exists>ap \<in> set aps. \<exists>ld \<in> set (ap_LDevice ap). nm @ ld_Inst ld = a0
    \<and> d \<in> set (ln0_DataSets (ld_LN0 ld)) \<and> ln0_LnClass (ld_LN0 ld) @ ''.'' @ ds_Name d = a1"
  using assms
proof (induction aps)
  case (Cons ap aps)
  show ?case
  proof (cases "find_in_devices nm a0 a1 (ap_LDevice ap)")
    case None
    with Cons show ?thesis by auto
  next
    case (Some d')
    with Cons.prems find_in_devices_sound [OF Some] show ?thesis by auto
  qed
qed simp

lemma find_in_ieds_sound:
  assumes "find_in_ieds a0 a1 ieds = Some (nm, d)"
  shows "\<exists>ied \<in> set ieds. nm = ied_Name ied \<and> (\<exists>ap \<in> set (ied_AccessPoint ied).
    \<exists>ld \<in> set (ap_LDevice ap). nm @ ld_Inst ld = a0 \<and> d \<in> set (ln0_DataSets (ld_LN0 ld))
      \<and> ln0_LnClass (ld_LN0 ld) @ ''.'' @ ds_Name d = a1)"
  using assms
proof (induction ieds)
  case (Cons ied ieds)
  show ?case
  proof (cases "find_in_points (ied_Name ied) a0 a1 (ied_AccessPoint ied)")
    case None
    with Cons show ?thesis by auto
  next
    case (Some d')
    with Cons.prems find_in_points_sound [OF Some] show ?thesis by auto
  qed
qed simp

lemma GetDataSet_device:
  assumes "GetDataSet scl ref = Inr detail"
  shows "\<exists>nm ld d. (nm, ld) \<in> set (devices scl) \<and> d \<in> set (ln0_DataSets (ld_LN0 ld))
    \<and> ref = data_set_ref nm ld d \<and> detail = data_set_detail scl nm d"
proof -
  from assms obtain a0 a1 nm d where sp: "Split ref (CHR ''/'') = [a0, a1]"
    and f: "find_in_ieds a0 a1 (scl_IED scl) = Some (nm, d)" and detail: "detail = data_set_detail scl nm d"
    by (auto simp: GetDataSet_def split: list.splits option.splits)
  have "ref = a0 @ ''/'' @ a1"
    using Join_Split [of ref "CHR ''/''"] sp by simp
  moreover obtain ied ap ld where "ied \<in> set (scl_IED scl)" "nm = ied_Name ied"
    "ap \<in> set (ied_AccessPoint ied)" "ld \<in> set (ap_LDevice ap)" "nm @ ld_Inst ld = a0"
    "d \<in> set (ln0_DataSets (ld_LN0 ld))" "ln0_LnClass (ld_LN0 ld) @ ''.'' @ ds_Name d = a1"
    using find_in_ieds_sound [OF f] by blast
  moreover from this(1-4) have "(nm, ld) \<in> set (devices scl)" by (auto simp: devices_def)
  ultimately show ?thesis using detail
    by (intro exI [of _ nm] exI [of _ ld] exI [of _ d]) (auto simp: data_set_ref_def)
qed

lemma find_in_devices_None:
  assumes "find_in_devices nm a0 a1 lds = None" and "ld \<in> set lds" and "nm @ ld_Inst ld = a0"
    and "\<forall>ld' \<in> set lds. nm @ ld_Inst ld' = a0 \<longrightarrow> ld' = ld"
    and "d \<in> set (ln0_DataSets (ld_LN0 ld))"
  shows "ln0_LnClass (ld_LN0 ld) @ ''.'' @ ds_Name d \<noteq> a1"
  using assms
proof (induction lds)
  case (Cons ld' lds)
  show ?case
  proof (cases "nm @ ld_Inst ld' = a0")
    case True
    then have "ld' = ld" using Cons.prems(4) by simp
    with True Cons.prems(1) have
      "List.find (\<lambda>d. ln0_LnClass (ld_LN0 ld) @ ''.'' @ ds_Name d = a1) (ln0_DataSets (ld_LN0 ld)) = None"
      by simp
    with Cons.prems(5) show ?thesis by (auto simp: find_None_iff)
  next
    case False
    show ?thesis
    proof (rule Cons.IH)
      show "find_in_devices nm a0 a1 lds = None" using Cons.prems(1) False by simp
      show "ld \<in> set lds" using Cons.prems(2,3) False by auto
      show "nm @ ld_Inst ld = a0" by (rule Cons.prems(3))
      show "\<forall>ld' \<in> set lds. nm @ ld_Inst ld' = a0 \<longrightarrow> ld' = ld" using Cons.prems(4) by (metis list.set_intros(2))
      show "d \<in> set (ln0_DataSets (ld_LN0 ld))" by (rule Cons.prems(5))
    qed
  qed
qed simp

lemma find_in_points_None:
  "find_in_points nm a0 a1 aps = None \<Longrightarrow> ap \<in> set aps \<Longrightarrow> find_in_devices nm a0 a1 (ap_LDevice ap) = None"
  by (induction aps) (auto split: option.splits)

lemma find_in_ieds_None:
  "find_in_ieds a0 a1 ieds = None \<Longrightarrow> ied \<in> set ieds \<Longrightarrow>
     find_in_points (ied_Name ied) a0 a1 (ied_AccessPoint ied) = None"
  by (induction ieds) (auto split: option.splits)

text \<open>Where the names are unambiguous the search does not miss a data set.\<close>

lemma GetDataSet_finds:
  assumes "(iedName, ld) \<in> set (devices scl)" and "d \<in> set (ln0_DataSets (ld_LN0 ld))"
    and "CHR ''/'' \<notin> set (iedName @ ld_Inst ld)"
    and "CHR ''/'' \<notin> set (ln0_LnClass (ld_LN0 ld) @ ''.'' @ ds_Name d)"
    and "\<forall>(nm, ld') \<in> set (devices scl). nm @ ld_Inst ld' = iedName @ ld_Inst ld \<longrightarrow> nm = iedName \<and> ld' = ld"
    and "\<forall>d' \<in> set (ln0_DataSets (ld_LN0 ld)). ds_Name d' = ds_Name d \<longrightarrow> d' = d"
  shows "GetDataSet scl (data_set_ref iedName ld d) = Inr (data_set_detail scl iedName d)"
proof -
  let ?a0 = "iedName @ ld_Inst ld" and ?a1 = "ln0_LnClass (ld_LN0 ld) @ ''.'' @ ds_Name d"
  have sp: "Split (data_set_ref iedName ld d) (CHR ''/'') = [?a0, ?a1]"
    using Split_sep [OF assms(3), of ?a1] Split_no_sep [OF assms(4)] by (simp add: data_set_ref_def)
  obtain ied ap where i: "ied \<in> set (scl_IED scl)" "iedName = ied_Name ied" "ap \<in> set (ied_AccessPoint ied)"
    "ld \<in> set (ap_LDevice ap)"
    using assms(1) by (auto simp: devices_def)
  have uniq: "\<forall>ld' \<in> set (ap_LDevice ap). iedName @ ld_Inst ld' = ?a0 \<longrightarrow> ld' = ld"
    using assms(5) i by (fastforce simp: devices_def)
  have "find_in_ieds ?a0 ?a1 (scl_IED scl) \<noteq> None"
  proof
    assume "find_in_ieds ?a0 ?a1 (scl_IED scl) = None"
    then have "find_in_devices iedName ?a0 ?a1 (ap_LDevice ap) = None"
      unfolding i(2) by (rule find_in_points_None [OF find_in_ieds_None [OF _ i(1)] i(3)])
    from find_in_devices_None [OF this i(4) refl uniq assms(2)] show False by simp
  qed
  then obtain nm d' where f: "find_in_ieds ?a0 ?a1 (scl_IED scl) = Some (nm, d')" by auto
  then obtain ld' where "(nm, ld') \<in> set (devices scl)" "nm @ ld_Inst ld' = ?a0"
    "d' \<in> set (ln0_DataSets (ld_LN0 ld'))" "ln0_LnClass (ld_LN0 ld') @ ''.'' @ ds_Name d' = ?a1"
    using find_in_ieds_sound [OF f] by (force simp: devices_def)
  with assms(5,6) have "nm = iedName" "d' = d" by auto
  with sp f show ?thesis by (simp add: GetDataSet_def)
qed

section \<open>Properties\<close>

text \<open>
  C31: a data set that \<open>GetDataSet\<close> finds is the one its argument names: some device of the
  document and some data set of the device's \<open>LN0\<close> have exactly that reference, and the result
  holds that data set, the name of the device's IED and the document's templates.
\<close>

theorem GetDataSet_sound:
  assumes "GetDataSet scl ref = Inr detail"
  shows "\<exists>iedName ld d. (iedName, ld) \<in> set (devices scl) \<and> d \<in> set (ln0_DataSets (ld_LN0 ld))
    \<and> ref = data_set_ref iedName ld d \<and> detail = data_set_detail scl iedName d"
  using assms by (rule GetDataSet_device)

definition sample_scl :: SCL where
  "sample_scl = \<lparr>scl_IED = [\<lparr>ied_Name = ''I'', ied_Type = [], ied_Desc = [], ied_ConfigVersion = [],
      ied_AccessPoint = [\<lparr>ap_Name = ''S1'', ap_LDevice = [\<lparr>ld_Inst = ''LD'', ld_LN = [],
        ld_LN0 = \<lparr>ln0_Inst = [], ln0_LnType = [], ln0_LnClass = ''LLN0'',
          ln0_DataSets = [\<lparr>ds_Name = ''a'', ds_Desc = [], ds_FCDA = []\<rparr>,
            \<lparr>ds_Name = ''b'', ds_Desc = [], ds_FCDA = []\<rparr>]\<rparr>\<rparr>]\<rparr>]\<rparr>],
     scl_DataTypeTemplates = \<lparr>dtt_LNodeType = [], dtt_DOType = [], dtt_DAType = [], dtt_EnumType = []\<rparr>\<rparr>"

theorem GetDataSet_sound_witness:
  "\<exists>iedName ld d. (iedName, ld) \<in> set (devices sample_scl) \<and> d \<in> set (ln0_DataSets (ld_LN0 ld))
    \<and> ''ILD/LLN0.b'' = data_set_ref iedName ld d
    \<and> data_set_detail sample_scl ''I'' \<lparr>ds_Name = ''b'', ds_Desc = [], ds_FCDA = []\<rparr>
       = data_set_detail sample_scl iedName d"
  by (rule GetDataSet_sound) (simp add: GetDataSet_def sample_scl_def)

text \<open>
  C32: \<open>GetDataSet\<close> finds every data set by its reference, provided the names contain no slash,
  no other device has the same name, and no other data set of the device has the same one.
\<close>

theorem GetDataSet_complete:
  assumes "(iedName, ld) \<in> set (devices scl)" and "d \<in> set (ln0_DataSets (ld_LN0 ld))"
    and "CHR ''/'' \<notin> set (iedName @ ld_Inst ld)"
    and "CHR ''/'' \<notin> set (ln0_LnClass (ld_LN0 ld) @ ''.'' @ ds_Name d)"
    and "\<forall>(nm, ld') \<in> set (devices scl). nm @ ld_Inst ld' = iedName @ ld_Inst ld \<longrightarrow> nm = iedName \<and> ld' = ld"
    and "\<forall>d' \<in> set (ln0_DataSets (ld_LN0 ld)). ds_Name d' = ds_Name d \<longrightarrow> d' = d"
  shows "GetDataSet scl (data_set_ref iedName ld d) = Inr (data_set_detail scl iedName d)"
  using assms by (rule GetDataSet_finds)

theorem GetDataSet_complete_witness:
  "GetDataSet sample_scl ''ILD/LLN0.b''
    = Inr (data_set_detail sample_scl ''I'' \<lparr>ds_Name = ''b'', ds_Desc = [], ds_FCDA = []\<rparr>)"
proof -
  let ?ld = "snd (hd (devices sample_scl))" and ?d = "\<lparr>ds_Name = ''b'', ds_Desc = [], ds_FCDA = []\<rparr> :: DataSet"
  have "GetDataSet sample_scl (data_set_ref ''I'' ?ld ?d) = Inr (data_set_detail sample_scl ''I'' ?d)"
    by (rule GetDataSet_complete) (simp_all add: devices_def sample_scl_def)
  then show ?thesis by (simp add: devices_def sample_scl_def data_set_ref_def)
qed

text \<open>
  C33: the cache of \<open>GetDOType\<close> is invisible: as long as every question asked is about a regular
  logical node name, each gets the answer an uncached search would give, and the cache stays
  one for which this holds.
\<close>

theorem GetDOType_cache_transparent:
  assumes "cache_ok ds" and "regular_name prefix lnClass"
  shows "fst (GetDOType prefix lnClass nm ds) = lookup_DOType (dsd_DataTypeTemplates ds) prefix lnClass nm
    \<and> cache_ok (snd (GetDOType prefix lnClass nm ds))"
  using GetDOType_transparent [OF assms] by blast

definition sample_templates :: DataTypeTemplates where
  "sample_templates = \<lparr>
     dtt_LNodeType = [
       \<lparr>lnt_ID = ''T1'', lnt_LNClass = ''MMXU'', lnt_Desc = [],
        lnt_DO = [\<lparr>do_Name = ''A'', do_Type = ''X'', do_Desc = [], do_DA = []\<rparr>]\<rparr>,
       \<lparr>lnt_ID = ''T2'', lnt_LNClass = ''XMMXU'', lnt_Desc = [],
        lnt_DO = [\<lparr>do_Name = ''A'', do_Type = ''Y'', do_Desc = [], do_DA = []\<rparr>]\<rparr>],
     dtt_DOType = [
       \<lparr>dot_ID = ''X'', dot_DA = [], dot_Desc = ''x'', dot_SDO = []\<rparr>,
       \<lparr>dot_ID = ''Y'', dot_DA = [], dot_Desc = ''y'', dot_SDO = []\<rparr>],
     dtt_DAType = [], dtt_EnumType = []\<rparr>"

definition sample_detail :: DataSetDetail where
  "sample_detail = \<lparr>ds_Name = [], ds_Desc = [], ds_FCDA = [], dsd_IEDName = ''I'',
     dsd_DOTypes = Map.empty, dsd_DataTypeTemplates = sample_templates\<rparr>"

theorem GetDOType_cache_transparent_witness:
  "fst (GetDOType ''P'' ''MMXU'' ''A'' sample_detail) = lookup_DOType sample_templates ''P'' ''MMXU'' ''A''"
  using GetDOType_cache_transparent [of sample_detail "''P''" "''MMXU''" "''A''"]
  by (simp add: cache_ok_def sample_detail_def regular_name_def)

text \<open>
  Without that restriction the cache can answer wrongly, since its key runs the prefix and
  the class together: after a question about prefix \<open>X\<close> and class \<open>MMXU\<close> the one about class
  \<open>XMMXU\<close> without a prefix gets the first one's type.
\<close>

theorem GetDOType_key_ambiguous:
  "\<exists>ds. ds = snd (GetDOType ''X'' ''MMXU'' ''A'' sample_detail) \<and>
     dot_ID (fst (GetDOType [] ''XMMXU'' ''A'' ds)) = ''X'' \<and>
     dot_ID (fst (GetDOType [] ''XMMXU'' ''A'' sample_detail)) = ''Y''"
  by (simp add: GetDOType_def sample_detail_def sample_templates_def find_doTypeId_def find_DOType_def
      do_type_key_def Let_def)

end
