(* ===== verification/C_Resource.thy ===== *)
theory C_Resource
  imports Iec_Prelude "HOL-Library.Multiset"
begin

text \<open>
  Ownership of C objects. The components that talk to the library record the calls they make,
  with the results, in the order they make them; \<open>resource_run\<close> replays such a record and
  keeps the multiset of objects the program owns. It fails on an object released twice or never
  acquired. The locale \<open>c_resource\<close> is the contract of one kind of object: which calls hand
  one over, which take one back, and that no call does both.
\<close>

fun resource_run :: "('call \<Rightarrow> 'r option) \<Rightarrow> ('call \<Rightarrow> 'r option) \<Rightarrow> 'r multiset \<Rightarrow> 'call list \<Rightarrow>
    'r multiset option" where
  "resource_run acq rel live [] = Some live"
| "resource_run acq rel live (c # cs) =
     (case acq c of
        Some r \<Rightarrow> resource_run acq rel (add_mset r live) cs
      | None \<Rightarrow>
          (case rel c of
             Some r \<Rightarrow> if r \<in># live then resource_run acq rel (live - {#r#}) cs else None
           | None \<Rightarrow> resource_run acq rel live cs))"

locale c_resource =
  fixes acq rel :: "'call \<Rightarrow> 'r option"
  assumes acq_not_rel: "acq c = Some r \<Longrightarrow> rel c = None"
begin

abbreviation run :: "'r multiset \<Rightarrow> 'call list \<Rightarrow> 'r multiset option" where
  "run \<equiv> resource_run acq rel"

definition neutral :: "'call \<Rightarrow> bool" where
  "neutral c \<longleftrightarrow> acq c = None \<and> rel c = None"

lemma run_append: "run live (xs @ ys) = (case run live xs of None \<Rightarrow> None | Some l \<Rightarrow> run l ys)"
  by (induction xs arbitrary: live) (auto split: option.splits)

lemma run_neutral: "\<forall>c \<in> set cs. neutral c \<Longrightarrow> run live cs = Some live"
  by (induction cs) (auto simp: neutral_def)

lemma run_neutral_append: "\<forall>c \<in> set cs. neutral c \<Longrightarrow> run live (cs @ ds) = run live ds"
  by (simp add: run_append run_neutral)

text \<open>An object used and given back within one operation.\<close>

lemma run_scoped:
  assumes "acq c = Some r" and "rel d = Some r" and "\<forall>c \<in> set cs. neutral c"
  shows "run live (c # cs @ [d]) = Some live"
  using assms acq_not_rel [of d] by (cases "acq d") (auto simp: run_neutral_append)

text \<open>An object kept for later.\<close>

lemma run_kept:
  assumes "acq c = Some r" and "\<forall>c \<in> set cs. neutral c"
  shows "run live (c # cs) = Some (add_mset r live)"
  using assms by (simp add: run_neutral)

text \<open>A list of objects given back, one call each.\<close>

lemma run_releases:
  assumes "map rel cs = map Some rs" and "\<forall>c \<in> set cs. acq c = None"
  shows "run (mset rs + live) cs = Some live"
  using assms
proof (induction cs arbitrary: rs)
  case (Cons c cs)
  then show ?case by (cases rs) auto
qed simp

text \<open>Every release has its own earlier acquisition.\<close>

lemma run_releases_acquired:
  assumes "run live cs = Some live'"
  shows "size live + length (filter (\<lambda>c. acq c \<noteq> None) cs)
    = size live' + length (filter (\<lambda>c. rel c \<noteq> None) cs)"
  using assms
proof (induction cs arbitrary: live)
  case (Cons c cs)
  show ?case
  proof (cases "acq c")
    case None
    show ?thesis
    proof (cases "rel c")
      case None
      with \<open>acq c = None\<close> Cons show ?thesis by auto
    next
      case (Some r)
      with \<open>acq c = None\<close> Cons.prems have r: "r \<in># live" and "run (live - {#r#}) cs = Some live'"
        by (auto split: if_splits)
      from this(2) have "size (live - {#r#}) + length (filter (\<lambda>c. acq c \<noteq> None) cs)
          = size live' + length (filter (\<lambda>c. rel c \<noteq> None) cs)"
        by (rule Cons.IH)
      moreover from r have "size live = Suc (size (live - {#r#}))"
        by (metis insert_DiffM size_add_mset)
      ultimately show ?thesis using Some \<open>acq c = None\<close> by simp
    qed
  next
    case (Some r)
    then have "rel c = None" by (rule acq_not_rel)
    with Some Cons show ?thesis by fastforce
  qed
qed simp

text \<open>Calls that leave ownership as it was, such as an object used around calls that do.\<close>

definition balanced :: "'call list \<Rightarrow> bool" where
  "balanced cs \<longleftrightarrow> (\<forall>live. run live cs = Some live)"

lemma balanced_Nil: "balanced []"
  by (simp add: balanced_def)

lemma balanced_neutral: "neutral c \<Longrightarrow> balanced [c]"
  by (simp add: balanced_def neutral_def)

lemma balanced_append: "balanced xs \<Longrightarrow> balanced ys \<Longrightarrow> balanced (xs @ ys)"
  by (simp add: balanced_def run_append)

lemma balanced_nested:
  assumes "acq c = Some r" and "rel d = Some r" and "balanced cs"
  shows "balanced (c # cs @ [d])"
  using assms acq_not_rel [of d] by (cases "acq d") (auto simp: balanced_def run_append)

end

end
