(* ===== verification/Client_Browse.thy ===== *)
theory Client_Browse
  imports Scl_Xml C_Resource Go_Types
begin

text \<open>
  Browsing a server's data model (\<open>iec61850_client.go\<close>): \<open>BrowseModel\<close> and
  \<open>BrowseDataAttributes\<close>, which print it, \<open>BrowseModelToSCL\<close>, \<open>BrowseDataAttributesSCL\<close> and
  \<open>BrowseSDISCL\<close>, which collect it. The recursion follows what the server answers, so it takes
  fuel; enough fuel is proved enough for a server whose model is a finite tree.
\<close>

section \<open>Calls into the library\<close>

text \<open>
  A directory is a linked list of names, handed over by the library. Go iterates it with
  \<open>LinkedList_getNext\<close> from the list itself and gives it back with \<open>LinkedList_destroy\<close>. What
  the two do with a null list the header does not say: \<open>lib_null_list\<close> tells whether they
  accept it (and iterate nothing), otherwise the model stops with a fault.
\<close>

datatype 'l browse_call =
    GetLogicalDeviceList int "'l option"
  | GetLogicalDeviceDirectory string int "'l option"
  | GetLogicalNodeDirectory string int int "'l option"
  | GetDataDirectory string int "'l option"
  | DestroyList "'l option"

record 'l browse_lib =
  lib_getLogicalDeviceList :: "'l browse_call list \<Rightarrow> int \<times> 'l option"
  lib_getLogicalDeviceDirectory :: "'l browse_call list \<Rightarrow> string \<Rightarrow> int \<times> 'l option"
  lib_getLogicalNodeDirectory :: "'l browse_call list \<Rightarrow> string \<Rightarrow> int \<Rightarrow> int \<times> 'l option"
  lib_getDataDirectory :: "'l browse_call list \<Rightarrow> string \<Rightarrow> int \<times> 'l option"
  lib_names :: "'l \<Rightarrow> string list"
  lib_null_list :: bool

text \<open>What has been called and printed.\<close>

record 'l browse_state =
  browse_calls :: "'l browse_call list"
  stdout :: string

definition browsed :: "'l browse_call \<Rightarrow> 'l browse_state \<Rightarrow> 'l browse_state" where
  "browsed c st = st\<lparr>browse_calls := browse_calls st @ [c]\<rparr>"

definition Printf :: "string \<Rightarrow> 'l browse_state \<Rightarrow> 'l browse_state" where
  "Printf s st = st\<lparr>stdout := stdout st @ s\<rparr>"

definition newline :: string where "newline = [CHR 0x0A]"

lemma browse_state_simps [simp]:
  "browse_calls (browsed c st) = browse_calls st @ [c]" "stdout (browsed c st) = stdout st"
  "browse_calls (Printf s st) = browse_calls st" "stdout (Printf s st) = stdout st @ s"
  by (simp_all add: browsed_def Printf_def)

definition list_names :: "'l browse_lib \<Rightarrow> 'l option \<Rightarrow> c_fault + string list" where
  "list_names lib l = (case l of
      Some l \<Rightarrow> Inr (lib_names lib l)
    | None \<Rightarrow> if lib_null_list lib then Inr [] else Inl NullDeref)"

definition LinkedList_destroy :: "'l browse_lib \<Rightarrow> 'l option \<Rightarrow> 'l browse_state \<Rightarrow>
    c_fault + 'l browse_state" where
  "LinkedList_destroy lib l st =
     (if l = None \<and> \<not> lib_null_list lib then Inl NullDeref else Inr (browsed (DestroyList l) st))"

definition getDataDirectory :: "'l browse_lib \<Rightarrow> string \<Rightarrow> 'l browse_state \<Rightarrow>
    int \<times> 'l option \<times> 'l browse_state" where
  "getDataDirectory lib ref st =
     (let (err, l) = lib_getDataDirectory lib (browse_calls st) ref in
      (err, l, browsed (GetDataDirectory ref err l) st))"

section \<open>Printing\<close>

definition printSpaces :: "nat \<Rightarrow> string" where
  "printSpaces n = replicate n (CHR '' '')"

text \<open>The client error is not looked at, only the list.\<close>

function (sequential) BrowseDataAttributes :: "'l browse_lib \<Rightarrow> nat \<Rightarrow> string \<Rightarrow> nat \<Rightarrow> 'l browse_state \<Rightarrow>
    c_fault + 'l browse_state"
  and attributes_loop :: "'l browse_lib \<Rightarrow> nat \<Rightarrow> string \<Rightarrow> nat \<Rightarrow> string list \<Rightarrow> 'l browse_state \<Rightarrow>
    c_fault + 'l browse_state" where
  "BrowseDataAttributes lib 0 doRef spaces st = Inl OutOfFuel"
| "BrowseDataAttributes lib (Suc fuel) doRef spaces st =
     (let (err, dataAttributes, st) = getDataDirectory lib doRef st in
      and_then (case dataAttributes of
          None \<Rightarrow> Inr st
        | Some l \<Rightarrow> attributes_loop lib fuel doRef spaces (lib_names lib l) st)
        (LinkedList_destroy lib dataAttributes))"
| "attributes_loop lib fuel doRef spaces [] st = Inr st"
| "attributes_loop lib fuel doRef spaces (dataAttributeName # names) st =
     (let st = Printf (printSpaces spaces) st;
          st = Printf (''DA: '' @ dataAttributeName @ newline) st;
          daRef = doRef @ ''.'' @ dataAttributeName in
      and_then (BrowseDataAttributes lib fuel daRef (spaces + 2) st)
        (attributes_loop lib fuel doRef spaces names))"
  by pat_completeness auto
termination
  by (relation "measures
      [\<lambda>x. case x of Inl (_, f, _) \<Rightarrow> 2 * f | Inr (_, f, _) \<Rightarrow> 2 * f + 1,
       \<lambda>x. case x of Inl _ \<Rightarrow> 0 | Inr (_, _, _, _, ns, _) \<Rightarrow> length ns]") auto

fun objects_loop :: "'l browse_lib \<Rightarrow> nat \<Rightarrow> string \<Rightarrow> string \<Rightarrow> string list \<Rightarrow> 'l browse_state \<Rightarrow>
    c_fault + 'l browse_state" where
  "objects_loop lib fuel deviceName logicalNodeName [] st = Inr st"
| "objects_loop lib fuel deviceName logicalNodeName (dataObjectName # names) st =
     (let st = Printf (''    DO: '' @ dataObjectName @ newline) st;
          doRef = deviceName @ ''/'' @ logicalNodeName @ ''.'' @ dataObjectName in
      and_then (BrowseDataAttributes lib fuel doRef 6 st)
        (objects_loop lib fuel deviceName logicalNodeName names))"

fun nodes_loop :: "'l browse_lib \<Rightarrow> nat \<Rightarrow> string \<Rightarrow> string list \<Rightarrow> 'l browse_state \<Rightarrow>
    c_fault + 'l browse_state" where
  "nodes_loop lib fuel deviceName [] st = Inr st"
| "nodes_loop lib fuel deviceName (logicalNodeName # names) st =
     (let st = Printf (''  LN: '' @ logicalNodeName @ newline) st;
          lnRef = deviceName @ ''/'' @ logicalNodeName;
          acsi = ACSIClass_code ACSI_CLASS_DATA_OBJECT;
          (err, dataObjects) = lib_getLogicalNodeDirectory lib (browse_calls st) lnRef acsi;
          st = browsed (GetLogicalNodeDirectory lnRef acsi err dataObjects) st in
      and_then (list_names lib dataObjects) (\<lambda>objects.
      and_then (objects_loop lib fuel deviceName logicalNodeName objects st) (\<lambda>st.
      and_then (LinkedList_destroy lib dataObjects st)
        (nodes_loop lib fuel deviceName names))))"

fun devices_loop :: "'l browse_lib \<Rightarrow> nat \<Rightarrow> string list \<Rightarrow> 'l browse_state \<Rightarrow>
    c_fault + 'l browse_state" where
  "devices_loop lib fuel [] st = Inr st"
| "devices_loop lib fuel (deviceName # names) st =
     (let st = Printf (''LD: '' @ deviceName @ newline) st;
          (clientError, logicalNodes) = lib_getLogicalDeviceDirectory lib (browse_calls st) deviceName;
          st = browsed (GetLogicalDeviceDirectory deviceName clientError logicalNodes) st in
      if clientError \<noteq> 0 then
        devices_loop lib fuel names (Printf (''Failed to retrieve logical nodes for device '' @ deviceName
          @ ''. Error: '' @ Err clientError @ newline) st)
      else
        and_then (list_names lib logicalNodes) (\<lambda>nodes.
        and_then (nodes_loop lib fuel deviceName nodes st) (\<lambda>st.
        and_then (LinkedList_destroy lib logicalNodes st)
          (devices_loop lib fuel names))))"

definition BrowseModel :: "'l browse_lib \<Rightarrow> nat \<Rightarrow> 'l browse_state \<Rightarrow> c_fault + 'l browse_state" where
  "BrowseModel lib fuel st =
     (let (clientError, deviceList) = lib_getLogicalDeviceList lib (browse_calls st);
          st = browsed (GetLogicalDeviceList clientError deviceList) st in
      and_then
        (if clientError \<noteq> 0 then
           Inr (Printf (''Failed to retrieve logical device list. Error: '' @ Err clientError @ newline) st)
         else and_then (list_names lib deviceList) (\<lambda>devs. devices_loop lib fuel devs st))
        (LinkedList_destroy lib deviceList))"

section \<open>Collecting\<close>

text \<open>
  \<open>defer\<close> gives the directory back on the error path too. The value of an attribute is a
  placeholder of the source.
\<close>

function (sequential) BrowseDataAttributesSCL :: "'l browse_lib \<Rightarrow> nat \<Rightarrow> string \<Rightarrow> 'l browse_state \<Rightarrow>
    c_fault + DAI list \<times> 'l browse_state"
  and dai_loop :: "'l browse_lib \<Rightarrow> nat \<Rightarrow> string \<Rightarrow> string list \<Rightarrow> DAI list \<Rightarrow> 'l browse_state \<Rightarrow>
    c_fault + DAI list \<times> 'l browse_state"
  and BrowseSDISCL :: "'l browse_lib \<Rightarrow> nat \<Rightarrow> string \<Rightarrow> 'l browse_state \<Rightarrow>
    c_fault + SDI list \<times> 'l browse_state"
  and sdi_loop :: "'l browse_lib \<Rightarrow> nat \<Rightarrow> string \<Rightarrow> string list \<Rightarrow> SDI list \<Rightarrow> 'l browse_state \<Rightarrow>
    c_fault + SDI list \<times> 'l browse_state" where
  "BrowseDataAttributesSCL lib 0 ref st = Inl OutOfFuel"
| "BrowseDataAttributesSCL lib (Suc fuel) ref st =
     (let (clientError, attributes, st) = getDataDirectory lib ref st in
      and_then
        (if clientError \<noteq> 0 then
           Inr ([], Printf (''Failed to retrieve DAs for reference '' @ ref @ ''. Error: ''
             @ Err clientError @ newline) st)
         else and_then (list_names lib attributes) (\<lambda>names. dai_loop lib fuel ref names [] st))
        (\<lambda>(dais, st). and_then (LinkedList_destroy lib attributes st) (\<lambda>st. Inr (dais, st))))"
| "dai_loop lib fuel ref [] dais st = Inr (dais, st)"
| "dai_loop lib fuel ref (attributeName # names) dais st =
     (let childRef = ref @ ''.'' @ attributeName in
      and_then (BrowseSDISCL lib fuel childRef st) (\<lambda>(sdis, st).
        dai_loop lib fuel ref names (dais @ [DAI attributeName \<lparr>val_Value = ''SomeValue''\<rparr> sdis]) st))"
| "BrowseSDISCL lib 0 ref st = Inl OutOfFuel"
| "BrowseSDISCL lib (Suc fuel) ref st =
     (let (clientError, subdataObjects, st) = getDataDirectory lib ref st in
      and_then
        (if clientError \<noteq> 0 then
           Inr ([], Printf (''Failed to retrieve SDIs for reference '' @ ref @ ''. Error: ''
             @ Err clientError @ newline) st)
         else and_then (list_names lib subdataObjects) (\<lambda>names. sdi_loop lib fuel ref names [] st))
        (\<lambda>(sdis, st). and_then (LinkedList_destroy lib subdataObjects st) (\<lambda>st. Inr (sdis, st))))"
| "sdi_loop lib fuel ref [] sdis st = Inr (sdis, st)"
| "sdi_loop lib fuel ref (sdoName # names) sdis st =
     (let childRef = ref @ ''.'' @ sdoName in
      and_then (BrowseDataAttributesSCL lib fuel childRef st) (\<lambda>(sub_dais, st).
      and_then (BrowseSDISCL lib fuel childRef st) (\<lambda>(sub_sdis, st).
        sdi_loop lib fuel ref names (sdis @ [SDI sdoName sub_dais sub_sdis]) st)))"
  by pat_completeness auto
termination
  by (relation "measures
      [\<lambda>x. case x of Inl (Inl (_, f, _)) \<Rightarrow> 2 * f | Inl (Inr (_, f, _)) \<Rightarrow> 2 * f + 1
         | Inr (Inl (_, f, _)) \<Rightarrow> 2 * f | Inr (Inr (_, f, _)) \<Rightarrow> 2 * f + 1,
       \<lambda>x. case x of Inl (Inr (_, _, _, ns, _)) \<Rightarrow> length ns | Inr (Inr (_, _, _, ns, _)) \<Rightarrow> length ns
         | _ \<Rightarrow> 0]") auto

fun doi_loop :: "'l browse_lib \<Rightarrow> nat \<Rightarrow> string \<Rightarrow> string \<Rightarrow> string list \<Rightarrow> DOI list \<Rightarrow>
    'l browse_state \<Rightarrow> c_fault + DOI list \<times> 'l browse_state" where
  "doi_loop lib fuel deviceName logicalNodeName [] dois st = Inr (dois, st)"
| "doi_loop lib fuel deviceName logicalNodeName (dataObjectName # names) dois st =
     and_then (BrowseDataAttributesSCL lib fuel
         (deviceName @ ''/'' @ logicalNodeName @ ''.'' @ dataObjectName) st) (\<lambda>(dais, st).
       doi_loop lib fuel deviceName logicalNodeName names
         (dois @ [\<lparr>doi_Desc = [], doi_Name = dataObjectName, doi_DAI = dais, doi_SDI = []\<rparr>]) st)"

fun ln_loop :: "'l browse_lib \<Rightarrow> nat \<Rightarrow> string \<Rightarrow> string list \<Rightarrow> LN list \<Rightarrow> 'l browse_state \<Rightarrow>
    c_fault + LN list \<times> 'l browse_state" where
  "ln_loop lib fuel deviceName [] lns st = Inr (lns, st)"
| "ln_loop lib fuel deviceName (logicalNodeName # names) lns st =
     (let lnRef = deviceName @ ''/'' @ logicalNodeName;
          acsi = ACSIClass_code ACSI_CLASS_DATA_OBJECT;
          (err, dataObjects) = lib_getLogicalNodeDirectory lib (browse_calls st) lnRef acsi;
          st = browsed (GetLogicalNodeDirectory lnRef acsi err dataObjects) st in
      and_then (list_names lib dataObjects) (\<lambda>objects.
      and_then (doi_loop lib fuel deviceName logicalNodeName objects [] st) (\<lambda>(dois, st).
      and_then (LinkedList_destroy lib dataObjects st) (\<lambda>st.
        ln_loop lib fuel deviceName names
          (lns @ [\<lparr>ln_Inst = logicalNodeName, ln_Prefix = [], ln_LnType = [], ln_LnClass = [],
             ln_DOI = dois\<rparr>]) st))))"

definition empty_LN0 :: LN0 where
  "empty_LN0 = \<lparr>ln0_Inst = [], ln0_LnType = [], ln0_LnClass = [], ln0_DataSets = []\<rparr>"

definition browsed_IED :: "string \<Rightarrow> LN list \<Rightarrow> IED" where
  "browsed_IED deviceName lns =
     \<lparr>ied_Name = deviceName, ied_Type = [], ied_Desc = [], ied_ConfigVersion = [],
      ied_AccessPoint = [\<lparr>ap_Name = deviceName @ ''_AP'',
        ap_LDevice = [\<lparr>ld_Inst = deviceName, ld_LN = lns, ld_LN0 = empty_LN0\<rparr>]\<rparr>]\<rparr>"

fun ied_loop :: "'l browse_lib \<Rightarrow> nat \<Rightarrow> string list \<Rightarrow> IED list \<Rightarrow> 'l browse_state \<Rightarrow>
    c_fault + IED list \<times> 'l browse_state" where
  "ied_loop lib fuel [] ieds st = Inr (ieds, st)"
| "ied_loop lib fuel (deviceName # names) ieds st =
     (let (clientError, logicalNodes) = lib_getLogicalDeviceDirectory lib (browse_calls st) deviceName;
          st = browsed (GetLogicalDeviceDirectory deviceName clientError logicalNodes) st in
      if clientError \<noteq> 0 then
        ied_loop lib fuel names ieds (Printf (''Failed to retrieve logical nodes for device ''
          @ deviceName @ ''. Error: '' @ Err clientError @ newline) st)
      else
        and_then (list_names lib logicalNodes) (\<lambda>nodes.
        and_then (ln_loop lib fuel deviceName nodes [] st) (\<lambda>(lns, st).
        and_then (LinkedList_destroy lib logicalNodes st) (\<lambda>st.
          ied_loop lib fuel names (ieds @ [browsed_IED deviceName lns]) st))))"

text \<open>The result is the document or the error message.\<close>

definition empty_templates :: DataTypeTemplates where
  "empty_templates = \<lparr>dtt_LNodeType = [], dtt_DOType = [], dtt_DAType = [], dtt_EnumType = []\<rparr>"

definition BrowseModelToSCL :: "'l browse_lib \<Rightarrow> nat \<Rightarrow> 'l browse_state \<Rightarrow>
    c_fault + (string + SCL) \<times> 'l browse_state" where
  "BrowseModelToSCL lib fuel st =
     (let (clientError, deviceList) = lib_getLogicalDeviceList lib (browse_calls st);
          st = browsed (GetLogicalDeviceList clientError deviceList) st in
      and_then
        (if clientError \<noteq> 0 then
           Inr (Inl (''failed to retrieve logical device list. Error: '' @ Err clientError), st)
         else
           and_then (list_names lib deviceList) (\<lambda>devs.
           and_then (ied_loop lib fuel devs [] st) (\<lambda>(ieds, st).
             Inr (Inr \<lparr>scl_IED = ieds, scl_DataTypeTemplates = empty_templates\<rparr>, st))))
        (\<lambda>(result, st). and_then (LinkedList_destroy lib deviceList st) (\<lambda>st. Inr (result, st))))"

section \<open>What the server holds\<close>

text \<open>
  A data directory is a tree of names; below a leaf the server may also refuse the request, with
  an error and no list. \<open>serves\<close> says that the library answers every request below a reference
  from a tree, however often it is asked, each time with a list of the names.
\<close>

datatype dir_tree = Directory "(string \<times> dir_tree) list" | Refuses int

fun serves :: "'l browse_lib \<Rightarrow> string \<Rightarrow> dir_tree \<Rightarrow> bool"
  and serves_all :: "'l browse_lib \<Rightarrow> string \<Rightarrow> (string \<times> dir_tree) list \<Rightarrow> bool" where
  "serves lib ref (Refuses e) \<longleftrightarrow> e \<noteq> 0 \<and> lib_null_list lib \<and>
     (\<forall>calls. lib_getDataDirectory lib calls ref = (e, None))"
| "serves lib ref (Directory cs) \<longleftrightarrow>
     (\<forall>calls. \<exists>l. lib_getDataDirectory lib calls ref = (0, Some l) \<and> lib_names lib l = map fst cs)
     \<and> serves_all lib ref cs"
| "serves_all lib ref [] \<longleftrightarrow> True"
| "serves_all lib ref ((nm, t) # cs) \<longleftrightarrow> serves lib (ref @ ''.'' @ nm) t \<and> serves_all lib ref cs"

fun height :: "dir_tree \<Rightarrow> nat" and heights :: "(string \<times> dir_tree) list \<Rightarrow> nat" where
  "height (Refuses e) = 1"
| "height (Directory cs) = Suc (heights cs)"
| "heights [] = 0"
| "heights ((nm, t) # cs) = max (height t) (heights cs)"

text \<open>What browsing it should collect and print, and how many requests that takes.\<close>

fun dais_of :: "dir_tree \<Rightarrow> DAI list" and dais_all :: "(string \<times> dir_tree) list \<Rightarrow> DAI list"
  and sdis_of :: "dir_tree \<Rightarrow> SDI list" and sdis_all :: "(string \<times> dir_tree) list \<Rightarrow> SDI list" where
  "dais_of (Refuses e) = []"
| "dais_of (Directory cs) = dais_all cs"
| "dais_all [] = []"
| "dais_all ((nm, t) # cs) = DAI nm \<lparr>val_Value = ''SomeValue''\<rparr> (sdis_of t) # dais_all cs"
| "sdis_of (Refuses e) = []"
| "sdis_of (Directory cs) = sdis_all cs"
| "sdis_all [] = []"
| "sdis_all ((nm, t) # cs) = SDI nm (dais_of t) (sdis_of t) # sdis_all cs"

fun print_tree :: "nat \<Rightarrow> dir_tree \<Rightarrow> string" and print_all :: "nat \<Rightarrow> (string \<times> dir_tree) list \<Rightarrow> string" where
  "print_tree spaces (Refuses e) = []"
| "print_tree spaces (Directory cs) = print_all spaces cs"
| "print_all spaces [] = []"
| "print_all spaces ((nm, t) # cs) = printSpaces spaces @ ''DA: '' @ nm @ newline
     @ print_tree (spaces + 2) t @ print_all spaces cs"

fun nodes_in :: "dir_tree \<Rightarrow> nat" and nodes_all :: "(string \<times> dir_tree) list \<Rightarrow> nat" where
  "nodes_in (Refuses e) = 1"
| "nodes_in (Directory cs) = Suc (nodes_all cs)"
| "nodes_all [] = 0"
| "nodes_all ((nm, t) # cs) = nodes_in t + nodes_all cs"

fun dai_requests :: "dir_tree \<Rightarrow> nat" and dai_requests_all :: "(string \<times> dir_tree) list \<Rightarrow> nat"
  and sdi_requests :: "dir_tree \<Rightarrow> nat" and sdi_requests_all :: "(string \<times> dir_tree) list \<Rightarrow> nat" where
  "dai_requests (Refuses e) = 1"
| "dai_requests (Directory cs) = Suc (dai_requests_all cs)"
| "dai_requests_all [] = 0"
| "dai_requests_all ((nm, t) # cs) = sdi_requests t + dai_requests_all cs"
| "sdi_requests (Refuses e) = 1"
| "sdi_requests (Directory cs) = Suc (sdi_requests_all cs)"
| "sdi_requests_all [] = 0"
| "sdi_requests_all ((nm, t) # cs) = dai_requests t + sdi_requests t + sdi_requests_all cs"

section \<open>Calls of a browse\<close>

fun list_acquired :: "'l browse_call \<Rightarrow> 'l option" where
  "list_acquired (GetLogicalDeviceList e l) = l"
| "list_acquired (GetLogicalDeviceDirectory ref e l) = l"
| "list_acquired (GetLogicalNodeDirectory ref c e l) = l"
| "list_acquired (GetDataDirectory ref e l) = l"
| "list_acquired (DestroyList l) = None"

fun list_released :: "'l browse_call \<Rightarrow> 'l option" where
  "list_released (DestroyList l) = l"
| "list_released _ = None"

lemma list_not_both: "list_acquired c = Some r \<Longrightarrow> list_released c = None"
  by (cases c) auto

interpretation lists: c_resource list_acquired list_released
  by unfold_locales (rule list_not_both)

fun is_request :: "'l browse_call \<Rightarrow> bool" where
  "is_request (DestroyList l) = False"
| "is_request _ = True"

text \<open>\<open>st'\<close> comes from \<open>st\<close> by calls that return every list and make \<open>n\<close> requests.\<close>

definition browses :: "nat \<Rightarrow> 'l browse_state \<Rightarrow> 'l browse_state \<Rightarrow> bool" where
  "browses n st st' \<longleftrightarrow> (\<exists>cs. browse_calls st' = browse_calls st @ cs \<and> lists.balanced cs
     \<and> length (filter is_request cs) = n)"

lemma browses_refl [intro]: "browse_calls st' = browse_calls st \<Longrightarrow> browses 0 st st'"
  by (simp add: browses_def lists.balanced_Nil)

lemma browses_trans:
  assumes "browses m st st'" and "browses n st' st''"
  shows "browses (m + n) st st''"
proof -
  from assms obtain cs ds where "browse_calls st' = browse_calls st @ cs" "lists.balanced cs"
      "length (filter is_request cs) = m" "browse_calls st'' = browse_calls st' @ ds" "lists.balanced ds"
      "length (filter is_request ds) = n"
    unfolding browses_def by blast
  then show ?thesis
    unfolding browses_def by (intro exI [of _ "cs @ ds"]) (simp add: lists.balanced_append)
qed

lemma browses_scope:
  assumes "browses n st1 st2" and "browse_calls st1 = browse_calls st @ [c]"
    and "list_acquired c = l" and "is_request c" and "browse_calls st3 = browse_calls st2 @ [DestroyList l]"
  shows "browses (Suc n) st st3"
proof -
  from assms obtain cs where cs: "browse_calls st3 = browse_calls st @ (c # cs @ [DestroyList l])"
    "lists.balanced cs" "length (filter is_request cs) = n"
    by (auto simp: browses_def)
  have "lists.balanced (c # cs @ [DestroyList l])"
  proof (cases l)
    case None
    with assms(3,4) have "lists.neutral c" and "lists.neutral (DestroyList l)"
      by (cases c; simp add: lists.neutral_def)+
    then show ?thesis
      using lists.balanced_append [OF lists.balanced_neutral [of c]
          lists.balanced_append [OF cs(2) lists.balanced_neutral [of "DestroyList l"]]] by simp
  next
    case (Some r)
    with assms(3) cs(2) show ?thesis by (intro lists.balanced_nested [of c r]) auto
  qed
  moreover have "length (filter is_request (c # cs @ [DestroyList l])) = Suc n"
    using cs(3) assms(4) by simp
  ultimately show ?thesis using cs(1) unfolding browses_def by blast
qed

section \<open>Browsing a tree\<close>

text \<open>One directory, whatever is done with its names in between.\<close>

lemma serves_Directory:
  assumes "serves lib ref (Directory cs)"
  obtains l where "getDataDirectory lib ref st = (0, Some l, browsed (GetDataDirectory ref 0 (Some l)) st)"
    and "lib_names lib l = map fst cs"
proof -
  from assms obtain l where "lib_getDataDirectory lib (browse_calls st) ref = (0, Some l)"
    and "lib_names lib l = map fst cs" by (auto dest: spec [of _ "browse_calls st"])
  with that show ?thesis by (simp add: getDataDirectory_def)
qed

lemma serves_Refuses:
  assumes "serves lib ref (Refuses e)"
  shows "getDataDirectory lib ref st = (e, None, browsed (GetDataDirectory ref e None) st)"
    and "e \<noteq> 0" and "lib_null_list lib"
  using assms by (auto simp: getDataDirectory_def)

lemma browses_directory:
  assumes "browses n (browsed (GetDataDirectory ref e l) st) st'"
  shows "browses (Suc n) st (browsed (DestroyList l) st')"
  by (rule browses_scope [OF assms, of _ "GetDataDirectory ref e l"]) simp_all

lemma browses_refused:
  "browses (Suc 0) st (browsed (DestroyList l) (Printf s (browsed (GetDataDirectory ref e l) st)))"
  by (rule browses_directory) auto

lemma collects:
  "serves lib ref t \<Longrightarrow> height t \<le> fuel \<Longrightarrow>
     (\<exists>st'. BrowseDataAttributesSCL lib fuel ref st = Inr (dais_of t, st') \<and> browses (dai_requests t) st st') \<and>
     (\<exists>st'. BrowseSDISCL lib fuel ref st = Inr (sdis_of t, st') \<and> browses (sdi_requests t) st st')"
  and collects_all:
  "serves_all lib ref cs \<Longrightarrow> heights cs \<le> fuel \<Longrightarrow>
     (\<exists>st'. dai_loop lib fuel ref (map fst cs) dais st = Inr (dais @ dais_all cs, st')
        \<and> browses (dai_requests_all cs) st st') \<and>
     (\<exists>st'. sdi_loop lib fuel ref (map fst cs) sdis st = Inr (sdis @ sdis_all cs, st')
        \<and> browses (sdi_requests_all cs) st st')"
proof (induction lib ref t and lib ref cs arbitrary: fuel st and fuel st dais sdis
    rule: serves_serves_all.induct)
  case (1 lib ref e)
  then obtain f where f: "fuel = Suc f" by (cases fuel) auto
  show ?case
    unfolding f using serves_Refuses [OF "1.prems"(1)] browses_refused
    by (auto simp: LinkedList_destroy_def)
next
  case (2 lib ref cs)
  then obtain f where f: "fuel = Suc f" by (cases fuel) auto
  obtain l where l: "getDataDirectory lib ref st = (0, Some l, browsed (GetDataDirectory ref 0 (Some l)) st)"
    and names: "lib_names lib l = map fst cs"
    using serves_Directory [OF "2.prems"(1)] .
  from "2.prems" f have "serves_all lib ref cs" and "heights cs \<le> f" by auto
  from "2.IH" [OF this, of "[]" "browsed (GetDataDirectory ref 0 (Some l)) st" "[]"]
  show ?case
    unfolding f using l names browses_directory
    by (fastforce simp: LinkedList_destroy_def list_names_def)
next
  case (3 lib ref)
  then show ?case by auto
next
  case (4 lib ref nm t cs)
  from "4.prems" have t: "serves lib (ref @ ''.'' @ nm) t" "height t \<le> fuel"
    and cs: "serves_all lib ref cs" "heights cs \<le> fuel" by auto
  obtain st1 where st1: "BrowseSDISCL lib fuel (ref @ ''.'' @ nm) st = Inr (sdis_of t, st1)"
    and b1: "browses (sdi_requests t) st st1"
    using "4.IH"(1) [OF t, of st] by blast
  obtain st2 where "dai_loop lib fuel ref (map fst cs)
      (dais @ [DAI nm \<lparr>val_Value = ''SomeValue''\<rparr> (sdis_of t)]) st1
      = Inr (dais @ dais_all ((nm, t) # cs), st2)" and "browses (dai_requests_all cs) st1 st2"
    using "4.IH"(2) [OF cs, of "dais @ [DAI nm \<lparr>val_Value = ''SomeValue''\<rparr> (sdis_of t)]" st1] by auto
  with st1 browses_trans [OF b1] have dai: "\<exists>st'. dai_loop lib fuel ref (map fst ((nm, t) # cs)) dais st
      = Inr (dais @ dais_all ((nm, t) # cs), st') \<and> browses (dai_requests_all ((nm, t) # cs)) st st'"
    by simp
  obtain st3 where st3: "BrowseDataAttributesSCL lib fuel (ref @ ''.'' @ nm) st = Inr (dais_of t, st3)"
    and b3: "browses (dai_requests t) st st3"
    using "4.IH"(1) [OF t, of st] by blast
  obtain st4 where st4: "BrowseSDISCL lib fuel (ref @ ''.'' @ nm) st3 = Inr (sdis_of t, st4)"
    and b4: "browses (sdi_requests t) st3 st4"
    using "4.IH"(1) [OF t, of st3] by blast
  obtain st5 where "sdi_loop lib fuel ref (map fst cs) (sdis @ [SDI nm (dais_of t) (sdis_of t)]) st4
      = Inr (sdis @ sdis_all ((nm, t) # cs), st5)" and "browses (sdi_requests_all cs) st4 st5"
    using "4.IH"(2) [OF cs, of _ st4 "sdis @ [SDI nm (dais_of t) (sdis_of t)]"] by auto
  with st3 st4 browses_trans [OF browses_trans [OF b3 b4]]
  have "\<exists>st'. sdi_loop lib fuel ref (map fst ((nm, t) # cs)) sdis st
      = Inr (sdis @ sdis_all ((nm, t) # cs), st') \<and> browses (sdi_requests_all ((nm, t) # cs)) st st'"
    by simp
  with dai show ?case by blast
qed

lemma prints:
  "serves lib ref t \<Longrightarrow> height t \<le> fuel \<Longrightarrow>
     \<exists>st'. BrowseDataAttributes lib fuel ref spaces st = Inr st' \<and> stdout st' = stdout st @ print_tree spaces t
       \<and> browses (nodes_in t) st st'"
  and prints_all:
  "serves_all lib ref cs \<Longrightarrow> heights cs \<le> fuel \<Longrightarrow>
     \<exists>st'. attributes_loop lib fuel ref spaces (map fst cs) st = Inr st' \<and>
       stdout st' = stdout st @ print_all spaces cs \<and> browses (nodes_all cs) st st'"
proof (induction lib ref t and lib ref cs arbitrary: fuel spaces st and fuel spaces st
    rule: serves_serves_all.induct)
  case (1 lib ref e)
  then obtain f where f: "fuel = Suc f" by (cases fuel) auto
  have "browses (Suc 0) st (browsed (DestroyList None) (browsed (GetDataDirectory ref e None) st))"
    by (rule browses_directory) auto
  with serves_Refuses [OF "1.prems"(1)] show ?case
    unfolding f by (auto simp: LinkedList_destroy_def)
next
  case (2 lib ref cs)
  then obtain f where f: "fuel = Suc f" by (cases fuel) auto
  obtain l where l: "getDataDirectory lib ref st = (0, Some l, browsed (GetDataDirectory ref 0 (Some l)) st)"
    and names: "lib_names lib l = map fst cs"
    using serves_Directory [OF "2.prems"(1)] .
  from "2.prems" f have "serves_all lib ref cs" and "heights cs \<le> f" by auto
  from "2.IH" [OF this, of spaces "browsed (GetDataDirectory ref 0 (Some l)) st"]
  show ?case
    unfolding f using l names browses_directory by (fastforce simp: LinkedList_destroy_def)
next
  case (3 lib ref)
  then show ?case by auto
next
  case (4 lib ref nm t cs)
  from "4.prems" have t: "serves lib (ref @ ''.'' @ nm) t" "height t \<le> fuel"
    and cs: "serves_all lib ref cs" "heights cs \<le> fuel" by auto
  let ?st = "Printf (''DA: '' @ nm @ newline) (Printf (printSpaces spaces) st)"
  obtain st1 where st1: "BrowseDataAttributes lib fuel (ref @ ''.'' @ nm) (spaces + 2) ?st = Inr st1"
    "stdout st1 = stdout ?st @ print_tree (spaces + 2) t" "browses (nodes_in t) ?st st1"
    using "4.IH"(1) [OF t, of "spaces + 2" ?st] by blast
  obtain st2 where st2: "attributes_loop lib fuel ref spaces (map fst cs) st1 = Inr st2"
    "stdout st2 = stdout st1 @ print_all spaces cs" "browses (nodes_all cs) st1 st2"
    using "4.IH"(2) [OF cs, of spaces st1] by blast
  have "browses (nodes_in t + nodes_all cs) st st2"
    using browses_trans [OF browses_trans [OF browses_refl [of ?st st] st1(3)] st2(3)] by simp
  with st1 st2 show ?case by simp
qed

text \<open>A server: its devices, their logical nodes, the nodes' data objects.\<close>

type_synonym node_model = "string \<times> (string \<times> dir_tree) list"
type_synonym device_model = "string \<times> node_model list"

definition node_served :: "'l browse_lib \<Rightarrow> string \<Rightarrow> node_model \<Rightarrow> bool" where
  "node_served lib d n \<longleftrightarrow>
     (\<forall>calls. \<exists>l. lib_getLogicalNodeDirectory lib calls (d @ ''/'' @ fst n)
         (ACSIClass_code ACSI_CLASS_DATA_OBJECT) = (0, Some l) \<and> lib_names lib l = map fst (snd n))
     \<and> (\<forall>(nm, t) \<in> set (snd n). serves lib (d @ ''/'' @ fst n @ ''.'' @ nm) t)"

definition device_served :: "'l browse_lib \<Rightarrow> device_model \<Rightarrow> bool" where
  "device_served lib d \<longleftrightarrow>
     (\<forall>calls. \<exists>l. lib_getLogicalDeviceDirectory lib calls (fst d) = (0, Some l) \<and>
        lib_names lib l = map fst (snd d))
     \<and> (\<forall>n \<in> set (snd d). node_served lib (fst d) n)"

definition model_served :: "'l browse_lib \<Rightarrow> device_model list \<Rightarrow> bool" where
  "model_served lib devs \<longleftrightarrow>
     (\<forall>calls. \<exists>l. lib_getLogicalDeviceList lib calls = (0, Some l) \<and> lib_names lib l = map fst devs)
     \<and> (\<forall>d \<in> set devs. device_served lib d)"

definition within :: "nat \<Rightarrow> device_model list \<Rightarrow> bool" where
  "within fuel devs \<longleftrightarrow>
     (\<forall>(d, nodes) \<in> set devs. \<forall>(n, objects) \<in> set nodes. \<forall>(nm, t) \<in> set objects. height t \<le> fuel)"

definition doi_of :: "string \<times> dir_tree \<Rightarrow> DOI" where
  "doi_of ob = \<lparr>doi_Desc = [], doi_Name = fst ob, doi_DAI = dais_of (snd ob), doi_SDI = []\<rparr>"

definition ln_of :: "node_model \<Rightarrow> LN" where
  "ln_of n = \<lparr>ln_Inst = fst n, ln_Prefix = [], ln_LnType = [], ln_LnClass = [], ln_DOI = map doi_of (snd n)\<rparr>"

definition scl_of :: "device_model list \<Rightarrow> SCL" where
  "scl_of devs = \<lparr>scl_IED = map (\<lambda>d. browsed_IED (fst d) (map ln_of (snd d))) devs,
     scl_DataTypeTemplates = empty_templates\<rparr>"

definition print_node :: "node_model \<Rightarrow> string" where
  "print_node n = ''  LN: '' @ fst n @ newline
     @ concat (map (\<lambda>ob. ''    DO: '' @ fst ob @ newline @ print_tree 6 (snd ob)) (snd n))"

definition print_model :: "device_model list \<Rightarrow> string" where
  "print_model devs = concat (map (\<lambda>d. ''LD: '' @ fst d @ newline @ concat (map print_node (snd d))) devs)"

section \<open>Browsing a server\<close>

lemma dois_collected:
  assumes "\<forall>(nm, t) \<in> set objects. serves lib (d @ ''/'' @ n @ ''.'' @ nm) t"
    and "\<forall>(nm, t) \<in> set objects. height t \<le> fuel"
  shows "\<exists>st' k. doi_loop lib fuel d n (map fst objects) dois st = Inr (dois @ map doi_of objects, st')
    \<and> browses k st st'"
  using assms
proof (induction objects arbitrary: dois st)
  case (Cons ob objects)
  obtain nm t where ob: "ob = (nm, t)" by (cases ob)
  with Cons.prems obtain st1 where st1: "BrowseDataAttributesSCL lib fuel (d @ ''/'' @ n @ ''.'' @ nm) st
      = Inr (dais_of t, st1)" "browses (dai_requests t) st st1"
    using collects [of lib "d @ ''/'' @ n @ ''.'' @ nm" t fuel st] by auto
  from Cons.prems obtain st2 k where "doi_loop lib fuel d n (map fst objects) (dois @ [doi_of ob]) st1
      = Inr (dois @ [doi_of ob] @ map doi_of objects, st2)" "browses k st1 st2"
    using Cons.IH [of "dois @ [doi_of ob]" st1] by auto
  with st1 ob browses_trans [OF st1(2)] show ?case by (auto simp: doi_of_def)
qed auto

lemma objects_printed:
  assumes "\<forall>(nm, t) \<in> set objects. serves lib (d @ ''/'' @ n @ ''.'' @ nm) t"
    and "\<forall>(nm, t) \<in> set objects. height t \<le> fuel"
  shows "\<exists>st' k. objects_loop lib fuel d n (map fst objects) st = Inr st' \<and> browses k st st' \<and>
    stdout st' = stdout st
      @ concat (map (\<lambda>ob. ''    DO: '' @ fst ob @ newline @ print_tree 6 (snd ob)) objects)"
  using assms
proof (induction objects arbitrary: st)
  case (Cons ob objects)
  obtain nm t where ob: "ob = (nm, t)" by (cases ob)
  let ?st = "Printf (''    DO: '' @ nm @ newline) st"
  from Cons.prems ob obtain st1 where st1: "BrowseDataAttributes lib fuel (d @ ''/'' @ n @ ''.'' @ nm) 6 ?st
      = Inr st1" "stdout st1 = stdout ?st @ print_tree 6 t" "browses (nodes_in t) ?st st1"
    using prints [of lib "d @ ''/'' @ n @ ''.'' @ nm" t fuel 6 ?st] by auto
  from Cons.prems obtain st2 k where st2: "objects_loop lib fuel d n (map fst objects) st1 = Inr st2"
      "browses k st1 st2" "stdout st2 = stdout st1
      @ concat (map (\<lambda>ob. ''    DO: '' @ fst ob @ newline @ print_tree 6 (snd ob)) objects)"
    using Cons.IH [of st1] by auto
  have "browses (0 + nodes_in t + k) st st2"
    by (rule browses_trans [OF browses_trans [OF _ st1(3)] st2(2)]) auto
  with st1 st2 ob show ?case by auto
qed auto

lemma node_directory:
  assumes "node_served lib d n"
  obtains l where "lib_getLogicalNodeDirectory lib calls (d @ ''/'' @ fst n)
      (ACSIClass_code ACSI_CLASS_DATA_OBJECT) = (0, Some l)" and "lib_names lib l = map fst (snd n)"
  using assms unfolding node_served_def by blast

lemma nodes_collected:
  assumes "\<forall>n \<in> set nodes. node_served lib d n"
    and "\<forall>(n, objects) \<in> set nodes. \<forall>(nm, t) \<in> set objects. height t \<le> fuel"
  shows "\<exists>st' k. ln_loop lib fuel d (map fst nodes) lns st = Inr (lns @ map ln_of nodes, st')
    \<and> browses k st st'"
  using assms
proof (induction nodes arbitrary: lns st)
  case (Cons n nodes)
  let ?acsi = "ACSIClass_code ACSI_CLASS_DATA_OBJECT"
  from Cons.prems have n: "node_served lib d n" "\<forall>(nm, t) \<in> set (snd n). height t \<le> fuel" by (cases n; auto)+
  obtain l where l: "lib_getLogicalNodeDirectory lib (browse_calls st) (d @ ''/'' @ fst n) ?acsi = (0, Some l)"
    "lib_names lib l = map fst (snd n)" using node_directory [OF n(1)] .
  let ?st = "browsed (GetLogicalNodeDirectory (d @ ''/'' @ fst n) ?acsi 0 (Some l)) st"
  from n(1) have "\<forall>(nm, t) \<in> set (snd n). serves lib (d @ ''/'' @ fst n @ ''.'' @ nm) t"
    by (simp add: node_served_def)
  then obtain st1 k where st1: "doi_loop lib fuel d (fst n) (map fst (snd n)) [] ?st
      = Inr (map doi_of (snd n), st1)" "browses k ?st st1"
    using dois_collected [OF _ n(2), of lib d "fst n" "[]" ?st] by auto
  let ?st2 = "browsed (DestroyList (Some l)) st1"
  have b: "browses (Suc k) st ?st2"
    by (rule browses_scope [OF st1(2), of st "GetLogicalNodeDirectory (d @ ''/'' @ fst n) ?acsi 0 (Some l)"])
      simp_all
  obtain st3 k' where "ln_loop lib fuel d (map fst nodes) (lns @ [ln_of n]) ?st2
      = Inr (lns @ [ln_of n] @ map ln_of nodes, st3)" "browses k' ?st2 st3"
    using Cons.IH [of "lns @ [ln_of n]" ?st2] Cons.prems by auto
  with l st1(1) browses_trans [OF b] show ?case
    by (auto simp: list_names_def LinkedList_destroy_def ln_of_def)
qed auto

lemma nodes_printed:
  assumes "\<forall>n \<in> set nodes. node_served lib d n"
    and "\<forall>(n, objects) \<in> set nodes. \<forall>(nm, t) \<in> set objects. height t \<le> fuel"
  shows "\<exists>st' k. nodes_loop lib fuel d (map fst nodes) st = Inr st' \<and> browses k st st'
    \<and> stdout st' = stdout st @ concat (map print_node nodes)"
  using assms
proof (induction nodes arbitrary: st)
  case (Cons n nodes)
  let ?acsi = "ACSIClass_code ACSI_CLASS_DATA_OBJECT"
  let ?st = "Printf (''  LN: '' @ fst n @ newline) st"
  from Cons.prems have n: "node_served lib d n" "\<forall>(nm, t) \<in> set (snd n). height t \<le> fuel" by (cases n; auto)+
  obtain l where l: "lib_getLogicalNodeDirectory lib (browse_calls ?st) (d @ ''/'' @ fst n) ?acsi = (0, Some l)"
    "lib_names lib l = map fst (snd n)" using node_directory [OF n(1)] .
  let ?c = "GetLogicalNodeDirectory (d @ ''/'' @ fst n) ?acsi 0 (Some l)"
  from n(1) have "\<forall>(nm, t) \<in> set (snd n). serves lib (d @ ''/'' @ fst n @ ''.'' @ nm) t"
    by (simp add: node_served_def)
  then obtain st1 k where st1: "objects_loop lib fuel d (fst n) (map fst (snd n)) (browsed ?c ?st) = Inr st1"
      "browses k (browsed ?c ?st) st1" "stdout st1 = stdout (browsed ?c ?st)
      @ concat (map (\<lambda>ob. ''    DO: '' @ fst ob @ newline @ print_tree 6 (snd ob)) (snd n))"
    using objects_printed [OF _ n(2), of lib d "fst n" "browsed ?c ?st"] by auto
  let ?st2 = "browsed (DestroyList (Some l)) st1"
  have b: "browses (Suc k) st ?st2" by (rule browses_scope [OF st1(2), of st ?c]) simp_all
  obtain st3 k' where "nodes_loop lib fuel d (map fst nodes) ?st2 = Inr st3" "browses k' ?st2 st3"
      "stdout st3 = stdout ?st2 @ concat (map print_node nodes)"
    using Cons.IH [of ?st2] Cons.prems by auto
  with l st1(1,3) browses_trans [OF b] show ?case
    by (auto simp: list_names_def LinkedList_destroy_def print_node_def [of n])
qed auto

lemma device_directory:
  assumes "device_served lib d"
  obtains l where "lib_getLogicalDeviceDirectory lib calls (fst d) = (0, Some l)"
    and "lib_names lib l = map fst (snd d)"
  using assms unfolding device_served_def by blast

lemma devices_collected:
  assumes "\<forall>d \<in> set devs. device_served lib d" and "within fuel devs"
  shows "\<exists>st' k. ied_loop lib fuel (map fst devs) ieds st
    = Inr (ieds @ map (\<lambda>d. browsed_IED (fst d) (map ln_of (snd d))) devs, st') \<and> browses k st st'"
  using assms
proof (induction devs arbitrary: ieds st)
  case (Cons d devs)
  from Cons.prems have d: "device_served lib d"
      "\<forall>(n, objects) \<in> set (snd d). \<forall>(nm, t) \<in> set objects. height t \<le> fuel" "within fuel devs"
    by (cases d; auto simp: within_def)+
  obtain l where l: "lib_getLogicalDeviceDirectory lib (browse_calls st) (fst d) = (0, Some l)"
    "lib_names lib l = map fst (snd d)" using device_directory [OF d(1)] .
  let ?c = "GetLogicalDeviceDirectory (fst d) 0 (Some l)"
  from d(1) have "\<forall>n \<in> set (snd d). node_served lib (fst d) n" by (simp add: device_served_def)
  then obtain st1 k where st1: "ln_loop lib fuel (fst d) (map fst (snd d)) [] (browsed ?c st)
      = Inr (map ln_of (snd d), st1)" "browses k (browsed ?c st) st1"
    using nodes_collected [OF _ d(2), of lib "fst d" "[]" "browsed ?c st"] by auto
  let ?st2 = "browsed (DestroyList (Some l)) st1" and ?ied = "browsed_IED (fst d) (map ln_of (snd d))"
  have b: "browses (Suc k) st ?st2" by (rule browses_scope [OF st1(2), of st ?c]) simp_all
  obtain st3 k' where "ied_loop lib fuel (map fst devs) (ieds @ [?ied]) ?st2
      = Inr (ieds @ [?ied] @ map (\<lambda>d. browsed_IED (fst d) (map ln_of (snd d))) devs, st3)"
    "browses k' ?st2 st3"
    using Cons.IH [of "ieds @ [?ied]" ?st2] Cons.prems d(3) by auto
  with l st1(1) browses_trans [OF b] show ?case by (auto simp: list_names_def LinkedList_destroy_def)
qed auto

lemma devices_printed:
  assumes "\<forall>d \<in> set devs. device_served lib d" and "within fuel devs"
  shows "\<exists>st' k. devices_loop lib fuel (map fst devs) st = Inr st' \<and> browses k st st'
    \<and> stdout st' = stdout st @ print_model devs"
  using assms
proof (induction devs arbitrary: st)
  case (Cons d devs)
  from Cons.prems have d: "device_served lib d"
      "\<forall>(n, objects) \<in> set (snd d). \<forall>(nm, t) \<in> set objects. height t \<le> fuel" "within fuel devs"
    by (cases d; auto simp: within_def)+
  let ?st = "Printf (''LD: '' @ fst d @ newline) st"
  obtain l where l: "lib_getLogicalDeviceDirectory lib (browse_calls ?st) (fst d) = (0, Some l)"
    "lib_names lib l = map fst (snd d)" using device_directory [OF d(1)] .
  let ?c = "GetLogicalDeviceDirectory (fst d) 0 (Some l)"
  from d(1) have "\<forall>n \<in> set (snd d). node_served lib (fst d) n" by (simp add: device_served_def)
  then obtain st1 k where st1: "nodes_loop lib fuel (fst d) (map fst (snd d)) (browsed ?c ?st) = Inr st1"
      "browses k (browsed ?c ?st) st1" "stdout st1 = stdout (browsed ?c ?st) @ concat (map print_node (snd d))"
    using nodes_printed [OF _ d(2), of lib "fst d" "browsed ?c ?st"] by auto
  let ?st2 = "browsed (DestroyList (Some l)) st1"
  have b: "browses (Suc k) st ?st2" by (rule browses_scope [OF st1(2), of st ?c]) simp_all
  obtain st3 k' where "devices_loop lib fuel (map fst devs) ?st2 = Inr st3" "browses k' ?st2 st3"
      "stdout st3 = stdout ?st2 @ print_model devs"
    using Cons.IH [of ?st2] Cons.prems d(3) by auto
  with l st1(1,3) browses_trans [OF b] show ?case
    by (auto simp: list_names_def LinkedList_destroy_def print_model_def)
qed (auto simp: print_model_def)

lemma model_directory:
  assumes "model_served lib devs"
  obtains l where "lib_getLogicalDeviceList lib calls = (0, Some l)" and "lib_names lib l = map fst devs"
    and "\<forall>d \<in> set devs. device_served lib d"
  using assms unfolding model_served_def by blast

lemma browses_balanced:
  assumes "browses k st st'" and "browse_calls st = []"
  shows "resource_run list_acquired list_released {#} (browse_calls st') = Some {#}"
  using assms by (auto simp: browses_def lists.balanced_def)

text \<open>Only \<open>browsed_IED\<close> makes IEDs, and their nodes have no data sets.\<close>

lemma ied_loop_browsed:
  assumes "ied_loop lib fuel names ieds st = Inr (ieds', st')"
  shows "\<exists>xs. ieds' = ieds @ map (\<lambda>(d, lns). browsed_IED d lns) xs"
  using assms
proof (induction names arbitrary: ieds st)
  case (Cons d names)
  obtain e l where e: "lib_getLogicalDeviceDirectory lib (browse_calls st) d = (e, l)" by fastforce
  show ?case
  proof (cases "e = 0")
    case False
    with Cons e show ?thesis by auto
  next
    case True
    with Cons.prems e obtain lns st1 where "ied_loop lib fuel names (ieds @ [browsed_IED d lns]) st1
        = Inr (ieds', st')"
      by (auto simp: and_then_Inr_iff)
    with Cons.IH obtain xs where "ieds' = ieds @ map (\<lambda>(d, lns). browsed_IED d lns) ((d, lns) # xs)"
      by fastforce
    then show ?thesis by blast
  qed
qed auto

lemma no_data_set_in_browsed:
  "find_in_ieds a b (map (\<lambda>(d, lns). browsed_IED d lns) xs) = None"
  by (induction xs) (auto simp: browsed_IED_def empty_LN0_def split: prod.splits)

section \<open>A server with one device\<close>

text \<open>The handle of a list is its contents.\<close>

definition sample_tree :: dir_tree where
  "sample_tree = Directory [(''q'', Refuses 12), (''Cf'', Directory [(''t'', Directory [])])]"

definition sample_model :: "device_model list" where
  "sample_model = [(''D'', [(''LLN0'', [(''Mod'', sample_tree)])])]"

definition sample_server :: "string list browse_lib" where
  "sample_server = \<lparr>
     lib_getLogicalDeviceList = (\<lambda>calls. (0, Some [''D''])),
     lib_getLogicalDeviceDirectory = (\<lambda>calls ref. if ref = ''D'' then (0, Some [''LLN0'']) else (12, None)),
     lib_getLogicalNodeDirectory = (\<lambda>calls ref c. if ref = ''D/LLN0'' then (0, Some [''Mod'']) else (12, None)),
     lib_getDataDirectory = (\<lambda>calls ref. case map_of [(''D/LLN0.Mod'', [''q'', ''Cf'']),
         (''D/LLN0.Mod.Cf'', [''t'']), (''D/LLN0.Mod.Cf.t'', [])] ref of
       None \<Rightarrow> (12, None) | Some names \<Rightarrow> (0, Some names)),
     lib_names = (\<lambda>l. l), lib_null_list = True\<rparr>"

definition start_browse :: "'l browse_state" where
  "start_browse = \<lparr>browse_calls = [], stdout = []\<rparr>"

lemma sample_served: "model_served sample_server sample_model" and sample_within: "within 4 sample_model"
  by (simp_all add: model_served_def device_served_def node_served_def within_def sample_model_def
      sample_server_def sample_tree_def)

fun chain :: "nat \<Rightarrow> dir_tree" where
  "chain 0 = Directory []"
| "chain (Suc n) = Directory [(''a'', chain n)]"

lemma height_chain: "height (chain n) = Suc n"
  by (induction n) auto

lemma nodes_in_chain: "nodes_in (chain n) = Suc n"
  by (induction n) auto

lemma sdi_requests_chain: "2 ^ (n div 2) \<le> sdi_requests (chain n)"
proof (induction n rule: induct_nat_012)
  case (ge2 n)
  have "sdi_requests (chain (Suc (Suc n))) \<ge> 2 * sdi_requests (chain n)" by simp
  with ge2 show ?case by simp
qed simp_all

section \<open>Properties\<close>

text \<open>
  C14: \<open>BrowseModelToSCL\<close> returns the server's model: for each device an IED of its name with one
  access point and one device, in it every logical node with its data objects and, below them, the
  attributes and sub-data the directories list, in the order of the server. Fuel equal to the
  deepest directory is enough, and every list of names the library handed out has been given back.
\<close>

theorem BrowseModelToSCL_collects:
  assumes "model_served lib devs" and "within fuel devs" and "browse_calls st = []"
  shows "\<exists>st'. BrowseModelToSCL lib fuel st = Inr (Inr (scl_of devs), st') \<and>
    resource_run list_acquired list_released {#} (browse_calls st') = Some {#}"
proof -
  obtain l where l: "lib_getLogicalDeviceList lib (browse_calls st) = (0, Some l)"
    "lib_names lib l = map fst devs" and d: "\<forall>d \<in> set devs. device_served lib d"
    using model_directory [OF assms(1)] .
  let ?c = "GetLogicalDeviceList 0 (Some l)"
  obtain st1 k where st1: "ied_loop lib fuel (map fst devs) [] (browsed ?c st) = Inr (scl_IED (scl_of devs), st1)"
    and b: "browses k (browsed ?c st) st1"
    using devices_collected [OF d assms(2), of "[]" "browsed ?c st"] by (auto simp: scl_of_def)
  have "browses (Suc k) st (browsed (DestroyList (Some l)) st1)"
    by (rule browses_scope [OF b, of st ?c]) simp_all
  then have "resource_run list_acquired list_released {#} (browse_calls (browsed (DestroyList (Some l)) st1)) = Some {#}"
    using assms(3) by (rule browses_balanced)
  with l st1 show ?thesis
    by (auto simp: BrowseModelToSCL_def list_names_def LinkedList_destroy_def scl_of_def)
qed

theorem BrowseModelToSCL_collects_witness:
  "\<exists>st'. BrowseModelToSCL sample_server 4 start_browse = Inr (Inr (scl_of sample_model), st') \<and>
    resource_run list_acquired list_released {#} (browse_calls st') = Some {#}"
  by (rule BrowseModelToSCL_collects [OF sample_served sample_within]) (simp add: start_browse_def)

text \<open>
  C19: \<open>BrowseModel\<close> prints the same tree, one line for each device, node, object and attribute,
  indented by its depth; an attribute the server refuses to list prints nothing below it.
\<close>

theorem BrowseModel_prints:
  assumes "model_served lib devs" and "within fuel devs"
  shows "\<exists>st'. BrowseModel lib fuel st = Inr st' \<and> stdout st' = stdout st @ print_model devs"
proof -
  obtain l where l: "lib_getLogicalDeviceList lib (browse_calls st) = (0, Some l)"
    "lib_names lib l = map fst devs" and d: "\<forall>d \<in> set devs. device_served lib d"
    using model_directory [OF assms(1)] .
  show ?thesis
    using devices_printed [OF d assms(2), of "browsed (GetLogicalDeviceList 0 (Some l)) st"] l
    by (auto simp: BrowseModel_def list_names_def LinkedList_destroy_def)
qed

theorem BrowseModel_prints_witness:
  "\<exists>st'. BrowseModel sample_server 4 start_browse = Inr st' \<and>
    stdout st' = stdout (start_browse :: string list browse_state) @ print_model sample_model"
  by (rule BrowseModel_prints [OF sample_served sample_within])

text \<open>
  A model collected by browsing has no data set: whatever the server answered,
  \<open>GetDataSet\<close> finds nothing in the document \<open>BrowseModelToSCL\<close> returns.
\<close>

theorem browsed_model_has_no_data_set:
  assumes "BrowseModelToSCL lib fuel st = Inr (Inr scl, st')"
  shows "\<exists>msg. GetDataSet scl ref = Inl msg"
proof -
  from assms obtain names st1 st2 where
    "ied_loop lib fuel names [] st1 = Inr (scl_IED scl, st2)"
    by (auto simp: BrowseModelToSCL_def Let_def and_then_Inr_iff split: prod.splits if_splits)
  with ied_loop_browsed obtain xs where "scl_IED scl = map (\<lambda>(d, lns). browsed_IED d lns) xs" by fastforce
  with no_data_set_in_browsed show ?thesis
    by (fastforce simp: GetDataSet_def split: list.split option.split)
qed

theorem browsed_model_has_no_data_set_witness:
  "\<exists>st' msg. BrowseModelToSCL sample_server 4 start_browse = Inr (Inr (scl_of sample_model), st') \<and>
    GetDataSet (scl_of sample_model) ''DD/LLN0.x'' = Inl msg"
proof -
  have "model_served sample_server sample_model" by (rule sample_served)
  then have "\<exists>st'. BrowseModelToSCL sample_server 4 start_browse = Inr (Inr (scl_of sample_model), st')"
    using devices_collected [OF _ sample_within, of sample_server "[]" "browsed (GetLogicalDeviceList 0 (Some [''D''])) start_browse"]
    by (auto simp: BrowseModelToSCL_def list_names_def LinkedList_destroy_def model_served_def scl_of_def
        sample_server_def sample_model_def)
  with browsed_model_has_no_data_set show ?thesis by blast
qed

text \<open>
  C26: printing a data object asks for each directory below it once. Collecting it asks again for
  everything below an attribute at each level, once for its attributes and once for its sub-data:
  on a chain of \<open>n\<close> nested names it makes at least \<open>2 ^ ((n - 1) div 2)\<close> requests where printing
  makes \<open>n + 1\<close>.
\<close>

theorem collecting_is_exponential:
  assumes "serves lib ref (chain (Suc n))" and "Suc n < fuel"
  shows "\<exists>st1 st2 cs ds. BrowseDataAttributes lib fuel ref 0 st = Inr st1 \<and>
      BrowseDataAttributesSCL lib fuel ref st = Inr (dais_of (chain (Suc n)), st2) \<and>
      browse_calls st1 = browse_calls st @ cs \<and> length (filter is_request cs) = n + 2 \<and>
      browse_calls st2 = browse_calls st @ ds \<and> 2 ^ (n div 2) \<le> length (filter is_request ds)"
proof -
  have h: "height (chain (Suc n)) \<le> fuel" using assms(2) by (simp only: height_chain)
  obtain st1 where "BrowseDataAttributes lib fuel ref 0 st = Inr st1" "browses (n + 2) st st1"
    using prints [OF assms(1) h, of 0 st] by (auto simp only: nodes_in_chain add_2_eq_Suc')
  moreover obtain st2 where "BrowseDataAttributesSCL lib fuel ref st = Inr (dais_of (chain (Suc n)), st2)"
    "browses (dai_requests (chain (Suc n))) st st2"
    using collects [OF assms(1) h, of st] by blast
  moreover have "2 ^ (n div 2) \<le> dai_requests (chain (Suc n))"
    using sdi_requests_chain [of n] by simp
  ultimately show ?thesis unfolding browses_def by metis
qed

definition chain_server :: "string list browse_lib" where
  "chain_server = sample_server\<lparr>lib_getDataDirectory :=
     (\<lambda>calls ref. (0, Some (if ref = ''r'' \<or> ref = ''r.a'' then [''a''] else [])))\<rparr>"

theorem collecting_is_exponential_witness:
  "\<exists>st1 st2 cs ds. BrowseDataAttributes chain_server 4 ''r'' 0 start_browse = Inr st1 \<and>
      BrowseDataAttributesSCL chain_server 4 ''r'' start_browse = Inr (dais_of (chain (Suc 1)), st2) \<and>
      browse_calls st1 = browse_calls start_browse @ cs \<and> length (filter is_request cs) = 1 + 2 \<and>
      browse_calls st2 = browse_calls start_browse @ ds \<and> 2 ^ (1 div 2) \<le> length (filter is_request ds)"
  by (rule collecting_is_exponential) (simp_all add: chain_server_def sample_server_def)

end
