(* ===== verification/C_Session.thy ===== *)
theory C_Session
  imports C_Resource
begin

text \<open>
  Sessions over C objects: a program that performs a list of operations, each of which appends
  calls to a trace. The locale \<open>c_session\<close> extends \<open>c_resource\<close> by the contract of one
  operation: the objects it acquires and does not give back are the ones \<open>kept\<close> reads off the
  calls it made. Its lemmas carry this to whole sessions, without a double release on the way.
\<close>

locale c_session = c_resource acq rel for acq rel :: "'call \<Rightarrow> 'r option" +
  fixes kept :: "'call list \<Rightarrow> 'r list"
    and trace :: "'st \<Rightarrow> 'call list"
    and step :: "'op \<Rightarrow> 'st \<Rightarrow> 'st"
  assumes kept_append: "kept (xs @ ys) = kept xs @ kept ys"
    and step_keeps: "\<exists>cs. trace (step op st) = trace st @ cs
          \<and> (\<forall>live. resource_run acq rel live cs = Some (live + mset (kept cs)))"
begin

definition accounted :: "'st \<Rightarrow> bool" where
  "accounted st \<longleftrightarrow> run {#} (trace st) = Some (mset (kept (trace st)))"

lemma step_accounted:
  assumes "accounted st"
  shows "accounted (step op st)"
proof -
  obtain cs where "trace (step op st) = trace st @ cs"
      and "\<forall>live. run live cs = Some (live + mset (kept cs))"
    using step_keeps by blast
  with assms show ?thesis by (simp add: accounted_def run_append kept_append)
qed

lemma session_accounted: "accounted st \<Longrightarrow> accounted (fold step ops st)"
  by (induction ops arbitrary: st) (simp_all add: step_accounted)

lemma session_prefix: "\<exists>cs. trace (fold step ops st) = trace st @ cs"
proof (induction ops arbitrary: st)
  case (Cons op ops)
  then obtain cs where "trace (fold step ops (step op st)) = trace (step op st) @ cs" by blast
  moreover obtain ds where "trace (step op st) = trace st @ ds" using step_keeps by blast
  ultimately show ?case by simp
qed simp

text \<open>If nothing is kept, as many objects are given back as were handed over.\<close>

lemma session_all_released:
  assumes "accounted st" and "kept (trace (fold step ops st)) = []"
  shows "length (filter (\<lambda>c. acq c \<noteq> None) (trace (fold step ops st)))
    = length (filter (\<lambda>c. rel c \<noteq> None) (trace (fold step ops st)))"
  using session_accounted [OF assms(1), of ops] assms(2)
    run_releases_acquired [of "{#}" "trace (fold step ops st)" "{#}"]
  by (simp add: accounted_def)

end

end
