(* ===== verification/Client_Conn.thy ===== *)
theory Client_Conn
  imports C_Session Go_Types "HOL-Library.Signed_Division"
begin

text \<open>
  Opening a client and reading single attributes (\<open>iec61850_client.go\<close>): the options of
  \<open>NewIedClient\<close>, \<open>Connect\<close>, \<open>State\<close> and the \<open>Read...\<close> operations, with the C strings they
  allocate and free. The library is the record \<open>conn_lib\<close> of its answers, each a function of
  all calls made so far.
\<close>

section \<open>Calls into the library\<close>

text \<open>
  A \<open>Read\<close> call holds the address of the reference, the functional constraint, the client error
  and the value. \<open>C.CString\<close> allocates and \<open>C.free\<close> frees C memory, \<open>readStringValue\<close>
  returns a buffer that has to be freed by the caller, as the header says.
\<close>

datatype ('c, 'p) conn_call =
    CreateConnection 'c
  | SetConnectTimeout 'c uint32
  | SetRequestTimeout 'c uint32
  | CString string 'p
  | Free 'p
  | ConnectTo 'c 'p int32 int
  | GetState 'c int
  | ReadBooleanValue 'c 'p int int bool
  | ReadFloatValue 'c 'p int int c_float
  | ReadStringValue 'c 'p int int "'p option"
  | ReadInt32Value 'c 'p int int int32
  | ReadInt64Value 'c 'p int int int64
  | ReadUnsigned32Value 'c 'p int int uint32

type_synonym ('c, 'p, 'v) reader = "('c, 'p) conn_call list \<Rightarrow> 'c \<Rightarrow> string \<Rightarrow> int \<Rightarrow> int \<times> 'v"

record ('c, 'p) conn_lib =
  lib_create :: "('c, 'p) conn_call list \<Rightarrow> 'c"
  lib_CString :: "('c, 'p) conn_call list \<Rightarrow> string \<Rightarrow> 'p"
  lib_connect :: "('c, 'p) conn_call list \<Rightarrow> 'c \<Rightarrow> string \<Rightarrow> int32 \<Rightarrow> int"
  lib_getState :: "('c, 'p) conn_call list \<Rightarrow> 'c \<Rightarrow> int"
  lib_readBoolean :: "('c, 'p, bool) reader"
  lib_readFloat :: "('c, 'p, c_float) reader"
  lib_readString :: "('c, 'p, 'p option) reader"
  lib_readInt32 :: "('c, 'p, int32) reader"
  lib_readInt64 :: "('c, 'p, int64) reader"
  lib_readUnsigned32 :: "('c, 'p, uint32) reader"
  lib_text :: "('c, 'p) conn_call list \<Rightarrow> 'p \<Rightarrow> string"

record ('c, 'p) ied_client =
  withoutTimestamps :: bool
  ic_connection :: 'c
  ic_calls :: "('c, 'p) conn_call list"

definition issue :: "('c, 'p) conn_call \<Rightarrow> ('c, 'p) ied_client \<Rightarrow> ('c, 'p) ied_client" where
  "issue c client = client\<lparr>ic_calls := ic_calls client @ [c]\<rparr>"

lemma issue_simps [simp]:
  "withoutTimestamps (issue c client) = withoutTimestamps client"
  "ic_connection (issue c client) = ic_connection client"
  "ic_calls (issue c client) = ic_calls client @ [c]"
  by (simp_all add: issue_def)

section \<open>Options\<close>

text \<open>
  \<open>C.uint(timeout/1e6)\<close>: a \<open>time.Duration\<close> is an \<open>int64\<close> of nanoseconds, Go's division
  truncates towards zero and the conversion keeps the low 32 bits.
\<close>

definition duration_ms :: "int64 \<Rightarrow> uint32" where
  "duration_ms timeout = word_of_int (sint timeout sdiv 1000000)"

definition ConnectTimeout :: "int64 \<Rightarrow> ('c, 'p) ied_client \<Rightarrow> ('c, 'p) ied_client" where
  "ConnectTimeout timeout c = issue (SetConnectTimeout (ic_connection c) (duration_ms timeout)) c"

definition RequestTimeout :: "int64 \<Rightarrow> ('c, 'p) ied_client \<Rightarrow> ('c, 'p) ied_client" where
  "RequestTimeout timeout c = issue (SetRequestTimeout (ic_connection c) (duration_ms timeout)) c"

definition WithoutTimestamps :: "bool \<Rightarrow> ('c, 'p) ied_client \<Rightarrow> ('c, 'p) ied_client" where
  "WithoutTimestamps flag c = c\<lparr>withoutTimestamps := flag\<rparr>"

text \<open>A nil option is skipped.\<close>

definition NewIedClient :: "('c, 'p) conn_lib \<Rightarrow>
    (('c, 'p) ied_client \<Rightarrow> ('c, 'p) ied_client) option list \<Rightarrow> ('c, 'p) ied_client" where
  "NewIedClient lib options =
     (let conn = lib_create lib [];
          client = \<lparr>withoutTimestamps = False, ic_connection = conn, ic_calls = [CreateConnection conn]\<rparr> in
      foldl (\<lambda>client op. case op of None \<Rightarrow> client | Some f \<Rightarrow> f client) client options)"

section \<open>Connect and State\<close>

definition Connect :: "('c, 'p) conn_lib \<Rightarrow> string \<Rightarrow> int \<Rightarrow> ('c, 'p) ied_client \<Rightarrow>
    string option \<times> ('c, 'p) ied_client" where
  "Connect lib hostname tcpPort client =
     (let cHostname = lib_CString lib (ic_calls client) hostname;
          client = issue (CString hostname cHostname) client;
          port = word_of_int tcpPort;
          clientError = lib_connect lib (ic_calls client) (ic_connection client) hostname port;
          client = issue (ConnectTo (ic_connection client) cHostname port clientError) client;
          client = issue (Free cHostname) client in
      if clientError = IedClientError_code IED_ERROR_ALREADY_CONNECTED then (None, client)
      else if clientError \<noteq> IedClientError_code IED_ERROR_OK then
        (Some (''failed to connect to '' @ hostname @ '':'' @ Itoa tcpPort @ '', clientError: ''
           @ Err clientError), client)
      else (None, client))"

definition State :: "('c, 'p) conn_lib \<Rightarrow> ('c, 'p) ied_client \<Rightarrow> int \<times> ('c, 'p) ied_client" where
  "State lib client =
     (let state = lib_getState lib (ic_calls client) (ic_connection client) in
      (state, issue (GetState (ic_connection client) state) client))"

section \<open>Reading attributes\<close>

text \<open>
  The operations share one body, over the library function, the call it is recorded as, and the
  Go value made of the result (a function of the state, since a C string is read from memory).
  \<open>float64(value)\<close> and the integer conversions are exact; the value is kept at its C type.
\<close>

definition read_value :: "('c, 'p) conn_lib \<Rightarrow> ('c, 'p, 'v) reader \<Rightarrow>
    ('c \<Rightarrow> 'p \<Rightarrow> int \<Rightarrow> int \<Rightarrow> 'v \<Rightarrow> ('c, 'p) conn_call) \<Rightarrow> 'w \<Rightarrow>
    (('c, 'p) conn_call list \<Rightarrow> 'v \<Rightarrow> 'w) \<Rightarrow> string \<Rightarrow> int \<Rightarrow> ('c, 'p) ied_client \<Rightarrow>
    ('w \<times> string option) \<times> ('c, 'p) ied_client" where
  "read_value lib reader call zero convert objectRef fc client =
     (let cObjectRef = lib_CString lib (ic_calls client) objectRef;
          client = issue (CString objectRef cObjectRef) client;
          (clientError, val) = reader (ic_calls client) (ic_connection client) objectRef fc;
          client = issue (call (ic_connection client) cObjectRef fc clientError val) client;
          result = (if clientError \<noteq> IedClientError_code IED_ERROR_OK
            then (zero, Some (''failed to read object '' @ objectRef @ '', clientError: '' @ Err clientError))
            else (convert (ic_calls client) val, None)) in
      (result, issue (Free cObjectRef) client))"

definition ReadBoolean :: "('c, 'p) conn_lib \<Rightarrow> string \<Rightarrow> int \<Rightarrow> ('c, 'p) ied_client \<Rightarrow>
    (bool \<times> string option) \<times> ('c, 'p) ied_client" where
  "ReadBoolean lib = read_value lib (lib_readBoolean lib) ReadBooleanValue False (\<lambda>_ v. v)"

definition ReadFloat :: "('c, 'p) conn_lib \<Rightarrow> string \<Rightarrow> int \<Rightarrow> ('c, 'p) ied_client \<Rightarrow>
    (c_float \<times> string option) \<times> ('c, 'p) ied_client" where
  "ReadFloat lib = read_value lib (lib_readFloat lib) ReadFloatValue 0 (\<lambda>_ v. v)"

definition ReadString :: "('c, 'p) conn_lib \<Rightarrow> string \<Rightarrow> int \<Rightarrow> ('c, 'p) ied_client \<Rightarrow>
    (string \<times> string option) \<times> ('c, 'p) ied_client" where
  "ReadString lib = read_value lib (lib_readString lib) ReadStringValue []
     (\<lambda>calls v. case v of None \<Rightarrow> [] | Some p \<Rightarrow> lib_text lib calls p)"

definition ReadInt32 :: "('c, 'p) conn_lib \<Rightarrow> string \<Rightarrow> int \<Rightarrow> ('c, 'p) ied_client \<Rightarrow>
    (int32 \<times> string option) \<times> ('c, 'p) ied_client" where
  "ReadInt32 lib = read_value lib (lib_readInt32 lib) ReadInt32Value 0 (\<lambda>_ v. v)"

definition ReadInt64 :: "('c, 'p) conn_lib \<Rightarrow> string \<Rightarrow> int \<Rightarrow> ('c, 'p) ied_client \<Rightarrow>
    (int64 \<times> string option) \<times> ('c, 'p) ied_client" where
  "ReadInt64 lib = read_value lib (lib_readInt64 lib) ReadInt64Value 0 (\<lambda>_ v. v)"

definition ReadUnsigned32 :: "('c, 'p) conn_lib \<Rightarrow> string \<Rightarrow> int \<Rightarrow> ('c, 'p) ied_client \<Rightarrow>
    (uint32 \<times> string option) \<times> ('c, 'p) ied_client" where
  "ReadUnsigned32 lib = read_value lib (lib_readUnsigned32 lib) ReadUnsigned32Value 0 (\<lambda>_ v. v)"

lemmas read_defs = ReadBoolean_def ReadFloat_def ReadString_def ReadInt32_def ReadInt64_def ReadUnsigned32_def

section \<open>Sessions\<close>

text \<open>The options of the package, and what a client does with its connection before \<open>Close\<close>.\<close>

datatype client_option =
  NilOption | OptConnectTimeout int64 | OptRequestTimeout int64 | OptWithoutTimestamps bool

fun option_fun :: "client_option \<Rightarrow> (('c, 'p) ied_client \<Rightarrow> ('c, 'p) ied_client) option" where
  "option_fun NilOption = None"
| "option_fun (OptConnectTimeout t) = Some (ConnectTimeout t)"
| "option_fun (OptRequestTimeout t) = Some (RequestTimeout t)"
| "option_fun (OptWithoutTimestamps b) = Some (WithoutTimestamps b)"

fun option_calls :: "'c \<Rightarrow> client_option \<Rightarrow> ('c, 'p) conn_call list" where
  "option_calls conn (OptConnectTimeout t) = [SetConnectTimeout conn (duration_ms t)]"
| "option_calls conn (OptRequestTimeout t) = [SetRequestTimeout conn (duration_ms t)]"
| "option_calls conn _ = []"

fun option_flag :: "client_option \<Rightarrow> bool \<Rightarrow> bool" where
  "option_flag (OptWithoutTimestamps b) flag = b"
| "option_flag _ flag = flag"

datatype conn_op =
    OpConnect string int | OpState | OpReadBoolean string int | OpReadFloat string int
  | OpReadString string int | OpReadInt32 string int | OpReadInt64 string int
  | OpReadUnsigned32 string int

fun conn_step :: "('c, 'p) conn_lib \<Rightarrow> conn_op \<Rightarrow> ('c, 'p) ied_client \<Rightarrow> ('c, 'p) ied_client" where
  "conn_step lib (OpConnect host port) client = snd (Connect lib host port client)"
| "conn_step lib OpState client = snd (State lib client)"
| "conn_step lib (OpReadBoolean ref fc) client = snd (ReadBoolean lib ref fc client)"
| "conn_step lib (OpReadFloat ref fc) client = snd (ReadFloat lib ref fc client)"
| "conn_step lib (OpReadString ref fc) client = snd (ReadString lib ref fc client)"
| "conn_step lib (OpReadInt32 ref fc) client = snd (ReadInt32 lib ref fc client)"
| "conn_step lib (OpReadInt64 ref fc) client = snd (ReadInt64 lib ref fc client)"
| "conn_step lib (OpReadUnsigned32 ref fc) client = snd (ReadUnsigned32 lib ref fc client)"

lemma apply_options:
  "foldl (\<lambda>client op. case op of None \<Rightarrow> client | Some f \<Rightarrow> f client) client (map option_fun opts)
   = client\<lparr>ic_calls := ic_calls client @ concat (map (option_calls (ic_connection client)) opts),
       withoutTimestamps := fold option_flag opts (withoutTimestamps client)\<rparr>"
proof (induction opts arbitrary: client)
  case (Cons opt opts)
  then show ?case
    by (cases opt) (simp_all add: ConnectTimeout_def RequestTimeout_def WithoutTimestamps_def issue_def)
qed simp

section \<open>Memory\<close>

text \<open>
  The C memory a client owns: the strings it allocates and the buffers \<open>readStringValue\<close> hands
  over.
\<close>

fun memory_acquired :: "('c, 'p) conn_call \<Rightarrow> 'p option" where
  "memory_acquired (CString s p) = Some p"
| "memory_acquired (ReadStringValue conn ref fc e buf) = buf"
| "memory_acquired _ = None"

fun memory_released :: "('c, 'p) conn_call \<Rightarrow> 'p option" where
  "memory_released (Free p) = Some p"
| "memory_released _ = None"

interpretation memory: c_resource memory_acquired memory_released
  by unfold_locales (auto elim!: memory_acquired.elims)

definition string_buffers :: "('c, 'p) conn_call list \<Rightarrow> 'p list" where
  "string_buffers calls =
     concat (map (\<lambda>c. case c of ReadStringValue conn ref fc e (Some p) \<Rightarrow> [p] | _ \<Rightarrow> []) calls)"

lemma string_buffers_append [simp]:
  "string_buffers (xs @ ys) = string_buffers xs @ string_buffers ys"
  by (simp add: string_buffers_def)

lemma read_value_calls:
  "\<exists>p e v. ic_calls (snd (read_value lib rd call zero conv ref fc client))
    = ic_calls client @ [CString ref p, call (ic_connection client) p fc e v, Free p]"
  by (auto simp: read_value_def Let_def split: prod.split)

text \<open>A call under the protection of a temporary string keeps what the call itself hands over.\<close>

definition keeps_only_buffers :: "('c, 'p) conn_call \<Rightarrow> bool" where
  "keeps_only_buffers c \<longleftrightarrow> memory_released c = None
     \<and> string_buffers [c] = (case memory_acquired c of None \<Rightarrow> [] | Some p \<Rightarrow> [p])"

lemma keeps_only_buffers_simps [simp]:
  "keeps_only_buffers (ConnectTo conn p port e)"
  "keeps_only_buffers (GetState conn e)"
  "keeps_only_buffers (ReadBooleanValue conn p fc e b)"
  "keeps_only_buffers (ReadFloatValue conn p fc e f)"
  "keeps_only_buffers (ReadStringValue conn p fc e buf)"
  "keeps_only_buffers (ReadInt32Value conn p fc e i)"
  "keeps_only_buffers (ReadInt64Value conn p fc e l)"
  "keeps_only_buffers (ReadUnsigned32Value conn p fc e u)"
  by (simp_all add: keeps_only_buffers_def string_buffers_def split: option.split)

lemma scoped_keeps:
  assumes "keeps_only_buffers c"
  shows "memory.run live [CString s p, c, Free p] = Some (live + mset (string_buffers [CString s p, c, Free p]))"
proof -
  have "string_buffers [CString s p, c, Free p] = string_buffers [c]"
    by (simp add: string_buffers_def)
  with assms show ?thesis
    by (simp add: keeps_only_buffers_def add_mset_commute split: option.splits)
qed

lemma read_value_keeps:
  assumes "\<And>conn p e v. keeps_only_buffers (call conn p fc e v)"
  shows "\<exists>cs. ic_calls (snd (read_value lib rd call zero conv ref fc client)) = ic_calls client @ cs
    \<and> (\<forall>live. memory.run live cs = Some (live + mset (string_buffers cs)))"
proof -
  obtain p e v where "ic_calls (snd (read_value lib rd call zero conv ref fc client))
      = ic_calls client @ [CString ref p, call (ic_connection client) p fc e v, Free p]"
    using read_value_calls [of lib rd call zero conv ref fc client] by (elim exE)
  moreover note scoped_keeps [OF assms, of _ ref p "ic_connection client" p e v]
  ultimately show ?thesis by (intro exI conjI allI)
qed

text \<open>
  \<open>Connect\<close> reports no error exactly when the library reports none or says that the connection is
  already open. The host name it passes is allocated before and freed after the attempt.
\<close>

lemma Connect_calls:
  "\<exists>p e. ic_calls (snd (Connect lib host port client)) = ic_calls client
      @ [CString host p, ConnectTo (ic_connection client) p (word_of_int port) e, Free p]
    \<and> fst (Connect lib host port client) =
       (if e = IedClientError_code IED_ERROR_OK \<or> e = IedClientError_code IED_ERROR_ALREADY_CONNECTED
        then None
        else Some (''failed to connect to '' @ host @ '':'' @ Itoa port @ '', clientError: '' @ Err e))"
  by (auto simp: Connect_def Let_def)

lemma conn_step_keeps:
  "\<exists>cs. ic_calls (conn_step lib op client) = ic_calls client @ cs
    \<and> (\<forall>live. memory.run live cs = Some (live + mset (string_buffers cs)))"
proof (cases op)
  case (OpConnect host port)
  obtain p e where "ic_calls (snd (Connect lib host port client)) = ic_calls client
      @ [CString host p, ConnectTo (ic_connection client) p (word_of_int port) e, Free p]"
    using Connect_calls [of lib host port client] by (elim exE conjE)
  with OpConnect show ?thesis using scoped_keeps [OF keeps_only_buffers_simps(1)] by force
next
  case OpState
  then show ?thesis by (simp add: State_def Let_def string_buffers_def)
qed (simp_all add: read_defs read_value_keeps del: resource_run.simps)

interpretation session: c_session memory_acquired memory_released string_buffers ic_calls "conn_step lib"
  for lib
  by unfold_locales (simp_all add: conn_step_keeps)

lemma option_calls_neutral: "c \<in> set (option_calls conn opt) \<Longrightarrow> memory.neutral c \<and> string_buffers [c] = []"
  by (cases opt) (auto simp: memory.neutral_def string_buffers_def)

lemma string_buffers_Nil: "\<forall>c \<in> set cs. string_buffers [c] = [] \<Longrightarrow> string_buffers cs = []"
  by (simp add: string_buffers_def)

lemma new_client_calls:
  "NewIedClient lib (map option_fun opts) =
    (let conn = lib_create lib [] in
     \<lparr>withoutTimestamps = fold option_flag opts False, ic_connection = conn,
      ic_calls = CreateConnection conn # concat (map (option_calls conn) opts)\<rparr>)"
  by (simp add: NewIedClient_def apply_options Let_def)

lemma new_client_memory:
  fixes lib :: "('a, 'b) conn_lib"
  shows "memory.run {#} (ic_calls (NewIedClient lib (map option_fun opts))) = Some {#}
   \<and> string_buffers (ic_calls (NewIedClient lib (map option_fun opts))) = []"
proof -
  let ?rest = "concat (map (option_calls (lib_create lib [])) opts) :: ('a, 'b) conn_call list"
  have "\<forall>c \<in> set ?rest. memory.neutral c \<and> string_buffers [c] = []"
  proof
    fix c assume "c \<in> set ?rest"
    then obtain opt where "c \<in> set (option_calls (lib_create lib []) opt)" by auto
    then show "memory.neutral c \<and> string_buffers [c] = []" by (rule option_calls_neutral)
  qed
  then have "memory.run {#} ?rest = Some {#}" and "string_buffers ?rest = []"
    by (blast intro: memory.run_neutral string_buffers_Nil)+
  moreover have "string_buffers (CreateConnection c # cs) = string_buffers cs"
    for c :: 'a and cs :: "('a, 'b) conn_call list"
    by (simp add: string_buffers_def)
  ultimately show ?thesis by (simp add: new_client_calls Let_def)
qed

section \<open>Properties\<close>

text \<open>
  A timeout reaches the library in milliseconds, rounded down, for every duration from zero
  to \<open>2 ^ 32\<close> milliseconds; a negative one of at least a millisecond becomes one of about 49
  days, since the conversion to \<open>uint\<close> wraps.
\<close>

lemma sdiv_nonneg: "0 \<le> a \<Longrightarrow> 0 < b \<Longrightarrow> (a :: int) sdiv b = a div b"
  by (cases "a = 0") (simp_all add: signed_divide_int_def)

lemma sdiv_neg: "a < 0 \<Longrightarrow> 0 < b \<Longrightarrow> (a :: int) sdiv b = - (- a div b)"
  by (simp add: signed_divide_int_def)

theorem timeout_in_ms:
  "(0 \<le> sint t \<and> sint t < 2 ^ 32 * 1000000 \<longrightarrow> uint (duration_ms t) = sint t div 1000000)
   \<and> (sint t \<le> - 1000000 \<and> - (2 ^ 32 * 1000000) < sint t \<longrightarrow>
      uint (duration_ms t) = 2 ^ 32 - (- sint t) div 1000000)"
proof (intro conjI impI)
  assume "0 \<le> sint t \<and> sint t < 2 ^ 32 * 1000000"
  then have "0 \<le> sint t div 1000000" and "sint t div 1000000 < 2 ^ 32" and "0 \<le> sint t" by auto
  then show "uint (duration_ms t) = sint t div 1000000"
    by (simp add: duration_ms_def sdiv_nonneg uint_word_of_int)
next
  assume a: "sint t \<le> - 1000000 \<and> - (2 ^ 32 * 1000000) < sint t"
  define k where "k = (- sint t) div 1000000"
  from a have k: "1 \<le> k" "k < 2 ^ 32" unfolding k_def by auto
  have "(- k) mod 2 ^ 32 = 2 ^ 32 - k"
    using k by (simp add: zmod_zminus1_eq_if)
  moreover from a have "sint t sdiv 1000000 = - k" by (simp add: k_def sdiv_neg)
  moreover have "uint (word_of_int (- k) :: uint32) = (- k) mod 2 ^ 32"
    by (simp only: uint_word_of_int) simp
  ultimately show "uint (duration_ms t) = 2 ^ 32 - (- sint t) div 1000000"
    by (simp only: duration_ms_def k_def [symmetric])
qed

theorem timeout_in_ms_witness:
  "uint (duration_ms 1500000) = 1 \<and> uint (duration_ms (- 1000000)) = 4294967295"
proof -
  have "sint (1500000 :: int64) = 1500000" and "sint (- 1000000 :: int64) = - 1000000" by simp_all
  then show ?thesis using timeout_in_ms [of 1500000] timeout_in_ms [of "- 1000000"] by simp
qed

text \<open>
  C16: over every session of a client, each C string it allocates is freed again, exactly once,
  and what remains allocated are exactly the buffers \<open>readStringValue\<close> returned, which the
  header asks the caller to free: \<open>ReadString\<close> loses one at every call.
\<close>

theorem session_leaks_read_strings:
  "resource_run memory_acquired memory_released {#}
     (ic_calls (fold (conn_step lib) ops (NewIedClient lib (map option_fun opts))))
   = Some (mset (string_buffers (ic_calls (fold (conn_step lib) ops (NewIedClient lib (map option_fun opts))))))"
  using session.session_accounted [of "NewIedClient lib (map option_fun opts)" lib ops]
    new_client_memory [of lib opts]
  by (simp add: session.accounted_def)

end
