(* ===== verification/Client_Structs.thy ===== *)
theory Client_Structs
  imports C_Common Client_Types
begin

text \<open>
  The state of a client connection of the library (\<open>ied_connection_private.h\<close>): outstanding
  calls, the connection and the report control block the binding configures.
\<close>

record sIedConnectionOutstandingCall_specificParameter2_getFileInfo =
  sIedConnectionOutstandingCall_specificParameter2_getFileInfo_originalInvokeId :: uint32

record sIedConnectionOutstandingCall_specificParameter2_getFileDirectory =
  sIedConnectionOutstandingCall_specificParameter2_getFileDirectory_cont :: bool

datatype (plugins only: code size) sIedConnectionOutstandingCall_specificParameter2 =
    sIedConnectionOutstandingCall_specificParameter2_pointer ptr
  | sIedConnectionOutstandingCall_specificParameter2_getFileInfo sIedConnectionOutstandingCall_specificParameter2_getFileInfo
  | sIedConnectionOutstandingCall_specificParameter2_getFileDirectory sIedConnectionOutstandingCall_specificParameter2_getFileDirectory

record sIedConnectionOutstandingCall =
  sIedConnectionOutstandingCall_used :: bool
  sIedConnectionOutstandingCall_invokeId :: uint32
  sIedConnectionOutstandingCall_callback :: ptr
  sIedConnectionOutstandingCall_callbackParameter :: ptr
  sIedConnectionOutstandingCall_specificParameter :: ptr
  sIedConnectionOutstandingCall_specificParameter2 :: sIedConnectionOutstandingCall_specificParameter2

record sIedConnection =
  sIedConnection_connection :: ptr
  sIedConnection_state :: IedConnectionState
  sIedConnection_enabledReports :: ptr
  sIedConnection_logicalDevices :: ptr
  sIedConnection_clientControlsLock :: ptr
  sIedConnection_clientControls :: ptr
  sIedConnection_lastApplError :: LastApplError
  sIedConnection_stateMutex :: ptr
  sIedConnection_reportHandlerMutex :: ptr
  sIedConnection_outstandingCallsLock :: ptr
  sIedConnection_outstandingCalls :: ptr
  sIedConnection_maxOutstandingCalled :: int32
  sIedConnection_connectionCloseHandler :: ptr
  sIedConnection_connectionClosedParameter :: ptr
  sIedConnection_connectionStateChangedHandler :: ptr
  sIedConnection_connectionStateChangedHandlerParameter :: ptr
  sIedConnection_connectionTimeout :: uint32
  sIedConnection_timeQuality :: uint8

record sClientReportControlBlock =
  sClientReportControlBlock_objectReference :: "string option"
  sClientReportControlBlock_isBuffered :: bool
  sClientReportControlBlock_rptId :: ptr
  sClientReportControlBlock_rptEna :: ptr
  sClientReportControlBlock_resv :: ptr
  sClientReportControlBlock_datSet :: ptr
  sClientReportControlBlock_confRev :: ptr
  sClientReportControlBlock_optFlds :: ptr
  sClientReportControlBlock_bufTm :: ptr
  sClientReportControlBlock_sqNum :: ptr
  sClientReportControlBlock_trgOps :: ptr
  sClientReportControlBlock_intgPd :: ptr
  sClientReportControlBlock_gi :: ptr
  sClientReportControlBlock_purgeBuf :: ptr
  sClientReportControlBlock_entryId :: ptr
  sClientReportControlBlock_timeOfEntry :: ptr
  sClientReportControlBlock_resvTms :: ptr
  sClientReportControlBlock_owner :: ptr

definition DEBUG_IED_CLIENT :: int where "DEBUG_IED_CLIENT = 0"

end
