(* ===== verification/C_Usage.thy ===== *)
theory C_Usage
  imports C_Resource
begin

text \<open>
  Objects that are owned while they are used. \<open>safe_run\<close> replays a record of calls as
  \<open>resource_run\<close> does and fails as well on a call that is given an object the program does not
  own at that moment: one it never got, or one it gave back before. The locale \<open>c_usage\<close>
  extends \<open>c_resource\<close>; its one law says that giving an object back uses it.
\<close>

fun safe_run :: "('call \<Rightarrow> 'r option) \<Rightarrow> ('call \<Rightarrow> 'r option) \<Rightarrow> ('call \<Rightarrow> 'r list) \<Rightarrow> 'r multiset \<Rightarrow>
    'call list \<Rightarrow> 'r multiset option" where
  "safe_run acq rel uses live [] = Some live"
| "safe_run acq rel uses live (c # cs) =
     (if list_all (\<lambda>r. r \<in># live) (uses c) then
        safe_run acq rel uses
          (case acq c of
             Some r \<Rightarrow> add_mset r live
           | None \<Rightarrow> (case rel c of Some r \<Rightarrow> live - {#r#} | None \<Rightarrow> live)) cs
      else None)"

locale c_usage = c_resource acq rel for acq rel :: "'call \<Rightarrow> 'r option" +
  fixes uses :: "'call \<Rightarrow> 'r list"
  assumes rel_uses: "rel c = Some r \<Longrightarrow> r \<in> set (uses c)"
begin

abbreviation safe :: "'r multiset \<Rightarrow> 'call list \<Rightarrow> 'r multiset option" where
  "safe \<equiv> safe_run acq rel uses"

lemma safe_append: "safe live (xs @ ys) = (case safe live xs of None \<Rightarrow> None | Some l \<Rightarrow> safe l ys)"
  by (induction xs arbitrary: live) auto

text \<open>A safe run is a run: nothing is given back twice.\<close>

lemma safe_is_run: "safe live cs = Some live' \<Longrightarrow> run live cs = Some live'"
proof (induction cs arbitrary: live)
  case (Cons c cs)
  then have "list_all (\<lambda>r. r \<in># live) (uses c)" by (simp split: if_splits)
  then have "rel c = Some r \<Longrightarrow> r \<in># live" for r
    using rel_uses [of c r] by (auto simp: list_all_iff)
  with Cons show ?case by (auto split: option.splits if_splits)
qed simp

text \<open>Every object a call is given was owned when it was called.\<close>

lemma safe_used:
  assumes "safe live (xs @ c # ys) = Some live'" and "r \<in> set (uses c)"
  shows "\<exists>l. run live xs = Some l \<and> r \<in># l"
  using assms safe_is_run by (fastforce simp: safe_append list_all_iff split: option.splits if_splits)

lemma safe_neutral:
  assumes "\<forall>c \<in> set cs. neutral c \<and> set (uses c) \<subseteq> set_mset live"
  shows "safe live cs = Some live"
  using assms by (induction cs) (auto simp: neutral_def list_all_iff)

text \<open>Objects given back one call each, and no others used.\<close>

lemma safe_releases:
  assumes "map rel cs = map Some rs" and "\<forall>c \<in> set cs. acq c = None \<and> (\<forall>r. rel c = Some r \<longrightarrow> uses c = [r])"
  shows "safe (mset rs + live) cs = Some live"
  using assms
proof (induction cs arbitrary: rs)
  case (Cons c cs)
  then show ?case by (cases rs) auto
qed simp

end

end
