(* ===== verification/Control_Client.thy ===== *)
theory Control_Client
  imports Go_Types C_Usage
begin

text \<open>
  Controls (\<open>iec61850_control.go\<close>): the cache of control objects a client keeps, one entry per
  reference, and the three operations that send an Operate. \<open>Close\<close> of
  \<open>iec61850_client.go\<close> is here because it empties the cache before it tears the connection
  down. The library is the record \<open>control_lib\<close> of its answers, each a function of all calls
  made so far; the client keeps the calls, with their results.
\<close>

section \<open>Calls into the library\<close>

text \<open>
  \<open>NewValue\<close> and \<open>SetValue\<close> stand for the constructor and setter of the kind of their
  argument: \<open>MmsValue_newBoolean\<close> and \<open>MmsValue_setBoolean\<close>, \<open>MmsValue_newIntegerFromInt32\<close>
  and \<open>MmsValue_setInt32\<close>, \<open>MmsValue_newFloat\<close> and \<open>MmsValue_setFloat\<close>.
\<close>

datatype ctl_val = CtlBool bool | CtlInt32 int32 | CtlFloat c_float

datatype ('c, 'o, 'v) control_call =
    CreateControl string 'c "'o option"
  | GetCtlValType 'o int
  | DestroyControl 'o
  | NewValue ctl_val "'v option"
  | SetValue 'v ctl_val
  | DeleteValue 'v
  | SetOrigin 'o "string option" int
  | Operate 'o 'v uint64 bool
  | ControlLastError 'o int
  | CloseConnection 'c
  | DestroyConnection 'c

record ('c, 'o, 'v) control_lib =
  lib_createControl :: "('c, 'o, 'v) control_call list \<Rightarrow> string \<Rightarrow> 'c \<Rightarrow> 'o option"
  lib_getCtlValType :: "('c, 'o, 'v) control_call list \<Rightarrow> 'o \<Rightarrow> int"
  lib_newValue :: "('c, 'o, 'v) control_call list \<Rightarrow> ctl_val \<Rightarrow> 'v option"
  lib_operate :: "('c, 'o, 'v) control_call list \<Rightarrow> 'o \<Rightarrow> 'v \<Rightarrow> bool"
  lib_controlLastError :: "('c, 'o, 'v) control_call list \<Rightarrow> 'o \<Rightarrow> int"

section \<open>State\<close>

text \<open>
  A nil cache and an empty one answer alike, and every operation that stores an entry replaces
  the nil one first, so they are not told apart.
\<close>

record ('o, 'v) cachedControl =
  ctrl :: 'o
  ctlReuse :: "'v option"

record ('c, 'o, 'v) control_client =
  connection :: 'c
  controlCache :: "string \<rightharpoonup> ('o, 'v) cachedControl"
  control_calls :: "('c, 'o, 'v) control_call list"

definition record_call :: "('c, 'o, 'v) control_call \<Rightarrow> ('c, 'o, 'v) control_client \<Rightarrow>
    ('c, 'o, 'v) control_client" where
  "record_call c client = client\<lparr>control_calls := control_calls client @ [c]\<rparr>"

lemma record_call_simps [simp]:
  "connection (record_call c client) = connection client"
  "controlCache (record_call c client) = controlCache client"
  "control_calls (record_call c client) = control_calls client @ [c]"
  by (simp_all add: record_call_def)

section \<open>The cache\<close>

definition getOrCreateControlEntryLocked :: "('c, 'o, 'v) control_lib \<Rightarrow> string \<Rightarrow> bool \<Rightarrow>
    ('c, 'o, 'v) control_client \<Rightarrow>
    (string + ('o, 'v) cachedControl) \<times> ('c, 'o, 'v) control_client" where
  "getOrCreateControlEntryLocked lib ref requireMmsInteger client =
     (case controlCache client ref of
        Some e \<Rightarrow> (Inr e, client)
      | None \<Rightarrow>
          let r = lib_createControl lib (control_calls client) ref (connection client);
              client = record_call (CreateControl ref (connection client) r) client in
          case r of
            None \<Rightarrow> (Inl (''error creating control object client for '' @ Quote ref), client)
          | Some ct \<Rightarrow>
              let e = \<lparr>ctrl = ct, ctlReuse = None\<rparr>;
                  store = (\<lambda>client.
                    (Inr e, client\<lparr>controlCache := (controlCache client)(ref \<mapsto> e)\<rparr>)) in
              if requireMmsInteger then
                let got = lib_getCtlValType lib (control_calls client) ct;
                    client = record_call (GetCtlValType ct got) client in
                if got \<noteq> Go_MMS_INTEGER then
                  (Inl (''control '' @ Quote ref @ '': ctlVal MMS type is '' @ Itoa got @ '' (''
                     @ mmsTypeName got @ ''), want MMS_INTEGER for INC''),
                   record_call (DestroyControl ct) client)
                else store client
              else store client)"

text \<open>Go ranges over the map in an order of its choice, a list of the keys.\<close>

definition destroy_entry :: "('o, 'v) cachedControl \<Rightarrow> ('c, 'o, 'v) control_call list" where
  "destroy_entry e = (case ctlReuse e of None \<Rightarrow> [] | Some v \<Rightarrow> [DeleteValue v]) @ [DestroyControl (ctrl e)]"

fun destroy_entries :: "string list \<Rightarrow> (string \<rightharpoonup> ('o, 'v) cachedControl) \<Rightarrow>
    ('c, 'o, 'v) control_call list" where
  "destroy_entries [] cache = []"
| "destroy_entries (k # ks) cache =
     (case cache k of None \<Rightarrow> [] | Some e \<Rightarrow> destroy_entry e) @ destroy_entries ks cache"

definition clearControlObjectCache :: "string list \<Rightarrow> ('c, 'o, 'v) control_client \<Rightarrow>
    ('c, 'o, 'v) control_client" where
  "clearControlObjectCache order client =
     client\<lparr>control_calls := control_calls client @ destroy_entries order (controlCache client),
       controlCache := Map.empty\<rparr>"

definition Close :: "string list \<Rightarrow> ('c, 'o, 'v) control_client \<Rightarrow> ('c, 'o, 'v) control_client" where
  "Close order client =
     (let client = clearControlObjectCache order client;
          client = record_call (CloseConnection (connection client)) client in
      record_call (DestroyConnection (connection client)) client)"

section \<open>Operate\<close>

text \<open>
  The three operations have one body, over the constructor's argument, its name in the error
  message, and whether the entry must be of integer type.
\<close>

definition operate_with :: "('c, 'o, 'v) control_lib \<Rightarrow> bool \<Rightarrow> ctl_val \<Rightarrow> string \<Rightarrow> string \<Rightarrow> ctl_val \<Rightarrow>
    ('c, 'o, 'v) control_client \<Rightarrow> string option \<times> ('c, 'o, 'v) control_client" where
  "operate_with lib requireMmsInteger zero newName ref val client =
     (case getOrCreateControlEntryLocked lib ref requireMmsInteger client of
        (Inl err, client) \<Rightarrow> (Some err, client)
      | (Inr e, client) \<Rightarrow>
          let (reuse, client) = (case ctlReuse e of
              Some v \<Rightarrow> (Some v, client)
            | None \<Rightarrow>
                let r = lib_newValue lib (control_calls client) zero;
                    client = record_call (NewValue zero r) client in
                (r, client\<lparr>controlCache := (controlCache client)(ref \<mapsto> e\<lparr>ctlReuse := r\<rparr>)\<rparr>)) in
          (case reuse of
             None \<Rightarrow> (Some (''control '' @ Quote ref @ '': '' @ newName @ '' failed''), client)
           | Some v \<Rightarrow>
               let client = record_call (SetValue v val) client;
                   client = record_call (SetOrigin (ctrl e) None 3) client;
                   ok = lib_operate lib (control_calls client) (ctrl e) v;
                   client = record_call (Operate (ctrl e) v 0 ok) client in
               if ok then (None, client)
               else
                 let errCode = lib_controlLastError lib (control_calls client) (ctrl e);
                     client = record_call (ControlLastError (ctrl e) errCode) client in
                 (Some (''failed to operate '' @ Quote ref @ '': '' @ Err errCode), client)))"

definition DirectWithNormalSecurity :: "('c, 'o, 'v) control_lib \<Rightarrow> string \<Rightarrow> bool \<Rightarrow>
    ('c, 'o, 'v) control_client \<Rightarrow> string option \<times> ('c, 'o, 'v) control_client" where
  "DirectWithNormalSecurity lib ref val =
     operate_with lib False (CtlBool False) ''MmsValue_newBoolean'' ref (CtlBool val)"

definition DirectWithNormalSecurityInt32 :: "('c, 'o, 'v) control_lib \<Rightarrow> string \<Rightarrow> int32 \<Rightarrow>
    ('c, 'o, 'v) control_client \<Rightarrow> string option \<times> ('c, 'o, 'v) control_client" where
  "DirectWithNormalSecurityInt32 lib ref val =
     operate_with lib True (CtlInt32 0) ''MmsValue_newIntegerFromInt32'' ref (CtlInt32 val)"

definition DirectWithNormalSecurityFloat32 :: "('c, 'o, 'v) control_lib \<Rightarrow> string \<Rightarrow> c_float \<Rightarrow>
    ('c, 'o, 'v) control_client \<Rightarrow> string option \<times> ('c, 'o, 'v) control_client" where
  "DirectWithNormalSecurityFloat32 lib ref val =
     operate_with lib False (CtlFloat 0) ''MmsValue_newFloat'' ref (CtlFloat val)"

section \<open>Ownership\<close>

datatype ('o, 'v) c_object = Ctrl 'o | Val 'v

fun control_acquired :: "('c, 'o, 'v) control_call \<Rightarrow> ('o, 'v) c_object option" where
  "control_acquired (CreateControl _ _ r) = map_option Ctrl r"
| "control_acquired (NewValue _ r) = map_option Val r"
| "control_acquired _ = None"

fun control_released :: "('c, 'o, 'v) control_call \<Rightarrow> ('o, 'v) c_object option" where
  "control_released (DestroyControl ct) = Some (Ctrl ct)"
| "control_released (DeleteValue v) = Some (Val v)"
| "control_released _ = None"

text \<open>The objects a call is given. \<open>CreateControl\<close> and \<open>NewValue\<close> are given none.\<close>

fun control_uses :: "('c, 'o, 'v) control_call \<Rightarrow> ('o, 'v) c_object list" where
  "control_uses (GetCtlValType ct _) = [Ctrl ct]"
| "control_uses (DestroyControl ct) = [Ctrl ct]"
| "control_uses (SetValue v _) = [Val v]"
| "control_uses (DeleteValue v) = [Val v]"
| "control_uses (SetOrigin ct _ _) = [Ctrl ct]"
| "control_uses (Operate ct v _ _) = [Ctrl ct, Val v]"
| "control_uses (ControlLastError ct _) = [Ctrl ct]"
| "control_uses _ = []"

fun_cases control_acquiredE: "control_acquired c = Some r" and control_releasedE: "control_released c = Some r"

interpretation objs: c_usage control_acquired control_released control_uses
  by unfold_locales (auto elim!: control_acquiredE control_releasedE)

definition entry_objects :: "('o, 'v) cachedControl \<Rightarrow> ('o, 'v) c_object list" where
  "entry_objects e = (case ctlReuse e of None \<Rightarrow> [] | Some v \<Rightarrow> [Val v]) @ [Ctrl (ctrl e)]"

definition owned :: "(string \<rightharpoonup> ('o, 'v) cachedControl) \<Rightarrow> ('o, 'v) c_object multiset" where
  "owned cache = (\<Sum>k \<in> dom cache. mset (entry_objects (the (cache k))))"

lemma owned_empty [simp]: "owned Map.empty = {#}"
  by (simp add: owned_def)

lemma owned_insert:
  assumes "finite (dom cache)" and "cache ref = None"
  shows "owned (cache(ref \<mapsto> e)) = mset (entry_objects e) + owned cache"
proof -
  have "ref \<notin> dom cache" using assms(2) by auto
  then have "(\<Sum>k \<in> dom cache. mset (entry_objects (the ((cache(ref \<mapsto> e)) k)))) = owned cache"
    unfolding owned_def by (intro sum.cong) auto
  with assms \<open>ref \<notin> dom cache\<close> show ?thesis by (simp add: owned_def)
qed

lemma owned_update:
  assumes "finite (dom cache)" and "cache ref = Some e"
  shows "owned (cache(ref \<mapsto> e')) + mset (entry_objects e) = owned cache + mset (entry_objects e')"
proof -
  have "owned cache = mset (entry_objects e) + owned (cache(ref := None))"
    using owned_insert [of "cache(ref := None)" ref e] assms by (simp add: fun_upd_triv [of cache ref, unfolded assms(2)])
  moreover have "owned (cache(ref \<mapsto> e')) = mset (entry_objects e') + owned (cache(ref := None))"
    using owned_insert [of "cache(ref := None)" ref e'] assms by simp
  ultimately show ?thesis by (simp add: ac_simps)
qed

definition owns :: "('c, 'o, 'v) control_client \<Rightarrow> bool" where
  "owns client \<longleftrightarrow> finite (dom (controlCache client)) \<and>
     objs.safe {#} (control_calls client) = Some (owned (controlCache client))"

lemma owns_step:
  assumes "owns client" and "control_calls client' = control_calls client @ cs"
    and "finite (dom (controlCache client'))"
    and "objs.safe (owned (controlCache client)) cs = Some (owned (controlCache client'))"
  shows "owns client'"
  using assms by (simp add: owns_def objs.safe_append)

lemma owns_neutral:
  "owns client \<Longrightarrow> objs.neutral c \<Longrightarrow> set (control_uses c) \<subseteq> set_mset (owned (controlCache client)) \<Longrightarrow>
    owns (record_call c client)"
  by (rule owns_step [where cs = "[c]"]) (auto simp: owns_def objs.neutral_def list_all_iff)

lemma destroy_entries_run:
  fixes cache :: "string \<rightharpoonup> ('o, 'v) cachedControl"
  assumes "distinct order" and "set order \<subseteq> dom cache"
  shows "objs.safe ((\<Sum>k \<in> set order. mset (entry_objects (the (cache k)))) + live)
      (destroy_entries order cache :: ('c, 'o, 'v) control_call list) = Some live"
  using assms
proof (induction order)
  case (Cons k ks)
  then obtain e where e: "cache k = Some e" by auto
  have rel: "map control_released (destroy_entry e :: ('c, 'o, 'v) control_call list) = map Some (entry_objects e)"
    and acq: "\<forall>c \<in> set (destroy_entry e :: ('c, 'o, 'v) control_call list).
      control_acquired c = None \<and> (\<forall>r. control_released c = Some r \<longrightarrow> control_uses c = [r])"
    by (auto simp: destroy_entry_def entry_objects_def split: option.splits)
  have "(\<Sum>x \<in> set (k # ks). mset (entry_objects (the (cache x)))) + live
      = mset (entry_objects e) + ((\<Sum>x \<in> set ks. mset (entry_objects (the (cache x)))) + live)"
    using Cons.prems e by (simp add: ac_simps)
  then show ?case
    using Cons e objs.safe_releases [OF rel acq] by (simp add: objs.safe_append add.assoc)
qed simp

lemma getOrCreate_owns:
  assumes "owns client"
    and "getOrCreateControlEntryLocked lib ref req client = (r, client')"
  shows "owns client' \<and> (\<forall>e. r = Inr e \<longrightarrow> controlCache client' ref = Some e)"
proof (cases "controlCache client ref")
  case (Some e)
  with assms show ?thesis by (auto simp: getOrCreateControlEntryLocked_def)
next
  case None
  let ?c = "lib_createControl lib (control_calls client) ref (connection client)"
  show ?thesis
  proof (cases ?c)
    case None
    with \<open>controlCache client ref = None\<close> assms show ?thesis
      by (auto simp: getOrCreateControlEntryLocked_def objs.neutral_def intro!: owns_neutral)
  next
    case (Some ct)
    let ?cl1 = "record_call (CreateControl ref (connection client) (Some ct)) client"
    let ?got = "lib_getCtlValType lib (control_calls ?cl1) ct"
    let ?cs = "CreateControl ref (connection client) (Some ct) # (if req then [GetCtlValType ct ?got] else [])"
    show ?thesis
    proof (cases "req \<and> ?got \<noteq> Go_MMS_INTEGER")
      case True
      with \<open>controlCache client ref = None\<close> Some assms(2) have r: "r \<noteq> Inr e"
        and calls: "control_calls client' = control_calls client @ ?cs @ [DestroyControl ct]"
        and cache: "controlCache client' = controlCache client" for e
        by (cases req; auto simp: getOrCreateControlEntryLocked_def Let_def)+
      have "owns client'"
        using assms(1) calls by (rule owns_step) (use True assms(1) cache in \<open>auto simp: owns_def\<close>)
      with r show ?thesis by blast
    next
      case False
      let ?e = "\<lparr>ctrl = ct, ctlReuse = None\<rparr>"
      from False \<open>controlCache client ref = None\<close> Some assms(2) have r: "r = Inr ?e"
        and calls: "control_calls client' = control_calls client @ ?cs"
        and cache: "controlCache client' = (controlCache client)(ref \<mapsto> ?e)"
        by (cases req; auto simp: getOrCreateControlEntryLocked_def Let_def)+
      have "owned (controlCache client') = add_mset (Ctrl ct) (owned (controlCache client))"
        using assms(1) \<open>controlCache client ref = None\<close> unfolding cache
        by (subst owned_insert) (auto simp: owns_def entry_objects_def)
      then have "owns client'"
        using assms(1) calls cache by (intro owns_step [of client client' ?cs]) (auto simp: owns_def)
      with r cache show ?thesis by simp
    qed
  qed
qed

text \<open>The objects of a cached entry are the client's.\<close>

lemma cached_objects_owned:
  assumes "owns client" and "controlCache client ref = Some e"
  shows "Ctrl (ctrl e) \<in># owned (controlCache client)"
    and "ctlReuse e = Some v \<Longrightarrow> Val v \<in># owned (controlCache client)"
  using owned_update [of "controlCache client" ref e e] owned_insert [of "(controlCache client)(ref := None)" ref e]
    assms by (auto simp: owns_def entry_objects_def)

lemma operate_with_owns:
  assumes "owns client"
  shows "owns (snd (operate_with lib req zero name ref val client))"
proof -
  obtain r cl1 where get: "getOrCreateControlEntryLocked lib ref req client = (r, cl1)" by fastforce
  note cl1 = getOrCreate_owns [OF assms get]
  show ?thesis
  proof (cases r)
    case (Inl err)
    with get cl1 show ?thesis by (simp add: operate_with_def)
  next
    case (Inr e)
    with cl1 have e: "controlCache cl1 ref = Some e" and own1: "owns cl1" by auto
    have finish: "owns (snd (let cl = record_call (SetValue v val) cl; cl = record_call (SetOrigin (ctrl e) None 3) cl;
        ok = lib_operate lib (control_calls cl) (ctrl e) v; cl = record_call (Operate (ctrl e) v 0 ok) cl
        in if ok then (None, cl)
           else let errCode = lib_controlLastError lib (control_calls cl) (ctrl e);
                    cl = record_call (ControlLastError (ctrl e) errCode) cl in
             (Some (''failed to operate '' @ Quote ref @ '': '' @ Err errCode), cl)))"
      if "owns cl" and "controlCache cl ref = Some e'" and "ctrl e' = ctrl e" and "ctlReuse e' = Some v" for cl v e'
      using that cached_objects_owned [OF that(1,2)] by (simp add: Let_def owns_neutral objs.neutral_def)
    show ?thesis
    proof (cases "ctlReuse e")
      case (Some v)
      with get Inr finish [OF own1 e refl Some] show ?thesis by (simp add: operate_with_def Let_def)
    next
      case None
      let ?r = "lib_newValue lib (control_calls cl1) zero"
      let ?cl2 = "(record_call (NewValue zero ?r) cl1)
        \<lparr>controlCache := (controlCache cl1)(ref \<mapsto> e\<lparr>ctlReuse := ?r\<rparr>)\<rparr>"
      have "owned ((controlCache cl1)(ref \<mapsto> e\<lparr>ctlReuse := ?r\<rparr>))
          = (case ?r of None \<Rightarrow> {#} | Some v \<Rightarrow> {#Val v#}) + owned (controlCache cl1)"
        using owned_update [of "controlCache cl1" ref e "e\<lparr>ctlReuse := ?r\<rparr>"] own1 e None
        by (auto simp: owns_def entry_objects_def split: option.splits)
      then have own2: "owns ?cl2"
        using own1 by (intro owns_step [of cl1 ?cl2 "[NewValue zero ?r]"])
          (auto simp: owns_def split: option.splits)
      show ?thesis
      proof (cases ?r)
        case None
        with get Inr \<open>ctlReuse e = None\<close> own2 show ?thesis by (simp add: operate_with_def Let_def)
      next
        case (Some v)
        with get Inr \<open>ctlReuse e = None\<close> finish [OF own2] show ?thesis
          by (simp add: operate_with_def Let_def)
      qed
    qed
  qed
qed

lemma clear_owns:
  assumes "owns client" and "distinct order" and "set order = dom (controlCache client)"
  shows "owns (clearControlObjectCache order client)"
proof (rule owns_step [OF assms(1)])
  show "control_calls (clearControlObjectCache order client)
      = control_calls client @ destroy_entries order (controlCache client)"
    and "finite (dom (controlCache (clearControlObjectCache order client)))"
    by (simp_all add: clearControlObjectCache_def)
  show "objs.safe (owned (controlCache client)) (destroy_entries order (controlCache client))
      = Some (owned (controlCache (clearControlObjectCache order client)))"
    using destroy_entries_run [of order "controlCache client" "{#}"] assms(2,3)
    by (simp add: clearControlObjectCache_def owned_def)
qed

section \<open>Histories\<close>

text \<open>Everything a client can do between its creation and \<open>Close\<close>, in any order.\<close>

inductive control_reach :: "('c, 'o, 'v) control_lib \<Rightarrow> ('c, 'o, 'v) control_client \<Rightarrow> bool" for lib where
  "control_reach lib \<lparr>connection = c, controlCache = Map.empty, control_calls = []\<rparr>"
| "control_reach lib client \<Longrightarrow> control_reach lib (snd (DirectWithNormalSecurity lib ref b client))"
| "control_reach lib client \<Longrightarrow> control_reach lib (snd (DirectWithNormalSecurityInt32 lib ref i client))"
| "control_reach lib client \<Longrightarrow> control_reach lib (snd (DirectWithNormalSecurityFloat32 lib ref f client))"
| "control_reach lib client \<Longrightarrow> distinct order \<Longrightarrow> set order = dom (controlCache client) \<Longrightarrow>
    control_reach lib (clearControlObjectCache order client)"

lemma control_reach_owns: "control_reach lib client \<Longrightarrow> owns client"
proof (induction rule: control_reach.induct)
  case (1 c)
  show ?case by (simp add: owns_def)
qed (simp_all add: DirectWithNormalSecurity_def DirectWithNormalSecurityInt32_def
    DirectWithNormalSecurityFloat32_def operate_with_owns clear_owns)

section \<open>What an operation does\<close>

lemma getOrCreate_cached:
  "controlCache client ref = Some e \<Longrightarrow> getOrCreateControlEntryLocked lib ref req client = (Inr e, client)"
  by (simp add: getOrCreateControlEntryLocked_def)

lemma getOrCreate_wrong_type:
  assumes "controlCache client ref = None"
    and "lib_createControl lib (control_calls client) ref (connection client) = Some ct"
    and "lib_getCtlValType lib
      (control_calls client @ [CreateControl ref (connection client) (Some ct)]) ct = t"
    and "t \<noteq> Go_MMS_INTEGER"
  shows "getOrCreateControlEntryLocked lib ref True client
    = (Inl (''control '' @ Quote ref @ '': ctlVal MMS type is '' @ Itoa t @ '' ('' @ mmsTypeName t
          @ ''), want MMS_INTEGER for INC''),
       client\<lparr>control_calls := control_calls client
         @ [CreateControl ref (connection client) (Some ct), GetCtlValType ct t, DestroyControl ct]\<rparr>)"
  using assms by (simp add: getOrCreateControlEntryLocked_def record_call_def)

text \<open>The calls that follow once the entry has its value.\<close>

lemma operate_with_cached:
  assumes "controlCache client ref = Some e" and "ctlReuse e = Some v"
  obtains ok where
    "fst (operate_with lib req zero name ref val client) = None \<longleftrightarrow> ok"
    "controlCache (snd (operate_with lib req zero name ref val client)) = controlCache client"
    "\<exists>err. control_calls (snd (operate_with lib req zero name ref val client)) = control_calls client
      @ [SetValue v val, SetOrigin (ctrl e) None 3, Operate (ctrl e) v 0 ok]
      @ (if ok then [] else [ControlLastError (ctrl e) err])"
  by (rule that [of "lib_operate lib
      (control_calls client @ [SetValue v val, SetOrigin (ctrl e) None 3]) (ctrl e) v"])
    (simp_all add: operate_with_def getOrCreate_cached [OF assms(1)] assms(2) Let_def)

lemma operate_with_success:
  assumes "operate_with lib req zero name ref val client = (None, client')"
  shows "\<exists>e v cs. controlCache client' ref = Some e \<and> ctlReuse e = Some v \<and>
    control_calls client' = control_calls client @ cs
      @ [SetValue v val, SetOrigin (ctrl e) None 3, Operate (ctrl e) v 0 True] \<and>
    (\<forall>c \<in> set cs. \<forall>ct w t ok. c \<noteq> Operate ct w t ok)"
proof -
  obtain r cl1 where get: "getOrCreateControlEntryLocked lib ref req client = (r, cl1)" by fastforce
  with assms obtain e where r: "r = Inr e" by (cases r) (auto simp: operate_with_def)
  obtain cs where cl1: "control_calls cl1 = control_calls client @ cs" "controlCache cl1 ref = Some e"
    "\<forall>c \<in> set cs. \<forall>ct w t ok. c \<noteq> Operate ct w t ok"
    using get r by (cases req) (auto simp: getOrCreateControlEntryLocked_def Let_def
        split: option.splits if_splits)
  show ?thesis
  proof (cases "ctlReuse e")
    case (Some v)
    with assms get r cl1 show ?thesis
      by (auto simp: operate_with_def Let_def split: if_splits)
  next
    case None
    let ?r = "lib_newValue lib (control_calls cl1) zero"
    from None assms get r obtain v where v: "?r = Some v"
      by (cases ?r) (auto simp: operate_with_def Let_def)
    with None assms get r cl1 show ?thesis
      by (intro exI [of _ "e\<lparr>ctlReuse := Some v\<rparr>"] exI [of _ v] exI [of _ "cs @ [NewValue zero (Some v)]"])
        (auto simp: operate_with_def Let_def split: if_splits)
  qed
qed

lemma direct_op:
  assumes "op = DirectWithNormalSecurity lib ref b \<and> val = CtlBool b
      \<or> op = DirectWithNormalSecurityInt32 lib ref i \<and> val = CtlInt32 i
      \<or> op = DirectWithNormalSecurityFloat32 lib ref f \<and> val = CtlFloat f"
  shows "\<exists>req zero name. op = operate_with lib req zero name ref val"
  using assms unfolding DirectWithNormalSecurity_def DirectWithNormalSecurityInt32_def
    DirectWithNormalSecurityFloat32_def by blast

section \<open>Properties\<close>

text \<open>A library that grants everything, for the witnesses.\<close>

definition granting_control :: "(nat, string, nat) control_lib" where
  "granting_control = \<lparr>lib_createControl = (\<lambda>_ ref _. Some ref), lib_getCtlValType = (\<lambda>_ _. 2),
     lib_newValue = (\<lambda>cs _. Some (length cs)), lib_operate = (\<lambda>_ _ _. True),
     lib_controlLastError = (\<lambda>_ _. 0)\<rparr>"

definition fresh_control :: "(nat, string, nat) control_client" where
  "fresh_control = \<lparr>connection = 1, controlCache = Map.empty, control_calls = []\<rparr>"

lemmas control_evals = granting_control_def fresh_control_def operate_with_def Let_def
  getOrCreateControlEntryLocked_def DirectWithNormalSecurity_def DirectWithNormalSecurityInt32_def
  DirectWithNormalSecurityFloat32_def record_call_def

text \<open>
  C6: whatever a client did before, \<open>Close\<close> leaves nothing behind: every control object and
  every control value the library handed out has been given back exactly once, nothing was given
  back twice, no call was passed an object that was not the client's at that moment, and all of
  it was given back before the connection is closed and destroyed.
\<close>

theorem close_releases_controls:
  assumes "control_reach lib client" and "distinct order" and "set order = dom (controlCache client)"
  shows "\<exists>cs. control_calls (Close order client)
      = cs @ [CloseConnection (connection client), DestroyConnection (connection client)]
    \<and> safe_run control_acquired control_released control_uses {#} cs = Some {#}"
proof -
  have "owns (clearControlObjectCache order client)"
    using control_reach_owns [OF assms(1)] assms(2,3) by (rule clear_owns)
  then show ?thesis
    by (intro exI [of _ "control_calls (clearControlObjectCache order client)"])
      (simp add: Close_def Let_def owns_def clearControlObjectCache_def)
qed

theorem close_releases_controls_witness:
  "\<exists>cs. control_calls (Close [''r'']
        (snd (DirectWithNormalSecurity granting_control ''r'' True fresh_control)))
      = cs @ [CloseConnection 1, DestroyConnection 1]
    \<and> safe_run control_acquired control_released control_uses {#} cs = Some {#}"
proof -
  let ?client = "snd (DirectWithNormalSecurity granting_control ''r'' True fresh_control)"
  have r: "control_reach granting_control ?client"
    unfolding fresh_control_def by (intro control_reach.intros)
  have "connection ?client = 1" "set [''r''] = dom (controlCache ?client)"
    by (simp_all add: control_evals)
  then show ?thesis
    using close_releases_controls [OF r, of "[''r'']"] by simp
qed

text \<open>
  C7: an operation that reports success has sent exactly one Operate, as its last call, to the
  control object cached for its reference, with the value cached there, which it set to the
  requested one just before, and with the originator category 3.
\<close>

theorem success_means_operated:
  assumes "op = DirectWithNormalSecurity lib ref b \<and> val = CtlBool b
      \<or> op = DirectWithNormalSecurityInt32 lib ref i \<and> val = CtlInt32 i
      \<or> op = DirectWithNormalSecurityFloat32 lib ref f \<and> val = CtlFloat f"
    and "op client = (None, client')"
  shows "\<exists>e v cs. controlCache client' ref = Some e \<and> ctlReuse e = Some v \<and>
    control_calls client' = control_calls client @ cs
      @ [SetValue v val, SetOrigin (ctrl e) None 3, Operate (ctrl e) v 0 True] \<and>
    (\<forall>c \<in> set cs. \<forall>ct w t ok. c \<noteq> Operate ct w t ok)"
proof -
  obtain req zero name where "op = operate_with lib req zero name ref val"
    using direct_op [OF assms(1)] by blast
  with assms(2) show ?thesis using operate_with_success by blast
qed

theorem success_means_operated_witness:
  "\<exists>client' e v cs. DirectWithNormalSecurityInt32 granting_control ''r'' 5
        (fresh_control\<lparr>controlCache := [''r'' \<mapsto> \<lparr>ctrl = ''r'', ctlReuse = Some 8\<rparr>]\<rparr>) = (None, client') \<and>
    controlCache client' ''r'' = Some e \<and> ctlReuse e = Some v \<and>
    control_calls client' = cs
      @ [SetValue v (CtlInt32 5), SetOrigin (ctrl e) None 3, Operate (ctrl e) v 0 True]"
proof -
  let ?client = "fresh_control\<lparr>controlCache := [''r'' \<mapsto> \<lparr>ctrl = ''r'', ctlReuse = Some 8\<rparr>]\<rparr>"
  obtain client' where c: "DirectWithNormalSecurityInt32 granting_control ''r'' 5 ?client = (None, client')"
    by (simp add: control_evals)
  have "DirectWithNormalSecurityInt32 granting_control ''r'' 5
        = DirectWithNormalSecurityInt32 granting_control ''r'' 5 \<and> CtlInt32 5 = CtlInt32 5" by simp
  then have "\<exists>e v cs. controlCache client' ''r'' = Some e \<and> ctlReuse e = Some v \<and>
    control_calls client' = control_calls ?client @ cs
      @ [SetValue v (CtlInt32 5), SetOrigin (ctrl e) None 3, Operate (ctrl e) v 0 True] \<and>
    (\<forall>c \<in> set cs. \<forall>ct w t ok. c \<noteq> Operate ct w t ok)"
    by (intro success_means_operated [where op = "DirectWithNormalSecurityInt32 granting_control ''r'' 5"
          and client = ?client, OF _ c]) blast
  with c show ?thesis by (fastforce simp: fresh_control_def)
qed

text \<open>
  Once an entry has its value, an operation creates nothing: it makes exactly the three
  calls that set the value and operate (and asks for the error when the server refuses), on the
  same objects, and leaves the cache as it is. So a client holds at most one control object and
  one value per reference.
\<close>

theorem cached_control_reused:
  assumes "controlCache client ref = Some e" and "ctlReuse e = Some v"
    and "op = DirectWithNormalSecurity lib ref b \<and> val = CtlBool b
      \<or> op = DirectWithNormalSecurityInt32 lib ref i \<and> val = CtlInt32 i
      \<or> op = DirectWithNormalSecurityFloat32 lib ref f \<and> val = CtlFloat f"
  shows "controlCache (snd (op client)) = controlCache client \<and>
    (\<exists>ok err. (fst (op client) = None \<longleftrightarrow> ok) \<and> control_calls (snd (op client)) = control_calls client
      @ [SetValue v val, SetOrigin (ctrl e) None 3, Operate (ctrl e) v 0 ok]
      @ (if ok then [] else [ControlLastError (ctrl e) err]))"
proof -
  obtain req zero name where op: "op = operate_with lib req zero name ref val"
    using direct_op [OF assms(3)] by blast
  show ?thesis
    unfolding op by (rule operate_with_cached [OF assms(1,2), of lib req zero name val]) blast
qed

theorem cached_control_reused_witness:
  "controlCache (snd (DirectWithNormalSecurityFloat32 granting_control ''r'' 9
      (fresh_control\<lparr>controlCache := [''r'' \<mapsto> \<lparr>ctrl = ''r'', ctlReuse = Some 8\<rparr>]\<rparr>)))
    = [''r'' \<mapsto> \<lparr>ctrl = ''r'', ctlReuse = Some 8\<rparr>]"
  using cached_control_reused [of "fresh_control\<lparr>controlCache := [''r'' \<mapsto> \<lparr>ctrl = ''r'', ctlReuse = Some 8\<rparr>]\<rparr>"
      "''r''" "\<lparr>ctrl = ''r'', ctlReuse = Some 8\<rparr>" 8
      "DirectWithNormalSecurityFloat32 granting_control ''r'' 9" granting_control _ "CtlFloat 9" _ 9]
  by simp



text \<open>
  The check of the integer type is made only when the entry is created. After a boolean operation on the
  same reference, \<open>DirectWithNormalSecurityInt32\<close> on a control of boolean type sets an integer
  on the cached boolean value and sends the Operate, although its comment promises an error
  without one.
\<close>

theorem int32_check_bypassed:
  "\<exists>client client'. client = snd (DirectWithNormalSecurity granting_control ''r'' True fresh_control) \<and>
     lib_getCtlValType granting_control (control_calls client) ''r'' = MmsType_code MMS_BOOLEAN \<and>
     DirectWithNormalSecurityInt32 granting_control ''r'' 5 client = (None, client') \<and>
     control_calls client' =
       [CreateControl ''r'' 1 (Some ''r''), NewValue (CtlBool False) (Some 1), SetValue 1 (CtlBool True),
        SetOrigin ''r'' None 3, Operate ''r'' 1 0 True,
        SetValue 1 (CtlInt32 5), SetOrigin ''r'' None 3, Operate ''r'' 1 0 True]"
  by (simp add: control_evals)

end
