(* ===== verification/Control_Concurrency.thy ===== *)
theory Control_Concurrency
  imports Control_Client
begin

text \<open>
  Controls and \<open>Close\<close> from several threads of one client. \<open>controlMu\<close> is held for the whole of a
  \<open>DirectWithNormalSecurity...\<close> operation and of \<open>clearControlObjectCache\<close>, so each is one step;
  \<open>Close\<close> holds it only while it clears the cache, so it is three steps, and its calls on the
  connection can come between any two others. What the operations do to the cache does not depend
  on a call of \<open>IedConnection_close\<close> inside them, so such a call is placed before or after the
  operation it falls in.
\<close>

section \<open>Threads\<close>

text \<open>Where a thread is: outside of \<open>Close\<close>, before its call of close, before its call of destroy.\<close>

datatype close_pc = Running | BeforeClose | BeforeDestroy

record ('t, 'c, 'o, 'v) control_threads =
  ctl_client :: "('c, 'o, 'v) control_client"
  ctl_pcs :: "'t \<Rightarrow> close_pc"

definition at_pc :: "'t \<Rightarrow> close_pc \<Rightarrow> ('c, 'o, 'v) control_client \<Rightarrow>
    ('t, 'c, 'o, 'v) control_threads \<Rightarrow> ('t, 'c, 'o, 'v) control_threads" where
  "at_pc t p client s = s\<lparr>ctl_client := client, ctl_pcs := (ctl_pcs s)(t := p)\<rparr>"

lemma at_pc_simps [simp]:
  "ctl_client (at_pc t p client s) = client" "ctl_pcs (at_pc t p client s) = (ctl_pcs s)(t := p)"
  by (simp_all add: at_pc_def)

inductive ctl_step :: "('c, 'o, 'v) control_lib \<Rightarrow> ('t, 'c, 'o, 'v) control_threads \<Rightarrow>
    ('t, 'c, 'o, 'v) control_threads \<Rightarrow> bool" for lib where
  step_bool: "ctl_pcs s t = Running \<Longrightarrow>
    ctl_step lib s (at_pc t Running (snd (DirectWithNormalSecurity lib ref b (ctl_client s))) s)"
| step_int32: "ctl_pcs s t = Running \<Longrightarrow>
    ctl_step lib s (at_pc t Running (snd (DirectWithNormalSecurityInt32 lib ref i (ctl_client s))) s)"
| step_float32: "ctl_pcs s t = Running \<Longrightarrow>
    ctl_step lib s (at_pc t Running (snd (DirectWithNormalSecurityFloat32 lib ref f (ctl_client s))) s)"
| step_clear: "ctl_pcs s t = Running \<Longrightarrow> distinct order \<Longrightarrow>
    set order = dom (controlCache (ctl_client s)) \<Longrightarrow>
    ctl_step lib s (at_pc t BeforeClose (clearControlObjectCache order (ctl_client s)) s)"
| step_close: "ctl_pcs s t = BeforeClose \<Longrightarrow>
    ctl_step lib s (at_pc t BeforeDestroy
      (record_call (CloseConnection (connection (ctl_client s))) (ctl_client s)) s)"
| step_destroy: "ctl_pcs s t = BeforeDestroy \<Longrightarrow>
    ctl_step lib s (at_pc t Running
      (record_call (DestroyConnection (connection (ctl_client s))) (ctl_client s)) s)"

definition ctl_start :: "'c \<Rightarrow> ('t, 'c, 'o, 'v) control_threads" where
  "ctl_start c = \<lparr>ctl_client = \<lparr>connection = c, controlCache = Map.empty, control_calls = []\<rparr>,
     ctl_pcs = (\<lambda>_. Running)\<rparr>"

inductive ctl_reach :: "('c, 'o, 'v) control_lib \<Rightarrow> ('t, 'c, 'o, 'v) control_threads \<Rightarrow> bool" for lib where
  ctl_init: "ctl_reach lib (ctl_start c)"
| ctl_next: "ctl_reach lib s \<Longrightarrow> ctl_step lib s s' \<Longrightarrow> ctl_reach lib s'"

section \<open>Invariant\<close>

lemma ctl_step_owns: "ctl_step lib s s' \<Longrightarrow> owns (ctl_client s) \<Longrightarrow> owns (ctl_client s')"
  by (induction rule: ctl_step.induct)
    (auto simp: DirectWithNormalSecurity_def DirectWithNormalSecurityInt32_def objs.neutral_def
      DirectWithNormalSecurityFloat32_def operate_with_owns clear_owns intro!: owns_neutral)

lemma ctl_reach_owns: "ctl_reach lib s \<Longrightarrow> owns (ctl_client s)"
proof (induction rule: ctl_reach.induct)
  case (ctl_init c)
  show ?case by (simp add: ctl_start_def owns_def)
qed (rule ctl_step_owns)

text \<open>\<open>Close\<close> run by one thread without another in between is its three steps.\<close>

lemma Close_is_steps:
  assumes "ctl_pcs s t = Running" and "distinct order" and "set order = dom (controlCache (ctl_client s))"
  shows "(ctl_step lib)\<^sup>*\<^sup>* s (at_pc t Running (Close order (ctl_client s)) s)"
proof -
  define cleared where "cleared = at_pc t BeforeClose (clearControlObjectCache order (ctl_client s)) s"
  define closed where "closed = at_pc t BeforeDestroy
    (record_call (CloseConnection (connection (ctl_client cleared))) (ctl_client cleared)) cleared"
  have "ctl_step lib s cleared" unfolding cleared_def using assms by (rule step_clear)
  moreover have "ctl_step lib cleared closed"
    unfolding closed_def by (rule step_close) (simp add: cleared_def)
  moreover have "ctl_step lib closed (at_pc t Running
      (record_call (DestroyConnection (connection (ctl_client closed))) (ctl_client closed)) closed)"
    by (rule step_destroy) (simp add: closed_def)
  moreover have "at_pc t Running
      (record_call (DestroyConnection (connection (ctl_client closed))) (ctl_client closed)) closed
    = at_pc t Running (Close order (ctl_client s)) s"
    by (simp add: closed_def cleared_def at_pc_def Close_def Let_def)
  ultimately show ?thesis by (simp add: rtranclp.rtrancl_into_rtrancl)
qed

section \<open>Properties\<close>

text \<open>A run in which an operation falls into a \<open>Close\<close> and another follows it.\<close>

definition close_race :: "(bool, nat, string, nat) control_threads" where
  "close_race =
     (let s0 = ctl_start 1;
          s1 = at_pc True BeforeClose (clearControlObjectCache [] (ctl_client s0)) s0;
          s2 = at_pc False Running
            (snd (DirectWithNormalSecurity granting_control ''r'' True (ctl_client s1))) s1;
          s3 = at_pc True BeforeDestroy
            (record_call (CloseConnection (connection (ctl_client s2))) (ctl_client s2)) s2;
          s4 = at_pc True Running
            (record_call (DestroyConnection (connection (ctl_client s3))) (ctl_client s3)) s3 in
      at_pc False Running
        (snd (DirectWithNormalSecurity granting_control ''r'' False (ctl_client s4))) s4)"

lemma close_race_reach: "ctl_reach granting_control close_race"
  unfolding close_race_def Let_def
  by (intro ctl_next [OF _ step_bool] ctl_next [OF _ step_destroy] ctl_next [OF _ step_close]
      ctl_next [OF _ step_clear] ctl_init) (simp_all add: ctl_start_def)

text \<open>
  C23: whatever threads operate controls and close the client, in whatever order, a control object
  or value is given back at most once and no call is passed one that is not the client's at that
  moment; and whenever the cache has just been cleared, nothing is left behind.
\<close>

theorem interleaved_controls_safe:
  assumes "ctl_reach lib s"
  shows "\<exists>live. safe_run control_acquired control_released control_uses {#}
      (control_calls (ctl_client s)) = Some live
    \<and> (controlCache (ctl_client s) = Map.empty \<longrightarrow> live = {#})"
  using ctl_reach_owns [OF assms] by (simp add: owns_def)

theorem interleaved_controls_safe_witness:
  "\<exists>live. safe_run control_acquired control_released control_uses {#}
      (control_calls (ctl_client close_race)) = Some live
    \<and> (controlCache (ctl_client close_race) = Map.empty \<longrightarrow> live = {#})"
  by (rule interleaved_controls_safe [OF close_race_reach])


end
