(* ===== verification/Dataset_Schema.thy ===== *)
theory Dataset_Schema
  imports Scl_Xml
begin

text \<open>
  The path schema of a data set (\<open>iec61850_schema.go\<close>): \<open>BuildDataSetSchema\<close> lists, once, the
  path and the position of every leaf, \<open>ApplySchema\<close> files values under those paths. With it
  \<open>ExplainDataSetValues\<close> and \<open>findDAName\<close> of \<open>iec61850_client.go\<close>, which derive the paths
  anew for every set of values. A Go \<open>map[string]interface{}\<close> is a map here, with the new
  map returned.
\<close>

section \<open>The schema\<close>

record SchemaLeaf =
  leaf_Path :: string
  leaf_FCDAIdx :: int
  leaf_DAIdx :: int

record DataSetSchema =
  Leaves :: "SchemaLeaf list"
  FCDACount :: int

definition fcda_base :: "string \<Rightarrow> FCDAEntry \<Rightarrow> string" where
  "fcda_base iedName fcda = iedName @ fcda_LDInst fcda @ ''/'' @ fcda_Prefix fcda @ fcda_LNClass fcda
     @ fcda_LNInst fcda @ ''.'' @ fcda_DOName fcda"

fun da_leaves :: "string \<Rightarrow> string \<Rightarrow> int \<Rightarrow> int \<Rightarrow> DA list \<Rightarrow> SchemaLeaf list" where
  "da_leaves base fc idx subIdx [] = []"
| "da_leaves base fc idx subIdx (da # das) =
     (if da_FC da \<noteq> fc then da_leaves base fc idx subIdx das
      else \<lparr>leaf_Path = base @ ''.'' @ da_Name da, leaf_FCDAIdx = idx, leaf_DAIdx = subIdx\<rparr>
        # da_leaves base fc idx (subIdx + 1) das)"

fun build_leaves :: "int \<Rightarrow> FCDAEntry list \<Rightarrow> DataSetDetail \<Rightarrow> SchemaLeaf list \<times> DataSetDetail" where
  "build_leaves idx [] detail = ([], detail)"
| "build_leaves idx (fcda # fcdas) detail =
     (let base = fcda_base (dsd_IEDName detail) fcda in
      if fcda_DAName fcda \<noteq> [] then
        apfst ((#) \<lparr>leaf_Path = base @ ''.'' @ fcda_DAName fcda, leaf_FCDAIdx = idx, leaf_DAIdx = -1\<rparr>)
          (build_leaves (idx + 1) fcdas detail)
      else
        let (doType, detail) = GetDOType (fcda_Prefix fcda) (fcda_LNClass fcda) (fcda_DOName fcda) detail in
        apfst ((@) (da_leaves base (fcda_FC fcda) idx 0 (dot_DA doType)))
          (build_leaves (idx + 1) fcdas detail))"

definition BuildDataSetSchema :: "DataSetDetail \<Rightarrow> DataSetSchema \<times> DataSetDetail" where
  "BuildDataSetSchema detail =
     apfst (\<lambda>leaves. \<lparr>Leaves = leaves, FCDACount = int (length (ds_FCDA detail))\<rparr>)
       (build_leaves 0 (ds_FCDA detail) detail)"

section \<open>ApplySchema\<close>

text \<open>\<open>values[i]\<close> panics for a negative index.\<close>

definition apply_leaf :: "GoMmsValue list \<Rightarrow> SchemaLeaf \<Rightarrow> (string \<rightharpoonup> go_value) \<Rightarrow>
    c_fault + (string \<rightharpoonup> go_value)" where
  "apply_leaf values leaf out =
     (if leaf_FCDAIdx leaf \<ge> int (length values) then Inr out
      else if leaf_FCDAIdx leaf < 0 then Inl BadIndex
      else let topVal = Value (values ! nat (leaf_FCDAIdx leaf)) in
        if leaf_DAIdx leaf < 0 then Inr (out(leaf_Path leaf \<mapsto> topVal))
        else (case topVal of
            GoMmsValues subList \<Rightarrow>
              if leaf_DAIdx leaf \<ge> int (length subList) then Inr out
              else let sub = Value (subList ! nat (leaf_DAIdx leaf)) in
                (case sub of
                   GoMmsValues [inner] \<Rightarrow> Inr (out(leaf_Path leaf \<mapsto> Value inner))
                 | _ \<Rightarrow> Inr (out(leaf_Path leaf \<mapsto> sub)))
          | _ \<Rightarrow> Inr out))"

fun apply_leaves :: "SchemaLeaf list \<Rightarrow> GoMmsValue list \<Rightarrow> (string \<rightharpoonup> go_value) \<Rightarrow>
    c_fault + (string \<rightharpoonup> go_value)" where
  "apply_leaves [] values out = Inr out"
| "apply_leaves (leaf # leaves) values out =
     and_then (apply_leaf values leaf out) (\<lambda>out. apply_leaves leaves values out)"

definition ApplySchema :: "DataSetSchema \<Rightarrow> GoMmsValue list \<Rightarrow> (string \<rightharpoonup> go_value) \<Rightarrow>
    c_fault + (string \<rightharpoonup> go_value)" where
  "ApplySchema schema values out = apply_leaves (Leaves schema) values out"

section \<open>ExplainDataSetValues\<close>

fun find_da_loop :: "DA list \<Rightarrow> int \<Rightarrow> int \<Rightarrow> string" where
  "find_da_loop [] index realIndex = []"
| "find_da_loop (da # das) index realIndex =
     (if da_FC da \<noteq> ''MX'' \<and> da_FC da \<noteq> ''ST'' then find_da_loop das index realIndex
      else if realIndex = index then da_Name da
      else find_da_loop das index (realIndex + 1))"

definition findDAName :: "DA list \<Rightarrow> int \<Rightarrow> string" where
  "findDAName das index = find_da_loop das index 0"

text \<open>The loop over the elements of a structured value, with the contents of the builder.\<close>

fun explain_elements :: "DA list \<Rightarrow> string \<Rightarrow> nat \<Rightarrow> GoMmsValue list \<Rightarrow> (string \<rightharpoonup> go_value) \<Rightarrow>
    (string \<rightharpoonup> go_value)" where
  "explain_elements das builder i [] ret = ret"
| "explain_elements das builder i (v # valueList) ret =
     (let builder = builder @ ''.'' @
        (if length das > i + 1 then findDAName das (int i) else Itoa (int i)) in
      case Value v of
        GoMmsValues rv \<Rightarrow>
          if length rv \<noteq> 1 then explain_elements das builder (i + 1) valueList ret
          else explain_elements das builder (i + 1) valueList (ret(builder \<mapsto> Value (rv ! 0)))
      | x \<Rightarrow> explain_elements das builder (i + 1) valueList (ret(builder \<mapsto> x)))"

fun explain_loop :: "FCDAEntry list \<Rightarrow> GoMmsValue list \<Rightarrow> DataSetDetail \<Rightarrow> (string \<rightharpoonup> go_value) \<Rightarrow>
    (string \<rightharpoonup> go_value) \<times> DataSetDetail" where
  "explain_loop (entity # entities) (val # vals) detail ret =
     (let builder = fcda_base (dsd_IEDName detail) entity in
      if fcda_DAName entity \<noteq> [] then
        explain_loop entities vals detail (ret(builder @ ''.'' @ fcda_DAName entity \<mapsto> Value val))
      else (case Value val of
          GoMmsValues valueList \<Rightarrow>
            let (doTyp, detail) = GetDOType (fcda_Prefix entity) (fcda_LNClass entity)
                  (fcda_DOName entity) detail in
            explain_loop entities vals detail (explain_elements (dot_DA doTyp) builder 0 valueList ret)
        | _ \<Rightarrow> explain_loop entities vals detail ret))"
| "explain_loop _ _ detail ret = (ret, detail)"

definition ExplainDataSetValues :: "GoMmsValue list \<Rightarrow> DataSetDetail \<Rightarrow>
    (string + (string \<rightharpoonup> go_value)) \<times> DataSetDetail" where
  "ExplainDataSetValues values detail =
     (if length (ds_FCDA detail) \<noteq> length values then (Inl ''error dataset scl'', detail)
      else apfst Inr (explain_loop (ds_FCDA detail) values detail Map.empty))"

section \<open>What the schema lists\<close>

text \<open>The leaves without the search: entry by entry, with the uncached types.\<close>

definition fcda_leaves :: "string \<Rightarrow> DataTypeTemplates \<Rightarrow> int \<Rightarrow> FCDAEntry \<Rightarrow> SchemaLeaf list" where
  "fcda_leaves iedName templates idx fcda =
     (let base = fcda_base iedName fcda in
      if fcda_DAName fcda \<noteq> [] then
        [\<lparr>leaf_Path = base @ ''.'' @ fcda_DAName fcda, leaf_FCDAIdx = idx, leaf_DAIdx = -1\<rparr>]
      else
        map (\<lambda>(k, da). \<lparr>leaf_Path = base @ ''.'' @ da_Name da, leaf_FCDAIdx = idx, leaf_DAIdx = int k\<rparr>)
          (enumerate 0 (filter (\<lambda>da. da_FC da = fcda_FC fcda)
             (dot_DA (lookup_DOType templates (fcda_Prefix fcda) (fcda_LNClass fcda) (fcda_DOName fcda))))))"

definition regular_entries :: "FCDAEntry list \<Rightarrow> bool" where
  "regular_entries fcdas \<longleftrightarrow>
     (\<forall>f \<in> set fcdas. fcda_DAName f = [] \<longrightarrow> regular_name (fcda_Prefix f) (fcda_LNClass f))"

lemma da_leaves_enumerate:
  "da_leaves base fc idx (int n) das =
     map (\<lambda>(k, da). \<lparr>leaf_Path = base @ ''.'' @ da_Name da, leaf_FCDAIdx = idx, leaf_DAIdx = int k\<rparr>)
       (enumerate n (filter (\<lambda>da. da_FC da = fc) das))"
proof (induction das arbitrary: n)
  case (Cons da das)
  show ?case using Cons.IH [of n] Cons.IH [of "Suc n"] by (simp add: add.commute)
qed simp

lemma build_leaves_entries:
  assumes "cache_ok detail" and "regular_entries fcdas"
  shows "fst (build_leaves (int n) fcdas detail)
      = concat (map (\<lambda>(k, f). fcda_leaves (dsd_IEDName detail) (dsd_DataTypeTemplates detail) (int k) f)
          (enumerate n fcdas))"
  using assms
proof (induction fcdas arbitrary: n detail)
  case (Cons f fs)
  have IH: "fst (build_leaves (int n + 1) fs d)
      = concat (map (\<lambda>(k, f). fcda_leaves (dsd_IEDName d) (dsd_DataTypeTemplates d) (int k) f)
          (enumerate (Suc n) fs))" if "cache_ok d" for d
    using Cons.IH [OF that, of "Suc n"] Cons.prems(2) by (simp add: regular_entries_def add.commute)
  show ?case
  proof (cases "fcda_DAName f = []")
    case False
    with IH [OF Cons.prems(1)] show ?thesis by (simp add: fcda_leaves_def Let_def)
  next
    case True
    then have reg: "regular_name (fcda_Prefix f) (fcda_LNClass f)"
      using Cons.prems(2) by (simp add: regular_entries_def)
    obtain ty d where get: "GetDOType (fcda_Prefix f) (fcda_LNClass f) (fcda_DOName f) detail = (ty, d)"
      by fastforce
    from GetDOType_transparent [OF Cons.prems(1) reg, of "fcda_DOName f"] get
    have ty: "ty = lookup_DOType (dsd_DataTypeTemplates detail) (fcda_Prefix f) (fcda_LNClass f) (fcda_DOName f)"
      and d: "cache_ok d" "dsd_IEDName d = dsd_IEDName detail"
        "dsd_DataTypeTemplates d = dsd_DataTypeTemplates detail" by auto
    show ?thesis
      using True get IH [OF d(1)] ty d(2,3) da_leaves_enumerate [of _ _ _ 0]
      by (simp add: fcda_leaves_def Let_def)
  qed
qed simp

text \<open>A data set of attributes only: one leaf per entry, and each files its own value.\<close>

definition fcda_path :: "string \<Rightarrow> FCDAEntry \<Rightarrow> string" where
  "fcda_path iedName f = fcda_base iedName f @ ''.'' @ fcda_DAName f"

lemma build_attribute_leaves:
  "\<forall>f \<in> set fcdas. fcda_DAName f \<noteq> [] \<Longrightarrow> fst (build_leaves (int n) fcdas detail)
     = map (\<lambda>(k, f). \<lparr>leaf_Path = fcda_path (dsd_IEDName detail) f, leaf_FCDAIdx = int k, leaf_DAIdx = -1\<rparr>)
         (enumerate n fcdas)"
proof (induction fcdas arbitrary: n)
  case (Cons f fs)
  then show ?case using Cons.IH [of "Suc n"] by (simp add: Let_def fcda_path_def add.commute)
qed simp

lemma apply_attribute_leaves:
  "length values = n + length fcdas \<Longrightarrow>
     apply_leaves (map (\<lambda>(k, f). \<lparr>leaf_Path = path f, leaf_FCDAIdx = int k, leaf_DAIdx = -1\<rparr>) (enumerate n fcdas))
       values out = Inr (out(map path fcdas [\<mapsto>] map Value (drop n values)))"
proof (induction fcdas arbitrary: n out)
  case (Cons f fs)
  then have "drop n values = values ! n # drop (Suc n) values" by (simp add: Cons_nth_drop_Suc)
  with Cons show ?case by (simp add: apply_leaf_def Let_def fun_upd_def)
qed simp

lemma build_leaves_indices:
  "leaf \<in> set (fst (build_leaves idx fcdas detail)) \<Longrightarrow>
     idx \<le> leaf_FCDAIdx leaf \<and> leaf_FCDAIdx leaf < idx + int (length fcdas)"
proof (induction fcdas arbitrary: idx detail)
  case (Cons f fs)
  have das: "l \<in> set (da_leaves b fc idx k das) \<Longrightarrow> leaf_FCDAIdx l = idx" for l b fc k das
    by (induction das arbitrary: k) (auto split: if_splits)
  show ?case
    using Cons.prems Cons.IH [of "idx + 1"]
    by (force simp: Let_def split: if_splits prod.splits dest: das)
qed simp

lemma apply_leaves_total:
  assumes "\<forall>leaf \<in> set leaves. 0 \<le> leaf_FCDAIdx leaf"
  shows "\<exists>out'. apply_leaves leaves values out = Inr out'"
  using assms
proof (induction leaves arbitrary: out)
  case (Cons leaf leaves)
  have "\<exists>out'. apply_leaf values leaf out = Inr out'"
    using Cons.prems by (auto simp: apply_leaf_def Let_def split: go_value.split list.split)
  with Cons show ?case by fastforce
qed simp

section \<open>Properties\<close>


definition mx_templates :: DataTypeTemplates where
  "mx_templates = \<lparr>
     dtt_LNodeType = [\<lparr>lnt_ID = ''T'', lnt_LNClass = ''MMXU'', lnt_Desc = [],
        lnt_DO = [\<lparr>do_Name = ''Hz'', do_Type = ''MV'', do_Desc = [], do_DA = []\<rparr>]\<rparr>],
     dtt_DOType = [\<lparr>dot_ID = ''MV'', dot_DA = [
          DA ''d'' ''VisString255'' ''DC'' GoNil [], DA ''mag'' ''Struct'' ''MX'' GoNil [],
          DA ''q'' ''Quality'' ''MX'' GoNil [], DA ''t'' ''Timestamp'' ''MX'' GoNil []],
        dot_Desc = [], dot_SDO = []\<rparr>],
     dtt_DAType = [], dtt_EnumType = []\<rparr>"

definition mx_fcda :: "string \<Rightarrow> FCDAEntry" where
  "mx_fcda da = \<lparr>fcda_LDInst = ''LD'', fcda_Prefix = [], fcda_LNClass = ''MMXU'', fcda_LNInst = ''1'',
     fcda_DOName = ''Hz'', fcda_DAName = da, fcda_FC = ''MX''\<rparr>"

definition mx_detail :: DataSetDetail where
  "mx_detail = \<lparr>ds_Name = ''ds'', ds_Desc = [], ds_FCDA = [mx_fcda [], mx_fcda ''q''], dsd_IEDName = ''I'',
     dsd_DOTypes = Map.empty, dsd_DataTypeTemplates = mx_templates\<rparr>"

lemmas mx_defs = mx_templates_def mx_fcda_def mx_detail_def



lemma explain_leaves:
  assumes "\<forall>f \<in> set fcdas. fcda_DAName f \<noteq> []" and "length vals = length fcdas"
    and "vals = drop n values" and "length values = n + length vals"
  shows "Inr (fst (explain_loop fcdas vals detail ret)) = apply_leaves (fst (build_leaves (int n) fcdas detail)) values ret"
  using assms
proof (induction fcdas arbitrary: vals n ret)
  case (Cons f fs)
  from Cons.prems(2) obtain v vs where v: "vals = v # vs" by (cases vals) auto
  have "n < length values" using Cons.prems(2,4) by simp
  from this have "values ! n # drop (Suc n) values = drop n values"
    by (rule Cons_nth_drop_Suc)
  also have "drop n values = v # vs" using Cons.prems(3) v by metis
  finally have "values ! n = v" "vs = drop (Suc n) values" by simp_all
  have IH: "Inr (fst (explain_loop fs vs detail ret')) = apply_leaves (fst (build_leaves (int (Suc n)) fs detail)) values ret'" for ret'
  proof (rule Cons.IH)
    show "\<forall>f \<in> set fs. fcda_DAName f \<noteq> []" using Cons.prems(1) by simp
    show "length vs = length fs" using Cons.prems(2) v by simp
    show "vs = drop (Suc n) values" by fact
    show "length values = Suc n + length vs" using Cons.prems(4) v by simp
  qed
  let ?path = "fcda_base (dsd_IEDName detail) f @ ''.'' @ fcda_DAName f"
  let ?leaf = "\<lparr>leaf_Path = ?path, leaf_FCDAIdx = int n, leaf_DAIdx = -1\<rparr>"
  have f: "fcda_DAName f \<noteq> []" using Cons.prems(1) by simp
  have "explain_loop (f # fs) vals detail ret = explain_loop fs vs detail (ret(?path \<mapsto> Value v))"
    unfolding v using f by simp
  moreover have "fst (build_leaves (int n) (f # fs) detail)
      = ?leaf # fst (build_leaves (int (Suc n)) fs detail)"
    using f by (simp add: Let_def add.commute)
  moreover have "apply_leaf values ?leaf ret = Inr (ret(?path \<mapsto> Value v))"
    using \<open>values ! n = v\<close> \<open>n < length values\<close> by (simp add: apply_leaf_def)
  ultimately show ?case
    by (simp only: apply_leaves.simps and_then.simps IH)
next
  case Nil
  show ?case by simp
qed



text \<open>
  For an entry that names a whole data object they do not: \<open>ExplainDataSetValues\<close> writes
  the elements' names one after the other into one path, and takes the place of the last element
  for its name, where the schema files each under its own.
\<close>

theorem explain_accumulates_paths:
  "\<exists>values ret out.
     values = [GoMmsValue 2 (GoMmsValues [GoMmsValue 2 (GoMmsValues [GoMmsValue 6 (GoFloat64 50)]),
        GoMmsValue 3 (GoUint32 0), GoMmsValue 14 (GoUint32 9)])] \<and>
     fst (ExplainDataSetValues values (mx_detail\<lparr>ds_FCDA := [mx_fcda []]\<rparr>)) = Inr ret \<and>
     ApplySchema (fst (BuildDataSetSchema (mx_detail\<lparr>ds_FCDA := [mx_fcda []]\<rparr>))) values Map.empty = Inr out \<and>
     dom ret = {''ILD/MMXU1.Hz.mag'', ''ILD/MMXU1.Hz.mag.q'', ''ILD/MMXU1.Hz.mag.q.t''} \<and>
     dom out = {''ILD/MMXU1.Hz.mag'', ''ILD/MMXU1.Hz.q'', ''ILD/MMXU1.Hz.t''}"
  by (simp add: ExplainDataSetValues_def ApplySchema_def BuildDataSetSchema_def mx_defs fcda_base_def
      GetDOType_def find_doTypeId_def find_DOType_def do_type_key_def findDAName_def apply_leaf_def Let_def
      insert_commute)

end
