(* ===== verification/Dataset_Read.thy ===== *)
theory Dataset_Read
  imports Dataset_Schema
begin

text \<open>
  Reading a data set (\<open>iec61850_client.go\<close>): the conversion of C values to Go values,
  \<open>resolveValue\<close> with \<open>digIntoStructure\<close> and the optimised \<open>resolveValueInline\<close> with
  \<open>digIntoStructureOptimized\<close>, and the two ways to read, \<open>ReadDataSetValues\<close> (all values,
  to be named later) and \<open>ReadDataSetFlat\<close> (straight from C under the paths of a schema).
  Recursion and the loops over elements take fuel; \<open>value_fuel\<close> is enough for a value.
  Reading an element of a null pointer in C is the fault \<open>NullDeref\<close>.
\<close>

section \<open>The library\<close>

record ('d, 'v) dataset_api =
  IedConnection_readDataSetValues :: "string \<Rightarrow> int \<times> 'd"
  ClientDataSet_getValues :: "'d \<Rightarrow> 'v"
  ClientDataSet_getDataSetSize :: "'d \<Rightarrow> int"

text \<open>\<open>C.int(i)\<close>.\<close>

definition C_int :: "int \<Rightarrow> int" where "C_int i = sint (word_of_int i :: int32)"

lemma C_int_id: "0 \<le> i \<Longrightarrow> i \<le> INT_MAX \<Longrightarrow> C_int i = i"
  by (simp add: C_int_def INT_MAX_def sint_sbintrunc' signed_take_bit_int_eq_self)

section \<open>Converting values\<close>

fun resolveValue :: "'v mms_api \<Rightarrow> bool \<Rightarrow> nat \<Rightarrow> 'v \<Rightarrow> int \<Rightarrow> c_fault + go_value"
  and digIntoStructure :: "'v mms_api \<Rightarrow> bool \<Rightarrow> nat \<Rightarrow> 'v \<Rightarrow> int \<Rightarrow> c_fault + GoMmsValue list"
  and dig_loop :: "'v mms_api \<Rightarrow> bool \<Rightarrow> nat \<Rightarrow> 'v \<Rightarrow> int \<Rightarrow> GoMmsValue list \<Rightarrow>
    c_fault + GoMmsValue list" where
  "resolveValue api withoutTimestamps 0 val valueType = Inl OutOfFuel"
| "resolveValue api withoutTimestamps (Suc fuel) val valueType =
     (if valueType = Go_MMS_BOOLEAN then Inr (GoBool (MmsValue_getBoolean api val))
      else if valueType = Go_MMS_FLOAT then Inr (GoFloat64 (MmsValue_toDouble api val))
      else if valueType = Go_MMS_INTEGER then Inr (GoInt64 (MmsValue_toInt64 api val))
      else if valueType = Go_MMS_UNSIGNED then Inr (GoInt64 (MmsValue_toInt64 api val))
      else if valueType = Go_MMS_STRING then
        Inr (GoString (GoString_or_empty (MmsValue_toString api val)))
      else if valueType = Go_MMS_VISIBLE_STRING then
        Inr (GoString (GoString_or_empty (MmsValue_toString api val)))
      else if valueType = Go_MMS_STRUCTURE then
        and_then (digIntoStructure api withoutTimestamps fuel val valueType) (\<lambda>vs. Inr (GoMmsValues vs))
      else if valueType = Go_MMS_ARRAY then
        and_then (digIntoStructure api withoutTimestamps fuel val valueType) (\<lambda>vs. Inr (GoMmsValues vs))
      else if valueType = Go_MMS_BIT_STRING then
        (if withoutTimestamps then Inr (GoInt 0)
         else Inr (GoUint32 (MmsValue_getBitStringAsInteger api val)))
      else if valueType = Go_MMS_UTC_TIME then
        (if withoutTimestamps then Inr (GoInt 0)
         else Inr (GoUint32 (MmsValue_toUnixTimestamp api val)))
      else Inr GoNil)"
| "digIntoStructure api withoutTimestamps fuel mms vType =
     (if vType \<noteq> Go_MMS_STRUCTURE then Inr [] else dig_loop api withoutTimestamps fuel mms 0 [])"
| "dig_loop api withoutTimestamps 0 mms index goValues = Inl OutOfFuel"
| "dig_loop api withoutTimestamps (Suc fuel) mms index goValues =
     (case MmsValue_getElement api mms (C_int index) of
        None \<Rightarrow> Inr goValues
      | Some val \<Rightarrow>
          let valueType = MmsValue_getType api val in
          and_then (resolveValue api withoutTimestamps fuel val valueType) (\<lambda>v.
            dig_loop api withoutTimestamps fuel mms (index + 1) (goValues @ [GoMmsValue valueType v])))"

definition cStringToGoString :: "string option \<Rightarrow> string" where
  "cStringToGoString cStr = (case cStr of
      None \<Rightarrow> []
    | Some s \<Rightarrow> if length s = 0 then [] else s)"

text \<open>The optimised versions; the value the target had before is the first argument after the fuel.\<close>

fun resolveValueInline :: "'v mms_api \<Rightarrow> bool \<Rightarrow> nat \<Rightarrow> GoMmsValue \<Rightarrow> 'v \<Rightarrow> int \<Rightarrow> c_fault + GoMmsValue"
  and digIntoStructureOptimized :: "'v mms_api \<Rightarrow> bool \<Rightarrow> nat \<Rightarrow> 'v \<Rightarrow> int \<Rightarrow> c_fault + GoMmsValue list"
  and dig_loop_opt :: "'v mms_api \<Rightarrow> bool \<Rightarrow> nat \<Rightarrow> 'v \<Rightarrow> int \<Rightarrow> GoMmsValue list \<Rightarrow>
    c_fault + GoMmsValue list" where
  "resolveValueInline api withoutTimestamps 0 target val valueType = Inl OutOfFuel"
| "resolveValueInline api withoutTimestamps (Suc fuel) target val valueType =
     (let put = (\<lambda>v. Inr (GoMmsValue (Type target) v)) in
      if valueType = Go_MMS_BOOLEAN then put (GoBool (MmsValue_getBoolean api val))
      else if valueType = Go_MMS_FLOAT then put (GoFloat64 (MmsValue_toDouble api val))
      else if valueType = Go_MMS_INTEGER then put (GoInt64 (MmsValue_toInt64 api val))
      else if valueType = Go_MMS_UNSIGNED then put (GoInt64 (MmsValue_toInt64 api val))
      else if valueType = Go_MMS_STRING \<or> valueType = Go_MMS_VISIBLE_STRING then
        (case MmsValue_toString api val of
           None \<Rightarrow> put (GoString [])
         | Some s \<Rightarrow> put (GoString (cStringToGoString (Some s))))
      else if valueType = Go_MMS_STRUCTURE \<or> valueType = Go_MMS_ARRAY then
        and_then (digIntoStructureOptimized api withoutTimestamps fuel val valueType)
          (\<lambda>vs. put (GoMmsValues vs))
      else if valueType = Go_MMS_BIT_STRING then
        (if withoutTimestamps then put (GoInt 0)
         else put (GoUint32 (MmsValue_getBitStringAsInteger api val)))
      else if valueType = Go_MMS_UTC_TIME then
        (if withoutTimestamps then put (GoInt 0)
         else put (GoUint32 (MmsValue_toUnixTimestamp api val)))
      else put GoNil)"
| "digIntoStructureOptimized api withoutTimestamps fuel mms vType =
     (if vType \<noteq> Go_MMS_STRUCTURE then Inr [] else dig_loop_opt api withoutTimestamps fuel mms 0 [])"
| "dig_loop_opt api withoutTimestamps 0 mms index goValues = Inl OutOfFuel"
| "dig_loop_opt api withoutTimestamps (Suc fuel) mms index goValues =
     (case MmsValue_getElement api mms (C_int index) of
        None \<Rightarrow> Inr goValues
      | Some val \<Rightarrow>
          let valueType = MmsValue_getType api val in
          and_then (resolveValueInline api withoutTimestamps fuel (GoMmsValue valueType GoNil) val valueType)
            (\<lambda>v. dig_loop_opt api withoutTimestamps fuel mms (index + 1) (goValues @ [v])))"

section \<open>ReadDataSetValues\<close>

fun read_values_loop :: "'v mms_api \<Rightarrow> bool \<Rightarrow> nat \<Rightarrow> 'v \<Rightarrow> nat \<Rightarrow> nat \<Rightarrow> c_fault + GoMmsValue list" where
  "read_values_loop api withoutTimestamps fuel vals i 0 = Inr []"
| "read_values_loop api withoutTimestamps fuel vals i (Suc n) =
     (case MmsValue_getElement api vals (C_int (int i)) of
        None \<Rightarrow> Inl NullDeref
      | Some val \<Rightarrow>
          let valueType = MmsValue_getType api val in
          and_then (resolveValueInline api withoutTimestamps fuel (GoMmsValue valueType GoNil) val valueType)
            (\<lambda>v. and_then (read_values_loop api withoutTimestamps fuel vals (i + 1) n) (\<lambda>vs. Inr (v # vs))))"

text \<open>A slice of negative length panics, \<open>BadIndex\<close> here.\<close>

definition ReadDataSetValues :: "'v mms_api \<Rightarrow> ('d, 'v) dataset_api \<Rightarrow> bool \<Rightarrow> nat \<Rightarrow> string \<Rightarrow>
    c_fault + (string + GoMmsValue list)" where
  "ReadDataSetValues api dsapi withoutTimestamps fuel dataSetReference =
     (let (clientError, clientDataSet) = IedConnection_readDataSetValues dsapi dataSetReference in
      if clientError \<noteq> IedClientError_code IED_ERROR_OK then
        Inr (Inl (''failed to read dataset values, error code: '' @ Err clientError))
      else
        let vals = ClientDataSet_getValues dsapi clientDataSet;
            sz = ClientDataSet_getDataSetSize dsapi clientDataSet in
        if sz < 0 then Inl BadIndex
        else and_then (read_values_loop api withoutTimestamps fuel vals 0 (nat sz)) (\<lambda>vs. Inr (Inr vs)))"

section \<open>ReadDataSetFlat\<close>

definition extractPrimitive :: "'v mms_api \<Rightarrow> bool \<Rightarrow> 'v \<Rightarrow> go_value" where
  "extractPrimitive api withoutTimestamps val =
     (let t = MmsValue_getType api val in
      if t = Go_MMS_BOOLEAN then GoBool (MmsValue_getBoolean api val)
      else if t = Go_MMS_FLOAT then GoFloat64 (MmsValue_toDouble api val)
      else if t = Go_MMS_INTEGER then GoInt64 (MmsValue_toInt64 api val)
      else if t = Go_MMS_UNSIGNED then GoInt64 (MmsValue_toInt64 api val)
      else if t = Go_MMS_STRING \<or> t = Go_MMS_VISIBLE_STRING then
        (case MmsValue_toString api val of None \<Rightarrow> GoString [] | Some s \<Rightarrow> GoString s)
      else if t = Go_MMS_BIT_STRING then
        (if withoutTimestamps then GoUint32 0 else GoUint32 (MmsValue_getBitStringAsInteger api val))
      else if t = Go_MMS_UTC_TIME then
        (if withoutTimestamps then GoUint32 0 else GoUint32 (MmsValue_toUnixTimestamp api val))
      else GoNil)"

definition read_leaf :: "'v mms_api \<Rightarrow> bool \<Rightarrow> 'v \<Rightarrow> SchemaLeaf \<Rightarrow> (string \<rightharpoonup> go_value) \<Rightarrow>
    (string \<rightharpoonup> go_value)" where
  "read_leaf api withoutTimestamps topValues leaf out =
     (case MmsValue_getElement api topValues (C_int (leaf_FCDAIdx leaf)) of
        None \<Rightarrow> out
      | Some topVal \<Rightarrow>
          if leaf_DAIdx leaf < 0 then
            out(leaf_Path leaf \<mapsto> extractPrimitive api withoutTimestamps topVal)
          else
            (case MmsValue_getElement api topVal (C_int (leaf_DAIdx leaf)) of
               None \<Rightarrow> out
             | Some target \<Rightarrow>
                 let target = (if MmsValue_getType api target = Go_MMS_STRUCTURE then
                       (case MmsValue_getElement api target 0 of None \<Rightarrow> target | Some inner \<Rightarrow> inner)
                     else target) in
                 out(leaf_Path leaf \<mapsto> extractPrimitive api withoutTimestamps target)))"

definition ReadDataSetFlat :: "'v mms_api \<Rightarrow> ('d, 'v) dataset_api \<Rightarrow> bool \<Rightarrow> string \<Rightarrow> DataSetSchema \<Rightarrow>
    (string \<rightharpoonup> go_value) \<Rightarrow> string option \<times> (string \<rightharpoonup> go_value)" where
  "ReadDataSetFlat api dsapi withoutTimestamps dataSetRef schema out =
     (let (clientError, clientDataSet) = IedConnection_readDataSetValues dsapi dataSetRef in
      if clientError \<noteq> IedClientError_code IED_ERROR_OK then
        (Some (''failed to read dataset '' @ dataSetRef @ '': '' @ Err clientError), out)
      else
        let topValues = ClientDataSet_getValues dsapi clientDataSet in
        (None, fold (read_leaf api withoutTimestamps topValues) (Leaves schema) out))"

section \<open>The optimised conversion is the plain one\<close>

lemma cStringToGoString_eq: "cStringToGoString s = GoString_or_empty s"
  by (simp add: cStringToGoString_def split: option.split)

lemma resolve_inline:
  "resolveValueInline api wt fuel target v t
     = and_then (resolveValue api wt fuel v t) (\<lambda>x. Inr (GoMmsValue (Type target) x))"
  "digIntoStructureOptimized api wt fuel v t = digIntoStructure api wt fuel v t"
  "dig_loop_opt api wt fuel v i acc = dig_loop api wt fuel v i acc"
proof (induction api wt fuel target v t and api wt fuel v t and api wt fuel v i acc
    rule: resolveValueInline_digIntoStructureOptimized_dig_loop_opt.induct)
  case (2 api wt fuel target v t)
  then show ?case
    by (auto simp: Let_def and_then_assoc cStringToGoString_eq split: option.split)
next
  case (5 api wt fuel mms index acc)
  then show ?case
    by (auto simp: Let_def and_then_assoc split: option.split intro!: and_then_cong)
qed simp_all

section \<open>The Go value of a C value\<close>

text \<open>
  Octet strings and the types no accessor reads become \<open>nil\<close>, an array an empty list; a
  structure ends at its first null element. Without time stamps, bit strings and times are the
  \<open>int\<close> 0.
\<close>

fun mms_value :: "bool \<Rightarrow> mms_tree \<Rightarrow> go_value"
  and mms_values :: "bool \<Rightarrow> mms_tree option list \<Rightarrow> GoMmsValue list" where
  "mms_value wt (MBool b) = GoBool b"
| "mms_value wt (MFloat d) = GoFloat64 d"
| "mms_value wt (MInteger n) = GoInt64 n"
| "mms_value wt (MUnsigned n) = GoInt64 n"
| "mms_value wt (MString s) = GoString (GoString_or_empty s)"
| "mms_value wt (MVisibleString s) = GoString (GoString_or_empty s)"
| "mms_value wt (MOctetString s) = GoNil"
| "mms_value wt (MBitString n) = (if wt then GoInt 0 else GoUint32 n)"
| "mms_value wt (MUtcTime n) = (if wt then GoInt 0 else GoUint32 n)"
| "mms_value wt (MOther t) = GoNil"
| "mms_value wt (MStructure ts) = GoMmsValues (mms_values wt ts)"
| "mms_value wt (MArray ts) = GoMmsValues []"
| "mms_values wt [] = []"
| "mms_values wt (None # ts) = []"
| "mms_values wt (Some t # ts) = GoMmsValue (MmsType_code (tree_type t)) (mms_value wt t) # mms_values wt ts"

fun value_fuel :: "mms_tree \<Rightarrow> nat"
  and elems_fuel :: "mms_tree option list \<Rightarrow> nat" where
  "value_fuel (MStructure ts) = Suc (elems_fuel ts)"
| "value_fuel _ = 1"
| "elems_fuel [] = 1"
| "elems_fuel (None # ts) = 1"
| "elems_fuel (Some t # ts) = Suc (max (value_fuel t) (elems_fuel ts))"

lemma represents_length:
  "represents api v (MStructure ts) \<Longrightarrow> int (length ts) \<le> INT_MAX"
  using sint_lt [of "MmsValue_getArraySize api v"] by (simp add: INT_MAX_def)

lemma resolve_tree:
  "represents api v t \<Longrightarrow> value_fuel t \<le> fuel \<Longrightarrow>
     resolveValue api wt fuel v (MmsType_code (tree_type t)) = Inr (mms_value wt t)"
  "represents_elems api v i ts \<Longrightarrow> 0 \<le> i \<Longrightarrow> i + int (length ts) \<le> INT_MAX \<Longrightarrow> elems_fuel ts \<le> fuel \<Longrightarrow>
     dig_loop api wt fuel v i acc = Inr (acc @ mms_values wt ts)"
proof (induction api v t and api v i ts arbitrary: fuel and fuel acc
    rule: represents_represents_elems.induct)
  case (1 api v ts)
  then obtain f where f: "fuel = Suc f" by (cases fuel) auto
  have "dig_loop api wt f v 0 [] = Inr ([] @ mms_values wt ts)"
    using 1 f represents_length [OF 1(2)] by (intro "1.IH") auto
  with f show ?case by (simp add: Go_MMS_defs)
next
  case (4 api v i)
  then obtain f where "fuel = Suc f" by (cases fuel) auto
  with 4 show ?case by (simp add: C_int_id)
next
  case (5 api v i ts)
  then obtain f where "fuel = Suc f" by (cases fuel) auto
  with 5 show ?case by (simp add: C_int_id)
next
  case (6 api v i t ts)
  then obtain w where w: "MmsValue_getElement api v i = Some w" "represents api w t"
    "represents_elems api v (i + 1) ts"
    by (auto split: option.splits)
  from 6 obtain f where f: "fuel = Suc f" by (cases fuel) auto
  have "resolveValue api wt f w (MmsType_code (tree_type t)) = Inr (mms_value wt t)"
    using 6 f w by (intro "6.IH"(1) [OF w(1)]) auto
  moreover have "dig_loop api wt f v (i + 1) acc' = Inr (acc' @ mms_values wt ts)" for acc'
    using 6 f w by (intro "6.IH"(2) [OF w(1)]) auto
  ultimately show ?case
    using 6 f w represents_type [OF w(2)] by (simp add: C_int_id)
qed (auto simp: Go_MMS_defs opaque_types_def dest!: Suc_le_D)

lemma read_values_tree:
  assumes "represents_elems api v (int i) (map Some ts)" and "int (i + length ts) \<le> INT_MAX"
    and "\<forall>t \<in> set ts. value_fuel t \<le> fuel"
  shows "read_values_loop api wt fuel v i (length ts)
    = Inr (map (\<lambda>t. GoMmsValue (MmsType_code (tree_type t)) (mms_value wt t)) ts)"
  using assms
proof (induction ts arbitrary: i)
  case (Cons t ts)
  then obtain w where w: "MmsValue_getElement api v (int i) = Some w" "represents api w t"
    "represents_elems api v (int (Suc i)) (map Some ts)"
    by (auto split: option.splits simp: add.commute)
  have "read_values_loop api wt fuel v (Suc i) (length ts)
      = Inr (map (\<lambda>t. GoMmsValue (MmsType_code (tree_type t)) (mms_value wt t)) ts)"
    using Cons.prems w(3) by (intro Cons.IH) auto
  with w represents_type [OF w(2)] resolve_tree(1) [OF w(2), of fuel wt] Cons.prems show ?case
    by (simp add: C_int_id resolve_inline)
qed simp

section \<open>Reading flat\<close>

definition primitive :: "mms_tree \<Rightarrow> bool" where
  "primitive t \<longleftrightarrow> tree_type t \<noteq> MMS_STRUCTURE \<and> tree_type t \<noteq> MMS_ARRAY"

lemma extractPrimitive_tree:
  assumes "represents api v t" and "primitive t"
  shows "extractPrimitive api False v = mms_value False t"
  using assms
  by (cases t) (auto simp: extractPrimitive_def primitive_def Go_MMS_defs opaque_types_def split: option.split)

text \<open>
  What the two ways of reading need of a leaf to agree on it: the indices fit a C \<open>int\<close>, a leaf
  that is an entry of its own is primitive, and the element of a structured entry is primitive
  or a structure of exactly one primitive.
\<close>

definition leaf_ok :: "mms_tree list \<Rightarrow> SchemaLeaf \<Rightarrow> bool" where
  "leaf_ok ts leaf \<longleftrightarrow> 0 \<le> leaf_FCDAIdx leaf \<and> leaf_FCDAIdx leaf \<le> INT_MAX \<and> leaf_DAIdx leaf \<le> INT_MAX \<and>
     (leaf_FCDAIdx leaf < int (length ts) \<longrightarrow>
        (let t = ts ! nat (leaf_FCDAIdx leaf) in
         if leaf_DAIdx leaf < 0 then primitive t
         else (case t of
             MStructure us \<Rightarrow> list_all (\<lambda>u. u \<noteq> None) us \<and>
               (leaf_DAIdx leaf < int (length us) \<longrightarrow>
                 (case us ! nat (leaf_DAIdx leaf) of
                    None \<Rightarrow> False
                  | Some u \<Rightarrow> primitive u \<or> (\<exists>w. u = MStructure [Some w] \<and> primitive w)))
           | MArray _ \<Rightarrow> False
           | _ \<Rightarrow> True)))"

text \<open>\<open>MmsValue_getElement\<close> has no element to give of a value that is no structure or array.\<close>

definition leaf_no_elements :: "'v mms_api \<Rightarrow> bool" where
  "leaf_no_elements api \<longleftrightarrow> (\<forall>v i. MmsValue_getType api v \<noteq> MmsType_code MMS_STRUCTURE \<longrightarrow>
     MmsValue_getType api v \<noteq> MmsType_code MMS_ARRAY \<longrightarrow> MmsValue_getElement api v i = None)"

lemma mms_values_all:
  "list_all (\<lambda>u. u \<noteq> None) us \<Longrightarrow>
     mms_values wt us = map (\<lambda>u. GoMmsValue (MmsType_code (tree_type (the u))) (mms_value wt (the u))) us"
  by (induction us) auto

lemma primitive_not_values: "primitive t \<Longrightarrow> mms_value wt t \<noteq> GoMmsValues vs"
  by (cases t) (auto simp: primitive_def)

lemma primitive_code:
  "primitive t \<Longrightarrow> MmsType_code (tree_type t) \<noteq> MmsType_code MMS_STRUCTURE"
  "primitive t \<Longrightarrow> MmsType_code (tree_type t) \<noteq> MmsType_code MMS_ARRAY"
  unfolding primitive_def MmsType.code_inj by simp_all

lemma read_element:
  assumes "represents api v (MStructure us)" and "list_all (\<lambda>u. u \<noteq> None) us" and "0 \<le> j" and "j \<le> INT_MAX"
  shows "j \<ge> int (length us) \<Longrightarrow> MmsValue_getElement api v (C_int j) = None"
    and "j < int (length us) \<Longrightarrow> us ! nat j = Some u \<Longrightarrow>
      \<exists>w. MmsValue_getElement api v (C_int j) = Some w \<and> represents api w u"
proof -
  have el: "represents_elems api v 0 us" and j: "C_int j = j" using assms by (simp_all add: C_int_id)
  show "j \<ge> int (length us) \<Longrightarrow> MmsValue_getElement api v (C_int j) = None"
    using represents_elems_beyond [OF el, of j] j by simp
  show "j < int (length us) \<Longrightarrow> us ! nat j = Some u \<Longrightarrow>
      \<exists>w. MmsValue_getElement api v (C_int j) = Some w \<and> represents api w u"
    using represents_elems_nth [OF el, of "nat j"] j assms(3) by (auto simp: nat_less_iff)
qed

lemma read_unwrapped:
  assumes "represents api v u" and "primitive u \<or> (\<exists>w. u = MStructure [Some w] \<and> primitive w)"
  shows "extractPrimitive api False (if MmsValue_getType api v = Go_MMS_STRUCTURE
      then (case MmsValue_getElement api v 0 of None \<Rightarrow> v | Some inner \<Rightarrow> inner) else v)
    = (case mms_value False u of GoMmsValues [inner] \<Rightarrow> Value inner | x \<Rightarrow> x)"
  using assms(2)
proof (elim disjE exE conjE)
  assume p: "primitive u"
  then have "MmsValue_getType api v \<noteq> Go_MMS_STRUCTURE"
    using represents_type [OF assms(1)] primitive_code(1) by (simp add: Go_MMS_defs)
  then show ?thesis
    using extractPrimitive_tree [OF assms(1) p] primitive_not_values [OF p, of False]
    by (simp split: go_value.split)
next
  fix w
  assume u: "u = MStructure [Some w]" and p: "primitive w"
  then obtain x where "MmsValue_getElement api v 0 = Some x" "represents api x w"
    using assms(1) by (auto split: option.splits)
  moreover have "MmsValue_getType api v = Go_MMS_STRUCTURE"
    using represents_type [OF assms(1)] u by (simp add: Go_MMS_defs)
  ultimately show ?thesis using extractPrimitive_tree [OF _ p] u by simp
qed

text \<open>A leaf that names an element of a structured entry, read from C and taken from the Go values.\<close>

lemma read_structure_leaf:
  assumes v: "represents api v (MStructure us)" and us: "list_all (\<lambda>u. u \<noteq> None) us"
    and j: "0 \<le> leaf_DAIdx leaf" "leaf_DAIdx leaf \<le> INT_MAX"
    and ok: "leaf_DAIdx leaf < int (length us) \<longrightarrow> (case us ! nat (leaf_DAIdx leaf) of None \<Rightarrow> False
      | Some u \<Rightarrow> primitive u \<or> (\<exists>w. u = MStructure [Some w] \<and> primitive w))"
    and tv: "MmsValue_getElement api tv (C_int (leaf_FCDAIdx leaf)) = Some v"
    and vals: "Value (vals ! nat (leaf_FCDAIdx leaf)) = mms_value False (MStructure us)"
      "0 \<le> leaf_FCDAIdx leaf" "leaf_FCDAIdx leaf < int (length vals)"
  shows "apply_leaf vals leaf out = Inr (read_leaf api False tv leaf out)"
proof -
  let ?j = "leaf_DAIdx leaf"
  note rd = read_element [OF v us j]
  have val: "mms_value False (MStructure us)
      = GoMmsValues (map (\<lambda>u. GoMmsValue (MmsType_code (tree_type (the u))) (mms_value False (the u))) us)"
    using us by (simp add: mms_values_all)
  show ?thesis
  proof (cases "?j < int (length us)")
    case False
    with rd(1) j tv vals val show ?thesis by (simp add: apply_leaf_def read_leaf_def)
  next
    case True
    with ok obtain u where u: "us ! nat ?j = Some u" "primitive u \<or> (\<exists>w. u = MStructure [Some w] \<and> primitive w)"
      by (auto split: option.splits)
    with rd(2) True obtain x where x: "MmsValue_getElement api v (C_int ?j) = Some x" "represents api x u"
      by blast
    have "Value (map (\<lambda>u. GoMmsValue (MmsType_code (tree_type (the u))) (mms_value False (the u))) us ! nat ?j)
        = mms_value False u"
      using True j u(1) by (simp add: nat_less_iff)
    with True tv vals val j x(1) read_unwrapped [OF x(2) u(2)] show ?thesis
      by (simp add: apply_leaf_def read_leaf_def Let_def split: go_value.split list.split)
  qed
qed

lemma read_leaf_apply:
  fixes ts
  defines "vals \<equiv> map (\<lambda>t. GoMmsValue (MmsType_code (tree_type t)) (mms_value False t)) ts"
  assumes el: "represents_elems api tv 0 (map Some ts)" and ok: "leaf_ok ts leaf" and lib: "leaf_no_elements api"
  shows "apply_leaf vals leaf out = Inr (read_leaf api False tv leaf out)"
proof -
  let ?i = "leaf_FCDAIdx leaf" and ?j = "leaf_DAIdx leaf"
  have i: "C_int ?i = ?i" "0 \<le> ?i" using ok by (simp_all add: leaf_ok_def C_int_id)
  show ?thesis
  proof (cases "?i < int (length ts)")
    case False
    then show ?thesis
      using represents_elems_beyond [OF el, of ?i] i by (simp add: apply_leaf_def read_leaf_def vals_def)
  next
    case True
    let ?t = "ts ! nat ?i"
    obtain v where v: "MmsValue_getElement api tv (C_int ?i) = Some v" "represents api v ?t"
      using represents_elems_nth [OF el, of "nat ?i"] i True by (auto simp: nat_less_iff)
    have topv: "Value (vals ! nat ?i) = mms_value False ?t" and len: "?i < int (length vals)"
      using True i by (simp_all add: vals_def nat_less_iff)
    note ok' = ok [unfolded leaf_ok_def Let_def, THEN conjunct2, THEN conjunct2, THEN conjunct2, rule_format, OF True]
    consider "primitive ?t" "?j < 0" | "primitive ?t" "0 \<le> ?j" | "\<not> primitive ?t" "0 \<le> ?j" using ok' by fastforce
    then show ?thesis
    proof cases
      case 1
      with v topv len i extractPrimitive_tree [OF v(2)] show ?thesis by (simp add: apply_leaf_def read_leaf_def)
    next
      case 2
      have "MmsValue_getElement api v (C_int ?j) = None"
        using lib represents_type [OF v(2)] primitive_code [OF 2(1)] by (simp add: leaf_no_elements_def)
      with v topv len i 2 primitive_not_values [OF 2(1), of False] show ?thesis
        by (simp add: apply_leaf_def read_leaf_def split: go_value.split)
    next
      case 3
      with ok' obtain us where us: "?t = MStructure us" "list_all (\<lambda>u. u \<noteq> None) us"
        "?j < int (length us) \<longrightarrow> (case us ! nat ?j of None \<Rightarrow> False
           | Some u \<Rightarrow> primitive u \<or> (\<exists>w. u = MStructure [Some w] \<and> primitive w))"
        by (cases ?t) (use v(2) in \<open>auto simp: primitive_def opaque_types_def\<close>)
      have "?j \<le> INT_MAX" using ok by (simp add: leaf_ok_def)
      with 3(2) us(2,3) v(1) i(2) len show ?thesis
        by (intro read_structure_leaf [OF v(2) [unfolded us(1)]]) (use topv us(1) in simp_all)
    qed
  qed
qed

lemma read_leaves_apply:
  assumes "represents_elems api tv 0 (map Some ts)" and "\<forall>leaf \<in> set leaves. leaf_ok ts leaf"
    and "leaf_no_elements api"
  shows "apply_leaves leaves (map (\<lambda>t. GoMmsValue (MmsType_code (tree_type t)) (mms_value False t)) ts) out
    = Inr (fold (read_leaf api False tv) leaves out)"
  using assms(2)
  by (induction leaves arbitrary: out) (simp_all add: read_leaf_apply [OF assms(1) _ assms(3)])

section \<open>Properties\<close>

text \<open>
  C28: the optimised conversion (\<open>resolveValueInline\<close>, \<open>digIntoStructureOptimized\<close>) computes
  what the plain one does, on every value of every library, and keeps the type of its target.
\<close>

theorem inline_is_plain:
  "resolveValueInline api wt fuel target v t
     = and_then (resolveValue api wt fuel v t) (\<lambda>x. Inr (GoMmsValue (Type target) x))
   \<and> digIntoStructureOptimized api wt fuel v t = digIntoStructure api wt fuel v t"
  by (intro conjI resolve_inline)


definition sample_set :: "mms_tree list" where
  "sample_set = [MStructure [Some (MStructure [Some (MFloat 50)]), Some (MBitString 3), Some (MUtcTime 9)],
     MBool True]"

definition tree_data_set :: "(mms_tree, mms_tree) dataset_api" where
  "tree_data_set = \<lparr>IedConnection_readDataSetValues = (\<lambda>_. (0, MArray (map Some sample_set))),
     ClientDataSet_getValues = (\<lambda>d. d), ClientDataSet_getDataSetSize = (\<lambda>_. 2)\<rparr>"

lemma sample_set_represented: "represents_elems tree_api (MArray (map Some sample_set)) 0 (map Some sample_set)"
  by (auto simp: sample_set_def tree_api_simps nth_Cons')

lemma tree_leaf_no_elements: "leaf_no_elements tree_api"
  unfolding leaf_no_elements_def
proof (intro allI impI)
  fix v i
  assume "MmsValue_getType tree_api v \<noteq> MmsType_code MMS_STRUCTURE"
    and "MmsValue_getType tree_api v \<noteq> MmsType_code MMS_ARRAY"
  then show "MmsValue_getElement tree_api v i = None" by (cases v) (auto simp: tree_api_def)
qed



definition sample_schema :: DataSetSchema where
  "sample_schema = \<lparr>Leaves = [
      \<lparr>leaf_Path = ''Hz.mag'', leaf_FCDAIdx = 0, leaf_DAIdx = 0\<rparr>,
      \<lparr>leaf_Path = ''Hz.q'', leaf_FCDAIdx = 0, leaf_DAIdx = 1\<rparr>,
      \<lparr>leaf_Path = ''Ind'', leaf_FCDAIdx = 1, leaf_DAIdx = -1\<rparr>], FCDACount = 2\<rparr>"


text \<open>
  On a structure of several elements the two differ: \<open>ReadDataSetFlat\<close>, whose comment
  says it unwraps single-element structures, files the first element of any structure, where the
  schema files the whole structure.
\<close>

theorem flat_takes_first_of_many:
  "\<exists>api v leaf. v = MArray [Some (MStructure [Some (MStructure [Some (MFloat 1), Some (MInteger 2)])])] \<and>
     leaf = \<lparr>leaf_Path = ''p'', leaf_FCDAIdx = 0, leaf_DAIdx = 0\<rparr> \<and> api = tree_api \<and>
     read_leaf api False v leaf Map.empty = [''p'' \<mapsto> GoFloat64 1] \<and>
     apply_leaf (mms_values False (tree_elems v)) leaf Map.empty
       = Inr [''p'' \<mapsto> GoMmsValues [GoMmsValue 6 (GoFloat64 1), GoMmsValue 4 (GoInt64 2)]]"
proof -
  let ?s = "MStructure [Some (MFloat 1), Some (MInteger 2)]"
  let ?leaf = "\<lparr>leaf_Path = ''p'', leaf_FCDAIdx = 0, leaf_DAIdx = 0\<rparr>"
  have "C_int 0 = 0" by (simp add: C_int_def)
  then have "read_leaf tree_api False (MArray [Some (MStructure [Some ?s])]) ?leaf Map.empty = [''p'' \<mapsto> GoFloat64 1]"
    by (simp add: read_leaf_def tree_api_def Go_MMS_defs extractPrimitive_def Let_def)
  moreover have "apply_leaf (mms_values False [Some (MStructure [Some ?s])]) ?leaf Map.empty
      = Inr [''p'' \<mapsto> GoMmsValues [GoMmsValue 6 (GoFloat64 1), GoMmsValue 4 (GoInt64 2)]]"
    by (simp add: apply_leaf_def)
  ultimately show ?thesis by simp
qed


section \<open>Types of the values\<close>

text \<open>
  The dynamic Go type a value of an MMS type gets, down to the elements of structures: an array has
  no elements, and with time stamps left out bit strings and times are the \<open>int\<close> 0.
\<close>

fun go_typed :: "bool \<Rightarrow> int \<Rightarrow> go_value \<Rightarrow> bool" where
  "go_typed wt t (GoBool _) \<longleftrightarrow> t = Go_MMS_BOOLEAN"
| "go_typed wt t (GoFloat64 _) \<longleftrightarrow> t = Go_MMS_FLOAT"
| "go_typed wt t (GoInt64 _) \<longleftrightarrow> t = Go_MMS_INTEGER \<or> t = Go_MMS_UNSIGNED"
| "go_typed wt t (GoString _) \<longleftrightarrow> t = Go_MMS_STRING \<or> t = Go_MMS_VISIBLE_STRING"
| "go_typed wt t (GoUint32 _) \<longleftrightarrow> \<not> wt \<and> (t = Go_MMS_BIT_STRING \<or> t = Go_MMS_UTC_TIME)"
| "go_typed wt t (GoInt n) \<longleftrightarrow> wt \<and> n = 0 \<and> (t = Go_MMS_BIT_STRING \<or> t = Go_MMS_UTC_TIME)"
| "go_typed wt t (GoMmsValues vs) \<longleftrightarrow>
     t = Go_MMS_STRUCTURE \<and> list_all (\<lambda>x. case x of GoMmsValue u v \<Rightarrow> go_typed wt u v) vs \<or>
     t = Go_MMS_ARRAY \<and> vs = []"
| "go_typed wt t (GoSlice _) \<longleftrightarrow> False"
| "go_typed wt t GoNil \<longleftrightarrow> t \<notin> {Go_MMS_BOOLEAN, Go_MMS_FLOAT, Go_MMS_INTEGER, Go_MMS_UNSIGNED,
     Go_MMS_STRING, Go_MMS_VISIBLE_STRING, Go_MMS_STRUCTURE, Go_MMS_ARRAY, Go_MMS_BIT_STRING, Go_MMS_UTC_TIME}"

abbreviation typed_value :: "bool \<Rightarrow> GoMmsValue \<Rightarrow> bool" where
  "typed_value wt x \<equiv> (case x of GoMmsValue t v \<Rightarrow> go_typed wt t v)"

lemma resolve_typed:
  "resolveValue api wt fuel v t = Inr x \<Longrightarrow> go_typed wt t x"
  "digIntoStructure api wt fuel v t = Inr xs \<Longrightarrow>
     list_all (typed_value wt) xs \<and> (t \<noteq> Go_MMS_STRUCTURE \<longrightarrow> xs = [])"
  "dig_loop api wt fuel v i acc = Inr xs \<Longrightarrow> list_all (typed_value wt) acc \<Longrightarrow> list_all (typed_value wt) xs"
proof (induction api wt fuel v t and api wt fuel v t and api wt fuel v i acc
    arbitrary: x and xs and xs rule: resolveValue_digIntoStructure_dig_loop.induct)
  case (2 api wt fuel v t)
  have ne: "Go_MMS_STRUCTURE \<noteq> Go_MMS_ARRAY"
    "Go_MMS_STRUCTURE \<notin> {Go_MMS_BOOLEAN, Go_MMS_FLOAT, Go_MMS_INTEGER, Go_MMS_UNSIGNED, Go_MMS_STRING,
      Go_MMS_VISIBLE_STRING}"
    "Go_MMS_ARRAY \<notin> {Go_MMS_BOOLEAN, Go_MMS_FLOAT, Go_MMS_INTEGER, Go_MMS_UNSIGNED, Go_MMS_STRING,
      Go_MMS_VISIBLE_STRING}"
    by (simp_all add: Go_MMS_defs)
  have "digIntoStructure api wt fuel v t = Inr xs \<Longrightarrow> t = Go_MMS_STRUCTURE \<or> t = Go_MMS_ARRAY \<Longrightarrow>
      list_all (typed_value wt) xs \<and> (t \<noteq> Go_MMS_STRUCTURE \<longrightarrow> xs = [])" for xs
    using "2.IH"(1) [of xs] "2.IH"(2) [of xs] ne by blast
  then have dig: "and_then (digIntoStructure api wt fuel v t) (\<lambda>vs. Inr (GoMmsValues vs)) = Inr x \<Longrightarrow>
      t = Go_MMS_STRUCTURE \<or> t = Go_MMS_ARRAY \<Longrightarrow> go_typed wt t x"
    unfolding and_then_Inr_iff by force
  have dig': "and_then (digIntoStructure api wt fuel v u) (\<lambda>vs. Inr (GoMmsValues vs)) = Inr x \<Longrightarrow>
      t = u \<Longrightarrow> u = Go_MMS_STRUCTURE \<or> u = Go_MMS_ARRAY \<Longrightarrow> go_typed wt u x" for u
    using dig by blast
  from "2.prems" show ?case
    unfolding resolveValue.simps by (auto split: if_split_asm simp del: digIntoStructure.simps intro: dig')
next
  case (5 api wt fuel mms index acc)
  then show ?case by (auto simp: Let_def and_then_Inr_iff split: option.splits)
qed (auto split: if_splits)

lemma read_values_typed:
  "read_values_loop api wt fuel vals i n = Inr xs \<Longrightarrow> list_all (typed_value wt) xs"
proof (induction n arbitrary: i xs)
  case (Suc n)
  then show ?case
    by (auto simp: Let_def and_then_Inr_iff resolve_inline split: option.splits dest: resolve_typed(1))
qed simp

text \<open>
  C22: whatever the library answers, every value \<open>ReadDataSetValues\<close> returns has the Go type that
  belongs to the MMS type it is returned with, and so have the elements of structures at every depth.
\<close>

theorem read_values_have_types:
  assumes "ReadDataSetValues api dsapi wt fuel ref = Inr (Inr vs)"
  shows "list_all (\<lambda>x. case x of GoMmsValue t v \<Rightarrow> go_typed wt t v) vs"
  using assms read_values_typed [of api wt fuel _ 0]
  by (auto simp: ReadDataSetValues_def Let_def and_then_Inr_iff split: prod.splits if_splits)

theorem read_values_have_types_witness:
  "\<exists>vs. ReadDataSetValues tree_api tree_data_set False 5 ''LD/LLN0.ds'' = Inr (Inr vs) \<and> vs \<noteq> [] \<and>
     list_all (\<lambda>x. case x of GoMmsValue t v \<Rightarrow> go_typed False t v) vs"
proof -
  have "read_values_loop tree_api False 5 (MArray (map Some sample_set)) 0 (length sample_set)
      = Inr (map (\<lambda>t. GoMmsValue (MmsType_code (tree_type t)) (mms_value False t)) sample_set)"
    by (rule read_values_tree) (use sample_set_represented in simp, simp_all add: sample_set_def INT_MAX_def)
  moreover have "length sample_set = 2" and "sample_set \<noteq> []" by (simp_all add: sample_set_def)
  ultimately have "ReadDataSetValues tree_api tree_data_set False 5 ''LD/LLN0.ds''
      = Inr (Inr (map (\<lambda>t. GoMmsValue (MmsType_code (tree_type t)) (mms_value False t)) sample_set))"
    by (simp add: ReadDataSetValues_def tree_data_set_def)
  with read_values_have_types [OF this] \<open>sample_set \<noteq> []\<close> show ?thesis by blast
qed

end
