(* ===== verification/Dataset_Memory.thy ===== *)
theory Dataset_Memory
  imports Dataset_Read C_Usage
begin

text \<open>
  The C objects of reading a data set (\<open>iec61850_client.go\<close>): the string made of the reference and
  the \<open>ClientDataSet\<close> the library hands out, with the deferred calls that give them back. The two
  operations of \<open>Dataset_Read\<close> again, over a record of the calls they make; their results are those
  of the definitions there. The values of a data set live in it, so every access to them uses it.
\<close>

section \<open>Calls\<close>

datatype ('d, 'p) dataset_call =
    DsCString string 'p
  | DsFree 'p
  | DsRead 'p int 'd
  | DsGetValues 'd
  | DsGetSize 'd int
  | DsReadElements 'd
  | DsDestroy 'd

record ('d, 'p, 'v) dataset_lib =
  dl_CString :: "('d, 'p) dataset_call list \<Rightarrow> string \<Rightarrow> 'p"
  dl_read :: "('d, 'p) dataset_call list \<Rightarrow> string \<Rightarrow> int \<times> 'd"
  dl_values :: "('d, 'p) dataset_call list \<Rightarrow> 'd \<Rightarrow> 'v"
  dl_size :: "('d, 'p) dataset_call list \<Rightarrow> 'd \<Rightarrow> int"

text \<open>
  What both operations share: the string, the request, the early return on an error, and the
  deferred calls in their order, which are also made when the body panics. (After a fault in C the
  process is gone and what follows the fault in the record does not matter.)
\<close>

definition with_data_set :: "('d, 'p, 'v) dataset_lib \<Rightarrow> string \<Rightarrow> (int \<Rightarrow> 'r) \<Rightarrow>
    ('d \<Rightarrow> ('d, 'p) dataset_call list \<Rightarrow> 'r \<times> ('d, 'p) dataset_call list) \<Rightarrow>
    ('d, 'p) dataset_call list \<Rightarrow> 'r \<times> ('d, 'p) dataset_call list" where
  "with_data_set lib ref failed body calls =
     (let cRef = dl_CString lib calls ref;
          calls = calls @ [DsCString ref cRef];
          (clientError, clientDataSet) = dl_read lib calls ref;
          calls = calls @ [DsRead cRef clientError clientDataSet] in
      if clientError \<noteq> IedClientError_code IED_ERROR_OK then (failed clientError, calls @ [DsFree cRef])
      else let (r, calls) = body clientDataSet calls in
        (r, calls @ [DsDestroy clientDataSet, DsFree cRef]))"

definition ReadDataSetValues_calls :: "('d, 'p, 'v) dataset_lib \<Rightarrow> 'v mms_api \<Rightarrow> bool \<Rightarrow> nat \<Rightarrow> string \<Rightarrow>
    ('d, 'p) dataset_call list \<Rightarrow> (c_fault + (string + GoMmsValue list)) \<times> ('d, 'p) dataset_call list" where
  "ReadDataSetValues_calls lib api withoutTimestamps fuel ref = with_data_set lib ref
     (\<lambda>clientError. Inr (Inl (''failed to read dataset values, error code: '' @ Err clientError)))
     (\<lambda>d calls.
        let vals = dl_values lib calls d; calls = calls @ [DsGetValues d];
            sz = dl_size lib calls d; calls = calls @ [DsGetSize d sz] in
        if sz < 0 then (Inl BadIndex, calls)
        else (and_then (read_values_loop api withoutTimestamps fuel vals 0 (nat sz)) (\<lambda>vs. Inr (Inr vs)),
          calls @ (if sz > 0 then [DsReadElements d] else [])))"

definition ReadDataSetFlat_calls :: "('d, 'p, 'v) dataset_lib \<Rightarrow> 'v mms_api \<Rightarrow> bool \<Rightarrow> string \<Rightarrow>
    DataSetSchema \<Rightarrow> (string \<rightharpoonup> go_value) \<Rightarrow> ('d, 'p) dataset_call list \<Rightarrow>
    (string option \<times> (string \<rightharpoonup> go_value)) \<times> ('d, 'p) dataset_call list" where
  "ReadDataSetFlat_calls lib api withoutTimestamps ref schema out = with_data_set lib ref
     (\<lambda>clientError. (Some (''failed to read dataset '' @ ref @ '': '' @ Err clientError), out))
     (\<lambda>d calls.
        let topValues = dl_values lib calls d; calls = calls @ [DsGetValues d] in
        ((None, fold (read_leaf api withoutTimestamps topValues) (Leaves schema) out),
          calls @ (if Leaves schema \<noteq> [] then [DsReadElements d] else [])))"

section \<open>The results\<close>

text \<open>The answers the library gives to one operation, after the calls made before it.\<close>

definition answers :: "('d, 'p, 'v) dataset_lib \<Rightarrow> ('d, 'p) dataset_call list \<Rightarrow> string \<Rightarrow>
    ('d, 'v) dataset_api" where
  "answers lib calls ref =
     (let p = dl_CString lib calls ref; read = calls @ [DsCString ref p] in
      \<lparr>IedConnection_readDataSetValues = dl_read lib read,
       ClientDataSet_getValues = (\<lambda>d. dl_values lib (read @ [DsRead p 0 d]) d),
       ClientDataSet_getDataSetSize = (\<lambda>d. dl_size lib (read @ [DsRead p 0 d, DsGetValues d]) d)\<rparr>)"

lemma ReadDataSetValues_calls_result:
  "fst (ReadDataSetValues_calls lib api wt fuel ref calls) = ReadDataSetValues api (answers lib calls ref) wt fuel ref"
  by (simp add: ReadDataSetValues_calls_def with_data_set_def ReadDataSetValues_def answers_def Let_def
      split: prod.split)

lemma ReadDataSetFlat_calls_result:
  "fst (ReadDataSetFlat_calls lib api wt ref schema out calls)
     = ReadDataSetFlat api (answers lib calls ref) wt ref schema out"
  by (simp add: ReadDataSetFlat_calls_def with_data_set_def ReadDataSetFlat_def answers_def Let_def
      split: prod.split)

section \<open>Ownership\<close>

text \<open>With an error the library hands out no data set.\<close>

datatype ('d, 'p) dataset_object = Str 'p | DSet 'd

fun dataset_acquired :: "('d, 'p) dataset_call \<Rightarrow> ('d, 'p) dataset_object option" where
  "dataset_acquired (DsCString _ p) = Some (Str p)"
| "dataset_acquired (DsRead _ e d) = (if e = IedClientError_code IED_ERROR_OK then Some (DSet d) else None)"
| "dataset_acquired _ = None"

fun dataset_released :: "('d, 'p) dataset_call \<Rightarrow> ('d, 'p) dataset_object option" where
  "dataset_released (DsFree p) = Some (Str p)"
| "dataset_released (DsDestroy d) = Some (DSet d)"
| "dataset_released _ = None"

fun dataset_uses :: "('d, 'p) dataset_call \<Rightarrow> ('d, 'p) dataset_object list" where
  "dataset_uses (DsFree p) = [Str p]"
| "dataset_uses (DsRead p _ _) = [Str p]"
| "dataset_uses (DsGetValues d) = [DSet d]"
| "dataset_uses (DsGetSize d _) = [DSet d]"
| "dataset_uses (DsReadElements d) = [DSet d]"
| "dataset_uses (DsDestroy d) = [DSet d]"
| "dataset_uses _ = []"

fun_cases dataset_acquiredE: "dataset_acquired c = Some r" and dataset_releasedE: "dataset_released c = Some r"

interpretation dsets: c_usage dataset_acquired dataset_released dataset_uses
  by unfold_locales (auto elim!: dataset_acquiredE dataset_releasedE)

text \<open>A body that only looks at its data set leaves nothing behind.\<close>

lemma with_data_set_safe:
  assumes "\<And>d calls. \<exists>cs. snd (body d calls) = calls @ cs \<and>
      set cs \<subseteq> {c. dsets.neutral c \<and> dataset_uses c = [DSet d]}"
    and "dsets.safe {#} calls = Some {#}"
  shows "dsets.safe {#} (snd (with_data_set lib ref failed body calls)) = Some {#}"
proof -
  let ?p = "dl_CString lib calls ref"
  let ?calls = "calls @ [DsCString ref ?p]"
  obtain e d where read: "dl_read lib ?calls ref = (e, d)" by fastforce
  obtain cs where body: "snd (body d (?calls @ [DsRead ?p e d])) = ?calls @ [DsRead ?p e d] @ cs"
    and cs: "set cs \<subseteq> {c. dsets.neutral c \<and> dataset_uses c = [DSet d]}"
    using assms(1) [of d "?calls @ [DsRead ?p e d]"] by auto
  have "dsets.safe {#DSet d, Str ?p#} cs = Some {#DSet d, Str ?p#}"
    using cs by (intro dsets.safe_neutral) auto
  with read body assms(2) show ?thesis
    by (cases "e = 0") (simp_all add: with_data_set_def dsets.safe_append case_prod_beta Let_def)
qed

section \<open>Sessions\<close>

datatype dataset_op = OpReadDataSetValues string | OpReadDataSetFlat string DataSetSchema "string \<rightharpoonup> go_value"

fun dataset_step :: "('d, 'p, 'v) dataset_lib \<Rightarrow> 'v mms_api \<Rightarrow> bool \<Rightarrow> nat \<Rightarrow> dataset_op \<Rightarrow>
    ('d, 'p) dataset_call list \<Rightarrow> ('d, 'p) dataset_call list" where
  "dataset_step lib api wt fuel (OpReadDataSetValues ref) calls =
     snd (ReadDataSetValues_calls lib api wt fuel ref calls)"
| "dataset_step lib api wt fuel (OpReadDataSetFlat ref schema out) calls =
     snd (ReadDataSetFlat_calls lib api wt ref schema out calls)"

lemma dataset_step_safe:
  assumes "dsets.safe {#} calls = Some {#}"
  shows "dsets.safe {#} (dataset_step lib api wt fuel op calls) = Some {#}"
  by (cases op) (auto simp: ReadDataSetValues_calls_def ReadDataSetFlat_calls_def Let_def dsets.neutral_def
      intro!: with_data_set_safe assms)

section \<open>Properties\<close>

text \<open>
  C17: over every sequence of reads, whatever the library answers, also when the request fails or a
  size makes the code panic: each string and each data set is given back exactly once, and the values of
  a data set are only looked at before that. At every point the results are those of
  \<open>ReadDataSetValues\<close> and \<open>ReadDataSetFlat\<close> on what the library answers then.
\<close>

theorem data_sets_given_back:
  "safe_run dataset_acquired dataset_released dataset_uses {#}
      (fold (dataset_step lib api wt fuel) ops []) = Some {#}
   \<and> (let calls = fold (dataset_step lib api wt fuel) ops [] in
      fst (ReadDataSetValues_calls lib api wt fuel ref calls)
        = ReadDataSetValues api (answers lib calls ref) wt fuel ref
      \<and> fst (ReadDataSetFlat_calls lib api wt ref schema out calls)
        = ReadDataSetFlat api (answers lib calls ref) wt ref schema out)"
proof -
  have "dsets.safe {#} (fold (dataset_step lib api wt fuel) ops calls) = Some {#}"
    if "dsets.safe {#} calls = Some {#}" for calls
    using that by (induction ops arbitrary: calls) (simp_all add: dataset_step_safe)
  from this [of "[]"] show ?thesis
    by (simp add: ReadDataSetValues_calls_result ReadDataSetFlat_calls_result Let_def)
qed

end
