(* ===== verification/Go_Xml.thy ===== *)
theory Go_Xml
  imports Iec_Prelude
begin

text \<open>
  The part of Go's \<open>encoding/xml\<close> and \<open>strconv\<close> that reading an SCL document rests on. A document is
  a tree; names are local names, since the struct tags of the program name no space. Splitting the
  text of a file into such a tree is left to a parameter.
\<close>

section \<open>Trees\<close>

datatype xml_node =
    Text string
  | Elem string "(string \<times> string) list" "xml_node list"

text \<open>
  A field tagged \<open>"nm,attr"\<close> is set by every attribute of that name in turn, so that the last one
  counts, and keeps its value if there is none. A field tagged \<open>",chardata"\<close> gets the text directly
  inside the element.
\<close>

definition attr_value :: "string \<Rightarrow> (string \<times> string) list \<Rightarrow> string \<Rightarrow> string" where
  "attr_value nm attrs old = fold (\<lambda>(n, v) x. if n = nm then v else x) attrs old"

fun chardata :: "xml_node list \<Rightarrow> string" where
  "chardata [] = []"
| "chardata (Text s # ns) = s @ chardata ns"
| "chardata (Elem n as ks # ns) = chardata ns"

text \<open>
  A field tagged with the name of an element is decoded from each child of that name, in document
  order; a slice gets one element for each, a struct is decoded into again.
\<close>

type_synonym element = "(string \<times> string) list \<times> xml_node list"

fun elements :: "string \<Rightarrow> xml_node list \<Rightarrow> element list" where
  "elements nm [] = []"
| "elements nm (Text s # ns) = elements nm ns"
| "elements nm (Elem n as ks # ns) = (if n = nm then (as, ks) # elements nm ns else elements nm ns)"

lemma elements_append [simp]: "elements nm (xs @ ys) = elements nm xs @ elements nm ys"
  by (induction xs rule: elements.induct [of _ nm]) auto

lemma elements_map_Elem [simp]:
  "elements nm (map (\<lambda>x. Elem n (f x) (g x)) xs) = (if n = nm then map (\<lambda>x. (f x, g x)) xs else [])"
  by (induction xs) auto

lemma chardata_append [simp]: "chardata (xs @ ys) = chardata xs @ chardata ys"
  by (induction xs rule: chardata.induct) auto

lemma elements_size [termination_simp]:
  "(as, ks) \<in> set (elements nm ns) \<Longrightarrow> size_list size ks < size_list size ns"
  by (induction nm ns rule: elements.induct) (auto split: if_splits)

lemma attr_value_simps [simp]:
  "attr_value nm [] old = old"
  "attr_value nm ((n, v) # attrs) old = attr_value nm attrs (if n = nm then v else old)"
  by (simp_all add: attr_value_def)

section \<open>Errors\<close>

text \<open>Decoding a list of elements stops at the first error.\<close>

fun traverse :: "('a \<Rightarrow> 'e + 'b) \<Rightarrow> 'a list \<Rightarrow> 'e + 'b list" where
  "traverse f [] = Inr []"
| "traverse f (x # xs) = and_then (f x) (\<lambda>y. and_then (traverse f xs) (\<lambda>ys. Inr (y # ys)))"

lemma traverse_cong [fundef_cong]:
  "xs = ys \<Longrightarrow> (\<And>x. x \<in> set ys \<Longrightarrow> f x = g x) \<Longrightarrow> traverse f xs = traverse g ys"
  by (induction xs arbitrary: ys) auto

lemma traverse_Inr: "(\<And>x. x \<in> set xs \<Longrightarrow> f x = Inr (g x)) \<Longrightarrow> traverse f xs = Inr (map g xs)"
  by (induction xs) auto

lemma traverse_map: "traverse f (map g xs) = traverse (\<lambda>x. f (g x)) xs"
  by (induction xs) auto

lemma traverse_fails_iff: "(\<exists>e. traverse f xs = Inl e) \<longleftrightarrow> (\<exists>x \<in> set xs. \<exists>e. f x = Inl e)"
proof (induction xs)
  case (Cons x xs)
  then show ?case by (cases "f x"; cases "traverse f xs") auto
qed simp

lemma traverse_Inr_iff: "traverse f xs = Inr ys \<longleftrightarrow> map f xs = map Inr ys"
proof (induction xs arbitrary: ys)
  case (Cons x xs)
  then show ?case by (cases ys) (auto simp: and_then_Inr_iff)
qed auto

lemma traverse_set: "traverse f xs = Inr ys \<Longrightarrow> y \<in> set ys \<Longrightarrow> \<exists>x \<in> set xs. f x = Inr y"
  by (induction xs arbitrary: ys) (auto simp: and_then_Inr_iff)

section \<open>Numbers\<close>

text \<open>
  \<open>strings.TrimSpace\<close> on ASCII text and \<open>strconv.ParseInt\<close> in base 10. The loop of \<open>ParseUint\<close>
  refuses a character before it looks at the overflow of the number read so far.
\<close>

definition is_space :: "char \<Rightarrow> bool" where
  "is_space c \<longleftrightarrow> of_char c \<in> {9, 10, 11, 12, 13, 32 :: nat}"

definition TrimSpace :: "string \<Rightarrow> string" where
  "TrimSpace s = rev (dropWhile is_space (rev (dropWhile is_space s)))"

datatype num_error = ErrSyntax | ErrRange

definition is_digit :: "char \<Rightarrow> bool" where
  "is_digit c \<longleftrightarrow> 48 \<le> (of_char c :: nat) \<and> (of_char c :: nat) \<le> 57"

fun uint_loop :: "nat \<Rightarrow> string \<Rightarrow> num_error + nat" where
  "uint_loop n [] = Inr n"
| "uint_loop n (c # cs) =
     (if \<not> is_digit c then Inl ErrSyntax
      else if 2 ^ 64 \<le> 10 * n + (of_char c - 48) then Inl ErrRange
      else uint_loop (10 * n + (of_char c - 48)) cs)"

definition ParseUint :: "string \<Rightarrow> num_error + nat" where
  "ParseUint s = (if s = [] then Inl ErrSyntax else uint_loop 0 s)"

definition parse_int :: "string \<Rightarrow> num_error + int" where
  "parse_int s0 =
     (if s0 = [] then Inl ErrSyntax
      else
        let neg = (hd s0 = CHR ''-'');
            s = (if hd s0 = CHR ''+'' \<or> hd s0 = CHR ''-'' then tl s0 else s0) in
        and_then (ParseUint s) (\<lambda>un.
          if \<not> neg \<and> 2 ^ 63 \<le> un then Inl ErrRange
          else if neg \<and> 2 ^ 63 < un then Inl ErrRange
          else Inr (if neg then - int un else int un)))"

definition num_error_text :: "num_error \<Rightarrow> string" where
  "num_error_text e = (case e of ErrSyntax \<Rightarrow> ''invalid syntax'' | ErrRange \<Rightarrow> ''value out of range'')"

definition ParseInt :: "string \<Rightarrow> string + int" where
  "ParseInt s = (case parse_int s of
      Inr i \<Rightarrow> Inr i
    | Inl e \<Rightarrow> Inl (''strconv.ParseInt: parsing '' @ Quote s @ '': '' @ num_error_text e))"

text \<open>
  Which numbers are refused: the text is an optional sign and at least one digit, and the number
  fits 64 bits.
\<close>

definition int64_text :: "string \<Rightarrow> bool" where
  "int64_text s \<longleftrightarrow>
     (let neg = (s \<noteq> [] \<and> hd s = CHR ''-'');
          ds = (if s \<noteq> [] \<and> (hd s = CHR ''+'' \<or> hd s = CHR ''-'') then tl s else s) in
      ds \<noteq> [] \<and> list_all is_digit ds \<and>
      (if neg then digits_value 0 ds \<le> 2 ^ 63 else digits_value 0 ds < 2 ^ 63))"

lemma digits_value_mono: "a \<le> digits_value a cs"
proof (induction cs arbitrary: a)
  case (Cons c cs)
  have "10 * a + (of_char c - 48) \<le> digits_value (10 * a + (of_char c - 48)) cs" by (rule Cons.IH)
  then show ?case by simp
qed simp

lemma uint_loop_Inr_iff:
  "n < 2 ^ 64 \<Longrightarrow> uint_loop n cs = Inr m \<longleftrightarrow>
     list_all is_digit cs \<and> m = digits_value n cs \<and> digits_value n cs < 2 ^ 64"
proof (induction cs arbitrary: n)
  case (Cons c cs)
  have "10 * n + (of_char c - 48) \<le> digits_value (10 * n + (of_char c - 48)) cs"
    by (rule digits_value_mono)
  with Cons show ?case by auto
qed auto

lemma ParseUint_Inr_iff:
  "ParseUint s = Inr n \<longleftrightarrow> s \<noteq> [] \<and> list_all is_digit s \<and> n = digits_value 0 s \<and> digits_value 0 s < 2 ^ 64"
  by (simp add: ParseUint_def uint_loop_Inr_iff)

lemma parse_int_Inr_iff:
  "parse_int s = Inr i \<longleftrightarrow> int64_text s \<and>
     i = (if hd s = CHR ''-'' then - int (digits_value 0 (tl s))
          else if hd s = CHR ''+'' then int (digits_value 0 (tl s)) else int (digits_value 0 s))"
proof (cases "s = []")
  case True
  then show ?thesis by (simp add: parse_int_def int64_text_def)
next
  case False
  then show ?thesis
    by (auto simp: parse_int_def int64_text_def ParseUint_Inr_iff and_then_Inr_iff Let_def
        simp del: digits_value.simps)
qed

lemma ParseInt_fails_iff: "(\<exists>e. ParseInt s = Inl e) \<longleftrightarrow> \<not> int64_text s"
proof (cases "parse_int s")
  case (Inl e)
  then have "\<not> int64_text s" using parse_int_Inr_iff [of s] by auto
  with Inl show ?thesis by (simp add: ParseInt_def)
next
  case (Inr i)
  then show ?thesis using parse_int_Inr_iff [of s i] by (simp add: ParseInt_def)
qed

lemma nat_digits_digits: "list_all is_digit (nat_digits n)"
  using nat_digits_chars by (auto simp: list_all_iff is_digit_def)

lemma nat_digits_not_Nil: "nat_digits n \<noteq> []"
  by (subst nat_digits.simps) simp

lemma nat_digits_hd: "hd (nat_digits n) \<noteq> CHR ''-'' \<and> hd (nat_digits n) \<noteq> CHR ''+''"
proof -
  have "48 \<le> (of_char (hd (nat_digits n)) :: nat)"
    using nat_digits_chars hd_in_set [OF nat_digits_not_Nil] by blast
  then show ?thesis by auto
qed

lemma ParseInt_Itoa:
  assumes "- (2 ^ 63) \<le> i" and "i < 2 ^ 63"
  shows "ParseInt (Itoa i) = Inr i"
proof -
  have "parse_int (Itoa i) = Inr i"
  proof (cases "i < 0")
    case True
    with assms show ?thesis
      by (auto simp: Itoa_def parse_int_Inr_iff int64_text_def nat_digits_not_Nil nat_digits_digits
          digits_value_nat_digits nat_le_iff)
  next
    case False
    with assms nat_digits_hd [of "nat i"] show ?thesis
      by (auto simp: Itoa_def parse_int_Inr_iff int64_text_def nat_digits_not_Nil nat_digits_digits
          digits_value_nat_digits nat_less_iff Let_def)
  qed
  then show ?thesis by (simp add: ParseInt_def)
qed

lemma dropWhile_none: "\<forall>x \<in> set xs. \<not> P x \<Longrightarrow> dropWhile P xs = xs"
  by (cases xs) auto

lemma TrimSpace_id: "\<forall>c \<in> set s. \<not> is_space c \<Longrightarrow> TrimSpace s = s"
  using dropWhile_none [of s is_space] dropWhile_none [of "rev s" is_space] by (simp add: TrimSpace_def)

lemma Itoa_no_space: "c \<in> set (Itoa i) \<Longrightarrow> \<not> is_space c"
  using nat_digits_chars [of c "nat i"] nat_digits_chars [of c "nat (- i)"]
  by (auto simp: Itoa_def is_space_def split: if_splits)


lemma ParseInt_range:
  assumes "ParseInt s = Inr i"
  shows "- (2 ^ 63) \<le> i \<and> i < 2 ^ 63"
proof -
  from assms have "parse_int s = Inr i" by (simp add: ParseInt_def split: sum.splits)
  then show ?thesis
    by (cases "s = []") (auto simp: parse_int_Inr_iff int64_text_def Let_def simp del: digits_value.simps)
qed

end
