(* ===== verification/Scl_Parse.thy ===== *)
theory Scl_Parse
  imports Scl_Xml Go_Xml
begin

text \<open>
  Reading an SCL document (\<open>scl_xml/scl.go\<close>): \<open>xml.Unmarshal\<close> into the structs, driven by their tags,
  and the two functions that read one. Each decoder takes the element's attributes and children; for
  a struct that is a field it also takes the value the field has, since several elements of that name
  are decoded into the same struct. The only field whose decoding can fail is the integer of an
  enumeration value. A field of type \<open>interface{}\<close> (\<open>Val\<close> of \<open>DA\<close> and \<open>BDA\<close>) is skipped by
  \<open>encoding/xml\<close> and stays nil.
\<close>

section \<open>Decoding\<close>

definition zero_Val :: Val where "zero_Val = \<lparr>val_Value = []\<rparr>"

definition decode_Val :: "Val \<Rightarrow> element \<Rightarrow> Val" where
  "decode_Val old e = old\<lparr>val_Value := chardata (snd e)\<rparr>"

function (sequential) decode_DAI :: "element \<Rightarrow> DAI" and decode_SDI :: "element \<Rightarrow> SDI" where
  "decode_DAI (as, ks) = DAI (attr_value ''name'' as []) (foldl decode_Val zero_Val (elements ''Val'' ks))
     (map decode_SDI (elements ''SDI'' ks))"
| "decode_SDI (as, ks) = SDI (attr_value ''name'' as []) (map decode_DAI (elements ''DAI'' ks))
     (map decode_SDI (elements ''SDI'' ks))"
  by pat_completeness auto
termination
  by (relation "measure (\<lambda>x. case x of Inl (as, ks) \<Rightarrow> size_list size ks | Inr (as, ks) \<Rightarrow> size_list size ks)")
    (auto dest: elements_size)

definition decode_DOI :: "element \<Rightarrow> DOI" where
  "decode_DOI = (\<lambda>(as, ks). \<lparr>doi_Desc = attr_value ''desc'' as [], doi_Name = attr_value ''name'' as [],
     doi_DAI = map decode_DAI (elements ''DAI'' ks), doi_SDI = map decode_SDI (elements ''SDI'' ks)\<rparr>)"

definition decode_FCDA :: "element \<Rightarrow> FCDAEntry" where
  "decode_FCDA = (\<lambda>(as, ks). \<lparr>fcda_LDInst = attr_value ''ldInst'' as [],
     fcda_Prefix = attr_value ''prefix'' as [], fcda_LNClass = attr_value ''lnClass'' as [],
     fcda_LNInst = attr_value ''lnInst'' as [], fcda_DOName = attr_value ''doName'' as [],
     fcda_DAName = attr_value ''daName'' as [], fcda_FC = attr_value ''fc'' as []\<rparr>)"

definition decode_DataSet :: "element \<Rightarrow> DataSet" where
  "decode_DataSet = (\<lambda>(as, ks). \<lparr>ds_Name = attr_value ''name'' as [], ds_Desc = attr_value ''desc'' as [],
     ds_FCDA = map decode_FCDA (elements ''FCDA'' ks)\<rparr>)"

definition zero_LN0 :: LN0 where
  "zero_LN0 = \<lparr>ln0_Inst = [], ln0_LnType = [], ln0_LnClass = [], ln0_DataSets = []\<rparr>"

definition decode_LN0 :: "LN0 \<Rightarrow> element \<Rightarrow> LN0" where
  "decode_LN0 old = (\<lambda>(as, ks). \<lparr>ln0_Inst = attr_value ''inst'' as (ln0_Inst old),
     ln0_LnType = attr_value ''lnType'' as (ln0_LnType old),
     ln0_LnClass = attr_value ''lnClass'' as (ln0_LnClass old),
     ln0_DataSets = ln0_DataSets old @ map decode_DataSet (elements ''DataSet'' ks)\<rparr>)"

definition decode_LN :: "element \<Rightarrow> LN" where
  "decode_LN = (\<lambda>(as, ks). \<lparr>ln_Inst = attr_value ''inst'' as [], ln_Prefix = attr_value ''prefix'' as [],
     ln_LnType = attr_value ''lnType'' as [], ln_LnClass = attr_value ''lnClass'' as [],
     ln_DOI = map decode_DOI (elements ''DOI'' ks)\<rparr>)"

definition decode_LDevice :: "element \<Rightarrow> LDevice" where
  "decode_LDevice = (\<lambda>(as, ks). \<lparr>ld_Inst = attr_value ''inst'' as [],
     ld_LN = map decode_LN (elements ''LN'' ks),
     ld_LN0 = foldl decode_LN0 zero_LN0 (elements ''LN0'' ks)\<rparr>)"

text \<open>The tag \<open>Server>LDevice\<close>: the devices of all servers of the access point.\<close>

definition decode_AccessPoint :: "element \<Rightarrow> AccessPoint" where
  "decode_AccessPoint = (\<lambda>(as, ks). \<lparr>ap_Name = attr_value ''name'' as [],
     ap_LDevice = map decode_LDevice
       (concat (map (\<lambda>(_, servers). elements ''LDevice'' servers) (elements ''Server'' ks)))\<rparr>)"

definition decode_IED :: "element \<Rightarrow> IED" where
  "decode_IED = (\<lambda>(as, ks). \<lparr>ied_Name = attr_value ''name'' as [], ied_Type = attr_value ''type'' as [],
     ied_Desc = attr_value ''desc'' as [], ied_ConfigVersion = attr_value ''configVersion'' as [],
     ied_AccessPoint = map decode_AccessPoint (elements ''AccessPoint'' ks)\<rparr>)"

function (sequential) decode_DA :: "element \<Rightarrow> DA" where
  "decode_DA (as, ks) = DA (attr_value ''name'' as []) (attr_value ''bType'' as [])
     (attr_value ''fc'' as []) GoNil (map decode_DA (elements ''DA'' ks))"
  by pat_completeness auto
termination
  by (relation "measure (\<lambda>(as, ks). size_list size ks)") (auto dest: elements_size)

definition decode_SDO :: "element \<Rightarrow> SDO" where
  "decode_SDO = (\<lambda>(as, ks). \<lparr>sdo_Name = attr_value ''name'' as [], sdo_Type = attr_value ''type'' as [],
     sdo_DA = map decode_DA (elements ''DA'' ks)\<rparr>)"

definition decode_DO :: "element \<Rightarrow> DO" where
  "decode_DO = (\<lambda>(as, ks). \<lparr>do_Name = attr_value ''name'' as [], do_Type = attr_value ''type'' as [],
     do_Desc = attr_value ''desc'' as [], do_DA = map decode_DA (elements ''DA'' ks)\<rparr>)"

definition decode_DOType :: "element \<Rightarrow> DOType" where
  "decode_DOType = (\<lambda>(as, ks). \<lparr>dot_ID = attr_value ''id'' as [], dot_DA = map decode_DA (elements ''DA'' ks),
     dot_Desc = attr_value ''desc'' as [], dot_SDO = map decode_SDO (elements ''SDO'' ks)\<rparr>)"

definition decode_LNodeType :: "element \<Rightarrow> LNodeType" where
  "decode_LNodeType = (\<lambda>(as, ks). \<lparr>lnt_ID = attr_value ''id'' as [],
     lnt_LNClass = attr_value ''lnClass'' as [], lnt_Desc = attr_value ''desc'' as [],
     lnt_DO = map decode_DO (elements ''DO'' ks)\<rparr>)"

definition decode_BDA :: "element \<Rightarrow> BDA" where
  "decode_BDA = (\<lambda>(as, ks). \<lparr>bda_Name = attr_value ''name'' as [], bda_Type = attr_value ''type'' as [],
     bda_Val = GoNil\<rparr>)"

definition decode_DAType :: "element \<Rightarrow> DAType" where
  "decode_DAType = (\<lambda>(as, ks). \<lparr>dat_ID = attr_value ''id'' as [],
     dat_BDA = map decode_BDA (elements ''BDA'' ks), dat_DA = map decode_DA (elements ''DA'' ks)\<rparr>)"

text \<open>An empty attribute sets an integer to zero; any other text has to be a number.\<close>

fun decode_ord :: "(string \<times> string) list \<Rightarrow> int \<Rightarrow> string + int" where
  "decode_ord [] old = Inr old"
| "decode_ord ((n, v) # as) old =
     (if n = ''ord'' then
        and_then (if v = [] then Inr 0 else ParseInt (TrimSpace v)) (decode_ord as)
      else decode_ord as old)"

definition decode_EnumVal :: "element \<Rightarrow> string + EnumVal" where
  "decode_EnumVal = (\<lambda>(as, ks).
     and_then (decode_ord as 0) (\<lambda>i. Inr \<lparr>ev_Ord = i, ev_Name = chardata ks\<rparr>))"

definition decode_EnumType :: "element \<Rightarrow> string + EnumType" where
  "decode_EnumType = (\<lambda>(as, ks). and_then (traverse decode_EnumVal (elements ''EnumVal'' ks))
     (\<lambda>vs. Inr \<lparr>et_ID = attr_value ''id'' as [], et_EnumVal = vs\<rparr>))"

definition zero_templates :: DataTypeTemplates where
  "zero_templates = \<lparr>dtt_LNodeType = [], dtt_DOType = [], dtt_DAType = [], dtt_EnumType = []\<rparr>"

definition decode_DataTypeTemplates :: "DataTypeTemplates \<Rightarrow> element \<Rightarrow> string + DataTypeTemplates" where
  "decode_DataTypeTemplates old = (\<lambda>(as, ks).
     and_then (traverse decode_EnumType (elements ''EnumType'' ks)) (\<lambda>ets. Inr
       \<lparr>dtt_LNodeType = dtt_LNodeType old @ map decode_LNodeType (elements ''LNodeType'' ks),
        dtt_DOType = dtt_DOType old @ map decode_DOType (elements ''DOType'' ks),
        dtt_DAType = dtt_DAType old @ map decode_DAType (elements ''DAType'' ks),
        dtt_EnumType = dtt_EnumType old @ ets\<rparr>))"

fun fold_templates :: "element list \<Rightarrow> DataTypeTemplates \<Rightarrow> string + DataTypeTemplates" where
  "fold_templates [] dt = Inr dt"
| "fold_templates (e # es) dt = and_then (decode_DataTypeTemplates dt e) (fold_templates es)"

text \<open>The root element may have any name, as the struct does not say one.\<close>

definition Unmarshal :: "element \<Rightarrow> string + SCL" where
  "Unmarshal = (\<lambda>(as, ks). and_then (fold_templates (elements ''DataTypeTemplates'' ks) zero_templates)
     (\<lambda>dt. Inr \<lparr>scl_IED = map decode_IED (elements ''IED'' ks), scl_DataTypeTemplates = dt\<rparr>))"

section \<open>Reading\<close>

text \<open>
  \<open>tree_of\<close> stands for the tokeniser: the root element of a text, or its error. A reader is the
  error of \<open>io.ReadAll\<close> or what it read; a file system gives a reader for a path. The partly filled
  document that the code returns beside an error is left out. \<open>GetSCL\<close> also prints a line.
\<close>

definition GetSCLFromFd :: "(string \<Rightarrow> string + element) \<Rightarrow> string + string \<Rightarrow> string + SCL" where
  "GetSCLFromFd tree_of reader = (case reader of
      Inl err \<Rightarrow> Inl err
    | Inr byteValue \<Rightarrow>
        (case and_then (tree_of byteValue) Unmarshal of
           Inl err \<Rightarrow> Inl (''unmarshall failed: '' @ err)
         | Inr scl \<Rightarrow> Inr scl))"

definition GetSCL :: "(string \<Rightarrow> string + element) \<Rightarrow> (string \<Rightarrow> string + (string + string)) \<Rightarrow> string \<Rightarrow>
    (string + SCL) \<times> string list" where
  "GetSCL tree_of os_Open path = (case os_Open path of
      Inl err \<Rightarrow> (Inl (''open file failed: '' @ err), [''Error opening file: '' @ err])
    | Inr xmlFile \<Rightarrow> (GetSCLFromFd tree_of xmlFile, []))"


section \<open>Canonical form\<close>

text \<open>
  What decoding looks at: for each kind of element its attributes and the kinds of its children.
  The canonical form of an element keeps only those, in that order, with absent attributes empty;
  of \<open>Val\<close> and \<open>EnumVal\<close> it keeps the text. An absent attribute of \<open>LN0\<close> stays absent, since a second
  \<open>LN0\<close> would otherwise overwrite what the first one set.
\<close>

definition scl_tags :: "(string \<times> string list \<times> string list) list" where
  "scl_tags = [
     (''SCL'', [], [''IED'', ''DataTypeTemplates'']),
     (''IED'', [''name'', ''type'', ''desc'', ''configVersion''], [''AccessPoint'']),
     (''AccessPoint'', [''name''], [''Server'']),
     (''Server'', [], [''LDevice'']),
     (''LDevice'', [''inst''], [''LN0'', ''LN'']),
     (''LN0'', [''inst'', ''lnType'', ''lnClass''], [''DataSet'']),
     (''LN'', [''inst'', ''prefix'', ''lnType'', ''lnClass''], [''DOI'']),
     (''DOI'', [''desc'', ''name''], [''DAI'', ''SDI'']),
     (''DAI'', [''name''], [''Val'', ''SDI'']),
     (''SDI'', [''name''], [''DAI'', ''SDI'']),
     (''DataSet'', [''name'', ''desc''], [''FCDA'']),
     (''FCDA'', [''ldInst'', ''prefix'', ''lnClass'', ''lnInst'', ''doName'', ''daName'', ''fc''], []),
     (''DataTypeTemplates'', [], [''LNodeType'', ''DOType'', ''DAType'', ''EnumType'']),
     (''LNodeType'', [''id'', ''lnClass'', ''desc''], [''DO'']),
     (''DO'', [''name'', ''type'', ''desc''], [''DA'']),
     (''DOType'', [''id'', ''desc''], [''DA'', ''SDO'']),
     (''DA'', [''name'', ''bType'', ''fc''], [''DA'']),
     (''SDO'', [''name'', ''type''], [''DA'']),
     (''DAType'', [''id''], [''BDA'', ''DA'']),
     (''BDA'', [''name'', ''type''], []),
     (''EnumType'', [''id''], [''EnumVal''])]"

definition tag_attrs :: "string \<Rightarrow> string list" where
  "tag_attrs nm = (case map_of scl_tags nm of None \<Rightarrow> [] | Some (attrs, _) \<Rightarrow> attrs)"

definition tag_children :: "string \<Rightarrow> string list" where
  "tag_children nm = (case map_of scl_tags nm of None \<Rightarrow> [] | Some (_, kids) \<Rightarrow> kids)"

definition node :: "string \<Rightarrow> element \<Rightarrow> xml_node" where
  "node nm e = Elem nm (fst e) (snd e)"

definition canon_attrs :: "string \<Rightarrow> (string \<times> string) list \<Rightarrow> (string \<times> string) list" where
  "canon_attrs nm as = (if nm = ''EnumVal'' then filter (\<lambda>(n, v). n = ''ord'') as
     else map (\<lambda>a. (a, attr_value a as []))
       (filter (\<lambda>a. nm = ''LN0'' \<longrightarrow> a \<in> fst ` set as) (tag_attrs nm)))"

function (sequential) canon :: "string \<Rightarrow> element \<Rightarrow> element" where
  "canon nm (as, ks) = (canon_attrs nm as,
     if nm = ''Val'' \<or> nm = ''EnumVal'' then [Text (chardata ks)]
     else concat (map (\<lambda>t. map (\<lambda>e. node t (canon t e)) (elements t ks)) (tag_children nm)))"
  by pat_completeness auto
termination
  by (relation "measure (\<lambda>(nm, as, ks). size_list size ks)") (auto dest: elements_size)

text \<open>For evaluation: the list before the function, so that a decoder is not unfolded on every tag.\<close>

lemma map_list_cong: "xs = ys \<Longrightarrow> map f xs = map f ys"
  by simp

lemma elements_node [simp]: "elements nm (map (\<lambda>x. node n (f x)) xs) = (if n = nm then map f xs else [])"
  by (induction xs) (auto simp: node_def)

lemma elements_node_Cons [simp]:
  "elements nm (node n e # ns) = (if n = nm then e # elements nm ns else elements nm ns)"
  by (simp add: node_def)

lemma elements_canon_children:
  "distinct ts \<Longrightarrow> elements nm (concat (map (\<lambda>t. map (\<lambda>e. node t (canon t e)) (elements t ks)) ts))
     = (if nm \<in> set ts then map (canon nm) (elements nm ks) else [])"
  by (induction ts) auto

lemma attr_value_map:
  "distinct ns \<Longrightarrow> attr_value nm (map (\<lambda>a. (a, f a)) ns) old = (if nm \<in> set ns then f nm else old)"
  by (induction ns arbitrary: old) auto

lemmas tag_simps = tag_attrs_def tag_children_def scl_tags_def

lemma tag_tables:
  "tag_attrs ''SCL'' = []" "tag_children ''SCL'' = [''IED'', ''DataTypeTemplates'']"
  "tag_attrs ''IED'' = [''name'', ''type'', ''desc'', ''configVersion'']"
  "tag_children ''IED'' = [''AccessPoint'']"
  "tag_attrs ''AccessPoint'' = [''name'']" "tag_children ''AccessPoint'' = [''Server'']"
  "tag_attrs ''Server'' = []" "tag_children ''Server'' = [''LDevice'']"
  "tag_attrs ''LDevice'' = [''inst'']" "tag_children ''LDevice'' = [''LN0'', ''LN'']"
  "tag_attrs ''LN0'' = [''inst'', ''lnType'', ''lnClass'']" "tag_children ''LN0'' = [''DataSet'']"
  "tag_attrs ''DataSet'' = [''name'', ''desc'']" "tag_children ''DataSet'' = [''FCDA'']"
  "tag_attrs ''FCDA'' = [''ldInst'', ''prefix'', ''lnClass'', ''lnInst'', ''doName'', ''daName'', ''fc'']"
  "tag_children ''FCDA'' = []"
  "tag_attrs ''DataTypeTemplates'' = []"
  "tag_children ''DataTypeTemplates'' = [''LNodeType'', ''DOType'', ''DAType'', ''EnumType'']"
  "tag_attrs ''DAType'' = [''id'']" "tag_children ''DAType'' = [''BDA'', ''DA'']"
  "tag_attrs ''BDA'' = [''name'', ''type'']" "tag_children ''BDA'' = []"
  "tag_attrs ''EnumType'' = [''id'']" "tag_children ''EnumType'' = [''EnumVal'']"
  by code_simp+

text \<open>Each decoder gives the same on the canonical form.\<close>

lemma decode_Val_canon: "decode_Val old (canon ''Val'' e) = decode_Val old e"
  by (cases e) (simp add: decode_Val_def)

lemma foldl_map: "foldl f a (map g xs) = foldl (\<lambda>a x. f a (g x)) a xs"
  by (induction xs arbitrary: a) auto

lemma decode_DAI_SDI_canon:
  "decode_DAI (canon ''DAI'' e) = decode_DAI e"
  "decode_SDI (canon ''SDI'' e') = decode_SDI e'"
  by (induction e and e' rule: decode_DAI_decode_SDI.induct)
    (simp_all add: canon_attrs_def tag_simps foldl_map decode_Val_canon)


lemmas canon_simps = canon_attrs_def tag_simps foldl_map comp_def

lemma decode_DOI_canon: "decode_DOI (canon ''DOI'' e) = decode_DOI e"
  by (cases e) (simp add: decode_DOI_def canon_simps decode_DAI_SDI_canon)

lemma decode_FCDA_canon: "decode_FCDA (canon ''FCDA'' e) = decode_FCDA e"
  by (cases e) (simp add: decode_FCDA_def canon_simps)

lemma decode_DataSet_canon: "decode_DataSet (canon ''DataSet'' e) = decode_DataSet e"
  by (cases e) (simp add: decode_DataSet_def canon_simps decode_FCDA_canon)

lemma attr_value_None: "nm \<notin> fst ` set as \<Longrightarrow> attr_value nm as old = old"
  by (induction as arbitrary: old) auto

lemma attr_value_Some: "nm \<in> fst ` set as \<Longrightarrow> attr_value nm as old = attr_value nm as x"
proof (induction as arbitrary: old x)
  case (Cons a as)
  obtain n v where a: "a = (n, v)" by (cases a)
  show ?case
  proof (cases "nm \<in> fst ` set as")
    case True
    with Cons.IH [of "if n = nm then v else old" "if n = nm then v else x"] show ?thesis by (simp add: a)
  next
    case False
    with Cons.prems show ?thesis by (auto simp: a)
  qed
qed simp

lemma decode_LN0_canon: "decode_LN0 old (canon ''LN0'' e) = decode_LN0 old e"
proof -
  obtain as ks where e: "e = (as, ks)" by (cases e)
  define cs where "cs = canon_attrs ''LN0'' as"
  have at: "attr_value nm cs x = attr_value nm as x" if "nm \<in> set (tag_attrs ''LN0'')" for nm x
  proof -
    have "distinct (filter (\<lambda>a. a \<in> fst ` set as) (tag_attrs ''LN0''))"
      by (rule distinct_filter) (simp add: tag_simps)
    moreover have "cs = map (\<lambda>a. (a, attr_value a as [])) (filter (\<lambda>a. a \<in> fst ` set as) (tag_attrs ''LN0''))"
      by (simp add: cs_def canon_attrs_def)
    ultimately have "attr_value nm cs x = (if nm \<in> fst ` set as then attr_value nm as [] else x)"
      using that by (simp add: attr_value_map)
    then show ?thesis
      using attr_value_Some [of nm as x "[]"] attr_value_None [of nm as x] by simp
  qed
  have "canon ''LN0'' e = (cs, map (\<lambda>e. node ''DataSet'' (canon ''DataSet'' e)) (elements ''DataSet'' ks))"
    by (simp add: e cs_def tag_children_def scl_tags_def)
  then show ?thesis
    using at by (simp add: e decode_LN0_def decode_DataSet_canon tag_attrs_def scl_tags_def comp_def)
qed

lemma decode_LN_canon: "decode_LN (canon ''LN'' e) = decode_LN e"
  by (cases e) (simp add: decode_LN_def canon_simps decode_DOI_canon)

lemma decode_LDevice_canon: "decode_LDevice (canon ''LDevice'' e) = decode_LDevice e"
  by (cases e) (simp add: decode_LDevice_def canon_simps decode_LN_canon decode_LN0_canon)

lemma decode_AccessPoint_canon: "decode_AccessPoint (canon ''AccessPoint'' e) = decode_AccessPoint e"
proof -
  have "elements ''LDevice'' (snd (canon ''Server'' e)) = map (canon ''LDevice'') (elements ''LDevice'' (snd e))"
    for e :: element
    by (cases e) (simp add: canon_simps)
  then show ?thesis
    by (cases e) (simp add: decode_AccessPoint_def canon_simps case_prod_beta map_concat decode_LDevice_canon)
qed

lemma decode_IED_canon: "decode_IED (canon ''IED'' e) = decode_IED e"
  by (cases e) (simp add: decode_IED_def canon_simps decode_AccessPoint_canon)

lemma decode_DA_canon: "decode_DA (canon ''DA'' e) = decode_DA e"
  by (induction e rule: decode_DA.induct) (simp add: canon_simps)

lemma decode_SDO_canon: "decode_SDO (canon ''SDO'' e) = decode_SDO e"
  by (cases e) (simp add: decode_SDO_def canon_simps decode_DA_canon)

lemma decode_DO_canon: "decode_DO (canon ''DO'' e) = decode_DO e"
  by (cases e) (simp add: decode_DO_def canon_simps decode_DA_canon)

lemma decode_DOType_canon: "decode_DOType (canon ''DOType'' e) = decode_DOType e"
  by (cases e) (simp add: decode_DOType_def canon_simps decode_DA_canon decode_SDO_canon)

lemma decode_LNodeType_canon: "decode_LNodeType (canon ''LNodeType'' e) = decode_LNodeType e"
  by (cases e) (simp add: decode_LNodeType_def canon_simps decode_DO_canon)

lemma decode_BDA_canon: "decode_BDA (canon ''BDA'' e) = decode_BDA e"
  by (cases e) (simp add: decode_BDA_def canon_simps)

lemma decode_DAType_canon: "decode_DAType (canon ''DAType'' e) = decode_DAType e"
  by (cases e) (simp add: decode_DAType_def canon_simps decode_BDA_canon decode_DA_canon)

lemma decode_ord_filter: "decode_ord (filter (\<lambda>(n, v). n = ''ord'') as) old = decode_ord as old"
  by (induction as old rule: decode_ord.induct) (auto intro: and_then_cong)

lemma decode_EnumVal_canon: "decode_EnumVal (canon ''EnumVal'' e) = decode_EnumVal e"
  by (cases e) (simp add: decode_EnumVal_def canon_attrs_def decode_ord_filter)

lemma decode_EnumType_canon: "decode_EnumType (canon ''EnumType'' e) = decode_EnumType e"
  by (cases e) (simp add: decode_EnumType_def canon_simps traverse_map decode_EnumVal_canon)

lemma decode_DataTypeTemplates_canon:
  "decode_DataTypeTemplates old (canon ''DataTypeTemplates'' e) = decode_DataTypeTemplates old e"
  by (cases e) (simp add: decode_DataTypeTemplates_def canon_simps traverse_map decode_EnumType_canon
      decode_LNodeType_canon decode_DOType_canon decode_DAType_canon)

lemma fold_templates_canon: "fold_templates (map (canon ''DataTypeTemplates'') es) dt = fold_templates es dt"
  by (induction es dt rule: fold_templates.induct)
    (auto simp: decode_DataTypeTemplates_canon intro: and_then_cong)


lemma Unmarshal_canon: "Unmarshal (canon ''SCL'' e) = Unmarshal e"
  by (cases e) (simp add: Unmarshal_def canon_simps decode_IED_canon fold_templates_canon)


section \<open>Encoding\<close>

text \<open>The canonical element of each value.\<close>

definition encode_Val :: "Val \<Rightarrow> element" where
  "encode_Val v = ([], [Text (val_Value v)])"

fun encode_DAI :: "DAI \<Rightarrow> element" and encode_SDI :: "SDI \<Rightarrow> element" where
  "encode_DAI (DAI nm v sdis) =
     ([(''name'', nm)], node ''Val'' (encode_Val v) # map (\<lambda>s. node ''SDI'' (encode_SDI s)) sdis)"
| "encode_SDI (SDI nm dais sdis) = ([(''name'', nm)],
     map (\<lambda>d. node ''DAI'' (encode_DAI d)) dais @ map (\<lambda>s. node ''SDI'' (encode_SDI s)) sdis)"

definition encode_DOI :: "DOI \<Rightarrow> element" where
  "encode_DOI x = ([(''desc'', doi_Desc x), (''name'', doi_Name x)],
     map (\<lambda>d. node ''DAI'' (encode_DAI d)) (doi_DAI x) @ map (\<lambda>s. node ''SDI'' (encode_SDI s)) (doi_SDI x))"

definition encode_FCDA :: "FCDAEntry \<Rightarrow> element" where
  "encode_FCDA x = ([(''ldInst'', fcda_LDInst x), (''prefix'', fcda_Prefix x), (''lnClass'', fcda_LNClass x),
     (''lnInst'', fcda_LNInst x), (''doName'', fcda_DOName x), (''daName'', fcda_DAName x),
     (''fc'', fcda_FC x)], [])"

definition encode_DataSet :: "DataSet \<Rightarrow> element" where
  "encode_DataSet x = ([(''name'', ds_Name x), (''desc'', ds_Desc x)],
     map (\<lambda>f. node ''FCDA'' (encode_FCDA f)) (ds_FCDA x))"

definition encode_LN0 :: "LN0 \<Rightarrow> element" where
  "encode_LN0 x = ([(''inst'', ln0_Inst x), (''lnType'', ln0_LnType x), (''lnClass'', ln0_LnClass x)],
     map (\<lambda>d. node ''DataSet'' (encode_DataSet d)) (ln0_DataSets x))"

definition encode_LN :: "LN \<Rightarrow> element" where
  "encode_LN x = ([(''inst'', ln_Inst x), (''prefix'', ln_Prefix x), (''lnType'', ln_LnType x),
     (''lnClass'', ln_LnClass x)], map (\<lambda>d. node ''DOI'' (encode_DOI d)) (ln_DOI x))"

definition encode_LDevice :: "LDevice \<Rightarrow> element" where
  "encode_LDevice x = ([(''inst'', ld_Inst x)],
     node ''LN0'' (encode_LN0 (ld_LN0 x)) # map (\<lambda>n. node ''LN'' (encode_LN n)) (ld_LN x))"

definition encode_AccessPoint :: "AccessPoint \<Rightarrow> element" where
  "encode_AccessPoint x = ([(''name'', ap_Name x)],
     [node ''Server'' ([], map (\<lambda>d. node ''LDevice'' (encode_LDevice d)) (ap_LDevice x))])"

definition encode_IED :: "IED \<Rightarrow> element" where
  "encode_IED x = ([(''name'', ied_Name x), (''type'', ied_Type x), (''desc'', ied_Desc x),
     (''configVersion'', ied_ConfigVersion x)],
     map (\<lambda>a. node ''AccessPoint'' (encode_AccessPoint a)) (ied_AccessPoint x))"

fun encode_DA :: "DA \<Rightarrow> element" where
  "encode_DA (DA nm ty fc v das) = ([(''name'', nm), (''bType'', ty), (''fc'', fc)],
     map (\<lambda>d. node ''DA'' (encode_DA d)) das)"

definition encode_SDO :: "SDO \<Rightarrow> element" where
  "encode_SDO x = ([(''name'', sdo_Name x), (''type'', sdo_Type x)],
     map (\<lambda>d. node ''DA'' (encode_DA d)) (sdo_DA x))"

definition encode_DO :: "DO \<Rightarrow> element" where
  "encode_DO x = ([(''name'', do_Name x), (''type'', do_Type x), (''desc'', do_Desc x)],
     map (\<lambda>d. node ''DA'' (encode_DA d)) (do_DA x))"

definition encode_DOType :: "DOType \<Rightarrow> element" where
  "encode_DOType x = ([(''id'', dot_ID x), (''desc'', dot_Desc x)],
     map (\<lambda>d. node ''DA'' (encode_DA d)) (dot_DA x) @ map (\<lambda>s. node ''SDO'' (encode_SDO s)) (dot_SDO x))"

definition encode_LNodeType :: "LNodeType \<Rightarrow> element" where
  "encode_LNodeType x = ([(''id'', lnt_ID x), (''lnClass'', lnt_LNClass x), (''desc'', lnt_Desc x)],
     map (\<lambda>d. node ''DO'' (encode_DO d)) (lnt_DO x))"

definition encode_BDA :: "BDA \<Rightarrow> element" where
  "encode_BDA x = ([(''name'', bda_Name x), (''type'', bda_Type x)], [])"

definition encode_DAType :: "DAType \<Rightarrow> element" where
  "encode_DAType x = ([(''id'', dat_ID x)],
     map (\<lambda>b. node ''BDA'' (encode_BDA b)) (dat_BDA x) @ map (\<lambda>d. node ''DA'' (encode_DA d)) (dat_DA x))"

definition encode_EnumVal :: "EnumVal \<Rightarrow> element" where
  "encode_EnumVal x = ([(''ord'', Itoa (ev_Ord x))], [Text (ev_Name x)])"

definition encode_EnumType :: "EnumType \<Rightarrow> element" where
  "encode_EnumType x = ([(''id'', et_ID x)], map (\<lambda>v. node ''EnumVal'' (encode_EnumVal v)) (et_EnumVal x))"

definition encode_DataTypeTemplates :: "DataTypeTemplates \<Rightarrow> element" where
  "encode_DataTypeTemplates x = ([],
     map (\<lambda>t. node ''LNodeType'' (encode_LNodeType t)) (dtt_LNodeType x)
     @ map (\<lambda>t. node ''DOType'' (encode_DOType t)) (dtt_DOType x)
     @ map (\<lambda>t. node ''DAType'' (encode_DAType t)) (dtt_DAType x)
     @ map (\<lambda>t. node ''EnumType'' (encode_EnumType t)) (dtt_EnumType x))"

definition encode_SCL :: "SCL \<Rightarrow> element" where
  "encode_SCL x = ([], map (\<lambda>i. node ''IED'' (encode_IED i)) (scl_IED x)
     @ [node ''DataTypeTemplates'' (encode_DataTypeTemplates (scl_DataTypeTemplates x))])"

text \<open>
  What a document can hold: attribute values are nil, since the code skips them, and the numbers of
  enumeration values fit Go's \<open>int\<close>.
\<close>

fun plain_DA :: "DA \<Rightarrow> bool" where
  "plain_DA (DA nm ty fc v das) \<longleftrightarrow> v = GoNil \<and> list_all plain_DA das"

definition plain_templates :: "DataTypeTemplates \<Rightarrow> bool" where
  "plain_templates dt \<longleftrightarrow>
     list_all (\<lambda>t. list_all (\<lambda>d. list_all plain_DA (do_DA d)) (lnt_DO t)) (dtt_LNodeType dt) \<and>
     list_all (\<lambda>t. list_all plain_DA (dot_DA t) \<and> list_all (\<lambda>s. list_all plain_DA (sdo_DA s)) (dot_SDO t))
       (dtt_DOType dt) \<and>
     list_all (\<lambda>t. list_all (\<lambda>b. bda_Val b = GoNil) (dat_BDA t) \<and> list_all plain_DA (dat_DA t))
       (dtt_DAType dt)"

definition ords_fit :: "DataTypeTemplates \<Rightarrow> bool" where
  "ords_fit dt \<longleftrightarrow> list_all (\<lambda>t. list_all (\<lambda>v. - (2 ^ 63) \<le> ev_Ord v \<and> ev_Ord v < 2 ^ 63) (et_EnumVal t))
     (dtt_EnumType dt)"


section \<open>Round trip\<close>

lemma map_decode: "(\<And>x. x \<in> set xs \<Longrightarrow> g (f x) = x) \<Longrightarrow> map g (map f xs) = xs"
  by (induction xs) auto

lemma decode_encode_Val: "decode_Val old (encode_Val v) = v"
  by (simp add: decode_Val_def encode_Val_def)

lemma decode_encode_DAI_SDI:
  "decode_DAI (encode_DAI d) = d"
  "decode_SDI (encode_SDI s) = s"
  by (induction d and s rule: encode_DAI_encode_SDI.induct)
    (simp_all add: decode_encode_Val map_idI)

lemma decode_encode_DOI: "decode_DOI (encode_DOI x) = x"
  by (simp add: decode_DOI_def encode_DOI_def comp_def decode_encode_DAI_SDI)

lemma decode_encode_FCDA: "decode_FCDA (encode_FCDA x) = x"
  by (simp add: decode_FCDA_def encode_FCDA_def)

lemma decode_encode_DataSet: "decode_DataSet (encode_DataSet x) = x"
  by (simp add: decode_DataSet_def encode_DataSet_def comp_def decode_encode_FCDA)

lemma decode_encode_LN0: "decode_LN0 zero_LN0 (encode_LN0 x) = x"
  by (simp add: decode_LN0_def encode_LN0_def zero_LN0_def comp_def decode_encode_DataSet)

lemma decode_encode_LN: "decode_LN (encode_LN x) = x"
  by (simp add: decode_LN_def encode_LN_def comp_def decode_encode_DOI)

lemma decode_encode_LDevice: "decode_LDevice (encode_LDevice x) = x"
  by (simp add: decode_LDevice_def encode_LDevice_def comp_def decode_encode_LN decode_encode_LN0)

lemma decode_encode_AccessPoint: "decode_AccessPoint (encode_AccessPoint x) = x"
  by (simp add: decode_AccessPoint_def encode_AccessPoint_def comp_def decode_encode_LDevice)

lemma decode_encode_IED: "decode_IED (encode_IED x) = x"
  by (simp add: decode_IED_def encode_IED_def comp_def decode_encode_AccessPoint)

lemma decode_encode_DA: "plain_DA d \<Longrightarrow> decode_DA (encode_DA d) = d"
  by (induction d rule: plain_DA.induct) (simp add: list_all_iff map_idI)

lemma decode_encode_SDO: "list_all plain_DA (sdo_DA x) \<Longrightarrow> decode_SDO (encode_SDO x) = x"
  by (simp add: decode_SDO_def encode_SDO_def list_all_iff map_idI decode_encode_DA)

lemma decode_encode_DO: "list_all plain_DA (do_DA x) \<Longrightarrow> decode_DO (encode_DO x) = x"
  by (simp add: decode_DO_def encode_DO_def list_all_iff map_idI decode_encode_DA)

lemma decode_encode_DOType:
  "list_all plain_DA (dot_DA x) \<Longrightarrow> list_all (\<lambda>s. list_all plain_DA (sdo_DA s)) (dot_SDO x) \<Longrightarrow>
     decode_DOType (encode_DOType x) = x"
  by (simp add: decode_DOType_def encode_DOType_def list_all_iff [of _ "dot_DA x"]
      list_all_iff [of _ "dot_SDO x"] map_idI decode_encode_DA decode_encode_SDO)

lemma decode_encode_LNodeType:
  "list_all (\<lambda>d. list_all plain_DA (do_DA d)) (lnt_DO x) \<Longrightarrow> decode_LNodeType (encode_LNodeType x) = x"
  by (simp add: decode_LNodeType_def encode_LNodeType_def list_all_iff [of _ "lnt_DO x"] map_idI
      decode_encode_DO)

lemma decode_encode_BDA: "bda_Val x = GoNil \<Longrightarrow> decode_BDA (encode_BDA x) = x"
  by (simp add: decode_BDA_def encode_BDA_def)

lemma decode_encode_DAType:
  "list_all (\<lambda>b. bda_Val b = GoNil) (dat_BDA x) \<Longrightarrow> list_all plain_DA (dat_DA x) \<Longrightarrow>
     decode_DAType (encode_DAType x) = x"
  by (simp add: decode_DAType_def encode_DAType_def list_all_iff map_idI decode_encode_DA decode_encode_BDA)

lemma Itoa_not_Nil: "Itoa i \<noteq> []"
  by (simp add: Itoa_def nat_digits_not_Nil)

lemma decode_encode_EnumVal:
  "- (2 ^ 63) \<le> ev_Ord x \<Longrightarrow> ev_Ord x < 2 ^ 63 \<Longrightarrow> decode_EnumVal (encode_EnumVal x) = Inr x"
  by (simp add: decode_EnumVal_def encode_EnumVal_def Itoa_not_Nil TrimSpace_id Itoa_no_space ParseInt_Itoa)

lemma decode_encode_EnumType:
  assumes "list_all (\<lambda>v. - (2 ^ 63) \<le> ev_Ord v \<and> ev_Ord v < 2 ^ 63) (et_EnumVal x)"
  shows "decode_EnumType (encode_EnumType x) = Inr x"
proof -
  have "traverse decode_EnumVal (map encode_EnumVal (et_EnumVal x)) = Inr (map (\<lambda>v. v) (et_EnumVal x))"
    unfolding traverse_map using assms by (intro traverse_Inr decode_encode_EnumVal) (auto simp: list_all_iff)
  then show ?thesis by (simp add: decode_EnumType_def encode_EnumType_def)
qed

lemma decode_encode_DataTypeTemplates:
  assumes "plain_templates x" and "ords_fit x"
  shows "decode_DataTypeTemplates zero_templates (encode_DataTypeTemplates x) = Inr x"
proof -
  have "traverse decode_EnumType (map encode_EnumType (dtt_EnumType x)) = Inr (map (\<lambda>t. t) (dtt_EnumType x))"
    unfolding traverse_map
  proof (intro traverse_Inr decode_encode_EnumType)
    fix t assume "t \<in> set (dtt_EnumType x)"
    with assms(2) show "list_all (\<lambda>v. - (2 ^ 63) \<le> ev_Ord v \<and> ev_Ord v < 2 ^ 63) (et_EnumVal t)"
      by (simp add: ords_fit_def list_all_iff [of _ "dtt_EnumType x"])
  qed
  moreover have "map (\<lambda>t. decode_LNodeType (encode_LNodeType t)) (dtt_LNodeType x) = dtt_LNodeType x"
    and "map (\<lambda>t. decode_DOType (encode_DOType t)) (dtt_DOType x) = dtt_DOType x"
    and "map (\<lambda>t. decode_DAType (encode_DAType t)) (dtt_DAType x) = dtt_DAType x"
    using assms(1)
    by (simp_all add: plain_templates_def list_all_iff [of _ "dtt_LNodeType x"] list_all_iff [of _ "dtt_DOType x"]
        list_all_iff [of _ "dtt_DAType x"] map_idI decode_encode_LNodeType decode_encode_DOType decode_encode_DAType)
  ultimately show ?thesis
    by (simp add: decode_DataTypeTemplates_def encode_DataTypeTemplates_def zero_templates_def comp_def)
qed

lemma Unmarshal_encode:
  assumes "plain_templates (scl_DataTypeTemplates scl)" and "ords_fit (scl_DataTypeTemplates scl)"
  shows "Unmarshal (encode_SCL scl) = Inr scl"
  by (simp add: Unmarshal_def encode_SCL_def comp_def decode_encode_IED decode_encode_DataTypeTemplates assms)


section \<open>What decoding returns, and when it fails\<close>

lemma decode_DA_plain: "plain_DA (decode_DA e)"
  by (induction e rule: decode_DA.induct) (simp add: list_all_iff)

lemma decoded_plain [simp]:
  "list_all plain_DA (map decode_DA es)"
  "list_all plain_DA (do_DA (decode_DO e))"
  "list_all plain_DA (sdo_DA (decode_SDO e))"
  "list_all (\<lambda>d. list_all plain_DA (do_DA d)) (lnt_DO (decode_LNodeType e))"
  "list_all plain_DA (dot_DA (decode_DOType e))"
  "list_all (\<lambda>s. list_all plain_DA (sdo_DA s)) (dot_SDO (decode_DOType e))"
  "list_all (\<lambda>b. bda_Val b = GoNil) (dat_BDA (decode_DAType e))"
  "list_all plain_DA (dat_DA (decode_DAType e))"
  by (simp_all add: decode_DO_def decode_SDO_def decode_LNodeType_def decode_DOType_def decode_DAType_def
      decode_BDA_def case_prod_beta list.pred_map comp_def decode_DA_plain list.pred_True)

lemma decode_ord_range:
  assumes "decode_ord as old = Inr i" and "- (2 ^ 63) \<le> old \<and> old < 2 ^ 63"
  shows "- (2 ^ 63) \<le> i \<and> i < 2 ^ 63"
  using assms
proof (induction as arbitrary: old)
  case (Cons a as)
  obtain n v where a: "a = (n, v)" by (cases a)
  show ?case
  proof (cases "n = ''ord'' \<and> v \<noteq> []")
    case True
    with Cons.prems(1) obtain k where "ParseInt (TrimSpace v) = Inr k" "decode_ord as k = Inr i"
      by (auto simp: a and_then_Inr_iff)
    with Cons.IH ParseInt_range show ?thesis by blast
  next
    case False
    with Cons.prems Cons.IH [of old] Cons.IH [of 0] show ?thesis by (auto simp: a split: if_splits)
  qed
qed simp

lemma decode_EnumVal_range: "decode_EnumVal e = Inr v \<Longrightarrow> - (2 ^ 63) \<le> ev_Ord v \<and> ev_Ord v < 2 ^ 63"
  by (cases e) (auto simp: decode_EnumVal_def and_then_Inr_iff dest!: decode_ord_range)

lemma decode_EnumType_range:
  assumes "decode_EnumType e = Inr t"
  shows "list_all (\<lambda>v. - (2 ^ 63) \<le> ev_Ord v \<and> ev_Ord v < 2 ^ 63) (et_EnumVal t)"
proof -
  obtain as ks vs where "traverse decode_EnumVal (elements ''EnumVal'' ks) = Inr vs" "et_EnumVal t = vs"
    using assms by (cases e) (auto simp: decode_EnumType_def and_then_Inr_iff)
  then have "\<forall>v \<in> set vs. \<exists>e. decode_EnumVal e = Inr v"
    by (blast dest: traverse_set [of decode_EnumVal])
  then show ?thesis using decode_EnumVal_range \<open>et_EnumVal t = vs\<close> by (fastforce simp: list_all_iff)
qed

lemma decode_templates_readable:
  assumes "decode_DataTypeTemplates old e = Inr dt" and "plain_templates old \<and> ords_fit old"
  shows "plain_templates dt \<and> ords_fit dt"
proof -
  obtain as ks where e: "e = (as, ks)" by (cases e)
  with assms(1) obtain ets where t: "traverse decode_EnumType (elements ''EnumType'' ks) = Inr ets"
    and dt: "dt = \<lparr>dtt_LNodeType = dtt_LNodeType old @ map decode_LNodeType (elements ''LNodeType'' ks),
      dtt_DOType = dtt_DOType old @ map decode_DOType (elements ''DOType'' ks),
      dtt_DAType = dtt_DAType old @ map decode_DAType (elements ''DAType'' ks),
      dtt_EnumType = dtt_EnumType old @ ets\<rparr>"
    by (auto simp: decode_DataTypeTemplates_def and_then_Inr_iff)
  from t have "\<forall>x \<in> set ets. \<exists>e. decode_EnumType e = Inr x"
    by (blast dest: traverse_set [of decode_EnumType])
  then have "\<forall>x \<in> set ets. list_all (\<lambda>v. - (2 ^ 63) \<le> ev_Ord v \<and> ev_Ord v < 2 ^ 63) (et_EnumVal x)"
    by (blast dest: decode_EnumType_range)
  then have "ords_fit dt"
    using assms(2) unfolding dt ords_fit_def by (simp add: list_all_iff [of _ ets])
  moreover have "plain_templates dt"
    using assms(2) unfolding dt plain_templates_def by (simp add: list.pred_map comp_def list.pred_True)
  ultimately show ?thesis by simp
qed

lemma fold_templates_readable:
  "fold_templates es dt = Inr dt' \<Longrightarrow> plain_templates dt \<and> ords_fit dt \<Longrightarrow>
     plain_templates dt' \<and> ords_fit dt'"
  by (induction es dt rule: fold_templates.induct)
    (auto simp: and_then_Inr_iff dest: decode_templates_readable)

lemma decode_ord_fails_iff:
  "(\<exists>err. decode_ord as old = Inl err) \<longleftrightarrow>
     (\<exists>v. (''ord'', v) \<in> set as \<and> v \<noteq> [] \<and> \<not> int64_text (TrimSpace v))"
proof (induction as arbitrary: old)
  case (Cons a as)
  obtain n v where a: "a = (n, v)" by (cases a)
  show ?case
  proof (cases "n = ''ord'' \<and> v \<noteq> []")
    case True
    then show ?thesis
      using Cons ParseInt_fails_iff [of "TrimSpace v"] by (cases "ParseInt (TrimSpace v)") (auto simp: a)
  next
    case False
    then show ?thesis using Cons by (auto simp: a)
  qed
qed simp

lemma and_then_Inl_total: "(\<exists>e. and_then m (\<lambda>x. Inr (f x)) = Inl e) \<longleftrightarrow> (\<exists>e. m = Inl e)"
  by (cases m) auto

lemma decode_EnumType_fails_iff:
  "(\<exists>err. decode_EnumType e = Inl err) \<longleftrightarrow>
     (\<exists>ev \<in> set (elements ''EnumVal'' (snd e)). \<exists>v. (''ord'', v) \<in> set (fst ev) \<and> v \<noteq> [] \<and>
        \<not> int64_text (TrimSpace v))"
  by (cases e) (simp add: decode_EnumType_def and_then_Inl_total traverse_fails_iff decode_EnumVal_def
      case_prod_beta decode_ord_fails_iff)

lemma fold_templates_fails_iff:
  "(\<exists>err. fold_templates es dt = Inl err) \<longleftrightarrow>
     (\<exists>e \<in> set es. \<exists>et \<in> set (elements ''EnumType'' (snd e)). \<exists>err. decode_EnumType et = Inl err)"
proof (induction es arbitrary: dt)
  case (Cons e es)
  have "(\<exists>err. decode_DataTypeTemplates dt e = Inl err) \<longleftrightarrow>
      (\<exists>et \<in> set (elements ''EnumType'' (snd e)). \<exists>err. decode_EnumType et = Inl err)"
    by (cases e) (simp add: decode_DataTypeTemplates_def and_then_Inl_total traverse_fails_iff)
  with Cons show ?case by (cases "decode_DataTypeTemplates dt e") auto
qed simp

lemma GetSCL_canonical:
  assumes "os_Open path = Inr (Inr content)" and "tree_of content = Inr root"
    and "canon ''SCL'' root = encode_SCL scl"
    and "plain_templates (scl_DataTypeTemplates scl)" and "ords_fit (scl_DataTypeTemplates scl)"
  shows "GetSCL tree_of os_Open path = (Inr scl, [])"
proof -
  have "Unmarshal root = Inr scl"
    using Unmarshal_canon [of root] Unmarshal_encode [OF assms(4,5)] assms(3) by simp
  with assms(1,2) show ?thesis by (simp add: GetSCL_def GetSCLFromFd_def)
qed

section \<open>Properties\<close>

text \<open>
  C20: \<open>GetSCL\<close> returns the document a file holds: for any text whose root element is, up to foreign
  elements and attributes, the order of attributes and of kinds of children, missing attributes and
  white space, the encoding of a document.
\<close>

theorem GetSCL_decodes:
  assumes "os_Open path = Inr (Inr content)" and "tree_of content = Inr root"
    and "canon ''SCL'' root = encode_SCL scl"
    and "plain_templates (scl_DataTypeTemplates scl)" and "ords_fit (scl_DataTypeTemplates scl)"
  shows "GetSCL tree_of os_Open path = (Inr scl, [])"
  using assms by (rule GetSCL_canonical)

text \<open>A file with a header, a private part and attributes in another order.\<close>

definition sample_root :: element where
  "sample_root = ([(''version'', ''2007'')],
     [Text ''  '', Elem ''Header'' [(''id'', ''x'')] [],
      Elem ''IED'' [(''name'', ''I''), (''owner'', ''o'')]
        [Elem ''AccessPoint'' [(''name'', ''S1'')]
           [Elem ''Server'' [(''timeout'', ''60'')]
              [Elem ''LDevice'' [(''inst'', ''LD'')]
                [Elem ''LN0'' [(''lnClass'', ''LLN0''), (''inst'', []), (''lnType'', ''T'')]
                   [Elem ''DataSet'' [(''name'', ''a'')] []]]]]],
      Elem ''DataTypeTemplates'' []
        [Elem ''EnumType'' [(''id'', ''E'')]
           [Text '' '', Elem ''EnumVal'' [(''ord'', ''-1'')] [Text ''off'']],
         Elem ''DAType'' [(''id'', ''D'')]
           [Elem ''BDA'' [(''name'', ''i''), (''bType'', ''INT32'')] [Elem ''Val'' [] [Text ''7'']]]]])"

definition read_scl :: SCL where
  "read_scl = \<lparr>scl_IED = [\<lparr>ied_Name = ''I'', ied_Type = [], ied_Desc = [], ied_ConfigVersion = [],
      ied_AccessPoint = [\<lparr>ap_Name = ''S1'', ap_LDevice = [\<lparr>ld_Inst = ''LD'', ld_LN = [],
        ld_LN0 = \<lparr>ln0_Inst = [], ln0_LnType = ''T'', ln0_LnClass = ''LLN0'',
          ln0_DataSets = [\<lparr>ds_Name = ''a'', ds_Desc = [], ds_FCDA = []\<rparr>]\<rparr>\<rparr>]\<rparr>]\<rparr>],
     scl_DataTypeTemplates = \<lparr>dtt_LNodeType = [], dtt_DOType = [],
       dtt_DAType = [\<lparr>dat_ID = ''D'', dat_BDA = [\<lparr>bda_Name = ''i'', bda_Type = [], bda_Val = GoNil\<rparr>], dat_DA = []\<rparr>],
       dtt_EnumType = [\<lparr>et_ID = ''E'', et_EnumVal = [\<lparr>ev_Ord = - 1, ev_Name = ''off''\<rparr>]\<rparr>]\<rparr>\<rparr>"

lemma sample_root_canon: "canon ''SCL'' sample_root = encode_SCL read_scl"
proof -
  have "Itoa (- 1) = ''-1''" by code_simp
  then show ?thesis
    by (simp add: sample_root_def read_scl_def canon_attrs_def tag_tables node_def encode_SCL_def encode_IED_def
        encode_AccessPoint_def encode_LDevice_def encode_LN0_def encode_DataSet_def encode_FCDA_def
        encode_DataTypeTemplates_def encode_DAType_def encode_BDA_def encode_EnumType_def encode_EnumVal_def
        cong: map_list_cong)
qed

theorem GetSCL_decodes_witness:
  "GetSCL (\<lambda>_. Inr sample_root) (\<lambda>_. Inr (Inr ''<SCL/>'')) ''a.icd'' = (Inr read_scl, [])"
  by (rule GetSCL_decodes [OF _ _ sample_root_canon])
    (simp_all add: read_scl_def plain_templates_def ords_fit_def)


text \<open>
  C24: the documents that reading can return are exactly those in which no attribute of a template has
  a value and the numbers of enumerations fit 64 bits: the \<open>Val\<close> elements of \<open>DA\<close> and \<open>BDA\<close>, which
  the structs declare, are never read.
\<close>

theorem readable_documents:
  "(\<exists>root. Unmarshal root = Inr scl) \<longleftrightarrow>
     plain_templates (scl_DataTypeTemplates scl) \<and> ords_fit (scl_DataTypeTemplates scl)"
proof
  assume "\<exists>root. Unmarshal root = Inr scl"
  then obtain as ks where "fold_templates (elements ''DataTypeTemplates'' ks) zero_templates
      = Inr (scl_DataTypeTemplates scl)"
    by (auto simp: Unmarshal_def and_then_Inr_iff)
  then show "plain_templates (scl_DataTypeTemplates scl) \<and> ords_fit (scl_DataTypeTemplates scl)"
    by (rule fold_templates_readable) (simp add: zero_templates_def plain_templates_def ords_fit_def)
next
  assume "plain_templates (scl_DataTypeTemplates scl) \<and> ords_fit (scl_DataTypeTemplates scl)"
  with Unmarshal_encode show "\<exists>root. Unmarshal root = Inr scl" by blast
qed

end
