(* ===== verification/Report_Bridge.thy ===== *)
theory Report_Bridge
  imports Mms_Api
begin

text \<open>
  \<open>report_bridge.c\<close>, the C part of the binding: a report's data set is flattened into one
  C array of tokens so that Go crosses into C once per report instead of once per value.
  \<open>count_mms_elements\<close> counts the slots, \<open>flatten_mms_value\<close> fills it and
  \<open>flattenReportDataSet\<close> runs both over the data set. Recursion takes fuel, one unit per
  level of nesting; a write outside the array, a signed overflow or a run out of fuel is a
  fault. The lemmas show that none of them happens, and what the array holds.
\<close>

section \<open>Tokens\<close>

definition FLAT_STRUCT_START :: int where "FLAT_STRUCT_START = 100"

definition FLAT_STRUCT_END :: int where "FLAT_STRUCT_END = 101"

definition FLAT_ARRAY_START :: int where "FLAT_ARRAY_START = 102"

definition FLAT_ARRAY_END :: int where "FLAT_ARRAY_END = 103"

record FlatMmsValue =
  flat_typ :: int
  flat_ival :: int64
  flat_dval :: c_double
  flat_sval :: "string option"

lemmas FLAT_defs = FLAT_STRUCT_START_def FLAT_STRUCT_END_def FLAT_ARRAY_START_def FLAT_ARRAY_END_def

section \<open>Counting\<close>

function (sequential) count_mms_elements :: "'v mms_api \<Rightarrow> nat \<Rightarrow> 'v option \<Rightarrow> c_fault + int"
  and count_loop :: "'v mms_api \<Rightarrow> nat \<Rightarrow> 'v \<Rightarrow> int \<Rightarrow> int \<Rightarrow> int \<Rightarrow> c_fault + int" where
  "count_mms_elements api fuel None = Inr 0"
| "count_mms_elements api 0 (Some val) = Inl OutOfFuel"
| "count_mms_elements api (Suc fuel) (Some val) =
     (let t = MmsValue_getType api val in
      if t = MmsType_code MMS_STRUCTURE \<or> t = MmsType_code MMS_ARRAY then
        let sz = sint (MmsValue_getArraySize api val) in count_loop api fuel val sz 0 2
      else Inr 1)"
| "count_loop api fuel val sz i count =
     (if i < sz then
        and_then (count_mms_elements api fuel (MmsValue_getElement api val i))
          (\<lambda>n. and_then (add_int count n) (\<lambda>count'. count_loop api fuel val sz (i + 1) count'))
      else Inr count)"
  by pat_completeness auto
termination
  by (relation "measures
      [\<lambda>x. case x of Inl (_, f, _) \<Rightarrow> 2 * f | Inr (_, f, _) \<Rightarrow> 2 * f + 1,
       \<lambda>x. case x of Inl _ \<Rightarrow> 0 | Inr (_, _, _, sz, i, _) \<Rightarrow> nat (sz - i)]") auto

declare count_loop.simps [simp del]

section \<open>Filling the array\<close>

definition update_slot :: "FlatMmsValue list \<Rightarrow> int \<Rightarrow> (FlatMmsValue \<Rightarrow> FlatMmsValue) \<Rightarrow>
    c_fault + FlatMmsValue list" where
  "update_slot arr index f =
     (if 0 \<le> index \<and> index < int (length arr)
      then Inr (arr[nat index := f (arr ! nat index)]) else Inl BadIndex)"

text \<open>\<open>arr[*index].field = ...; (*index)++;\<close>\<close>

definition store_advance :: "FlatMmsValue list \<Rightarrow> int \<Rightarrow> (FlatMmsValue \<Rightarrow> FlatMmsValue) \<Rightarrow>
    c_fault + FlatMmsValue list \<times> int" where
  "store_advance arr index f =
     and_then (update_slot arr index f)
       (\<lambda>arr'. and_then (add_int index 1) (\<lambda>index'. Inr (arr', index')))"

function (sequential) flatten_mms_value :: "'v mms_api \<Rightarrow> nat \<Rightarrow> 'v option \<Rightarrow> FlatMmsValue list \<Rightarrow>
    int \<Rightarrow> int \<Rightarrow> c_fault + FlatMmsValue list \<times> int"
  and flatten_loop :: "'v mms_api \<Rightarrow> nat \<Rightarrow> 'v \<Rightarrow> int \<Rightarrow> int \<Rightarrow> FlatMmsValue list \<Rightarrow>
    int \<Rightarrow> int \<Rightarrow> c_fault + FlatMmsValue list \<times> int" where
  "flatten_mms_value api fuel None arr index max_len = Inr (arr, index)"
| "flatten_mms_value api 0 (Some val) arr index max_len =
     (if index \<ge> max_len then Inr (arr, index) else Inl OutOfFuel)"
| "flatten_mms_value api (Suc fuel) (Some val) arr index max_len =
     (if index \<ge> max_len then Inr (arr, index)
      else let t = MmsValue_getType api val in
        and_then (update_slot arr index (\<lambda>s. s\<lparr>flat_typ := t\<rparr>)) (\<lambda>arr.
          if t = MmsType_code MMS_BOOLEAN then
            store_advance arr index
              (\<lambda>s. s\<lparr>flat_ival := (if MmsValue_getBoolean api val then 1 else 0)\<rparr>)
          else if t = MmsType_code MMS_FLOAT then
            store_advance arr index (\<lambda>s. s\<lparr>flat_dval := MmsValue_toDouble api val\<rparr>)
          else if t = MmsType_code MMS_INTEGER \<or> t = MmsType_code MMS_UNSIGNED then
            store_advance arr index (\<lambda>s. s\<lparr>flat_ival := MmsValue_toInt64 api val\<rparr>)
          else if t = MmsType_code MMS_STRING \<or> t = MmsType_code MMS_VISIBLE_STRING
              \<or> t = MmsType_code MMS_OCTET_STRING then
            store_advance arr index (\<lambda>s. s\<lparr>flat_sval := MmsValue_toString api val\<rparr>)
          else if t = MmsType_code MMS_BIT_STRING then
            store_advance arr index
              (\<lambda>s. s\<lparr>flat_ival := ucast (MmsValue_getBitStringAsInteger api val)\<rparr>)
          else if t = MmsType_code MMS_UTC_TIME then
            store_advance arr index
              (\<lambda>s. s\<lparr>flat_ival := ucast (MmsValue_toUnixTimestamp api val)\<rparr>)
          else if t = MmsType_code MMS_STRUCTURE \<or> t = MmsType_code MMS_ARRAY then
            and_then (store_advance arr index
              (\<lambda>s. s\<lparr>flat_typ := (if t = MmsType_code MMS_STRUCTURE
                  then FLAT_STRUCT_START else FLAT_ARRAY_START)\<rparr>))
              (\<lambda>(arr, index).
                let sz = sint (MmsValue_getArraySize api val) in
                and_then (flatten_loop api fuel val sz 0 arr index max_len)
                  (\<lambda>(arr, index).
                    if index < max_len then
                      store_advance arr index
                        (\<lambda>s. s\<lparr>flat_typ := (if t = MmsType_code MMS_STRUCTURE
                            then FLAT_STRUCT_END else FLAT_ARRAY_END)\<rparr>)
                    else Inr (arr, index)))
          else store_advance arr index (\<lambda>s. s)))"
| "flatten_loop api fuel val sz i arr index max_len =
     (if i < sz then
        and_then (flatten_mms_value api fuel (MmsValue_getElement api val i) arr index max_len)
          (\<lambda>(arr, index). flatten_loop api fuel val sz (i + 1) arr index max_len)
      else Inr (arr, index))"
  by pat_completeness auto
termination
  by (relation "measures
      [\<lambda>x. case x of Inl (_, f, _) \<Rightarrow> 2 * f | Inr (_, f, _) \<Rightarrow> 2 * f + 1,
       \<lambda>x. case x of Inl _ \<Rightarrow> 0 | Inr (_, _, _, sz, i, _) \<Rightarrow> nat (sz - i)]") auto

declare flatten_loop.simps [simp del]

section \<open>The data set of a report\<close>

text \<open>The two \<open>while (true)\<close> loops stop at the first null element; they take fuel, too.\<close>

fun count_elements :: "'v mms_api \<Rightarrow> nat \<Rightarrow> nat \<Rightarrow> 'v \<Rightarrow> int \<Rightarrow> int \<Rightarrow> c_fault + int" where
  "count_elements api depth 0 values i count = Inl OutOfFuel"
| "count_elements api depth (Suc fuel) values i count =
     (case MmsValue_getElement api values i of
        None \<Rightarrow> Inr count
      | Some val \<Rightarrow>
          and_then (count_mms_elements api depth (Some val)) (\<lambda>n.
          and_then (add_int count n) (\<lambda>count'.
          and_then (add_int i 1) (\<lambda>i'. count_elements api depth fuel values i' count'))))"

fun flatten_elements :: "'v mms_api \<Rightarrow> nat \<Rightarrow> nat \<Rightarrow> 'v \<Rightarrow> int \<Rightarrow> FlatMmsValue list \<Rightarrow> int \<Rightarrow>
    int \<Rightarrow> c_fault + FlatMmsValue list \<times> int" where
  "flatten_elements api depth 0 values i arr index max_len = Inl OutOfFuel"
| "flatten_elements api depth (Suc fuel) values i arr index max_len =
     (case MmsValue_getElement api values i of
        None \<Rightarrow> Inr (arr, index)
      | Some val \<Rightarrow>
          and_then (flatten_mms_value api depth (Some val) arr index max_len) (\<lambda>(arr, index).
          and_then (add_int i 1) (\<lambda>i'. flatten_elements api depth fuel values i' arr index max_len)))"

text \<open>
  \<open>malloc n\<close> is the block of \<open>n\<close> array elements the C library returns, with whatever
  it contains, or \<open>None\<close> when it fails. The result is the returned pointer (\<open>None\<close> for
  null) and \<open>*out_count\<close>.
\<close>

definition flattenReportDataSet :: "'v mms_api \<Rightarrow> ('r, 'v) report_api \<Rightarrow>
    (nat \<Rightarrow> FlatMmsValue list option) \<Rightarrow> nat \<Rightarrow> nat \<Rightarrow> 'r \<Rightarrow>
    c_fault + FlatMmsValue list option \<times> int" where
  "flattenReportDataSet api rapi malloc depth fuel report =
     (case ClientReport_getDataSetValues rapi report of
        None \<Rightarrow> Inr (None, 0)
      | Some values \<Rightarrow>
          and_then (count_elements api depth fuel values 0 0) (\<lambda>count.
            if count = 0 then Inr (None, 0)
            else case malloc (nat count) of
                None \<Rightarrow> Inr (None, 0)
              | Some arr \<Rightarrow>
                  and_then (flatten_elements api depth fuel values 0 arr 0 count)
                    (\<lambda>(arr, index). Inr (Some arr, index))))"

section \<open>What the array should hold\<close>

text \<open>
  The tokens of a value, in order: brackets around the tokens of the elements of a structure
  or array (null elements have none), one token for anything else. \<open>slot_ok\<close> says which
  fields of an array element a token determines; the others keep what \<open>malloc\<close> left there.
\<close>

datatype token =
    TBool bool
  | TFloat c_double
  | TInt int int64
  | TStr int "string option"
  | TOpen int
  | TClose int
  | TOther int

fun tokens :: "mms_tree \<Rightarrow> token list"
  and tokens_list :: "mms_tree option list \<Rightarrow> token list" where
  "tokens (MBool b) = [TBool b]"
| "tokens (MFloat d) = [TFloat d]"
| "tokens (MInteger n) = [TInt (MmsType_code MMS_INTEGER) n]"
| "tokens (MUnsigned n) = [TInt (MmsType_code MMS_UNSIGNED) n]"
| "tokens (MString s) = [TStr (MmsType_code MMS_STRING) s]"
| "tokens (MVisibleString s) = [TStr (MmsType_code MMS_VISIBLE_STRING) s]"
| "tokens (MOctetString s) = [TStr (MmsType_code MMS_OCTET_STRING) s]"
| "tokens (MBitString n) = [TInt (MmsType_code MMS_BIT_STRING) (ucast n)]"
| "tokens (MUtcTime n) = [TInt (MmsType_code MMS_UTC_TIME) (ucast n)]"
| "tokens (MOther t) = [TOther (MmsType_code t)]"
| "tokens (MStructure ts) = TOpen FLAT_STRUCT_START # tokens_list ts @ [TClose FLAT_STRUCT_END]"
| "tokens (MArray ts) = TOpen FLAT_ARRAY_START # tokens_list ts @ [TClose FLAT_ARRAY_END]"
| "tokens_list [] = []"
| "tokens_list (None # ts) = tokens_list ts"
| "tokens_list (Some t # ts) = tokens t @ tokens_list ts"

fun slot_ok :: "token \<Rightarrow> FlatMmsValue \<Rightarrow> bool" where
  "slot_ok (TBool b) s \<longleftrightarrow> flat_typ s = MmsType_code MMS_BOOLEAN \<and> flat_ival s = (if b then 1 else 0)"
| "slot_ok (TFloat d) s \<longleftrightarrow> flat_typ s = MmsType_code MMS_FLOAT \<and> flat_dval s = d"
| "slot_ok (TInt t n) s \<longleftrightarrow> flat_typ s = t \<and> flat_ival s = n"
| "slot_ok (TStr t x) s \<longleftrightarrow> flat_typ s = t \<and> flat_sval s = x"
| "slot_ok (TOpen t) s \<longleftrightarrow> flat_typ s = t"
| "slot_ok (TClose t) s \<longleftrightarrow> flat_typ s = t"
| "slot_ok (TOther t) s \<longleftrightarrow> flat_typ s = t"

text \<open>Levels of recursion below a value.\<close>

fun depth :: "mms_tree \<Rightarrow> nat"
  and depth_list :: "mms_tree option list \<Rightarrow> nat" where
  "depth (MStructure ts) = Suc (depth_list ts)"
| "depth (MArray ts) = Suc (depth_list ts)"
| "depth _ = 1"
| "depth_list [] = 0"
| "depth_list (None # ts) = depth_list ts"
| "depth_list (Some t # ts) = max (depth t) (depth_list ts)"

lemma tokens_pos: "0 < length (tokens t)"
  by (cases t) auto

lemma tokens_Suc:
  obtains k where "length (tokens t) = Suc k"
  using tokens_pos [of t] gr0_implies_Suc by blast

lemma depth_pos: "0 < depth t"
  by (cases t) auto

section \<open>The count is the number of tokens\<close>

lemma count_mms_elements_tokens:
  "represents api v t \<Longrightarrow> depth t \<le> fuel \<Longrightarrow> int (length (tokens t)) \<le> INT_MAX \<Longrightarrow>
     count_mms_elements api fuel (Some v) = Inr (int (length (tokens t)))"
  "represents_elems api v i ts \<Longrightarrow> depth_list ts \<le> fuel \<Longrightarrow> 0 \<le> c \<Longrightarrow>
     c + int (length (tokens_list ts)) \<le> INT_MAX \<Longrightarrow> sz = i + int (length ts) \<Longrightarrow>
     count_loop api fuel v sz i c = Inr (c + int (length (tokens_list ts)))"
proof (induction api v t and api v i ts arbitrary: fuel and fuel c sz
    rule: represents_represents_elems.induct)
  case (1 api v ts)
  then obtain f where f: "fuel = Suc f" by (cases fuel) auto
  have "count_loop api f v (int (length ts)) 0 2 = Inr (2 + int (length (tokens_list ts)))"
    using 1 f by (intro "1.IH") auto
  with 1 f show ?case by (simp add: Let_def)
next
  case (2 api v ts)
  then obtain f where f: "fuel = Suc f" by (cases fuel) auto
  have "count_loop api f v (int (length ts)) 0 2 = Inr (2 + int (length (tokens_list ts)))"
    using 2 f by (intro "2.IH") auto
  with 2 f show ?case by (simp add: Let_def)
next
  case (4 api v i)
  then show ?case by (simp add: count_loop.simps)
next
  case (5 api v i ts)
  have "count_loop api fuel v sz (i + 1) c = Inr (c + int (length (tokens_list ts)))"
    by (rule "5.IH") (use "5.prems" in simp_all)
  then show ?case
    using "5.prems" by (subst count_loop.simps) (simp add: add_int_ok)
next
  case (6 api v i t ts)
  then obtain w where w: "MmsValue_getElement api v i = Some w" "represents api w t"
    "represents_elems api v (i + 1) ts"
    by (auto split: option.splits)
  have n: "count_mms_elements api fuel (Some w) = Inr (int (length (tokens t)))"
    by (rule "6.IH"(1) [OF w(1)]) (use "6.prems" w in simp_all)
  have "count_loop api fuel v sz (i + 1) (c + int (length (tokens t)))
      = Inr (c + int (length (tokens t)) + int (length (tokens_list ts)))"
    by (rule "6.IH"(2) [OF w(1)]) (use "6.prems" w in simp_all)
  then show ?case
    using "6.prems" w n by (subst count_loop.simps) (simp add: add_int_ok)
qed (auto simp: opaque_types_def Let_def dest!: Suc_le_D)

section \<open>The array holds the tokens\<close>

lemma update_slot_append [fault_simps]:
  "update_slot (pre @ s # post) (int (length pre)) f = Inr (pre @ f s # post)"
  by (simp add: update_slot_def)

lemma store_advance_append [fault_simps]:
  assumes "int (length pre) < INT_MAX"
  shows "store_advance (pre @ s # post) (int (length pre)) f
      = Inr (pre @ f s # post, int (length pre) + 1)"
  using assms by (simp add: store_advance_def update_slot_append add_int_ok)

lemma split_length:
  assumes "length xs = m + n"
  obtains ys zs where "xs = ys @ zs" and "length ys = m" and "length zs = n"
  using assms that [of "take m xs" "drop m xs"] by simp

lemma bracket_split:
  assumes "length xs = Suc (Suc n)"
  obtains s inner e where "xs = s # inner @ [e]" and "length inner = n"
proof -
  from assms obtain s ys where xs: "xs = s # ys" "length ys = Suc n" by (cases xs) auto
  then obtain inner e where "ys = inner @ [e]" by (cases ys rule: rev_cases) auto
  with xs show thesis by (intro that [of s inner e]) auto
qed

lemma flatten_brackets:
  assumes t: "t = MMS_STRUCTURE \<and> open_t = FLAT_STRUCT_START \<and> close_t = FLAT_STRUCT_END
      \<or> t = MMS_ARRAY \<and> open_t = FLAT_ARRAY_START \<and> close_t = FLAT_ARRAY_END"
    and ty: "MmsValue_getType api v = MmsType_code t"
    and sz: "sint (MmsValue_getArraySize api v) = sz"
    and ts: "length ts = length inner"
    and bound: "int (length pre + length inner + 2) \<le> max_len" "max_len \<le> INT_MAX"
    and loop: "\<And>pre' post'. length pre' = Suc (length pre) \<Longrightarrow>
        \<exists>inner'. flatten_loop api fuel v sz 0 (pre' @ inner @ post') (int (length pre')) max_len
            = Inr (pre' @ inner' @ post', int (length pre') + int (length inner))
          \<and> list_all2 slot_ok ts inner'"
  shows "\<exists>mid'. flatten_mms_value api (Suc fuel) (Some v) (pre @ (s # inner @ [e]) @ post)
            (int (length pre)) max_len
          = Inr (pre @ mid' @ post, int (length pre) + int (length (s # inner @ [e])))
        \<and> list_all2 slot_ok (TOpen open_t # ts @ [TClose close_t]) mid'"
proof -
  let ?s = "s\<lparr>flat_typ := open_t\<rparr>" and ?e = "e\<lparr>flat_typ := close_t\<rparr>"
  obtain inner' where
    loop': "flatten_loop api fuel v sz 0 ((pre @ [?s]) @ inner @ e # post) (int (length (pre @ [?s]))) max_len
        = Inr ((pre @ [?s]) @ inner' @ e # post, int (length (pre @ [?s])) + int (length inner))"
    and ok: "list_all2 slot_ok ts inner'"
    using loop [of "pre @ [?s]" "e # post"] by auto
  have len: "length inner' = length inner"
    using list_all2_lengthD [OF ok] ts by simp
  have close: "store_advance (pre @ ?s # inner' @ e # post) (1 + (int (length pre) + int (length inner))) f
      = Inr (pre @ ?s # inner' @ f e # post, int (length pre) + int (length inner) + 2)" for f
    using store_advance_append [of "pre @ ?s # inner'" e post f] bound len by (simp add: algebra_simps)
  have "flatten_mms_value api (Suc fuel) (Some v) (pre @ (s # inner @ [e]) @ post) (int (length pre)) max_len
      = Inr (pre @ (?s # inner' @ [?e]) @ post, int (length pre) + int (length (s # inner @ [e])))"
    using t ty sz bound loop' close
    by (auto simp: Let_def fault_simps algebra_simps)
  moreover have "list_all2 slot_ok (TOpen open_t # ts @ [TClose close_t]) (?s # inner' @ [?e])"
    using ok by (auto intro: list_all2_appendI)
  ultimately show ?thesis by blast
qed

lemma flatten_mms_value_tokens:
  "represents api v t \<Longrightarrow> depth t \<le> fuel \<Longrightarrow> length mid = length (tokens t) \<Longrightarrow>
     int (length pre + length mid) \<le> max_len \<Longrightarrow> max_len \<le> INT_MAX \<Longrightarrow>
     \<exists>mid'. flatten_mms_value api fuel (Some v) (pre @ mid @ post) (int (length pre)) max_len
         = Inr (pre @ mid' @ post, int (length pre) + int (length mid))
       \<and> list_all2 slot_ok (tokens t) mid'"
  "represents_elems api v i ts \<Longrightarrow> depth_list ts \<le> fuel \<Longrightarrow>
     length mid = length (tokens_list ts) \<Longrightarrow>
     int (length pre + length mid) \<le> max_len \<Longrightarrow> max_len \<le> INT_MAX \<Longrightarrow>
     sz = i + int (length ts) \<Longrightarrow>
     \<exists>mid'. flatten_loop api fuel v sz i (pre @ mid @ post) (int (length pre)) max_len
         = Inr (pre @ mid' @ post, int (length pre) + int (length mid))
       \<and> list_all2 slot_ok (tokens_list ts) mid'"
proof (induction api v t and api v i ts arbitrary: fuel pre mid post and fuel pre mid post sz
    rule: represents_represents_elems.induct)
  case (1 api v ts)
  from 1 obtain f where f: "fuel = Suc f" by (cases fuel) auto
  from 1 have "length mid = Suc (Suc (length (tokens_list ts)))" by simp
  then obtain s inner e where mid: "mid = s # inner @ [e]" and inner: "length inner = length (tokens_list ts)"
    by (rule bracket_split)
  show ?case
    unfolding f mid tokens.simps
    by (rule flatten_brackets [where t = MMS_STRUCTURE and sz = "int (length ts)"],
        (use 1 f mid inner in simp_all)[6], rule "1.IH", use 1 f mid inner in simp_all)
next
  case (2 api v ts)
  from 2 obtain f where f: "fuel = Suc f" by (cases fuel) auto
  from 2 have "length mid = Suc (Suc (length (tokens_list ts)))" by simp
  then obtain s inner e where mid: "mid = s # inner @ [e]" and inner: "length inner = length (tokens_list ts)"
    by (rule bracket_split)
  show ?case
    unfolding f mid tokens.simps
    by (rule flatten_brackets [where t = MMS_ARRAY and sz = "int (length ts)"],
        (use 2 f mid inner in simp_all)[6], rule "2.IH", use 2 f mid inner in simp_all)
next
  case (4 api v i)
  then show ?case by (simp add: flatten_loop.simps)
next
  case (5 api v i ts)
  have "\<exists>mid'. flatten_loop api fuel v sz (i + 1) (pre @ mid @ post) (int (length pre)) max_len
         = Inr (pre @ mid' @ post, int (length pre) + int (length mid))
       \<and> list_all2 slot_ok (tokens_list ts) mid'"
    by (rule "5.IH") (use "5.prems" in simp_all)
  then show ?case
    using "5.prems" by (subst flatten_loop.simps) (simp add: fault_simps)
next
  case (6 api v i t ts)
  then obtain w where w: "MmsValue_getElement api v i = Some w" "represents api w t"
    "represents_elems api v (i + 1) ts"
    by (auto split: option.splits)
  obtain m1 m2 where m: "mid = m1 @ m2" "length m1 = length (tokens t)" "length m2 = length (tokens_list ts)"
    using split_length [of mid "length (tokens t)" "length (tokens_list ts)"] "6.prems"(3) by auto
  obtain m1' where m1: "flatten_mms_value api fuel (Some w) (pre @ m1 @ m2 @ post) (int (length pre)) max_len
         = Inr (pre @ m1' @ m2 @ post, int (length pre) + int (length m1))"
     "list_all2 slot_ok (tokens t) m1'"
    using "6.IH"(1) [OF w(1) w(2), of fuel m1 pre "m2 @ post"] "6.prems" m by auto
  have len: "length m1' = length m1" using m1(2) m by (simp add: list_all2_lengthD [symmetric])
  obtain m2' where m2: "flatten_loop api fuel v sz (i + 1) ((pre @ m1') @ m2 @ post) (int (length (pre @ m1'))) max_len
         = Inr ((pre @ m1') @ m2' @ post, int (length (pre @ m1')) + int (length m2))"
     "list_all2 slot_ok (tokens_list ts) m2'"
    using "6.IH"(2) [OF w(1) w(3), of fuel m2 "pre @ m1'" sz post] "6.prems" m len by auto
  have "flatten_loop api fuel v sz i (pre @ mid @ post) (int (length pre)) max_len
      = Inr (pre @ (m1' @ m2') @ post, int (length pre) + int (length mid))"
    using "6.prems" w m m1 m2 len by (subst flatten_loop.simps) (simp add: fault_simps)
  moreover have "list_all2 slot_ok (tokens_list (Some t # ts)) (m1' @ m2')"
    using m1 m2 by (simp add: list_all2_appendI)
  ultimately show ?case by blast
qed (auto simp: opaque_types_def Let_def length_Suc_conv fault_simps dest!: Suc_le_D)

section \<open>Flattening a report\<close>

text \<open>The elements before the first null one.\<close>

fun leading :: "'a option list \<Rightarrow> 'a list" where
  "leading [] = []"
| "leading (None # _) = []"
| "leading (Some x # xs) = x # leading xs"

abbreviation report_tokens :: "mms_tree option list \<Rightarrow> token list" where
  "report_tokens elems \<equiv> concat (map tokens (leading elems))"

lemma leading_le_tokens: "length (leading elems) \<le> length (report_tokens elems)"
proof (induction elems rule: leading.induct)
  case (3 x xs)
  obtain k where "length (tokens x) = Suc k" by (rule tokens_Suc)
  with 3 show ?case by simp
qed simp_all

lemma leading_eq_Nil_iff: "report_tokens elems = [] \<longleftrightarrow> leading elems = []"
proof
  assume "report_tokens elems = []"
  then have "length (report_tokens elems) = 0" by (simp only: list.size)
  then have "length (leading elems) \<le> 0" using leading_le_tokens [of elems] by linarith
  then show "leading elems = []" by simp
qed simp

lemma count_elements_tokens:
  assumes "represents_elems api vs i elems" and "\<forall>t \<in> set (leading elems). depth t \<le> d"
    and "length (leading elems) < fuel" and "0 \<le> i" and "i \<le> c"
    and "c + int (length (report_tokens elems)) \<le> INT_MAX"
  shows "count_elements api d fuel vs i c = Inr (c + int (length (report_tokens elems)))"
  using assms
proof (induction elems arbitrary: i c fuel rule: leading.induct)
  case 1
  then show ?case by (cases fuel) auto
next
  case (2 xs)
  then show ?case by (cases fuel) auto
next
  case (3 t ts)
  then obtain w where w: "MmsValue_getElement api vs i = Some w" "represents api w t"
    "represents_elems api vs (i + 1) ts"
    by (auto split: option.splits)
  obtain k where k: "length (tokens t) = Suc k" by (rule tokens_Suc)
  from 3 obtain f where f: "fuel = Suc f" by (cases fuel) auto
  have n: "count_mms_elements api d (Some w) = Inr (int (length (tokens t)))"
    using w 3 by (intro count_mms_elements_tokens) auto
  have "count_elements api d f vs (i + 1) (c + int (length (tokens t)))
      = Inr (c + int (length (tokens t)) + int (length (report_tokens ts)))"
    using 3 w f k by (intro "3.IH") auto
  then show ?case
    using 3 w n f k by (simp add: add_int_ok)
qed

lemma flatten_elements_tokens:
  assumes "represents_elems api vs i elems" and "\<forall>t \<in> set (leading elems). depth t \<le> d"
    and "length (leading elems) < fuel" and "0 \<le> i" and "i \<le> int (length pre)"
    and "length mid = length (report_tokens elems)"
    and "int (length pre + length mid) \<le> max_len" and "max_len \<le> INT_MAX"
  shows "\<exists>mid'. flatten_elements api d fuel vs i (pre @ mid @ post) (int (length pre)) max_len
      = Inr (pre @ mid' @ post, int (length pre) + int (length mid))
    \<and> list_all2 slot_ok (report_tokens elems) mid'"
  using assms
proof (induction elems arbitrary: i pre mid fuel rule: leading.induct)
  case 1
  then show ?case by (cases fuel) auto
next
  case (2 xs)
  then show ?case by (cases fuel) auto
next
  case (3 t ts)
  then obtain w where w: "MmsValue_getElement api vs i = Some w" "represents api w t"
    "represents_elems api vs (i + 1) ts"
    by (auto split: option.splits)
  obtain k where k: "length (tokens t) = Suc k" by (rule tokens_Suc)
  from 3 obtain f where f: "fuel = Suc f" by (cases fuel) auto
  obtain ma mb where m: "mid = ma @ mb" "length ma = length (tokens t)" "length mb = length (report_tokens ts)"
    using split_length [of mid "length (tokens t)" "length (report_tokens ts)"] "3.prems"(6) by auto
  obtain m1 where m1: "flatten_mms_value api d (Some w) (pre @ ma @ mb @ post) (int (length pre)) max_len
      = Inr (pre @ m1 @ mb @ post, int (length pre) + int (length ma))"
    "list_all2 slot_ok (tokens t) m1"
    using flatten_mms_value_tokens(1) [OF w(2), of d ma pre max_len "mb @ post"] 3 m by auto
  have len: "length m1 = length (tokens t)"
    using m1(2) by (simp add: list_all2_lengthD)
  obtain m2 where m2: "flatten_elements api d f vs (i + 1) ((pre @ m1) @ mb @ post) (int (length (pre @ m1))) max_len
      = Inr ((pre @ m1) @ m2 @ post, int (length (pre @ m1)) + int (length mb))"
    "list_all2 slot_ok (report_tokens ts) m2"
    using "3.IH" [OF w(3), of f "pre @ m1" mb] 3 f m len k by auto
  have "flatten_elements api d fuel vs i (pre @ mid @ post) (int (length pre)) max_len
      = Inr (pre @ (m1 @ m2) @ post, int (length pre) + int (length mid))"
    using 3 w f m m1 m2 len k
    by (simp add: add_int_ok add.assoc add.left_commute)
  moreover have "list_all2 slot_ok (report_tokens (Some t # ts)) (m1 @ m2)"
    using m1 m2 by (simp add: list_all2_appendI)
  ultimately show ?case by blast
qed

lemma flattenReportDataSet_tokens:
  assumes vs: "ClientReport_getDataSetValues rapi r = Some vs" "represents_elems api vs 0 elems"
    and d: "\<forall>t \<in> set (leading elems). depth t \<le> d" and fuel: "length (leading elems) < fuel"
    and bound: "int (length (report_tokens elems)) \<le> INT_MAX"
    and malloc: "malloc (length (report_tokens elems)) = Some arr" "length arr = length (report_tokens elems)"
    and ne: "leading elems \<noteq> []"
  shows "\<exists>arr'. flattenReportDataSet api rapi malloc d fuel r
        = Inr (Some arr', int (length (report_tokens elems)))
      \<and> list_all2 slot_ok (report_tokens elems) arr'"
proof -
  have c: "count_elements api d fuel vs 0 0 = Inr (int (length (report_tokens elems)))"
    using count_elements_tokens [OF vs(2) d fuel, of 0] bound by simp
  obtain arr' where "flatten_elements api d fuel vs 0 arr 0 (int (length (report_tokens elems)))
      = Inr (arr', int (length (report_tokens elems)))"
    "list_all2 slot_ok (report_tokens elems) arr'"
    using flatten_elements_tokens [OF vs(2) d fuel, of "[]" arr _ "[]"] malloc bound by auto
  moreover have "report_tokens elems \<noteq> []"
    using ne leading_eq_Nil_iff by auto
  ultimately show ?thesis
    using c vs malloc by (simp add: flattenReportDataSet_def)
qed

lemma flattenReportDataSet_null:
  assumes "ClientReport_getDataSetValues rapi r = None
      \<or> (\<exists>vs. ClientReport_getDataSetValues rapi r = Some vs \<and> MmsValue_getElement api vs 0 = None)"
  shows "flattenReportDataSet api rapi malloc d (Suc fuel) r = Inr (None, 0)"
  using assms by (auto simp: flattenReportDataSet_def)

lemma flatten_array:
  assumes "ClientReport_getDataSetValues rapi r = Some vs" and "represents_elems api vs 0 elems"
    and "\<forall>t \<in> set (leading elems). depth t \<le> d" and "length (leading elems) < fuel"
    and "int (length (report_tokens elems)) \<le> INT_MAX"
    and "\<And>n arr. malloc n = Some arr \<Longrightarrow> length arr = n"
  shows "case flattenReportDataSet api rapi malloc d fuel r of
      Inl fault \<Rightarrow> False
    | Inr (None, n) \<Rightarrow> n = 0 \<and> (leading elems = [] \<or> malloc (length (report_tokens elems)) = None)
    | Inr (Some arr, n) \<Rightarrow> n = int (length arr) \<and> list_all2 slot_ok (report_tokens elems) arr"
proof (cases "leading elems = []")
  case True
  from assms(4) obtain f where "fuel = Suc f" by (cases fuel) auto
  moreover have "MmsValue_getElement api vs 0 = None"
    using assms(2) True by (cases elems rule: leading.cases) auto
  ultimately show ?thesis
    using flattenReportDataSet_null [of rapi r api malloc d f] assms(1) True by simp
next
  case False
  show ?thesis
  proof (cases "malloc (length (report_tokens elems))")
    case None
    have "report_tokens elems \<noteq> []" using False leading_eq_Nil_iff by auto
    then show ?thesis
      using count_elements_tokens [OF assms(2-4), of 0] assms(1,5) None
      by (simp add: flattenReportDataSet_def)
  next
    case (Some arr)
    then obtain arr' where "flattenReportDataSet api rapi malloc d fuel r
        = Inr (Some arr', int (length (report_tokens elems)))"
      "list_all2 slot_ok (report_tokens elems) arr'"
      using flattenReportDataSet_tokens [where malloc = malloc, OF assms(1-5) _ _ False] assms(6)
      by blast
    then show ?thesis by (auto dest: list_all2_lengthD)
  qed
qed


definition sample_slots :: "nat \<Rightarrow> FlatMmsValue list option" where
  "sample_slots n =
     Some (replicate n \<lparr>flat_typ = -1, flat_ival = 5, flat_dval = 5, flat_sval = None\<rparr>)"

definition sample_elems :: "mms_tree option list" where
  "sample_elems = [Some (MStructure [Some (MFloat 17), None, Some (MBitString 3)]), Some (MBool True),
     None, Some (MBool False)]"

lemma sample_elems_ok:
  "ClientReport_getDataSetValues tree_report (MArray sample_elems) = Some (MArray sample_elems)"
  "represents_elems tree_api (MArray sample_elems) 0 sample_elems"
  "\<forall>t \<in> set (leading sample_elems). depth t \<le> 2" "length (leading sample_elems) < 3"
  "int (length (report_tokens sample_elems)) \<le> INT_MAX"
  "sample_slots n = Some arr \<Longrightarrow> length arr = n"
  by (auto simp: sample_elems_def tree_api_simps sample_slots_def INT_MAX_def nth_Cons')


end
