(* ===== verification/Report_Decode.thy ===== *)
theory Report_Decode
  imports Report_Bridge
begin

text \<open>
  The Go side of a received report (\<open>iec61850_report.go\<close>): \<open>extractFlatValue\<close> reads one
  value back from the token array the C bridge filled, and \<open>buildReport\<close> assembles the
  \<open>Report\<close> handed to the subscriber. The recursion of \<open>extractFlatValue\<close> takes fuel;
  \<open>extract_fuel\<close> is enough for every array. The locale \<open>flat_reader\<close> is what the loop of
  \<open>buildReport\<close> needs of the function that reads one value.
\<close>

section \<open>Reading one value\<close>

fun extractFlatValue :: "nat \<Rightarrow> FlatMmsValue list \<Rightarrow> nat \<Rightarrow> c_fault + go_value \<times> nat"
  and extract_subs :: "nat \<Rightarrow> FlatMmsValue list \<Rightarrow> nat \<Rightarrow> go_value list \<Rightarrow>
    c_fault + go_value list \<times> nat" where
  "extractFlatValue 0 flatSlice pos = Inl OutOfFuel"
| "extractFlatValue (Suc fuel) flatSlice pos =
     (if pos \<ge> length flatSlice then Inr (GoNil, pos)
      else let elem = flatSlice ! pos; pos = pos + 1; t = flat_typ elem in
        if t = Go_MMS_BOOLEAN then Inr (GoBool (flat_ival elem \<noteq> 0), pos)
        else if t = Go_MMS_FLOAT then Inr (GoFloat64 (flat_dval elem), pos)
        else if t = Go_MMS_INTEGER \<or> t = Go_MMS_UNSIGNED then Inr (GoInt64 (flat_ival elem), pos)
        else if t = Go_MMS_STRING \<or> t = Go_MMS_VISIBLE_STRING \<or> t = Go_MMS_OCTET_STRING then
          Inr (GoString (GoString_or_empty (flat_sval elem)), pos)
        else if t = Go_MMS_BIT_STRING then Inr (GoUint32 (ucast (flat_ival elem)), pos)
        else if t = Go_MMS_UTC_TIME then Inr (GoUint32 (ucast (flat_ival elem)), pos)
        else if t = 100 \<or> t = 102 then
          and_then (extract_subs fuel flatSlice pos []) (\<lambda>(subs, pos). Inr (GoSlice subs, pos))
        else Inr (GoNil, pos))"
| "extract_subs 0 flatSlice pos subs = Inl OutOfFuel"
| "extract_subs (Suc fuel) flatSlice pos subs =
     (if pos < length flatSlice then
        let t = flat_typ (flatSlice ! pos) in
        if t = 101 \<or> t = 103 then Inr (subs, pos + 1)
        else and_then (extractFlatValue fuel flatSlice pos)
          (\<lambda>(v, pos). extract_subs fuel flatSlice pos (subs @ [v]))
      else Inr (subs, pos))"

definition extract_fuel :: "FlatMmsValue list \<Rightarrow> nat" where
  "extract_fuel flatSlice = 2 * length flatSlice + 2"

section \<open>The report\<close>

record ReportEntry =
  entry_Value :: go_value
  entry_Reason :: int

record Report =
  RcbRef :: string
  DataSetRef :: string
  SequenceNo :: uint16
  Timestamp :: uint64
  Entries :: "ReportEntry list"

text \<open>The loop of \<open>buildReport\<close>, over the function that reads one value and the one that makes
  the entry of index \<open>i\<close> from it.\<close>

fun read_loop :: "nat \<Rightarrow> ('s list \<Rightarrow> nat \<Rightarrow> c_fault + 'v \<times> nat) \<Rightarrow> (nat \<Rightarrow> 'v \<Rightarrow> 'e) \<Rightarrow>
    's list \<Rightarrow> nat \<Rightarrow> nat \<Rightarrow> 'e list \<Rightarrow> c_fault + 'e list" where
  "read_loop 0 read1 mk flatSlice i pos entries = Inl OutOfFuel"
| "read_loop (Suc fuel) read1 mk flatSlice i pos entries =
     (if pos < length flatSlice then
        and_then (read1 flatSlice pos)
          (\<lambda>(v, pos). read_loop fuel read1 mk flatSlice (i + 1) pos (entries @ [mk i v]))
      else Inr entries)"

definition report_entry :: "('r, 'v) report_api \<Rightarrow> 'r \<Rightarrow> nat \<Rightarrow> go_value \<Rightarrow> ReportEntry" where
  "report_entry rapi cr i v = \<lparr>entry_Value = v,
     entry_Reason = (if ClientReport_hasReasonForInclusion rapi cr
       then ClientReport_getReasonForInclusion rapi cr (sint (word_of_nat i :: int32)) else 0)\<rparr>"

definition buildReport :: "'v mms_api \<Rightarrow> ('r, 'v) report_api \<Rightarrow>
    (nat \<Rightarrow> FlatMmsValue list option) \<Rightarrow> nat \<Rightarrow> nat \<Rightarrow> string \<Rightarrow> 'r \<Rightarrow> c_fault + Report" where
  "buildReport api rapi malloc levels fuel rcbRef cr =
     (let r = \<lparr>RcbRef = rcbRef,
        DataSetRef = GoString_or_empty (ClientReport_getDataSetName rapi cr),
        SequenceNo = (if ClientReport_hasSeqNum rapi cr then ClientReport_getSeqNum rapi cr else 0),
        Timestamp = (if ClientReport_hasTimestamp rapi cr then ClientReport_getTimestamp rapi cr else 0),
        Entries = []\<rparr> in
      and_then (flattenReportDataSet api rapi malloc levels fuel cr) (\<lambda>(cArr, count).
        case cArr of
          None \<Rightarrow> Inr r
        | Some arr \<Rightarrow>
            if count \<le> 0 then Inr r
            else let flatSlice = take (nat count) arr in
              and_then (read_loop (length flatSlice + 1)
                  (\<lambda>s. extractFlatValue (extract_fuel s) s) (report_entry rapi cr) flatSlice 0 0 [])
                (\<lambda>entries. Inr (r\<lparr>Entries := entries\<rparr>))))"

section \<open>The value a token sequence stands for\<close>

text \<open>
  What Go sees of a value: null elements of a structure or array leave no trace, types no
  accessor reads become \<open>nil\<close>, a structure and an array of the same elements look alike.
\<close>

fun go_of_tree :: "mms_tree \<Rightarrow> go_value"
  and go_of_trees :: "mms_tree option list \<Rightarrow> go_value list" where
  "go_of_tree (MBool b) = GoBool b"
| "go_of_tree (MFloat d) = GoFloat64 d"
| "go_of_tree (MInteger n) = GoInt64 n"
| "go_of_tree (MUnsigned n) = GoInt64 n"
| "go_of_tree (MString s) = GoString (GoString_or_empty s)"
| "go_of_tree (MVisibleString s) = GoString (GoString_or_empty s)"
| "go_of_tree (MOctetString s) = GoString (GoString_or_empty s)"
| "go_of_tree (MBitString n) = GoUint32 n"
| "go_of_tree (MUtcTime n) = GoUint32 n"
| "go_of_tree (MOther t) = GoNil"
| "go_of_tree (MStructure ts) = GoSlice (go_of_trees ts)"
| "go_of_tree (MArray ts) = GoSlice (go_of_trees ts)"
| "go_of_trees [] = []"
| "go_of_trees (None # ts) = go_of_trees ts"
| "go_of_trees (Some t # ts) = go_of_tree t # go_of_trees ts"

text \<open>Values whose opaque leaves really are of a type no accessor reads.\<close>

fun wf_tree :: "mms_tree \<Rightarrow> bool"
  and wf_trees :: "mms_tree option list \<Rightarrow> bool" where
  "wf_tree (MOther t) \<longleftrightarrow> t \<in> set opaque_types"
| "wf_tree (MStructure ts) \<longleftrightarrow> wf_trees ts"
| "wf_tree (MArray ts) \<longleftrightarrow> wf_trees ts"
| "wf_tree _ \<longleftrightarrow> True"
| "wf_trees [] \<longleftrightarrow> True"
| "wf_trees (None # ts) \<longleftrightarrow> wf_trees ts"
| "wf_trees (Some t # ts) \<longleftrightarrow> wf_tree t \<and> wf_trees ts"

lemma represents_wf:
  "represents api v t \<Longrightarrow> wf_tree t"
  "represents_elems api v i ts \<Longrightarrow> wf_trees ts"
  by (induction api v t and api v i ts rule: represents_represents_elems.induct)
    (auto split: option.splits)

section \<open>Reading back what was written\<close>

lemma ucast_32_64_32 [simp]: "ucast (ucast (n :: uint32) :: int64) = n"
  by (simp add: ucast_up_ucast_id is_up)

lemma tokens_first:
  assumes "wf_tree t" and "list_all2 slot_ok (tokens t) mid"
  obtains s rest where "mid = s # rest" and "flat_typ s \<noteq> 101" and "flat_typ s \<noteq> 103"
  using assms
  by (cases t) (auto simp: list_all2_Cons1 FLAT_defs opaque_types_def)

lemma extract_tokens:
  "wf_tree t \<Longrightarrow> list_all2 slot_ok (tokens t) mid \<Longrightarrow> length mid \<le> fuel \<Longrightarrow>
     extractFlatValue fuel (pre @ mid @ post) (length pre)
       = Inr (go_of_tree t, length pre + length mid)"
  "wf_trees ts \<Longrightarrow> list_all2 slot_ok (tokens_list ts) mid \<Longrightarrow> length mid < fuel \<Longrightarrow>
     flat_typ e = 101 \<or> flat_typ e = 103 \<Longrightarrow>
     extract_subs fuel (pre @ mid @ e # post) (length pre) acc
       = Inr (acc @ go_of_trees ts, length pre + length mid + 1)"
proof (induction t and ts arbitrary: fuel pre mid post and fuel pre mid post e acc
    rule: go_of_tree_go_of_trees.induct)
  case (11 ts)
  then obtain s inner e where m: "mid = s # inner @ [e]" "flat_typ s = 100" "flat_typ e = 101"
    "list_all2 slot_ok (tokens_list ts) inner"
    by (auto simp: list_all2_Cons1 list_all2_append1 FLAT_defs)
  from 11 m obtain f where f: "fuel = Suc f" by (cases fuel) auto
  have "extract_subs f ((pre @ [s]) @ inner @ e # post) (length (pre @ [s])) []
      = Inr ([] @ go_of_trees ts, length (pre @ [s]) + length inner + 1)"
    using 11 m f by (intro "11.IH") auto
  then show ?case using m f by (simp add: nth_append Go_MMS_defs)
next
  case (12 ts)
  then obtain s inner e where m: "mid = s # inner @ [e]" "flat_typ s = 102" "flat_typ e = 103"
    "list_all2 slot_ok (tokens_list ts) inner"
    by (auto simp: list_all2_Cons1 list_all2_append1 FLAT_defs)
  from 12 m obtain f where f: "fuel = Suc f" by (cases fuel) auto
  have "extract_subs f ((pre @ [s]) @ inner @ e # post) (length (pre @ [s])) []
      = Inr ([] @ go_of_trees ts, length (pre @ [s]) + length inner + 1)"
    using 12 m f by (intro "12.IH") auto
  then show ?case using m f by (simp add: nth_append Go_MMS_defs)
next
  case 13
  then show ?case by (cases fuel) auto
next
  case (14 ts)
  then show ?case by simp
next
  case (15 t ts)
  then obtain m1 m2 where m: "mid = m1 @ m2" "list_all2 slot_ok (tokens t) m1"
    "list_all2 slot_ok (tokens_list ts) m2"
    by (auto simp: list_all2_append1)
  obtain s rest where s: "m1 = s # rest" "flat_typ s \<noteq> 101" "flat_typ s \<noteq> 103"
    using tokens_first [of t m1] 15 m by auto
  from 15 obtain f where f: "fuel = Suc f" by (cases fuel) auto
  have "extractFlatValue f (pre @ m1 @ (m2 @ e # post)) (length pre)
      = Inr (go_of_tree t, length pre + length m1)"
    using 15 m f by (intro "15.IH"(1)) auto
  moreover have "extract_subs f ((pre @ m1) @ m2 @ e # post) (length (pre @ m1)) (acc @ [go_of_tree t])
      = Inr ((acc @ [go_of_tree t]) @ go_of_trees ts, length (pre @ m1) + length m2 + 1)"
    using 15 m f s by (intro "15.IH"(2)) auto
  ultimately show ?case
    using m f s by (simp add: nth_append)
qed (auto simp: list_all2_Cons1 Go_MMS_defs opaque_types_def nth_append dest!: Suc_le_D)

section \<open>Reading a whole array\<close>

text \<open>
  What the loop of \<open>buildReport\<close> relies on: \<open>enc t mid\<close> says that the slots \<open>mid\<close> hold
  \<open>t\<close>; such slots are never empty, and reading from their first one yields the value of
  \<open>t\<close> and stops right behind them, whatever surrounds them.
\<close>

locale flat_reader =
  fixes enc :: "'t \<Rightarrow> 's list \<Rightarrow> bool"
    and ok :: "'t \<Rightarrow> bool"
    and val :: "'t \<Rightarrow> 'v"
    and read1 :: "'s list \<Rightarrow> nat \<Rightarrow> c_fault + 'v \<times> nat"
  assumes enc_not_Nil: "ok t \<Longrightarrow> enc t mid \<Longrightarrow> mid \<noteq> []"
    and extract_enc: "ok t \<Longrightarrow> enc t mid \<Longrightarrow>
      read1 (pre @ mid @ post) (length pre) = Inr (val t, length pre + length mid)"
begin

lemma read_loop_enc:
  assumes "list_all2 enc ts mids" and "\<forall>t \<in> set ts. ok t" and "length ts < fuel"
  shows "read_loop fuel read1 mk (pre @ concat mids) i (length pre) acc
      = Inr (acc @ map (\<lambda>(j, t). mk j (val t)) (enumerate i ts))"
  using assms
proof (induction ts mids arbitrary: fuel i pre acc rule: list_all2_induct)
  case Nil
  then show ?case by (cases fuel) auto
next
  case (Cons t ts mid mids)
  then obtain f where f: "fuel = Suc f" by (cases fuel) auto
  have "mid \<noteq> []" using Cons.hyps(1) Cons.prems(1) enc_not_Nil [of t mid] by simp
  moreover have "read1 (pre @ mid @ concat mids) (length pre) = Inr (val t, length pre + length mid)"
    using Cons by (intro extract_enc) auto
  moreover have "read_loop f read1 mk ((pre @ mid) @ concat mids) (i + 1) (length (pre @ mid)) (acc @ [mk i (val t)])
      = Inr ((acc @ [mk i (val t)]) @ map (\<lambda>(j, t). mk j (val t)) (enumerate (i + 1) ts))"
    using Cons f by (intro Cons.IH) auto
  ultimately show ?case using f by simp
qed

end

lemma extract_tokens_fuel:
  assumes "wf_tree t" and "list_all2 slot_ok (tokens t) mid"
  shows "extractFlatValue (extract_fuel (pre @ mid @ post)) (pre @ mid @ post) (length pre)
      = Inr (go_of_tree t, length pre + length mid)"
  using assms by (intro extract_tokens) (auto simp: extract_fuel_def)

interpretation flat: flat_reader "\<lambda>t mid. list_all2 slot_ok (tokens t) mid" wf_tree go_of_tree
    "\<lambda>s. extractFlatValue (extract_fuel s) s"
proof unfold_locales
  fix t mid
  assume "wf_tree t" and "list_all2 slot_ok (tokens t) mid"
  then show "mid \<noteq> []" by (metis list.simps(3) tokens_first)
next
  fix t and mid pre post :: "FlatMmsValue list"
  assume "wf_tree t" and "list_all2 slot_ok (tokens t) mid"
  then show "extractFlatValue (extract_fuel (pre @ mid @ post)) (pre @ mid @ post) (length pre)
      = Inr (go_of_tree t, length pre + length mid)"
    by (rule extract_tokens_fuel)
qed

lemma slots_split:
  assumes "list_all2 slot_ok (concat (map tokens ts)) arr"
  obtains mids where "arr = concat mids" and "list_all2 (\<lambda>t mid. list_all2 slot_ok (tokens t) mid) ts mids"
  using assms
proof (induction ts arbitrary: arr thesis)
  case Nil
  then show ?case by (auto intro: Nil.prems(1) [of "[]"])
next
  case (Cons t ts)
  then obtain m1 m2 where m: "arr = m1 @ m2" "list_all2 slot_ok (tokens t) m1"
    "list_all2 slot_ok (concat (map tokens ts)) m2"
    by (auto simp: list_all2_append1)
  obtain mids where "m2 = concat mids" "list_all2 (\<lambda>t mid. list_all2 slot_ok (tokens t) mid) ts mids"
    using Cons.IH m by blast
  then show ?case using m by (intro Cons.prems(1) [of "m1 # mids"]) auto
qed

lemma read_slots:
  assumes "list_all2 slot_ok (concat (map tokens ts)) arr" and "\<forall>t \<in> set ts. wf_tree t"
  shows "read_loop (length arr + 1) (\<lambda>s. extractFlatValue (extract_fuel s) s) mk arr 0 0 []
      = Inr (map (\<lambda>(j, t). mk j (go_of_tree t)) (enumerate 0 ts))"
proof -
  obtain mids where m: "arr = concat mids" "list_all2 (\<lambda>t mid. list_all2 slot_ok (tokens t) mid) ts mids"
    using assms(1) by (rule slots_split)
  from m(2) assms(2) have "length ts \<le> length (concat mids)"
  proof (induction ts mids rule: list_all2_induct)
    case (Cons t ts mid mids)
    then have "mid \<noteq> []" using flat.enc_not_Nil by auto
    with Cons show ?case by (cases mid) auto
  qed simp
  then show ?thesis
    using flat.read_loop_enc [OF m(2) assms(2), of "length arr + 1" mk "[]" 0 "[]"] m(1) by simp
qed

section \<open>Every array can be read\<close>

lemma extract_bracket:
  assumes "pos < length s" and "flat_typ (s ! pos) = 100 \<or> flat_typ (s ! pos) = 102"
  shows "extractFlatValue (Suc fuel) s pos
     = and_then (extract_subs fuel s (pos + 1) []) (\<lambda>(subs, pos). Inr (GoSlice subs, pos))"
  using assms by (elim disjE) (simp_all add: Go_MMS_defs)

lemma extract_total:
  "pos \<le> length s \<Longrightarrow> 2 * (length s - pos) < fuel \<Longrightarrow>
     \<exists>v p. extractFlatValue fuel s pos = Inr (v, p) \<and> pos \<le> p \<and> p \<le> length s
       \<and> (pos < length s \<longrightarrow> pos < p)"
  "pos \<le> length s \<Longrightarrow> 2 * (length s - pos) + 1 < fuel \<Longrightarrow>
     \<exists>vs p. extract_subs fuel s pos acc = Inr (vs, p) \<and> pos \<le> p \<and> p \<le> length s"
proof (induction fuel s pos and fuel s pos acc rule: extractFlatValue_extract_subs.induct)
  case (2 fuel s pos)
  show ?case
  proof (cases "pos < length s \<and> (flat_typ (s ! pos) = 100 \<or> flat_typ (s ! pos) = 102)")
    case True
    then have "\<exists>vs p. extract_subs fuel s (pos + 1) [] = Inr (vs, p) \<and> pos + 1 \<le> p \<and> p \<le> length s"
      using "2.prems" by (intro "2.IH" [OF _ refl refl refl]) (elim conjE disjE; simp add: Go_MMS_defs)+
    then show ?thesis
      using True by (auto simp: extract_bracket simp del: extractFlatValue.simps)
  next
    case False
    with "2.prems" show ?thesis by (cases "pos < length s") (auto simp: Let_def)
  qed
next
  case (4 fuel s pos subs)
  show ?case
  proof (cases "pos < length s \<and> flat_typ (s ! pos) \<noteq> 101 \<and> flat_typ (s ! pos) \<noteq> 103")
    case True
    then obtain v p where v: "extractFlatValue fuel s pos = Inr (v, p)" "pos < p" "p \<le> length s"
      using 4 by fastforce
    have "\<exists>vs q. extract_subs fuel s p (subs @ [v]) = Inr (vs, q) \<and> p \<le> q \<and> q \<le> length s"
      using 4 True v by (intro "4.IH"(2) [OF _ refl _ v(1) refl]) auto
    with True v show ?thesis by (auto simp: Let_def)
  next
    case False
    with "4.prems" show ?thesis by (auto simp: Let_def)
  qed
qed auto

lemma read_loop_total:
  assumes "\<And>pos. pos < length s \<Longrightarrow> \<exists>v p. rd s pos = Inr (v, p) \<and> pos < p \<and> p \<le> length s"
    and "length s - pos < fuel"
  shows "\<exists>es. read_loop fuel rd mk s i pos acc = Inr es"
  using assms(2)
proof (induction fuel arbitrary: i pos acc)
  case 0
  then show ?case by simp
next
  case (Suc fuel)
  show ?case
  proof (cases "pos < length s")
    case True
    then obtain v p where v: "rd s pos = Inr (v, p)" "pos < p" using assms(1) by blast
    then show ?thesis using Suc.IH [of p "i + 1" "acc @ [mk i v]"] Suc.prems True by simp
  qed simp
qed

lemma read_any:
  "\<exists>es. read_loop (length s + 1) (\<lambda>s. extractFlatValue (extract_fuel s) s) mk s 0 0 [] = Inr es"
proof (rule read_loop_total)
  fix pos
  assume "pos < length s"
  then have "\<exists>v p. extractFlatValue (extract_fuel s) s pos = Inr (v, p) \<and> pos \<le> p \<and> p \<le> length s
      \<and> (pos < length s \<longrightarrow> pos < p)"
    by (intro extract_total) (simp_all add: extract_fuel_def)
  with \<open>pos < length s\<close> show "\<exists>v p. extractFlatValue (extract_fuel s) s pos = Inr (v, p) \<and> pos < p \<and> p \<le> length s"
    by blast
qed simp

section \<open>A report that was flattened\<close>

text \<open>The fields and entries of the report, given the tokens of a data set in an array.\<close>

lemma buildReport_of_tokens:
  assumes "flattenReportDataSet api rapi malloc d fuel r = Inr (Some arr, int (length arr))"
    and "list_all2 slot_ok (report_tokens elems) arr" and "\<forall>t \<in> set (leading elems). wf_tree t"
  shows "buildReport api rapi malloc d fuel rcb r = Inr \<lparr>RcbRef = rcb,
      DataSetRef = GoString_or_empty (ClientReport_getDataSetName rapi r),
      SequenceNo = (if ClientReport_hasSeqNum rapi r then ClientReport_getSeqNum rapi r else 0),
      Timestamp = (if ClientReport_hasTimestamp rapi r then ClientReport_getTimestamp rapi r else 0),
      Entries = map (\<lambda>(i, t). report_entry rapi r i (go_of_tree t)) (enumerate 0 (leading elems))\<rparr>"
proof (cases "arr = []")
  case True
  with assms(2) leading_eq_Nil_iff [of elems] have "leading elems = []" by auto
  with True assms(1) show ?thesis by (simp add: buildReport_def)
next
  case False
  then show ?thesis
    using assms(1) read_slots [OF assms(2,3), of "report_entry rapi r"]
    by (simp add: buildReport_def Let_def del: read_loop.simps)
qed

text \<open>An array is returned only when the request for one was granted.\<close>

lemma flatten_granted:
  assumes "flattenReportDataSet api rapi malloc d fuel r = Inr (Some arr, n)"
    and "ClientReport_getDataSetValues rapi r = Some vs" and "represents_elems api vs 0 elems"
    and "\<forall>t \<in> set (leading elems). depth t \<le> d" and "length (leading elems) < fuel"
    and "int (length (report_tokens elems)) \<le> INT_MAX" and "leading elems \<noteq> []"
  shows "malloc (length (report_tokens elems)) \<noteq> None"
  using assms(1,2,6,7) count_elements_tokens [OF assms(3-5), of 0] leading_eq_Nil_iff [of elems]
  by (auto simp: flattenReportDataSet_def split: if_splits option.splits)

lemma buildReport_lists:
  assumes "ClientReport_getDataSetValues rapi r = Some vs" and "represents_elems api vs 0 elems"
    and "\<forall>t \<in> set (leading elems). depth t \<le> d" and "length (leading elems) < fuel"
    and "int (length (report_tokens elems)) \<le> INT_MAX"
    and "\<And>n arr. malloc n = Some arr \<Longrightarrow> length arr = n"
  shows "buildReport api rapi malloc d fuel rcb r = Inr \<lparr>RcbRef = rcb,
      DataSetRef = GoString_or_empty (ClientReport_getDataSetName rapi r),
      SequenceNo = (if ClientReport_hasSeqNum rapi r then ClientReport_getSeqNum rapi r else 0),
      Timestamp = (if ClientReport_hasTimestamp rapi r then ClientReport_getTimestamp rapi r else 0),
      Entries = (if malloc (length (report_tokens elems)) = None then []
        else map (\<lambda>(i, t). report_entry rapi r i (go_of_tree t)) (enumerate 0 (leading elems)))\<rparr>"
proof -
  have wf: "\<forall>t \<in> set (leading elems). wf_tree t"
    using represents_wf(2) [OF assms(2)] by (induction elems rule: leading.induct) auto
  have flat: "case flattenReportDataSet api rapi malloc d fuel r of
      Inl fault \<Rightarrow> False
    | Inr (None, n) \<Rightarrow> n = 0 \<and> (leading elems = [] \<or> malloc (length (report_tokens elems)) = None)
    | Inr (Some arr, n) \<Rightarrow> n = int (length arr) \<and> list_all2 slot_ok (report_tokens elems) arr"
    using assms by (rule flatten_array)
  show ?thesis
  proof (cases "\<exists>arr n. flattenReportDataSet api rapi malloc d fuel r = Inr (Some arr, n)")
    case False
    with flat show ?thesis by (auto simp: buildReport_def split: sum.splits prod.splits option.splits)
  next
    case True
    then obtain arr n where a: "flattenReportDataSet api rapi malloc d fuel r = Inr (Some arr, n)" by blast
    with flat have "flattenReportDataSet api rapi malloc d fuel r = Inr (Some arr, int (length arr))"
      and ok: "list_all2 slot_ok (report_tokens elems) arr" by auto
    from buildReport_of_tokens [OF this wf] flatten_granted [OF a assms(1-5)] show ?thesis
      by (cases "leading elems = []") auto
  qed
qed

section \<open>Properties\<close>

text \<open>
  C2: the report handed to a subscriber lists the elements of the data set up to the first
  null one, in order: entry \<open>i\<close> is the \<open>i\<close>-th element's value with the \<open>i\<close>-th
  reason for inclusion (0 when the report has no reasons), so values and reasons never shift
  against each other however deeply the values are nested; the other fields are the ones the
  report has, and zero or empty for those it does not have. When \<open>malloc\<close> fails there are
  no entries.
\<close>

theorem report_lists_data_set:
  assumes "ClientReport_getDataSetValues rapi r = Some vs" and "represents_elems api vs 0 elems"
    and "\<forall>t \<in> set (leading elems). depth t \<le> d" and "length (leading elems) < fuel"
    and "int (length (report_tokens elems)) \<le> INT_MAX"
    and "\<And>n arr. malloc n = Some arr \<Longrightarrow> length arr = n"
  shows "buildReport api rapi malloc d fuel rcb r = Inr \<lparr>RcbRef = rcb,
      DataSetRef = GoString_or_empty (ClientReport_getDataSetName rapi r),
      SequenceNo = (if ClientReport_hasSeqNum rapi r then ClientReport_getSeqNum rapi r else 0),
      Timestamp = (if ClientReport_hasTimestamp rapi r then ClientReport_getTimestamp rapi r else 0),
      Entries = (if malloc (length (report_tokens elems)) = None then []
        else map (\<lambda>(i, t). report_entry rapi r i (go_of_tree t)) (enumerate 0 (leading elems)))\<rparr>"
  using assms by (rule buildReport_lists)

theorem report_lists_data_set_witness:
  "buildReport tree_api tree_report sample_slots 2 3 ''rcb'' (MArray sample_elems)
    = Inr \<lparr>RcbRef = ''rcb'', DataSetRef = ''LD/LLN0$DS'', SequenceNo = 7, Timestamp = 0,
      Entries = [\<lparr>entry_Value = GoSlice [GoFloat64 17, GoUint32 3], entry_Reason = 0\<rparr>,
        \<lparr>entry_Value = GoBool True, entry_Reason = 1\<rparr>]\<rparr>"
proof -
  have "sample_slots (length (report_tokens sample_elems)) \<noteq> None"
    by (simp add: sample_slots_def)
  then show ?thesis
    unfolding report_lists_data_set [where malloc = sample_slots, OF sample_elems_ok, simplified]
    by (simp add: sample_elems_def report_entry_def tree_api_simps)
qed

text \<open>
  C35: whatever the C side returns, however malformed the brackets of its token array, the Go
  side terminates with a report: \<open>extractFlatValue\<close> always moves forward and never reads
  past the end, and \<open>extract_fuel\<close> is enough for every array.
\<close>

theorem buildReport_returns:
  assumes "flattenReportDataSet api rapi malloc d fuel r = Inr res"
  shows "\<exists>rep. buildReport api rapi malloc d fuel rcb r = Inr rep \<and> RcbRef rep = rcb"
proof -
  obtain p n where res: "res = (p, n)" by (cases res)
  show ?thesis
  proof (cases "p = None \<or> n \<le> 0")
    case True
    with assms res show ?thesis by (cases p) (auto simp: buildReport_def)
  next
    case False
    then obtain arr where "p = Some arr" "0 < n" by auto
    then show ?thesis
      using assms res read_any [of "take (nat n) arr" "report_entry rapi r"]
      by (auto simp: buildReport_def Let_def)
  qed
qed

definition overflowing_slots :: "nat \<Rightarrow> FlatMmsValue list option" where
  "overflowing_slots n = (if n = 3 then Some (replicate 4
     \<lparr>flat_typ = 100, flat_ival = 0, flat_dval = 0, flat_sval = None\<rparr>) else None)"

theorem buildReport_returns_witness:
  "\<exists>rep. buildReport tree_api tree_report overflowing_slots 2 3 ''rcb''
      (MArray [Some (MStructure [Some (MFloat 1)])]) = Inr rep \<and> RcbRef rep = ''rcb''"
proof (rule buildReport_returns)
  show "flattenReportDataSet tree_api tree_report overflowing_slots 2 3
      (MArray [Some (MStructure [Some (MFloat 1)])])
    = Inr (Some [\<lparr>flat_typ = 100, flat_ival = 0, flat_dval = 0, flat_sval = None\<rparr>,
        \<lparr>flat_typ = 6, flat_ival = 0, flat_dval = 1, flat_sval = None\<rparr>,
        \<lparr>flat_typ = 101, flat_ival = 0, flat_dval = 0, flat_sval = None\<rparr>,
        \<lparr>flat_typ = 100, flat_ival = 0, flat_dval = 0, flat_sval = None\<rparr>], 3)"
    by code_simp
qed

end
