(* ===== verification/Report_Subscribe.thy ===== *)
theory Report_Subscribe
  imports Report_Decode C_Resource
begin

text \<open>
  Subscriptions to reports (\<open>iec61850_report.go\<close>, with the install functions and the callback
  of \<open>report_bridge.c\<close>): the global registry of handlers, \<open>SubscribeReport\<close>,
  \<open>SubscribeReportWithCandidates\<close>, \<open>UnsubscribeReport\<close> and \<open>goReportCallback\<close>. The
  library is the record \<open>report_lib\<close> of its answers, each a function of all calls made so
  far; the state keeps the calls, with their results, beside the registry.
\<close>

section \<open>Calls into the library\<close>

text \<open>
  \<open>intptr_t\<close> is the one of the 64-bit targets. A handler argument \<open>Some p\<close> is
  \<open>reportCallbackBridge\<close> with the parameter \<open>p\<close>, \<open>None\<close> a null handler.
\<close>

type_synonym intptr = "64 word"

datatype ('c, 'b) report_call =
    GetRCBValues 'c string int 'b
  | SetTrgOps 'b int
  | SetIntgPd 'b uint32
  | SetBufTm 'b uint32
  | SetGI 'b bool
  | SetRptEna 'b bool
  | GetRptId 'b "string option"
  | InstallReportHandler 'c string "string option" "intptr option"
  | SetRCBValues 'c 'b uint32 bool int
  | DestroyRCB 'b

record ('c, 'b) report_lib =
  lib_getRCBValues :: "('c, 'b) report_call list \<Rightarrow> 'c \<Rightarrow> string \<Rightarrow> int \<times> 'b"
  lib_getRptId :: "('c, 'b) report_call list \<Rightarrow> 'b \<Rightarrow> string option"
  lib_setRCBValues :: "('c, 'b) report_call list \<Rightarrow> 'c \<Rightarrow> 'b \<Rightarrow> uint32 \<Rightarrow> bool \<Rightarrow> int"

section \<open>State\<close>

record 'h reportHandlerEntry =
  handler :: 'h
  entry_rcbRef :: string

record ('h, 'c, 'b) report_state =
  reportHandlers :: "int \<rightharpoonup> 'h reportHandlerEntry"
  nextHandlerID :: int32
  report_calls :: "('c, 'b) report_call list"

record ReportConfig =
  cfg_TrgOps :: int
  cfg_IntgPd :: uint32
  cfg_BufTm :: uint32
  cfg_GI :: bool

definition emit :: "('c, 'b) report_call \<Rightarrow> ('h, 'c, 'b) report_state \<Rightarrow> ('h, 'c, 'b) report_state" where
  "emit c st = st\<lparr>report_calls := report_calls st @ [c]\<rparr>"

lemma emit_simps [simp]:
  "reportHandlers (emit c st) = reportHandlers st" "nextHandlerID (emit c st) = nextHandlerID st"
  "report_calls (emit c st) = report_calls st @ [c]"
  by (simp_all add: emit_def)

section \<open>The bridge\<close>

definition installGoReportHandler :: "'c \<Rightarrow> string \<Rightarrow> string option \<Rightarrow> int32 \<Rightarrow> ('c, 'b) report_call" where
  "installGoReportHandler conn rcbRef rptId handlerID =
     InstallReportHandler conn rcbRef rptId (Some (scast handlerID))"

definition uninstallGoReportHandler :: "'c \<Rightarrow> string \<Rightarrow> ('c, 'b) report_call" where
  "uninstallGoReportHandler conn rcbRef = InstallReportHandler conn rcbRef None None"

text \<open>\<open>goReportCallback((GoInt)(intptr_t)parameter, ...)\<close>, whose argument is a C \<open>int\<close>.\<close>

definition reportCallbackBridge :: "intptr \<Rightarrow> int32" where
  "reportCallbackBridge parameter = ucast parameter"

text \<open>
  The call a callback ends in: the handler and the report it is given, \<open>None\<close> when no handler
  is registered under the id.
\<close>

definition goReportCallback :: "'v mms_api \<Rightarrow> ('r, 'v) report_api \<Rightarrow>
    (nat \<Rightarrow> FlatMmsValue list option) \<Rightarrow> nat \<Rightarrow> nat \<Rightarrow> ('h, 'c, 'b) report_state \<Rightarrow> int32 \<Rightarrow> 'r \<Rightarrow>
    c_fault + ('h \<times> Report) option" where
  "goReportCallback api rapi malloc levels fuel st handlerID reportPtr =
     (case reportHandlers st (sint handlerID) of
        None \<Rightarrow> Inr None
      | Some e \<Rightarrow> and_then (buildReport api rapi malloc levels fuel (entry_rcbRef e) reportPtr)
          (\<lambda>report. Inr (Some (handler e, report))))"

section \<open>SubscribeReport\<close>

definition set_when :: "bool \<Rightarrow> ('c, 'b) report_call \<Rightarrow> int \<Rightarrow> uint32 \<times> ('h, 'c, 'b) report_state \<Rightarrow>
    uint32 \<times> ('h, 'c, 'b) report_state" where
  "set_when b c element x = (if b then (fst x OR word_of_int element, emit c (snd x)) else x)"

definition configure_rcb :: "'b \<Rightarrow> ReportConfig option \<Rightarrow> ('h, 'c, 'b) report_state \<Rightarrow>
    uint32 \<times> ('h, 'c, 'b) report_state" where
  "configure_rcb rcb cfg st =
     (let x = (word_of_int RCB_ELEMENT_RPT_ENA, st) in
      case cfg of
        None \<Rightarrow> x
      | Some c \<Rightarrow>
          let x = set_when (cfg_TrgOps c \<noteq> 0)
                (SetTrgOps rcb (sint (word_of_int (cfg_TrgOps c) :: int32))) RCB_ELEMENT_TRG_OPS x;
              x = set_when (cfg_IntgPd c \<noteq> 0) (SetIntgPd rcb (cfg_IntgPd c)) RCB_ELEMENT_INTG_PD x;
              x = set_when (cfg_BufTm c \<noteq> 0) (SetBufTm rcb (cfg_BufTm c)) RCB_ELEMENT_BUF_TM x
          in set_when (cfg_GI c) (SetGI rcb True) RCB_ELEMENT_GI x)"

definition SubscribeReport :: "('c, 'b) report_lib \<Rightarrow> 'c \<Rightarrow> string \<Rightarrow> ReportConfig option \<Rightarrow> 'h \<Rightarrow>
    ('h, 'c, 'b) report_state \<Rightarrow> string option \<times> ('h, 'c, 'b) report_state" where
  "SubscribeReport lib conn rcbRef cfg h st =
     (let (clientError, rcb) = lib_getRCBValues lib (report_calls st) conn rcbRef;
          st = emit (GetRCBValues conn rcbRef clientError rcb) st in
      if clientError \<noteq> IedClientError_code IED_ERROR_OK then
        (Some (''getRCBValues '' @ rcbRef @ '': '' @ Err clientError), st)
      else
        let (mask, st) = configure_rcb rcb cfg st;
            st = emit (SetRptEna rcb True) st;
            next = nextHandlerID st + 1;
            hid = sint next;
            st = st\<lparr>nextHandlerID := next\<rparr>;
            st = st\<lparr>reportHandlers := (reportHandlers st)(hid \<mapsto> \<lparr>handler = h, entry_rcbRef = rcbRef\<rparr>)\<rparr>;
            rptId = lib_getRptId lib (report_calls st) rcb;
            st = emit (GetRptId rcb rptId) st;
            st = emit (installGoReportHandler conn rcbRef rptId (word_of_int hid)) st;
            clientError = lib_setRCBValues lib (report_calls st) conn rcb mask True;
            st = emit (SetRCBValues conn rcb mask True clientError) st in
        if clientError \<noteq> IedClientError_code IED_ERROR_OK then
          let st = st\<lparr>reportHandlers := (reportHandlers st)(hid := None)\<rparr>;
              st = emit (uninstallGoReportHandler conn rcbRef) st in
          (Some (''setRCBValues '' @ rcbRef @ '': '' @ Err clientError), emit (DestroyRCB rcb) st)
        else (None, emit (DestroyRCB rcb) st))"

section \<open>SubscribeReportWithCandidates\<close>

definition add_error :: "string \<Rightarrow> string \<Rightarrow> string list \<Rightarrow> string list" where
  "add_error ref e errs = (if length errs < 20 then errs @ [ref @ '': '' @ e] else errs)"

fun try_candidates :: "('c, 'b) report_lib \<Rightarrow> 'c \<Rightarrow> string list \<Rightarrow> ReportConfig option \<Rightarrow> 'h \<Rightarrow>
    string list \<Rightarrow> ('h, 'c, 'b) report_state \<Rightarrow>
    (string list + string) \<times> ('h, 'c, 'b) report_state" where
  "try_candidates lib conn [] cfg h errs st = (Inl errs, st)"
| "try_candidates lib conn (base # bases) cfg h errs st =
     (case SubscribeReport lib conn base cfg h st of
        (None, st) \<Rightarrow> (Inr base, st)
      | (Some e, st) \<Rightarrow>
          let errs = add_error base e errs; alt = base @ ''01'' in
          (case SubscribeReport lib conn alt cfg h st of
            (None, st) \<Rightarrow> (Inr alt, st)
          | (Some e, st) \<Rightarrow> try_candidates lib conn bases cfg h (add_error alt e errs) st))"

text \<open>The result is the pair Go returns, with the new state.\<close>

definition SubscribeReportWithCandidates :: "('c, 'b) report_lib \<Rightarrow> 'c \<Rightarrow> string list \<Rightarrow>
    ReportConfig option \<Rightarrow> 'h \<Rightarrow> ('h, 'c, 'b) report_state \<Rightarrow>
    string \<times> string option \<times> ('h, 'c, 'b) report_state" where
  "SubscribeReportWithCandidates lib conn candidates cfg h st =
     (if candidates = [] then ([], Some ''SubscribeReportWithCandidates: no candidates'', st)
      else case try_candidates lib conn candidates cfg h [] st of
        (Inr chosenRef, st) \<Rightarrow> (chosenRef, None, st)
      | (Inl errs, st) \<Rightarrow>
          ([], Some (''SubscribeReportWithCandidates: all '' @ Itoa (int (length candidates))
              @ '' refs (with +01 alt) failed: '' @ Join errs ''; ''), st))"

section \<open>UnsubscribeReport\<close>

text \<open>
  Go ranges over a map in an order of its choice: \<open>order\<close> is that order, a list of the keys.
\<close>

fun delete_first :: "int list \<Rightarrow> string \<Rightarrow> (int \<rightharpoonup> 'h reportHandlerEntry) \<Rightarrow>
    (int \<rightharpoonup> 'h reportHandlerEntry)" where
  "delete_first [] ref m = m"
| "delete_first (hid # hids) ref m =
     (case m hid of
        None \<Rightarrow> delete_first hids ref m
      | Some e \<Rightarrow> if entry_rcbRef e = ref then m(hid := None) else delete_first hids ref m)"

definition UnsubscribeReport :: "('c, 'b) report_lib \<Rightarrow> 'c \<Rightarrow> int list \<Rightarrow> string \<Rightarrow>
    ('h, 'c, 'b) report_state \<Rightarrow> ('h, 'c, 'b) report_state" where
  "UnsubscribeReport lib conn order rcbRef st =
     (let (clientError, rcb) = lib_getRCBValues lib (report_calls st) conn rcbRef;
          st = emit (GetRCBValues conn rcbRef clientError rcb) st;
          st = (if clientError = IedClientError_code IED_ERROR_OK then
              let st = emit (SetRptEna rcb False) st;
                  mask = word_of_int RCB_ELEMENT_RPT_ENA;
                  e = lib_setRCBValues lib (report_calls st) conn rcb mask True;
                  st = emit (SetRCBValues conn rcb mask True e) st in
              emit (DestroyRCB rcb) st
            else st);
          st = emit (uninstallGoReportHandler conn rcbRef) st in
      st\<lparr>reportHandlers := delete_first order rcbRef (reportHandlers st)\<rparr>)"

section \<open>What a subscription asks of the server\<close>

text \<open>
  The setters a configuration calls for, and the element of the control block each setter
  changes; \<open>elements\<close> is the write mask with exactly the bits of those elements.
\<close>

definition requested :: "'b \<Rightarrow> ReportConfig option \<Rightarrow> ('c, 'b) report_call list" where
  "requested rcb cfg = (case cfg of
      None \<Rightarrow> []
    | Some c \<Rightarrow> (if cfg_TrgOps c \<noteq> 0 then [SetTrgOps rcb (sint (word_of_int (cfg_TrgOps c) :: int32))] else [])
        @ (if cfg_IntgPd c \<noteq> 0 then [SetIntgPd rcb (cfg_IntgPd c)] else [])
        @ (if cfg_BufTm c \<noteq> 0 then [SetBufTm rcb (cfg_BufTm c)] else [])
        @ (if cfg_GI c then [SetGI rcb True] else []))"

fun element_set :: "('c, 'b) report_call \<Rightarrow> int" where
  "element_set (SetTrgOps _ _) = RCB_ELEMENT_TRG_OPS"
| "element_set (SetIntgPd _ _) = RCB_ELEMENT_INTG_PD"
| "element_set (SetBufTm _ _) = RCB_ELEMENT_BUF_TM"
| "element_set (SetGI _ _) = RCB_ELEMENT_GI"
| "element_set (SetRptEna _ _) = RCB_ELEMENT_RPT_ENA"
| "element_set _ = 0"

definition elements :: "('c, 'b) report_call list \<Rightarrow> uint32" where
  "elements cs = foldr (\<lambda>c m. word_of_int (element_set c) OR m) cs 0"

lemma configure_rcb_requested:
  "configure_rcb rcb cfg (st :: ('h, 'c, 'b) report_state) =
     (elements (requested rcb cfg @ [SetRptEna rcb True] :: ('c, 'b) report_call list),
      st\<lparr>report_calls := report_calls st @ requested rcb cfg\<rparr>)"
proof (cases cfg)
  case None
  then show ?thesis by (simp add: configure_rcb_def requested_def elements_def)
next
  case (Some c)
  then show ?thesis
    by (simp add: configure_rcb_def requested_def elements_def set_when_def Let_def emit_def
        or.commute or.left_commute)
qed

definition subscribe_calls :: "'c \<Rightarrow> string \<Rightarrow> ReportConfig option \<Rightarrow> 'b \<Rightarrow> string option \<Rightarrow> int32 \<Rightarrow> int \<Rightarrow>
    ('c, 'b) report_call list" where
  "subscribe_calls conn ref cfg rcb rptId hid e =
     (let sets = requested rcb cfg @ [SetRptEna rcb True] in
     GetRCBValues conn ref 0 rcb # sets
     @ [GetRptId rcb rptId, InstallReportHandler conn ref rptId (Some (scast hid)),
        SetRCBValues conn rcb (elements sets) True e]
     @ (if e = 0 then [] else [InstallReportHandler conn ref None None]) @ [DestroyRCB rcb])"

lemma SubscribeReport_unread:
  assumes "lib_getRCBValues lib (report_calls st) conn ref = (e, rcb)" and "e \<noteq> 0"
  shows "SubscribeReport lib conn ref cfg h st
    = (Some (''getRCBValues '' @ ref @ '': '' @ Err e), emit (GetRCBValues conn ref e rcb) st)"
  using assms by (simp add: SubscribeReport_def)

lemma SubscribeReport_read:
  fixes st :: "('h, 'c, 'b) report_state"
  assumes "lib_getRCBValues lib (report_calls st) conn ref = (0, rcb)"
  obtains rptId e where
    "fst (SubscribeReport lib conn ref cfg h st)
      = (if e = 0 then None else Some (''setRCBValues '' @ ref @ '': '' @ Err e))"
    "snd (SubscribeReport lib conn ref cfg h st)
      = \<lparr>reportHandlers = (reportHandlers st)
          (sint (nextHandlerID st + 1) := if e = 0 then Some \<lparr>handler = h, entry_rcbRef = ref\<rparr> else None),
         nextHandlerID = nextHandlerID st + 1,
         report_calls = report_calls st
           @ subscribe_calls conn ref cfg rcb rptId (nextHandlerID st + 1) e\<rparr>"
proof -
  let ?calls = "report_calls st @ GetRCBValues conn ref 0 rcb # requested rcb cfg @ [SetRptEna rcb True]"
  let ?id = "lib_getRptId lib ?calls rcb"
  let ?calls' = "?calls @ [GetRptId rcb ?id, InstallReportHandler conn ref ?id (Some (scast (nextHandlerID st + 1)))]"
  show ?thesis
  proof (rule that [of "lib_setRCBValues lib ?calls' conn rcb
          (elements (requested rcb cfg @ [SetRptEna rcb True] :: ('c, 'b) report_call list)) True" ?id],
      goal_cases)
    case 1
    show ?case
      by (simp add: SubscribeReport_def assms configure_rcb_requested installGoReportHandler_def Let_def)
  next
    case 2
    show ?case
      by (rule report_state.equality)
        (simp_all add: SubscribeReport_def assms configure_rcb_requested subscribe_calls_def
          installGoReportHandler_def uninstallGoReportHandler_def Let_def)
  qed
qed

text \<open>A loop over all references that counts its errors: what \<open>try_candidates\<close> amounts to.\<close>

fun try_refs :: "('c, 'b) report_lib \<Rightarrow> 'c \<Rightarrow> string list \<Rightarrow> ReportConfig option \<Rightarrow> 'h \<Rightarrow>
    ('h, 'c, 'b) report_state \<Rightarrow> (string list + string) \<times> ('h, 'c, 'b) report_state" where
  "try_refs lib conn [] cfg h st = (Inl [], st)"
| "try_refs lib conn (ref # refs) cfg h st =
     (case SubscribeReport lib conn ref cfg h st of
        (None, st) \<Rightarrow> (Inr ref, st)
      | (Some e, st) \<Rightarrow>
          apfst (map_sum ((#) (ref @ '': '' @ e)) (\<lambda>r. r)) (try_refs lib conn refs cfg h st))"

lemma try_candidates_refs:
  assumes "length errs = min 20 (length all)" and "errs = take 20 all"
  shows "try_candidates lib conn cands cfg h errs st
    = apfst (map_sum (\<lambda>es. take 20 (all @ es)) (\<lambda>r. r))
        (try_refs lib conn (concat (map (\<lambda>base. [base, base @ ''01'']) cands)) cfg h st)"
  using assms
proof (induction cands arbitrary: errs all st)
  case Nil
  then show ?case by simp
next
  case (Cons base cands)
  have add: "add_error ref e (take 20 es) = take 20 (es @ [ref @ '': '' @ e])" for ref e es
    by (cases "length es < 20") (simp_all add: add_error_def)
  obtain r st1 where 1: "SubscribeReport lib conn base cfg h st = (r, st1)" by fastforce
  obtain r' st2 where 2: "SubscribeReport lib conn (base @ ''01'') cfg h st1 = (r', st2)" by fastforce
  show ?case
  proof (cases r; cases r')
    fix e e'
    assume r: "r = Some e" "r' = Some e'"
    let ?all = "all @ [base @ '': '' @ e, (base @ ''01'') @ '': '' @ e']"
    have "try_candidates lib conn cands cfg h (take 20 ?all) st2
        = apfst (map_sum (\<lambda>es. take 20 (?all @ es)) (\<lambda>r. r))
            (try_refs lib conn (concat (map (\<lambda>base. [base, base @ ''01'']) cands)) cfg h st2)"
      by (rule Cons.IH) simp_all
    moreover have "add_error (base @ ''01'') e' (add_error base e errs) = take 20 ?all"
      unfolding Cons.prems(2) add by simp
    ultimately show ?thesis
      using 1 2 r by (simp add: Let_def apfst_compose sum.map_comp comp_def del: take_append)
  qed (use Cons.prems 1 2 in \<open>auto simp: Let_def\<close>)
qed

section \<open>Which callback is installed\<close>

text \<open>
  The library replaces the handler installed earlier for the same connection and reference
  (header of \<open>IedConnection_installReportHandler\<close>), so the last such call counts.
\<close>

fun install_update :: "('c \<times> string \<Rightarrow> intptr option) \<Rightarrow> ('c, 'b) report_call \<Rightarrow>
    ('c \<times> string \<Rightarrow> intptr option)" where
  "install_update f (InstallReportHandler conn ref _ p) = f((conn, ref) := p)"
| "install_update f _ = f"

definition installed :: "('c, 'b) report_call list \<Rightarrow> 'c \<times> string \<Rightarrow> intptr option" where
  "installed calls = foldl install_update (\<lambda>_. None) calls"

lemma requested_no_install [simp]: "foldl install_update f (requested rcb cfg) = f"
  by (simp add: requested_def split: option.split)

lemma installed_simps [simp]:
  "installed [] = (\<lambda>_. None)"
  "installed (cs @ [c]) = install_update (installed cs) c"
  "installed (cs @ subscribe_calls conn ref cfg rcb rptId hid e)
     = (installed cs)((conn, ref) := if e = 0 then Some (scast hid) else None)"
  by (simp_all add: installed_def subscribe_calls_def Let_def)

text \<open>The handler a report for \<open>ref\<close> on \<open>conn\<close> would be given to.\<close>

definition active :: "('h, 'c, 'b) report_state \<Rightarrow> 'c \<Rightarrow> string \<Rightarrow> 'h option" where
  "active st conn ref = (case installed (report_calls st) (conn, ref) of
      None \<Rightarrow> None
    | Some p \<Rightarrow> map_option handler (reportHandlers st (sint (reportCallbackBridge p))))"

lemma bridge_id [simp]: "reportCallbackBridge (scast (hid :: int32)) = hid"
  by (rule bit_word_eqI) (auto simp: reportCallbackBridge_def bit_unsigned_iff bit_signed_iff)

section \<open>Histories\<close>

definition no_reports :: "('h, 'c, 'b) report_state" where
  "no_reports = \<lparr>reportHandlers = Map.empty, nextHandlerID = 0, report_calls = []\<rparr>"

text \<open>
  The states reached by any sequence of operations of the clients \<open>cs\<close>, at most \<open>n\<close> of them
  subscriptions.
\<close>

inductive report_reach :: "('c, 'b) report_lib \<Rightarrow> 'c set \<Rightarrow> nat \<Rightarrow> ('h, 'c, 'b) report_state \<Rightarrow> bool"
  for lib cs where
  reach_start: "report_reach lib cs 0 no_reports"
| reach_subscribe: "report_reach lib cs n st \<Longrightarrow> conn \<in> cs \<Longrightarrow>
    report_reach lib cs (Suc n) (snd (SubscribeReport lib conn ref cfg h st))"
| reach_unsubscribe: "report_reach lib cs n st \<Longrightarrow> conn \<in> cs \<Longrightarrow>
    distinct order \<Longrightarrow> set order = dom (reportHandlers st) \<Longrightarrow>
    report_reach lib cs n (UnsubscribeReport lib conn order ref st)"

lemma delete_first_None: "delete_first order ref m = m \<or>
    (\<exists>k e. k \<in> set order \<and> m k = Some e \<and> entry_rcbRef e = ref \<and> delete_first order ref m = m(k := None))"
proof (induction order)
  case (Cons k ks)
  show ?case
  proof (cases "\<exists>e. m k = Some e \<and> entry_rcbRef e = ref")
    case True
    then have "delete_first (k # ks) ref m = m(k := None)" by auto
    with True show ?thesis by auto
  next
    case False
    then have "delete_first (k # ks) ref m = delete_first ks ref m" by (auto split: option.split)
    with Cons.IH show ?thesis by auto
  qed
qed simp

lemma delete_first_other:
  assumes "m k = Some e" and "entry_rcbRef e \<noteq> ref"
  shows "delete_first order ref m k = Some e"
  using delete_first_None [of order ref m] assms by auto

lemma delete_first_dom: "dom (delete_first order ref m) \<subseteq> dom m"
  using delete_first_None [of order ref m] by (auto split: if_splits)

lemma UnsubscribeReport_result:
  obtains pre where
    "UnsubscribeReport lib conn order ref st = \<lparr>
       reportHandlers = delete_first order ref (reportHandlers st),
       nextHandlerID = nextHandlerID st,
       report_calls = report_calls st @ pre @ [InstallReportHandler conn ref None None]\<rparr>"
    and "(\<exists>e rcb. e \<noteq> 0 \<and> pre = [GetRCBValues conn ref e rcb]) \<or>
      (\<exists>rcb e. pre = [GetRCBValues conn ref 0 rcb, SetRptEna rcb False,
         SetRCBValues conn rcb (word_of_int RCB_ELEMENT_RPT_ENA) True e, DestroyRCB rcb])"
proof -
  obtain err rcb where get: "lib_getRCBValues lib (report_calls st) conn ref = (err, rcb)"
    by fastforce
  show ?thesis
  proof (cases "err = 0")
    case True
    show ?thesis
      by (rule that [of "[GetRCBValues conn ref 0 rcb, SetRptEna rcb False,
            SetRCBValues conn rcb (word_of_int RCB_ELEMENT_RPT_ENA) True
              (lib_setRCBValues lib (report_calls st @ [GetRCBValues conn ref 0 rcb, SetRptEna rcb False])
                 conn rcb (word_of_int RCB_ELEMENT_RPT_ENA) True), DestroyRCB rcb]"],
          rule report_state.equality)
        (simp_all add: UnsubscribeReport_def get True uninstallGoReportHandler_def Let_def)
  next
    case False
    show ?thesis
      by (rule that [of "[GetRCBValues conn ref err rcb]"], rule report_state.equality)
        (simp_all add: UnsubscribeReport_def get False uninstallGoReportHandler_def Let_def)
  qed
qed

section \<open>Invariants\<close>

text \<open>Identifiers come from a counter: those in use were handed out before.\<close>

definition ids_ok :: "nat \<Rightarrow> ('h, 'c, 'b) report_state \<Rightarrow> bool" where
  "ids_ok n st \<longleftrightarrow> (\<exists>k \<le> n. nextHandlerID st = of_nat k \<and>
     dom (reportHandlers st) \<subseteq> (\<lambda>j. sint (of_nat j :: int32)) ` {1..k})"

definition delivers_ok :: "'c \<Rightarrow> ('h, 'c, 'b) report_state \<Rightarrow> bool" where
  "delivers_ok conn st \<longleftrightarrow> (\<forall>ref p. installed (report_calls st) (conn, ref) = Some p \<longrightarrow>
     (\<exists>e. reportHandlers st (sint (reportCallbackBridge p)) = Some e \<and> entry_rcbRef e = ref))"

lemma fresh_id:
  assumes "ids_ok n st" and "n < 4294967295"
  shows "reportHandlers st (sint (nextHandlerID st + 1)) = None"
proof (rule ccontr)
  assume "reportHandlers st (sint (nextHandlerID st + 1)) \<noteq> None"
  with assms(1) obtain k j where k: "k \<le> n" "nextHandlerID st = of_nat k" "1 \<le> j" "j \<le> k"
    and eq: "sint (of_nat (Suc k) :: int32) = sint (of_nat j :: int32)"
    by (auto simp: ids_ok_def add.commute) force
  from eq have "(of_nat (Suc k) :: int32) = of_nat j"
    by (rule signed_word_eqI)
  with k assms(2) have "Suc k = j"
    by (simp add: word_of_nat_eq_iff take_bit_nat_eq_self del: of_nat_Suc)
  with k show False by simp
qed

lemma ids_ok_SubscribeReport:
  assumes "ids_ok n st"
  shows "ids_ok (Suc n) (snd (SubscribeReport lib conn ref cfg h st))"
proof -
  obtain err rcb where get: "lib_getRCBValues lib (report_calls st) conn ref = (err, rcb)" by fastforce
  from assms obtain k where k: "k \<le> n" "nextHandlerID st = of_nat k"
    "dom (reportHandlers st) \<subseteq> (\<lambda>j. sint (of_nat j :: int32)) ` {1..k}"
    by (auto simp: ids_ok_def)
  show ?thesis
  proof (cases "err = 0")
    case False
    then show ?thesis
      using SubscribeReport_unread [OF get] k by (auto simp: ids_ok_def intro: le_SucI)
  next
    case True
    with get obtain rptId e where st': "snd (SubscribeReport lib conn ref cfg h st)
      = \<lparr>reportHandlers = (reportHandlers st)
          (sint (nextHandlerID st + 1) := if e = 0 then Some \<lparr>handler = h, entry_rcbRef = ref\<rparr> else None),
         nextHandlerID = nextHandlerID st + 1,
         report_calls = report_calls st
           @ subscribe_calls conn ref cfg rcb rptId (nextHandlerID st + 1) e\<rparr>"
      using SubscribeReport_read [of lib st conn ref rcb cfg h] by metis
    have next': "nextHandlerID st + 1 = of_nat (Suc k)" using k(2) by simp
    have "dom ((reportHandlers st)(sint (of_nat (Suc k) :: int32) := x))
        \<subseteq> (\<lambda>j. sint (of_nat j :: int32)) ` {1..Suc k}" for x
    proof -
      have "{1..Suc k} = insert (Suc k) {1..k}" by auto
      with k(3) show ?thesis by (auto split: if_splits)
    qed
    then show ?thesis
      unfolding st' next' ids_ok_def using k(1) by (intro exI [of _ "Suc k"]) simp
  qed
qed

lemma ids_ok_reach: "report_reach lib cs n st \<Longrightarrow> ids_ok n st"
proof (induction rule: report_reach.induct)
  case reach_start
  show ?case by (auto simp: ids_ok_def no_reports_def)
next
  case (reach_subscribe n st conn ref cfg h)
  then show ?case by (intro ids_ok_SubscribeReport)
next
  case (reach_unsubscribe n st conn order ref)
  obtain pre where "UnsubscribeReport lib conn order ref st = \<lparr>
       reportHandlers = delete_first order ref (reportHandlers st),
       nextHandlerID = nextHandlerID st,
       report_calls = report_calls st @ pre @ [InstallReportHandler conn ref None None]\<rparr>"
    by (rule UnsubscribeReport_result)
  then show ?case
    using reach_unsubscribe.IH delete_first_dom [of order ref "reportHandlers st"]
    by (fastforce simp: ids_ok_def)
qed

lemma active_cong:
  assumes "installed (report_calls st') = (installed (report_calls st))((conn, ref) := p)"
    and "delivers_ok conn st" and "r \<noteq> ref"
    and "\<And>k e. reportHandlers st k = Some e \<Longrightarrow> entry_rcbRef e \<noteq> ref \<Longrightarrow> reportHandlers st' k = Some e"
  shows "active st' conn r = active st conn r"
    and "installed (report_calls st') (conn, r) = Some q \<Longrightarrow>
      \<exists>e. reportHandlers st' (sint (reportCallbackBridge q)) = Some e \<and> entry_rcbRef e = r"
proof -
  show "active st' conn r = active st conn r"
  proof (cases "installed (report_calls st) (conn, r)")
    case None
    with assms(1,3) show ?thesis by (simp add: active_def)
  next
    case (Some q)
    with assms(2) obtain e where e: "reportHandlers st (sint (reportCallbackBridge q)) = Some e"
      "entry_rcbRef e = r"
      by (auto simp: delivers_ok_def)
    with assms(3) have "reportHandlers st' (sint (reportCallbackBridge q)) = Some e"
      by (intro assms(4)) auto
    with e Some assms(1,3) show ?thesis by (simp add: active_def)
  qed
  assume "installed (report_calls st') (conn, r) = Some q"
  with assms show "\<exists>e. reportHandlers st' (sint (reportCallbackBridge q)) = Some e \<and> entry_rcbRef e = r"
    by (fastforce simp: delivers_ok_def)
qed

lemma delivers_ok_update:
  assumes "installed (report_calls st') = (installed (report_calls st))((conn, ref) := p)"
    and "delivers_ok conn st"
    and "\<And>k e. reportHandlers st k = Some e \<Longrightarrow> entry_rcbRef e \<noteq> ref \<Longrightarrow> reportHandlers st' k = Some e"
    and "\<And>q. p = Some q \<Longrightarrow> \<exists>e. reportHandlers st' (sint (reportCallbackBridge q)) = Some e \<and> entry_rcbRef e = ref"
  shows "delivers_ok conn st'"
  unfolding delivers_ok_def
proof (intro allI impI)
  fix r q assume q: "installed (report_calls st') (conn, r) = Some q"
  show "\<exists>e. reportHandlers st' (sint (reportCallbackBridge q)) = Some e \<and> entry_rcbRef e = r"
  proof (cases "r = ref")
    case True
    with q assms(1,4) show ?thesis by simp
  next
    case False
    with q show ?thesis using active_cong(2) [OF assms(1,2) _ assms(3)] by blast
  qed
qed

lemma SubscribeReport_active:
  assumes "ids_ok n st" and "n < 4294967295" and "delivers_ok conn st"
  shows "active (snd (SubscribeReport lib conn ref cfg h st)) conn
      = (if fst (lib_getRCBValues lib (report_calls st) conn ref) \<noteq> 0 then active st conn
         else (active st conn)
           (ref := if fst (SubscribeReport lib conn ref cfg h st) = None then Some h else None))"
      (is "?act")
    and "delivers_ok conn (snd (SubscribeReport lib conn ref cfg h st))" (is "?ok")
proof -
  let ?st' = "snd (SubscribeReport lib conn ref cfg h st)"
  obtain err rcb where get: "lib_getRCBValues lib (report_calls st) conn ref = (err, rcb)" by fastforce
  have "?act \<and> ?ok"
  proof (cases "err = 0")
    case False
    then show ?thesis
      using get SubscribeReport_unread [OF get] assms(3)
      by (auto simp: active_def delivers_ok_def fun_eq_iff cong: option.case_cong)
  next
    case True
    with get obtain rptId e where r: "fst (SubscribeReport lib conn ref cfg h st)
        = (if e = 0 then None else Some (''setRCBValues '' @ ref @ '': '' @ Err e))"
      and st': "?st' = \<lparr>reportHandlers = (reportHandlers st)
          (sint (nextHandlerID st + 1) := if e = 0 then Some \<lparr>handler = h, entry_rcbRef = ref\<rparr> else None),
         nextHandlerID = nextHandlerID st + 1,
         report_calls = report_calls st
           @ subscribe_calls conn ref cfg rcb rptId (nextHandlerID st + 1) e\<rparr>"
      using SubscribeReport_read [of lib st conn ref rcb cfg h] by metis
    have inst: "installed (report_calls ?st') = (installed (report_calls st))
        ((conn, ref) := if e = 0 then Some (scast (nextHandlerID st + 1)) else None)"
      by (simp add: st')
    have keep: "reportHandlers ?st' k = Some e" if "reportHandlers st k = Some e" "entry_rcbRef e \<noteq> ref" for k e
      using that fresh_id [OF assms(1,2)] by (auto simp: st')
    have ?act
      using active_cong(1) [OF inst assms(3) _ keep] get True r
      by (auto simp: fun_eq_iff active_def inst) (auto simp: st')
    moreover have ?ok
      by (rule delivers_ok_update [OF inst assms(3) keep]) (auto simp: st' split: if_splits)
    ultimately show ?thesis ..
  qed
  then show ?act and ?ok by simp_all
qed

lemma UnsubscribeReport_active:
  assumes "delivers_ok conn st"
  shows "active (UnsubscribeReport lib conn order ref st) conn = (active st conn)(ref := None)"
    and "delivers_ok conn (UnsubscribeReport lib conn order ref st)"
proof -
  let ?st' = "UnsubscribeReport lib conn order ref st"
  obtain pre where st': "?st' = \<lparr>
       reportHandlers = delete_first order ref (reportHandlers st),
       nextHandlerID = nextHandlerID st,
       report_calls = report_calls st @ pre @ [InstallReportHandler conn ref None None]\<rparr>"
    and "(\<exists>e rcb. e \<noteq> 0 \<and> pre = [GetRCBValues conn ref e rcb]) \<or>
      (\<exists>rcb e. pre = [GetRCBValues conn ref 0 rcb, SetRptEna rcb False,
         SetRCBValues conn rcb (word_of_int RCB_ELEMENT_RPT_ENA) True e, DestroyRCB rcb])"
    by (rule UnsubscribeReport_result)
  then have inst: "installed (report_calls ?st') = (installed (report_calls st))((conn, ref) := None)"
    by (auto simp: installed_def)
  have keep: "reportHandlers ?st' k = Some e" if "reportHandlers st k = Some e" "entry_rcbRef e \<noteq> ref" for k e
    using that by (simp add: st' delete_first_other)
  show "active ?st' conn = (active st conn)(ref := None)"
    using active_cong(1) [OF inst assms _ keep] by (auto simp: fun_eq_iff) (simp add: active_def inst)
  show "delivers_ok conn ?st'"
    by (rule delivers_ok_update [OF inst assms keep]) simp_all
qed

lemma delivers_ok_reach:
  assumes "report_reach lib cs n st" and "n < 4294967295" and "cs = {conn}"
  shows "delivers_ok conn st"
  using assms
proof (induction rule: report_reach.induct)
  case reach_start
  show ?case by (simp add: delivers_ok_def no_reports_def)
next
  case (reach_subscribe n st c ref cfg h)
  then show ?case
    using SubscribeReport_active(2) [OF ids_ok_reach [OF reach_subscribe.hyps(1)], of conn] by simp
next
  case (reach_unsubscribe n st c order ref)
  then show ?case by (auto intro: UnsubscribeReport_active(2))
qed

text \<open>The report a callback is called with reaches the active handler.\<close>

lemma active_delivers:
  assumes "delivers_ok conn st" and "installed (report_calls st) (conn, ref) = Some p"
    and "buildReport api rapi malloc levels fuel ref r = Inr report"
  shows "\<exists>h. active st conn ref = Some h \<and>
    goReportCallback api rapi malloc levels fuel st (reportCallbackBridge p) r = Inr (Some (h, report))"
proof -
  obtain e where "reportHandlers st (sint (reportCallbackBridge p)) = Some e" "entry_rcbRef e = ref"
    using assms(1,2) by (auto simp: delivers_ok_def)
  with assms(2,3) show ?thesis by (simp add: active_def goReportCallback_def)
qed

section \<open>Control block objects\<close>

text \<open>A successful read hands over a control block, which \<open>ClientReportControlBlock_destroy\<close> frees.\<close>

fun rcb_acquired :: "('c, 'b) report_call \<Rightarrow> 'b option" where
  "rcb_acquired (GetRCBValues _ _ e rcb) = (if e = 0 then Some rcb else None)"
| "rcb_acquired _ = None"

fun rcb_released :: "('c, 'b) report_call \<Rightarrow> 'b option" where
  "rcb_released (DestroyRCB rcb) = Some rcb"
| "rcb_released _ = None"

interpretation rcb: c_resource rcb_acquired rcb_released
  by unfold_locales (auto elim!: rcb_acquired.elims)

lemma requested_neutral: "c \<in> set (requested rcb cfg) \<Longrightarrow> rcb.neutral c"
  by (auto simp: requested_def rcb.neutral_def split: option.splits if_splits)

lemma subscribe_calls_scoped:
  fixes conn :: 'c and b :: 'b
  shows "rcb.run live (subscribe_calls conn ref cfg b rptId hid e) = Some live"
proof -
  let ?sets = "requested b cfg @ [SetRptEna b True] :: ('c, 'b) report_call list"
  let ?body = "?sets @ [GetRptId b rptId, InstallReportHandler conn ref rptId (Some (scast hid)),
        SetRCBValues conn b (elements ?sets) True e]
     @ (if e = 0 then [] else [InstallReportHandler conn ref None None])"
  have "rcb.run live (GetRCBValues conn ref 0 b # ?body @ [DestroyRCB b]) = Some live"
    by (rule rcb.run_scoped) (auto dest: requested_neutral simp: rcb.neutral_def)
  then show ?thesis by (simp add: subscribe_calls_def Let_def)
qed

lemma rcb_run_reach: "report_reach lib cs n st \<Longrightarrow> rcb.run {#} (report_calls st) = Some {#}"
proof (induction rule: report_reach.induct)
  case reach_start
  show ?case by (simp add: no_reports_def)
next
  case (reach_subscribe n st conn ref cfg h)
  obtain err b where get: "lib_getRCBValues lib (report_calls st) conn ref = (err, b)" by fastforce
  show ?case
  proof (cases "err = 0")
    case True
    with get SubscribeReport_read [of lib st conn ref b cfg h] obtain rptId e where
      "report_calls (snd (SubscribeReport lib conn ref cfg h st))
        = report_calls st @ subscribe_calls conn ref cfg b rptId (nextHandlerID st + 1) e"
      by (metis report_state.select_convs(3))
    with reach_subscribe.IH show ?thesis by (simp add: rcb.run_append subscribe_calls_scoped)
  next
    case False
    then show ?thesis using SubscribeReport_unread [OF get] reach_subscribe.IH by (simp add: rcb.run_append)
  qed
next
  case (reach_unsubscribe n st conn order ref)
  obtain pre where "report_calls (UnsubscribeReport lib conn order ref st)
      = report_calls st @ pre @ [InstallReportHandler conn ref None None]"
    and "(\<exists>e rcb. e \<noteq> 0 \<and> pre = [GetRCBValues conn ref e rcb]) \<or>
      (\<exists>rcb e. pre = [GetRCBValues conn ref 0 rcb, SetRptEna rcb False,
         SetRCBValues conn rcb (word_of_int RCB_ELEMENT_RPT_ENA) True e, DestroyRCB rcb])"
    by (rule UnsubscribeReport_result [of lib conn order ref st]) simp
  with reach_unsubscribe.IH show ?case by (auto simp: rcb.run_append)
qed

section \<open>Properties\<close>

text \<open>A library that grants everything, for the witnesses; connections are numbers.\<close>

definition granting_lib :: "(nat, string) report_lib" where
  "granting_lib = \<lparr>lib_getRCBValues = (\<lambda>_ _ ref. (0, ref)), lib_getRptId = (\<lambda>_ rcb. Some rcb),
     lib_setRCBValues = (\<lambda>_ _ _ _ _. 0)\<rparr>"

definition subscribed :: "(char, nat, string) report_state" where
  "subscribed = snd (SubscribeReport granting_lib 1 ''r'' None CHR ''h'' no_reports)"

lemma subscribed_reach: "report_reach granting_lib {1} 1 subscribed"
  unfolding subscribed_def One_nat_def by (intro report_reach.intros) simp

text \<open>
  C4: for one client, the registry together with the installed callbacks implements a map from
  references to handlers: a successful subscription sets the entry of its reference, a refused
  one clears it (also when an earlier subscription was active), one that cannot read the
  control block changes nothing, \<open>UnsubscribeReport\<close> clears it, and no operation touches
  another reference.
\<close>

theorem subscriptions_refine_map:
  assumes "report_reach lib {conn} n st" and "n < 4294967295"
  shows "active (snd (SubscribeReport lib conn ref cfg h st)) conn
      = (if fst (lib_getRCBValues lib (report_calls st) conn ref) \<noteq> 0 then active st conn
         else (active st conn)
           (ref := if fst (SubscribeReport lib conn ref cfg h st) = None then Some h else None))
    \<and> active (UnsubscribeReport lib conn order ref st) conn = (active st conn)(ref := None)"
  using SubscribeReport_active(1) [OF ids_ok_reach [OF assms(1)] assms(2) delivers_ok_reach [OF assms refl]]
    UnsubscribeReport_active(1) [OF delivers_ok_reach [OF assms refl]]
  by blast

theorem subscriptions_refine_map_witness:
  "active (snd (SubscribeReport granting_lib 1 ''s'' None CHR ''g'' subscribed)) 1 ''s'' = Some CHR ''g''
    \<and> active (UnsubscribeReport granting_lib 1 [1] ''r'' subscribed) 1 ''r'' = None"
  using subscriptions_refine_map [OF subscribed_reach, of "''s''" None "CHR ''g''"]
    subscriptions_refine_map [OF subscribed_reach, where order = "[1]" and ref = "''r''"]
  by (simp add: granting_lib_def SubscribeReport_def Let_def configure_rcb_requested)



text \<open>
  C9: the calls of \<open>SubscribeReport\<close> and its effect on the registry, on every path: the write
  mask names exactly the elements whose setters were called, which are those the configuration
  asks for and \<open>RptEna\<close>; a refused write is followed by the removal of the callback; the
  control block is destroyed last.
\<close>

theorem SubscribeReport_calls:
  "case lib_getRCBValues lib (report_calls st) conn ref of (err, rcb) \<Rightarrow>
     if err \<noteq> 0 then
       SubscribeReport lib conn ref cfg h st
         = (Some (''getRCBValues '' @ ref @ '': '' @ Err err), emit (GetRCBValues conn ref err rcb) st)
     else \<exists>rptId e.
       let hid = nextHandlerID st + 1; sets = requested rcb cfg @ [SetRptEna rcb True];
         (result, st') = SubscribeReport lib conn ref cfg h st in
       result = (if e = 0 then None else Some (''setRCBValues '' @ ref @ '': '' @ Err e)) \<and>
       reportHandlers st' = (reportHandlers st)
         (sint hid := if e = 0 then Some \<lparr>handler = h, entry_rcbRef = ref\<rparr> else None) \<and>
       nextHandlerID st' = hid \<and>
       report_calls st' = report_calls st @ [GetRCBValues conn ref 0 rcb] @ sets
         @ [GetRptId rcb rptId, InstallReportHandler conn ref rptId (Some (scast hid)),
            SetRCBValues conn rcb (elements sets) True e]
         @ (if e = 0 then [] else [InstallReportHandler conn ref None None]) @ [DestroyRCB rcb]"
proof -
  obtain err rcb where get: "lib_getRCBValues lib (report_calls st) conn ref = (err, rcb)" by fastforce
  show ?thesis
  proof (cases "err = 0")
    case False
    then show ?thesis using SubscribeReport_unread [OF get] get by simp
  next
    case True
    with get obtain rptId e where "fst (SubscribeReport lib conn ref cfg h st)
        = (if e = 0 then None else Some (''setRCBValues '' @ ref @ '': '' @ Err e))"
      "snd (SubscribeReport lib conn ref cfg h st) = \<lparr>reportHandlers = (reportHandlers st)
          (sint (nextHandlerID st + 1) := if e = 0 then Some \<lparr>handler = h, entry_rcbRef = ref\<rparr> else None),
         nextHandlerID = nextHandlerID st + 1,
         report_calls = report_calls st
           @ subscribe_calls conn ref cfg rcb rptId (nextHandlerID st + 1) e\<rparr>"
      using SubscribeReport_read [of lib st conn ref rcb cfg h] by metis
    then show ?thesis
      using get True
      by (auto simp: subscribe_calls_def Let_def case_prod_beta intro!: exI [of _ rptId] exI [of _ e])
  qed
qed

text \<open>
  C10: a subscription that fails leaves the registry as it was, whatever the clients did before:
  the identifier it took was not in use.
\<close>

theorem failed_subscription_rolls_back:
  assumes "report_reach lib cs n st" and "n < 4294967295"
    and "fst (SubscribeReport lib conn ref cfg h st) = Some msg"
  shows "reportHandlers (snd (SubscribeReport lib conn ref cfg h st)) = reportHandlers st"
proof -
  obtain err rcb where get: "lib_getRCBValues lib (report_calls st) conn ref = (err, rcb)" by fastforce
  show ?thesis
  proof (cases "err = 0")
    case False
    then show ?thesis using SubscribeReport_unread [OF get] by simp
  next
    case True
    with get obtain rptId e where "fst (SubscribeReport lib conn ref cfg h st)
        = (if e = 0 then None else Some (''setRCBValues '' @ ref @ '': '' @ Err e))"
      "reportHandlers (snd (SubscribeReport lib conn ref cfg h st)) = (reportHandlers st)
          (sint (nextHandlerID st + 1) := if e = 0 then Some \<lparr>handler = h, entry_rcbRef = ref\<rparr> else None)"
      using SubscribeReport_read [of lib st conn ref rcb cfg h] by (metis report_state.select_convs(1))
    with assms(3) show ?thesis
      using fresh_id [OF ids_ok_reach [OF assms(1)] assms(2)] by (auto split: if_splits)
  qed
qed

definition refusing_lib :: "(nat, string) report_lib" where
  "refusing_lib = granting_lib\<lparr>lib_setRCBValues := \<lambda>_ _ _ _ _. 3\<rparr>"

theorem failed_subscription_rolls_back_witness:
  "reportHandlers (snd (SubscribeReport refusing_lib 1 ''r'' None CHR ''h''
    (no_reports :: (char, nat, string) report_state))) = Map.empty"
proof -
  have f: "fst (SubscribeReport refusing_lib 1 ''r'' None CHR ''h''
      (no_reports :: (char, nat, string) report_state)) = Some (''setRCBValues r: '' @ Err 3)"
    by (simp add: refusing_lib_def granting_lib_def SubscribeReport_def Let_def configure_rcb_requested)
  have r: "report_reach refusing_lib {1} 0 (no_reports :: (char, nat, string) report_state)"
    by (rule reach_start)
  have "reportHandlers (snd (SubscribeReport refusing_lib 1 ''r'' None CHR ''h''
      (no_reports :: (char, nat, string) report_state))) = reportHandlers (no_reports :: (char, nat, string) report_state)"
    by (rule failed_subscription_rolls_back [OF r _ f]) simp
  then show ?thesis by (simp add: no_reports_def)
qed

text \<open>
  C36: \<open>SubscribeReportWithCandidates\<close> is a plain search: it subscribes to each candidate and
  then to the candidate with \<open>01\<close> appended, in order, stops at the first success and returns
  that reference; when all fail the error lists the first twenty messages, in order.
\<close>

theorem candidates_first_success:
  "SubscribeReportWithCandidates lib conn cands cfg h st =
     (if cands = [] then ([], Some ''SubscribeReportWithCandidates: no candidates'', st)
      else case try_refs lib conn (concat (map (\<lambda>base. [base, base @ ''01'']) cands)) cfg h st of
        (Inr ref, st) \<Rightarrow> (ref, None, st)
      | (Inl errs, st) \<Rightarrow> ([], Some (''SubscribeReportWithCandidates: all '' @ Itoa (int (length cands))
          @ '' refs (with +01 alt) failed: '' @ Join (take 20 errs) ''; ''), st))"
  using try_candidates_refs [of "[]" "[]" lib conn cands cfg h st]
  by (cases "try_refs lib conn (concat (map (\<lambda>base. [base, base @ ''01'']) cands)) cfg h st")
    (auto simp: SubscribeReportWithCandidates_def split: sum.splits)

text \<open>
  C8: whatever the clients do and whatever the server answers, every control block the library
  handed out has been destroyed exactly once when the operations are over, and none that was not
  handed out.
\<close>

theorem control_blocks_balanced:
  assumes "report_reach lib cs n st"
  shows "resource_run rcb_acquired rcb_released {#} (report_calls st) = Some {#}"
  using assms by (rule rcb_run_reach)

theorem control_blocks_balanced_witness:
  "resource_run rcb_acquired rcb_released {#} (report_calls subscribed) = Some {#}"
  by (rule control_blocks_balanced [OF subscribed_reach])

text \<open>
  The map of references to handlers is one client's only. The registry is shared by all clients and
  \<open>UnsubscribeReport\<close> compares references alone: when two clients subscribe to the same
  reference, one unsubscribing can remove the other's handler, whose callback stays installed
  and drops every further report, while its own entry stays behind.
\<close>

theorem unsubscribe_drops_other_client:
  "\<exists>st order st'.
     st = snd (SubscribeReport granting_lib 2 ''r'' None CHR ''b'' subscribed) \<and>
     distinct order \<and> set order = dom (reportHandlers st) \<and>
     st' = UnsubscribeReport granting_lib 2 order ''r'' st \<and>
     active st 1 ''r'' = Some CHR ''h'' \<and> active st' 1 ''r'' = None \<and>
     installed (report_calls st') (1, ''r'') = Some 1 \<and>
     reportHandlers st' 2 = Some \<lparr>handler = CHR ''b'', entry_rcbRef = ''r''\<rparr> \<and>
     installed (report_calls st') (2, ''r'') = None"
proof -
  let ?st = "snd (SubscribeReport granting_lib 2 ''r'' None CHR ''b'' subscribed)"
  let ?st' = "UnsubscribeReport granting_lib 2 [1, 2] ''r'' ?st"
  note evals = subscribed_def granting_lib_def no_reports_def SubscribeReport_def UnsubscribeReport_def
    Let_def configure_rcb_requested installGoReportHandler_def uninstallGoReportHandler_def
    installed_def requested_def active_def
  have "distinct [1, 2 :: int]" by simp
  moreover have "set [1, 2] = dom (reportHandlers ?st)"
    by (simp add: evals insert_commute)
  moreover have "active ?st 1 ''r'' = Some CHR ''h''" "active ?st' 1 ''r'' = None"
    by (simp_all add: evals reportCallbackBridge_def)
  moreover have "installed (report_calls ?st') (1, ''r'') = Some 1"
    "reportHandlers ?st' 2 = Some \<lparr>handler = CHR ''b'', entry_rcbRef = ''r''\<rparr>"
    "installed (report_calls ?st') (2, ''r'') = None"
    by (simp_all add: evals)
  ultimately show ?thesis by blast
qed

end
