(* ===== verification/End_To_End.thy ===== *)
theory End_To_End
  imports Dataset_Read Scl_Parse Report_Subscribe
begin

text \<open>
  What the properties across components share: the states a client can reach after a subscription
  without touching its reference, and a document with a data set and a server that fit each other.
\<close>

section \<open>After a subscription\<close>

text \<open>Whatever the client does next with other references, at most \<open>k\<close> subscriptions.\<close>

inductive undisturbed :: "('c, 'b) report_lib \<Rightarrow> 'c \<Rightarrow> string \<Rightarrow> ('h, 'c, 'b) report_state \<Rightarrow> nat \<Rightarrow>
    ('h, 'c, 'b) report_state \<Rightarrow> bool" for lib conn ref st where
  undisturbed_refl: "undisturbed lib conn ref st 0 st"
| undisturbed_sub: "undisturbed lib conn ref st k st' \<Longrightarrow> r \<noteq> ref \<Longrightarrow>
    undisturbed lib conn ref st (Suc k) (snd (SubscribeReport lib conn r cfg h st'))"
| undisturbed_unsub: "undisturbed lib conn ref st k st' \<Longrightarrow> r \<noteq> ref \<Longrightarrow> distinct order \<Longrightarrow>
    set order = dom (reportHandlers st') \<Longrightarrow> undisturbed lib conn ref st k (UnsubscribeReport lib conn order r st')"

lemma undisturbed_active:
  assumes "undisturbed lib conn ref st k st'" and "report_reach lib {conn} n st" and "n + k < 4294967295"
  shows "report_reach lib {conn} (n + k) st' \<and> active st' conn ref = active st conn ref"
  using assms
proof (induction rule: undisturbed.induct)
  case (undisturbed_sub k st' r cfg h)
  then have reach: "report_reach lib {conn} (n + k) st'" and same: "active st' conn ref = active st conn ref"
    and few: "n + k < 4294967295" by auto
  have "active (snd (SubscribeReport lib conn r cfg h st')) conn ref = active st' conn ref"
    using SubscribeReport_active(1) [OF ids_ok_reach [OF reach] few delivers_ok_reach [OF reach few refl]]
      undisturbed_sub.hyps(2) by simp
  moreover have "report_reach lib {conn} (n + Suc k) (snd (SubscribeReport lib conn r cfg h st'))"
    using reach_subscribe [OF reach] by simp
  ultimately show ?case using same by simp
next
  case (undisturbed_unsub k st' r order)
  then have reach: "report_reach lib {conn} (n + k) st'" and same: "active st' conn ref = active st conn ref"
    by auto
  have "active (UnsubscribeReport lib conn order r st') conn ref = active st' conn ref"
    using UnsubscribeReport_active(1) [OF delivers_ok_reach [OF reach undisturbed_unsub.prems(2) refl]]
      undisturbed_unsub.hyps(2) by simp
  moreover have "report_reach lib {conn} (n + k) (UnsubscribeReport lib conn order r st')"
    using reach_unsubscribe [OF reach] undisturbed_unsub.hyps(3,4) by simp
  ultimately show ?case using same by simp
qed simp

section \<open>A document and its server\<close>

text \<open>A document with one data set of two attributes, and a server that has values for them.\<close>

definition attribute_entry :: "string \<Rightarrow> FCDAEntry" where
  "attribute_entry da = \<lparr>fcda_LDInst = ''LD'', fcda_Prefix = [], fcda_LNClass = ''GGIO'', fcda_LNInst = ''1'',
     fcda_DOName = ''AnIn'', fcda_DAName = da, fcda_FC = ''MX''\<rparr>"

definition attribute_set :: DataSet where
  "attribute_set = \<lparr>ds_Name = ''ds'', ds_Desc = [], ds_FCDA = [attribute_entry ''mag'', attribute_entry ''q'']\<rparr>"

definition attribute_device :: LDevice where
  "attribute_device = \<lparr>ld_Inst = ''LD'', ld_LN = [], ld_LN0 = \<lparr>ln0_Inst = [], ln0_LnType = ''T'',
     ln0_LnClass = ''LLN0'', ln0_DataSets = [attribute_set]\<rparr>\<rparr>"

definition attribute_scl :: SCL where
  "attribute_scl = \<lparr>scl_IED = [\<lparr>ied_Name = ''I'', ied_Type = [], ied_Desc = [], ied_ConfigVersion = [],
      ied_AccessPoint = [\<lparr>ap_Name = ''S1'', ap_LDevice = [attribute_device]\<rparr>]\<rparr>],
     scl_DataTypeTemplates = zero_templates\<rparr>"

definition attribute_root :: element where
  "attribute_root = ([],
     [Elem ''IED'' [(''name'', ''I'')] [Elem ''AccessPoint'' [(''name'', ''S1'')] [Elem ''Server'' []
        [Elem ''LDevice'' [(''inst'', ''LD'')] [Elem ''LN0'' [(''inst'', []), (''lnClass'', ''LLN0''), (''lnType'', ''T'')]
          [Elem ''DataSet'' [(''name'', ''ds'')]
            [Elem ''FCDA'' [(''ldInst'', ''LD''), (''lnClass'', ''GGIO''), (''lnInst'', ''1''), (''doName'', ''AnIn''),
               (''daName'', ''mag''), (''fc'', ''MX'')] [],
             Elem ''FCDA'' [(''ldInst'', ''LD''), (''lnClass'', ''GGIO''), (''lnInst'', ''1''), (''doName'', ''AnIn''),
               (''daName'', ''q''), (''fc'', ''MX'')] []]]]]]],
      Elem ''DataTypeTemplates'' [] []])"

lemmas attribute_defs = attribute_scl_def attribute_device_def attribute_set_def attribute_entry_def
  zero_templates_def

definition attribute_values :: "(mms_tree, mms_tree) dataset_api" where
  "attribute_values = \<lparr>IedConnection_readDataSetValues = (\<lambda>_. (0, MArray [Some (MFloat 50), Some (MBitString 3)])),
     ClientDataSet_getValues = (\<lambda>d. d), ClientDataSet_getDataSetSize = (\<lambda>_. 2)\<rparr>"

lemma attribute_root_canon: "canon ''SCL'' attribute_root = encode_SCL attribute_scl"
  by (simp add: attribute_root_def attribute_defs canon_attrs_def tag_tables node_def encode_SCL_def
      encode_IED_def encode_AccessPoint_def encode_LDevice_def encode_LN0_def encode_DataSet_def encode_FCDA_def
      encode_DataTypeTemplates_def cong: map_list_cong)

lemma attribute_values_represented:
  "represents_elems tree_api (ClientDataSet_getValues attribute_values (MArray [Some (MFloat 50), Some (MBitString 3)])) 0
     (map Some [MFloat 50, MBitString 3])"
  by (auto simp: attribute_values_def tree_api_simps nth_Cons')

end
