(* ===== verification/Goose_Types.thy ===== *)
theory Goose_Types
  imports C_Common Mms_Types
begin

text \<open>
  GOOSE: communication parameters of the publisher, parse errors and state of the subscriber
  (\<open>inc/goose\<close>).
\<close>

record CommParameters =
  CommParameters_vlanPriority :: uint8
  CommParameters_vlanId :: uint16
  CommParameters_appId :: uint16
  CommParameters_dstAddress :: "uint8 list"

datatype (plugins only: code size) GooseParseError =
  GOOSE_PARSE_ERROR_NO_ERROR | GOOSE_PARSE_ERROR_UNKNOWN_TAG | GOOSE_PARSE_ERROR_TAGDECODE |
  GOOSE_PARSE_ERROR_SUBLEVEL | GOOSE_PARSE_ERROR_OVERFLOW | GOOSE_PARSE_ERROR_UNDERFLOW |
  GOOSE_PARSE_ERROR_TYPE_MISMATCH | GOOSE_PARSE_ERROR_LENGTH_MISMATCH |
  GOOSE_PARSE_ERROR_INVALID_PADDING

primrec GooseParseError_code :: "GooseParseError \<Rightarrow> int" where
  "GooseParseError_code GOOSE_PARSE_ERROR_NO_ERROR = 0"
| "GooseParseError_code GOOSE_PARSE_ERROR_UNKNOWN_TAG = 1"
| "GooseParseError_code GOOSE_PARSE_ERROR_TAGDECODE = 2"
| "GooseParseError_code GOOSE_PARSE_ERROR_SUBLEVEL = 3"
| "GooseParseError_code GOOSE_PARSE_ERROR_OVERFLOW = 4"
| "GooseParseError_code GOOSE_PARSE_ERROR_UNDERFLOW = 5"
| "GooseParseError_code GOOSE_PARSE_ERROR_TYPE_MISMATCH = 6"
| "GooseParseError_code GOOSE_PARSE_ERROR_LENGTH_MISMATCH = 7"
| "GooseParseError_code GOOSE_PARSE_ERROR_INVALID_PADDING = 8"

definition GooseParseError_all :: "GooseParseError list" where
  "GooseParseError_all = [
    GOOSE_PARSE_ERROR_NO_ERROR, GOOSE_PARSE_ERROR_UNKNOWN_TAG, GOOSE_PARSE_ERROR_TAGDECODE,
    GOOSE_PARSE_ERROR_SUBLEVEL, GOOSE_PARSE_ERROR_OVERFLOW, GOOSE_PARSE_ERROR_UNDERFLOW,
    GOOSE_PARSE_ERROR_TYPE_MISMATCH, GOOSE_PARSE_ERROR_LENGTH_MISMATCH,
    GOOSE_PARSE_ERROR_INVALID_PADDING]"

definition GooseParseError_decode :: "int \<Rightarrow> GooseParseError option" where
  "GooseParseError_decode = find_code GooseParseError_code GooseParseError_all"

lemma GooseParseError_all_complete [enum_simps]: "e \<in> set GooseParseError_all"
  by (cases e) (simp_all add: GooseParseError_all_def)

interpretation GooseParseError: c_enum GooseParseError_code GooseParseError_decode
  unfolding GooseParseError_decode_def
  by (rule c_enum_find_code [OF _ GooseParseError_all_complete]) (simp add: GooseParseError_all_def)

record sGooseSubscriber =
  sGooseSubscriber_goCBRef :: string
  sGooseSubscriber_datSet :: string
  sGooseSubscriber_goId :: string
  sGooseSubscriber_goCBRefLen :: int32
  sGooseSubscriber_timeAllowedToLive :: uint32
  sGooseSubscriber_stNum :: uint32
  sGooseSubscriber_sqNum :: uint32
  sGooseSubscriber_confRev :: uint32
  sGooseSubscriber_timestamp :: ptr
  sGooseSubscriber_simulation :: bool
  sGooseSubscriber_ndsCom :: bool
  sGooseSubscriber_invalidityTime :: uint64
  sGooseSubscriber_stateValid :: bool
  sGooseSubscriber_parseError :: GooseParseError
  sGooseSubscriber_srcMac :: "uint8 list"
  sGooseSubscriber_dstMac :: "uint8 list"
  sGooseSubscriber_appId :: int32
  sGooseSubscriber_dataSetValues :: ptr
  sGooseSubscriber_dataSetValuesSelfAllocated :: bool
  sGooseSubscriber_dstMacSet :: bool
  sGooseSubscriber_isObserver :: bool
  sGooseSubscriber_vlanSet :: bool
  sGooseSubscriber_vlanId :: uint16
  sGooseSubscriber_vlanPrio :: uint8
  sGooseSubscriber_listener :: ptr
  sGooseSubscriber_listenerParameter :: ptr

definition ETH_BUFFER_LENGTH :: int where "ETH_BUFFER_LENGTH = 1518"

definition ETH_P_GOOSE :: int where "ETH_P_GOOSE = 35000"

definition DEBUG_GOOSE_SUBSCRIBER :: int where "DEBUG_GOOSE_SUBSCRIBER = 0"

end
