(* ===== verification/Hal_Types.thy ===== *)
theory Hal_Types
  imports C_Common
begin

text \<open>
  The platform abstraction (\<open>hal/inc\<close>): states of sockets, serial ports and Ethernet sockets,
  versions, events and event codes of TLS.
\<close>

section \<open>Sockets and ports\<close>

datatype (plugins only: code size) EthernetSocketMode =
  ETHERNET_SOCKET_MODE_PROMISC | ETHERNET_SOCKET_MODE_ALL_MULTICAST |
  ETHERNET_SOCKET_MODE_MULTICAST | ETHERNET_SOCKET_MODE_HOST_ONLY

primrec EthernetSocketMode_code :: "EthernetSocketMode \<Rightarrow> int" where
  "EthernetSocketMode_code ETHERNET_SOCKET_MODE_PROMISC = 0"
| "EthernetSocketMode_code ETHERNET_SOCKET_MODE_ALL_MULTICAST = 1"
| "EthernetSocketMode_code ETHERNET_SOCKET_MODE_MULTICAST = 2"
| "EthernetSocketMode_code ETHERNET_SOCKET_MODE_HOST_ONLY = 3"

definition EthernetSocketMode_all :: "EthernetSocketMode list" where
  "EthernetSocketMode_all = [
    ETHERNET_SOCKET_MODE_PROMISC, ETHERNET_SOCKET_MODE_ALL_MULTICAST,
    ETHERNET_SOCKET_MODE_MULTICAST, ETHERNET_SOCKET_MODE_HOST_ONLY]"

definition EthernetSocketMode_decode :: "int \<Rightarrow> EthernetSocketMode option" where
  "EthernetSocketMode_decode = find_code EthernetSocketMode_code EthernetSocketMode_all"

lemma EthernetSocketMode_all_complete [enum_simps]: "e \<in> set EthernetSocketMode_all"
  by (cases e) (simp_all add: EthernetSocketMode_all_def)

interpretation EthernetSocketMode: c_enum EthernetSocketMode_code EthernetSocketMode_decode
  unfolding EthernetSocketMode_decode_def
  by (rule c_enum_find_code [OF _ EthernetSocketMode_all_complete]) (simp add: EthernetSocketMode_all_def)

datatype (plugins only: code size) SocketState =
  SOCKET_STATE_CONNECTING | SOCKET_STATE_FAILED | SOCKET_STATE_CONNECTED

primrec SocketState_code :: "SocketState \<Rightarrow> int" where
  "SocketState_code SOCKET_STATE_CONNECTING = 0"
| "SocketState_code SOCKET_STATE_FAILED = 1"
| "SocketState_code SOCKET_STATE_CONNECTED = 2"

definition SocketState_all :: "SocketState list" where
  "SocketState_all = [
    SOCKET_STATE_CONNECTING, SOCKET_STATE_FAILED, SOCKET_STATE_CONNECTED]"

definition SocketState_decode :: "int \<Rightarrow> SocketState option" where
  "SocketState_decode = find_code SocketState_code SocketState_all"

lemma SocketState_all_complete [enum_simps]: "e \<in> set SocketState_all"
  by (cases e) (simp_all add: SocketState_all_def)

interpretation SocketState: c_enum SocketState_code SocketState_decode
  unfolding SocketState_decode_def
  by (rule c_enum_find_code [OF _ SocketState_all_complete]) (simp add: SocketState_all_def)

datatype (plugins only: code size) SerialPortError =
  SERIAL_PORT_ERROR_NONE | SERIAL_PORT_ERROR_INVALID_ARGUMENT |
  SERIAL_PORT_ERROR_INVALID_BAUDRATE | SERIAL_PORT_ERROR_OPEN_FAILED | SERIAL_PORT_ERROR_UNKNOWN

primrec SerialPortError_code :: "SerialPortError \<Rightarrow> int" where
  "SerialPortError_code SERIAL_PORT_ERROR_NONE = 0"
| "SerialPortError_code SERIAL_PORT_ERROR_INVALID_ARGUMENT = 1"
| "SerialPortError_code SERIAL_PORT_ERROR_INVALID_BAUDRATE = 2"
| "SerialPortError_code SERIAL_PORT_ERROR_OPEN_FAILED = 3"
| "SerialPortError_code SERIAL_PORT_ERROR_UNKNOWN = 99"

definition SerialPortError_all :: "SerialPortError list" where
  "SerialPortError_all = [
    SERIAL_PORT_ERROR_NONE, SERIAL_PORT_ERROR_INVALID_ARGUMENT,
    SERIAL_PORT_ERROR_INVALID_BAUDRATE, SERIAL_PORT_ERROR_OPEN_FAILED, SERIAL_PORT_ERROR_UNKNOWN]"

definition SerialPortError_decode :: "int \<Rightarrow> SerialPortError option" where
  "SerialPortError_decode = find_code SerialPortError_code SerialPortError_all"

lemma SerialPortError_all_complete [enum_simps]: "e \<in> set SerialPortError_all"
  by (cases e) (simp_all add: SerialPortError_all_def)

interpretation SerialPortError: c_enum SerialPortError_code SerialPortError_decode
  unfolding SerialPortError_decode_def
  by (rule c_enum_find_code [OF _ SerialPortError_all_complete]) (simp add: SerialPortError_all_def)

section \<open>TLS\<close>

datatype (plugins only: code size) TLSConfigVersion =
  TLS_VERSION_NOT_SELECTED | TLS_VERSION_SSL_3_0 | TLS_VERSION_TLS_1_0 | TLS_VERSION_TLS_1_1 |
  TLS_VERSION_TLS_1_2 | TLS_VERSION_TLS_1_3

primrec TLSConfigVersion_code :: "TLSConfigVersion \<Rightarrow> int" where
  "TLSConfigVersion_code TLS_VERSION_NOT_SELECTED = 0"
| "TLSConfigVersion_code TLS_VERSION_SSL_3_0 = 3"
| "TLSConfigVersion_code TLS_VERSION_TLS_1_0 = 4"
| "TLSConfigVersion_code TLS_VERSION_TLS_1_1 = 5"
| "TLSConfigVersion_code TLS_VERSION_TLS_1_2 = 6"
| "TLSConfigVersion_code TLS_VERSION_TLS_1_3 = 7"

definition TLSConfigVersion_all :: "TLSConfigVersion list" where
  "TLSConfigVersion_all = [
    TLS_VERSION_NOT_SELECTED, TLS_VERSION_SSL_3_0, TLS_VERSION_TLS_1_0, TLS_VERSION_TLS_1_1,
    TLS_VERSION_TLS_1_2, TLS_VERSION_TLS_1_3]"

definition TLSConfigVersion_decode :: "int \<Rightarrow> TLSConfigVersion option" where
  "TLSConfigVersion_decode = find_code TLSConfigVersion_code TLSConfigVersion_all"

lemma TLSConfigVersion_all_complete [enum_simps]: "e \<in> set TLSConfigVersion_all"
  by (cases e) (simp_all add: TLSConfigVersion_all_def)

interpretation TLSConfigVersion: c_enum TLSConfigVersion_code TLSConfigVersion_decode
  unfolding TLSConfigVersion_decode_def
  by (rule c_enum_find_code [OF _ TLSConfigVersion_all_complete]) (simp add: TLSConfigVersion_all_def)

text \<open>
  The enumerators are C integers: the versions between a minimum and a maximum are those whose
  codes are, and a version that was not selected is below every other.
\<close>

instantiation TLSConfigVersion :: linorder
begin

definition less_eq_TLSConfigVersion :: "TLSConfigVersion \<Rightarrow> TLSConfigVersion \<Rightarrow> bool" where
  "v \<le> w \<longleftrightarrow> TLSConfigVersion_code v \<le> TLSConfigVersion_code w"

definition less_TLSConfigVersion :: "TLSConfigVersion \<Rightarrow> TLSConfigVersion \<Rightarrow> bool" where
  "v < w \<longleftrightarrow> TLSConfigVersion_code v < TLSConfigVersion_code w"

instance
  by standard (auto simp: less_eq_TLSConfigVersion_def less_TLSConfigVersion_def TLSConfigVersion.code_inj)

end

lemma TLSConfigVersion_sorted: "sorted TLSConfigVersion_all \<and> distinct TLSConfigVersion_all"
  by (simp add: TLSConfigVersion_all_def less_eq_TLSConfigVersion_def)

datatype (plugins only: code size) TLSEventLevel =
  TLS_SEC_EVT_INFO | TLS_SEC_EVT_WARNING | TLS_SEC_EVT_INCIDENT

primrec TLSEventLevel_code :: "TLSEventLevel \<Rightarrow> int" where
  "TLSEventLevel_code TLS_SEC_EVT_INFO = 0"
| "TLSEventLevel_code TLS_SEC_EVT_WARNING = 1"
| "TLSEventLevel_code TLS_SEC_EVT_INCIDENT = 2"

definition TLSEventLevel_all :: "TLSEventLevel list" where
  "TLSEventLevel_all = [
    TLS_SEC_EVT_INFO, TLS_SEC_EVT_WARNING, TLS_SEC_EVT_INCIDENT]"

definition TLSEventLevel_decode :: "int \<Rightarrow> TLSEventLevel option" where
  "TLSEventLevel_decode = find_code TLSEventLevel_code TLSEventLevel_all"

lemma TLSEventLevel_all_complete [enum_simps]: "e \<in> set TLSEventLevel_all"
  by (cases e) (simp_all add: TLSEventLevel_all_def)

interpretation TLSEventLevel: c_enum TLSEventLevel_code TLSEventLevel_decode
  unfolding TLSEventLevel_decode_def
  by (rule c_enum_find_code [OF _ TLSEventLevel_all_complete]) (simp add: TLSEventLevel_all_def)

definition TLS_EVENT_CODE_ALM_ALGO_NOT_SUPPORTED :: int where "TLS_EVENT_CODE_ALM_ALGO_NOT_SUPPORTED = 1"

definition TLS_EVENT_CODE_ALM_UNSECURE_COMMUNICATION :: int where "TLS_EVENT_CODE_ALM_UNSECURE_COMMUNICATION = 2"

definition TLS_EVENT_CODE_ALM_CERT_UNAVAILABLE :: int where "TLS_EVENT_CODE_ALM_CERT_UNAVAILABLE = 3"

definition TLS_EVENT_CODE_ALM_BAD_CERT :: int where "TLS_EVENT_CODE_ALM_BAD_CERT = 4"

definition TLS_EVENT_CODE_ALM_CERT_SIZE_EXCEEDED :: int where "TLS_EVENT_CODE_ALM_CERT_SIZE_EXCEEDED = 5"

definition TLS_EVENT_CODE_ALM_CERT_VALIDATION_FAILED :: int where "TLS_EVENT_CODE_ALM_CERT_VALIDATION_FAILED = 6"

definition TLS_EVENT_CODE_ALM_CERT_REQUIRED :: int where "TLS_EVENT_CODE_ALM_CERT_REQUIRED = 7"

definition TLS_EVENT_CODE_ALM_HANDSHAKE_FAILED_UNKNOWN_REASON :: int where "TLS_EVENT_CODE_ALM_HANDSHAKE_FAILED_UNKNOWN_REASON = 8"

definition TLS_EVENT_CODE_WRN_INSECURE_TLS_VERSION :: int where "TLS_EVENT_CODE_WRN_INSECURE_TLS_VERSION = 9"

definition TLS_EVENT_CODE_INF_SESSION_RENEGOTIATION :: int where "TLS_EVENT_CODE_INF_SESSION_RENEGOTIATION = 10"

definition TLS_EVENT_CODE_ALM_CERT_EXPIRED :: int where "TLS_EVENT_CODE_ALM_CERT_EXPIRED = 11"

definition TLS_EVENT_CODE_ALM_CERT_REVOKED :: int where "TLS_EVENT_CODE_ALM_CERT_REVOKED = 12"

definition TLS_EVENT_CODE_ALM_CERT_NOT_CONFIGURED :: int where "TLS_EVENT_CODE_ALM_CERT_NOT_CONFIGURED = 13"

definition TLS_EVENT_CODE_ALM_CERT_NOT_TRUSTED :: int where "TLS_EVENT_CODE_ALM_CERT_NOT_TRUSTED = 14"

definition TLS_EVENT_CODE_ALM_NO_CIPHER :: int where "TLS_EVENT_CODE_ALM_NO_CIPHER = 15"

definition TLS_EVENT_CODE_INF_SESSION_ESTABLISHED :: int where "TLS_EVENT_CODE_INF_SESSION_ESTABLISHED = 16"

definition TLS_EVENT_CODE_WRN_CERT_EXPIRED :: int where "TLS_EVENT_CODE_WRN_CERT_EXPIRED = 17"

definition TLS_EVENT_CODE_WRN_CERT_NOT_YET_VALID :: int where "TLS_EVENT_CODE_WRN_CERT_NOT_YET_VALID = 18"

definition TLS_EVENT_CODE_WRN_CRL_EXPIRED :: int where "TLS_EVENT_CODE_WRN_CRL_EXPIRED = 19"

definition TLS_EVENT_CODE_WRN_CRL_NOT_YET_VALID :: int where "TLS_EVENT_CODE_WRN_CRL_NOT_YET_VALID = 20"

end
