(* ===== verification/Server_Types.thy ===== *)
theory Server_Types
  imports C_Common Client_Types
begin

text \<open>
  The IEC 61850 server: configuration, handler results and events (\<open>iec61850_server.h\<close>), the
  server's own state, control objects, reports and logs (\<open>inc_private\<close>), the options of the
  common data classes (\<open>iec61850_cdc.h\<close>).
\<close>

section \<open>Time stamps\<close>

datatype (plugins only: code size) Timestamp =
    Timestamp_val "uint8 list"

section \<open>Server API\<close>

record sIedServerConfig =
  sIedServerConfig_reportBufferSize :: int32
  sIedServerConfig_reportBufferSizeURCBs :: int32
  sIedServerConfig_fileServiceBasepath :: "string option"
  sIedServerConfig_enableFileService :: bool
  sIedServerConfig_enableDynamicDataSetService :: bool
  sIedServerConfig_maxAssociationSpecificDataSets :: int32
  sIedServerConfig_maxDomainSpecificDataSets :: int32
  sIedServerConfig_maxDataSetEntries :: int32
  sIedServerConfig_enableLogService :: bool
  sIedServerConfig_useIntegratedGoosePublisher :: bool
  sIedServerConfig_edition :: uint8
  sIedServerConfig_maxMmsConnections :: int32
  sIedServerConfig_enableEditSG :: bool
  sIedServerConfig_enableResvTmsForSGCB :: bool
  sIedServerConfig_enableResvTmsForBRCB :: bool
  sIedServerConfig_enableOwnerForRCB :: bool
  sIedServerConfig_syncIntegrityReportTimes :: bool
  sIedServerConfig_reportSettingsWritable :: uint8

datatype (plugins only: code size) CheckHandlerResult =
  CONTROL_ACCEPTED | CONTROL_WAITING_FOR_SELECT | CONTROL_HARDWARE_FAULT |
  CONTROL_TEMPORARILY_UNAVAILABLE | CONTROL_OBJECT_ACCESS_DENIED | CONTROL_OBJECT_UNDEFINED |
  CONTROL_VALUE_INVALID

primrec CheckHandlerResult_code :: "CheckHandlerResult \<Rightarrow> int" where
  "CheckHandlerResult_code CONTROL_ACCEPTED = -1"
| "CheckHandlerResult_code CONTROL_WAITING_FOR_SELECT = 0"
| "CheckHandlerResult_code CONTROL_HARDWARE_FAULT = 1"
| "CheckHandlerResult_code CONTROL_TEMPORARILY_UNAVAILABLE = 2"
| "CheckHandlerResult_code CONTROL_OBJECT_ACCESS_DENIED = 3"
| "CheckHandlerResult_code CONTROL_OBJECT_UNDEFINED = 4"
| "CheckHandlerResult_code CONTROL_VALUE_INVALID = 11"

definition CheckHandlerResult_all :: "CheckHandlerResult list" where
  "CheckHandlerResult_all = [
    CONTROL_ACCEPTED, CONTROL_WAITING_FOR_SELECT, CONTROL_HARDWARE_FAULT,
    CONTROL_TEMPORARILY_UNAVAILABLE, CONTROL_OBJECT_ACCESS_DENIED, CONTROL_OBJECT_UNDEFINED,
    CONTROL_VALUE_INVALID]"

definition CheckHandlerResult_decode :: "int \<Rightarrow> CheckHandlerResult option" where
  "CheckHandlerResult_decode = find_code CheckHandlerResult_code CheckHandlerResult_all"

lemma CheckHandlerResult_all_complete [enum_simps]: "e \<in> set CheckHandlerResult_all"
  by (cases e) (simp_all add: CheckHandlerResult_all_def)

interpretation CheckHandlerResult: c_enum CheckHandlerResult_code CheckHandlerResult_decode
  unfolding CheckHandlerResult_decode_def
  by (rule c_enum_find_code [OF _ CheckHandlerResult_all_complete]) (simp add: CheckHandlerResult_all_def)

datatype (plugins only: code size) ControlHandlerResult =
  CONTROL_RESULT_FAILED | CONTROL_RESULT_OK | CONTROL_RESULT_WAITING

primrec ControlHandlerResult_code :: "ControlHandlerResult \<Rightarrow> int" where
  "ControlHandlerResult_code CONTROL_RESULT_FAILED = 0"
| "ControlHandlerResult_code CONTROL_RESULT_OK = 1"
| "ControlHandlerResult_code CONTROL_RESULT_WAITING = 2"

definition ControlHandlerResult_all :: "ControlHandlerResult list" where
  "ControlHandlerResult_all = [
    CONTROL_RESULT_FAILED, CONTROL_RESULT_OK, CONTROL_RESULT_WAITING]"

definition ControlHandlerResult_decode :: "int \<Rightarrow> ControlHandlerResult option" where
  "ControlHandlerResult_decode = find_code ControlHandlerResult_code ControlHandlerResult_all"

lemma ControlHandlerResult_all_complete [enum_simps]: "e \<in> set ControlHandlerResult_all"
  by (cases e) (simp_all add: ControlHandlerResult_all_def)

interpretation ControlHandlerResult: c_enum ControlHandlerResult_code ControlHandlerResult_decode
  unfolding ControlHandlerResult_decode_def
  by (rule c_enum_find_code [OF _ ControlHandlerResult_all_complete]) (simp add: ControlHandlerResult_all_def)

datatype (plugins only: code size) SelectStateChangedReason =
  SELECT_STATE_REASON_SELECTED | SELECT_STATE_REASON_CANCELED | SELECT_STATE_REASON_TIMEOUT |
  SELECT_STATE_REASON_OPERATED | SELECT_STATE_REASON_OPERATE_FAILED |
  SELECT_STATE_REASON_DISCONNECTED

primrec SelectStateChangedReason_code :: "SelectStateChangedReason \<Rightarrow> int" where
  "SelectStateChangedReason_code SELECT_STATE_REASON_SELECTED = 0"
| "SelectStateChangedReason_code SELECT_STATE_REASON_CANCELED = 1"
| "SelectStateChangedReason_code SELECT_STATE_REASON_TIMEOUT = 2"
| "SelectStateChangedReason_code SELECT_STATE_REASON_OPERATED = 3"
| "SelectStateChangedReason_code SELECT_STATE_REASON_OPERATE_FAILED = 4"
| "SelectStateChangedReason_code SELECT_STATE_REASON_DISCONNECTED = 5"

definition SelectStateChangedReason_all :: "SelectStateChangedReason list" where
  "SelectStateChangedReason_all = [
    SELECT_STATE_REASON_SELECTED, SELECT_STATE_REASON_CANCELED, SELECT_STATE_REASON_TIMEOUT,
    SELECT_STATE_REASON_OPERATED, SELECT_STATE_REASON_OPERATE_FAILED,
    SELECT_STATE_REASON_DISCONNECTED]"

definition SelectStateChangedReason_decode :: "int \<Rightarrow> SelectStateChangedReason option" where
  "SelectStateChangedReason_decode = find_code SelectStateChangedReason_code SelectStateChangedReason_all"

lemma SelectStateChangedReason_all_complete [enum_simps]: "e \<in> set SelectStateChangedReason_all"
  by (cases e) (simp_all add: SelectStateChangedReason_all_def)

interpretation SelectStateChangedReason: c_enum SelectStateChangedReason_code SelectStateChangedReason_decode
  unfolding SelectStateChangedReason_decode_def
  by (rule c_enum_find_code [OF _ SelectStateChangedReason_all_complete]) (simp add: SelectStateChangedReason_all_def)

datatype (plugins only: code size) IedServer_RCBEventType =
  RCB_EVENT_GET_PARAMETER | RCB_EVENT_SET_PARAMETER | RCB_EVENT_UNRESERVED |
  RCB_EVENT_RESERVED | RCB_EVENT_ENABLE | RCB_EVENT_DISABLE | RCB_EVENT_GI |
  RCB_EVENT_PURGEBUF | RCB_EVENT_OVERFLOW | RCB_EVENT_REPORT_CREATED

primrec IedServer_RCBEventType_code :: "IedServer_RCBEventType \<Rightarrow> int" where
  "IedServer_RCBEventType_code RCB_EVENT_GET_PARAMETER = 0"
| "IedServer_RCBEventType_code RCB_EVENT_SET_PARAMETER = 1"
| "IedServer_RCBEventType_code RCB_EVENT_UNRESERVED = 2"
| "IedServer_RCBEventType_code RCB_EVENT_RESERVED = 3"
| "IedServer_RCBEventType_code RCB_EVENT_ENABLE = 4"
| "IedServer_RCBEventType_code RCB_EVENT_DISABLE = 5"
| "IedServer_RCBEventType_code RCB_EVENT_GI = 6"
| "IedServer_RCBEventType_code RCB_EVENT_PURGEBUF = 7"
| "IedServer_RCBEventType_code RCB_EVENT_OVERFLOW = 8"
| "IedServer_RCBEventType_code RCB_EVENT_REPORT_CREATED = 9"

definition IedServer_RCBEventType_all :: "IedServer_RCBEventType list" where
  "IedServer_RCBEventType_all = [
    RCB_EVENT_GET_PARAMETER, RCB_EVENT_SET_PARAMETER, RCB_EVENT_UNRESERVED, RCB_EVENT_RESERVED,
    RCB_EVENT_ENABLE, RCB_EVENT_DISABLE, RCB_EVENT_GI, RCB_EVENT_PURGEBUF, RCB_EVENT_OVERFLOW,
    RCB_EVENT_REPORT_CREATED]"

definition IedServer_RCBEventType_decode :: "int \<Rightarrow> IedServer_RCBEventType option" where
  "IedServer_RCBEventType_decode = find_code IedServer_RCBEventType_code IedServer_RCBEventType_all"

lemma IedServer_RCBEventType_all_complete [enum_simps]: "e \<in> set IedServer_RCBEventType_all"
  by (cases e) (simp_all add: IedServer_RCBEventType_all_def)

interpretation IedServer_RCBEventType: c_enum IedServer_RCBEventType_code IedServer_RCBEventType_decode
  unfolding IedServer_RCBEventType_decode_def
  by (rule c_enum_find_code [OF _ IedServer_RCBEventType_all_complete]) (simp add: IedServer_RCBEventType_all_def)

datatype (plugins only: code size) AccessPolicy =
  ACCESS_POLICY_ALLOW | ACCESS_POLICY_DENY

primrec AccessPolicy_code :: "AccessPolicy \<Rightarrow> int" where
  "AccessPolicy_code ACCESS_POLICY_ALLOW = 0"
| "AccessPolicy_code ACCESS_POLICY_DENY = 1"

definition AccessPolicy_all :: "AccessPolicy list" where
  "AccessPolicy_all = [
    ACCESS_POLICY_ALLOW, ACCESS_POLICY_DENY]"

definition AccessPolicy_decode :: "int \<Rightarrow> AccessPolicy option" where
  "AccessPolicy_decode = find_code AccessPolicy_code AccessPolicy_all"

lemma AccessPolicy_all_complete [enum_simps]: "e \<in> set AccessPolicy_all"
  by (cases e) (simp_all add: AccessPolicy_all_def)

interpretation AccessPolicy: c_enum AccessPolicy_code AccessPolicy_decode
  unfolding AccessPolicy_decode_def
  by (rule c_enum_find_code [OF _ AccessPolicy_all_complete]) (simp add: AccessPolicy_all_def)

datatype (plugins only: code size) IedServer_DataSetOperation =
  DATASET_CREATE | DATASET_DELETE | DATASET_READ | DATASET_WRITE | DATASET_GET_DIRECTORY

primrec IedServer_DataSetOperation_code :: "IedServer_DataSetOperation \<Rightarrow> int" where
  "IedServer_DataSetOperation_code DATASET_CREATE = 0"
| "IedServer_DataSetOperation_code DATASET_DELETE = 1"
| "IedServer_DataSetOperation_code DATASET_READ = 2"
| "IedServer_DataSetOperation_code DATASET_WRITE = 3"
| "IedServer_DataSetOperation_code DATASET_GET_DIRECTORY = 4"

definition IedServer_DataSetOperation_all :: "IedServer_DataSetOperation list" where
  "IedServer_DataSetOperation_all = [
    DATASET_CREATE, DATASET_DELETE, DATASET_READ, DATASET_WRITE, DATASET_GET_DIRECTORY]"

definition IedServer_DataSetOperation_decode :: "int \<Rightarrow> IedServer_DataSetOperation option" where
  "IedServer_DataSetOperation_decode = find_code IedServer_DataSetOperation_code IedServer_DataSetOperation_all"

lemma IedServer_DataSetOperation_all_complete [enum_simps]: "e \<in> set IedServer_DataSetOperation_all"
  by (cases e) (simp_all add: IedServer_DataSetOperation_all_def)

interpretation IedServer_DataSetOperation: c_enum IedServer_DataSetOperation_code IedServer_DataSetOperation_decode
  unfolding IedServer_DataSetOperation_decode_def
  by (rule c_enum_find_code [OF _ IedServer_DataSetOperation_all_complete]) (simp add: IedServer_DataSetOperation_all_def)

datatype (plugins only: code size) IedServer_DirectoryCategory =
  DIRECTORY_CAT_LD_LIST | DIRECTORY_CAT_DATA_LIST | DIRECTORY_CAT_DATASET_LIST |
  DIRECTORY_CAT_LOG_LIST

primrec IedServer_DirectoryCategory_code :: "IedServer_DirectoryCategory \<Rightarrow> int" where
  "IedServer_DirectoryCategory_code DIRECTORY_CAT_LD_LIST = 0"
| "IedServer_DirectoryCategory_code DIRECTORY_CAT_DATA_LIST = 1"
| "IedServer_DirectoryCategory_code DIRECTORY_CAT_DATASET_LIST = 2"
| "IedServer_DirectoryCategory_code DIRECTORY_CAT_LOG_LIST = 3"

definition IedServer_DirectoryCategory_all :: "IedServer_DirectoryCategory list" where
  "IedServer_DirectoryCategory_all = [
    DIRECTORY_CAT_LD_LIST, DIRECTORY_CAT_DATA_LIST, DIRECTORY_CAT_DATASET_LIST,
    DIRECTORY_CAT_LOG_LIST]"

definition IedServer_DirectoryCategory_decode :: "int \<Rightarrow> IedServer_DirectoryCategory option" where
  "IedServer_DirectoryCategory_decode = find_code IedServer_DirectoryCategory_code IedServer_DirectoryCategory_all"

lemma IedServer_DirectoryCategory_all_complete [enum_simps]: "e \<in> set IedServer_DirectoryCategory_all"
  by (cases e) (simp_all add: IedServer_DirectoryCategory_all_def)

interpretation IedServer_DirectoryCategory: c_enum IedServer_DirectoryCategory_code IedServer_DirectoryCategory_decode
  unfolding IedServer_DirectoryCategory_decode_def
  by (rule c_enum_find_code [OF _ IedServer_DirectoryCategory_all_complete]) (simp add: IedServer_DirectoryCategory_all_def)

datatype (plugins only: code size) IedServer_ControlBlockAccessType =
  IEC61850_CB_ACCESS_TYPE_READ | IEC61850_CB_ACCESS_TYPE_WRITE

primrec IedServer_ControlBlockAccessType_code :: "IedServer_ControlBlockAccessType \<Rightarrow> int" where
  "IedServer_ControlBlockAccessType_code IEC61850_CB_ACCESS_TYPE_READ = 0"
| "IedServer_ControlBlockAccessType_code IEC61850_CB_ACCESS_TYPE_WRITE = 1"

definition IedServer_ControlBlockAccessType_all :: "IedServer_ControlBlockAccessType list" where
  "IedServer_ControlBlockAccessType_all = [
    IEC61850_CB_ACCESS_TYPE_READ, IEC61850_CB_ACCESS_TYPE_WRITE]"

definition IedServer_ControlBlockAccessType_decode :: "int \<Rightarrow> IedServer_ControlBlockAccessType option" where
  "IedServer_ControlBlockAccessType_decode = find_code IedServer_ControlBlockAccessType_code IedServer_ControlBlockAccessType_all"

lemma IedServer_ControlBlockAccessType_all_complete [enum_simps]: "e \<in> set IedServer_ControlBlockAccessType_all"
  by (cases e) (simp_all add: IedServer_ControlBlockAccessType_all_def)

interpretation IedServer_ControlBlockAccessType: c_enum IedServer_ControlBlockAccessType_code IedServer_ControlBlockAccessType_decode
  unfolding IedServer_ControlBlockAccessType_decode_def
  by (rule c_enum_find_code [OF _ IedServer_ControlBlockAccessType_all_complete]) (simp add: IedServer_ControlBlockAccessType_all_def)

definition IEC61850_REPORTSETTINGS_RPT_ID :: int where "IEC61850_REPORTSETTINGS_RPT_ID = 1"

definition IEC61850_REPORTSETTINGS_BUF_TIME :: int where "IEC61850_REPORTSETTINGS_BUF_TIME = 2"

definition IEC61850_REPORTSETTINGS_DATSET :: int where "IEC61850_REPORTSETTINGS_DATSET = 4"

definition IEC61850_REPORTSETTINGS_TRG_OPS :: int where "IEC61850_REPORTSETTINGS_TRG_OPS = 8"

definition IEC61850_REPORTSETTINGS_OPT_FIELDS :: int where "IEC61850_REPORTSETTINGS_OPT_FIELDS = 16"

definition IEC61850_REPORTSETTINGS_INTG_PD :: int where "IEC61850_REPORTSETTINGS_INTG_PD = 32"

definition IEC61850_SVCB_EVENT_ENABLE :: int where "IEC61850_SVCB_EVENT_ENABLE = 1"

definition IEC61850_SVCB_EVENT_DISABLE :: int where "IEC61850_SVCB_EVENT_DISABLE = 0"

definition IEC61850_GOCB_EVENT_ENABLE :: int where "IEC61850_GOCB_EVENT_ENABLE = 1"

definition IEC61850_GOCB_EVENT_DISABLE :: int where "IEC61850_GOCB_EVENT_DISABLE = 0"

section \<open>Logs\<close>

record sLogStorage =
  sLogStorage_instanceData :: ptr
  sLogStorage_maxLogEntries :: int32
  sLogStorage_addEntry :: ptr
  sLogStorage_addEntryData :: ptr
  sLogStorage_getEntries :: ptr
  sLogStorage_getEntriesAfter :: ptr
  sLogStorage_getOldestAndNewestEntries :: ptr
  sLogStorage_destroy :: ptr

record LogInstance =
  LogInstance_name :: "string option"
  LogInstance_parentLN :: ptr
  LogInstance_lock :: ptr
  LogInstance_logStorage :: ptr
  LogInstance_newEntryId :: uint64
  LogInstance_newEntryTime :: uint64
  LogInstance_oldEntryId :: uint64
  LogInstance_oldEntryTime :: uint64

record LogControl =
  LogControl_name :: "string option"
  LogControl_logControlBlock :: ptr
  LogControl_mmsMapping :: ptr
  LogControl_logRef :: "string option"
  LogControl_dataSet :: ptr
  LogControl_dataSetRef :: "string option"
  LogControl_isDynamicDataSet :: bool
  LogControl_logicalNode :: ptr
  LogControl_domain :: ptr
  LogControl_mmsValue :: ptr
  LogControl_mmsType :: ptr
  LogControl_oldEntr :: ptr
  LogControl_oldEntrTm :: ptr
  LogControl_newEntr :: ptr
  LogControl_newEntrTm :: ptr
  LogControl_logInstance :: ptr
  LogControl_enabled :: bool
  LogControl_nextIntegrityScan :: uint64
  LogControl_triggerOps :: int32
  LogControl_intgPd :: uint32

datatype (plugins only: code size) LogInclusionFlag =
  LOG_CONTROL_NONE | LOG_CONTROL_VALUE_UPDATE | LOG_CONTROL_VALUE_CHANGED |
  LOG_CONTROL_QUALITY_CHANGED

primrec LogInclusionFlag_code :: "LogInclusionFlag \<Rightarrow> int" where
  "LogInclusionFlag_code LOG_CONTROL_NONE = 0"
| "LogInclusionFlag_code LOG_CONTROL_VALUE_UPDATE = 1"
| "LogInclusionFlag_code LOG_CONTROL_VALUE_CHANGED = 2"
| "LogInclusionFlag_code LOG_CONTROL_QUALITY_CHANGED = 3"

definition LogInclusionFlag_all :: "LogInclusionFlag list" where
  "LogInclusionFlag_all = [
    LOG_CONTROL_NONE, LOG_CONTROL_VALUE_UPDATE, LOG_CONTROL_VALUE_CHANGED,
    LOG_CONTROL_QUALITY_CHANGED]"

definition LogInclusionFlag_decode :: "int \<Rightarrow> LogInclusionFlag option" where
  "LogInclusionFlag_decode = find_code LogInclusionFlag_code LogInclusionFlag_all"

lemma LogInclusionFlag_all_complete [enum_simps]: "e \<in> set LogInclusionFlag_all"
  by (cases e) (simp_all add: LogInclusionFlag_all_def)

interpretation LogInclusionFlag: c_enum LogInclusionFlag_code LogInclusionFlag_decode
  unfolding LogInclusionFlag_decode_def
  by (rule c_enum_find_code [OF _ LogInclusionFlag_all_complete]) (simp add: LogInclusionFlag_all_def)

definition REPORT_CONTROL_NONE :: int where "REPORT_CONTROL_NONE = 0"

definition REPORT_CONTROL_VALUE_UPDATE :: int where "REPORT_CONTROL_VALUE_UPDATE = 1"

definition REPORT_CONTROL_VALUE_CHANGED :: int where "REPORT_CONTROL_VALUE_CHANGED = 2"

definition REPORT_CONTROL_QUALITY_CHANGED :: int where "REPORT_CONTROL_QUALITY_CHANGED = 4"

definition REPORT_CONTROL_NOT_UPDATED :: int where "REPORT_CONTROL_NOT_UPDATED = 8"

section \<open>Server\<close>

record sIedServer =
  sIedServer_model :: ptr
  sIedServer_mmsDevice :: ptr
  sIedServer_mmsServer :: ptr
  sIedServer_localIpAddress :: "string option"
  sIedServer_mmsMapping :: ptr
  sIedServer_clientConnections :: ptr
  sIedServer_writeAccessPolicies :: uint8
  sIedServer_reportBufferSizeBRCBs :: int32
  sIedServer_reportBufferSizeURCBs :: int32
  sIedServer_enableBRCBResvTms :: bool
  sIedServer_enableOwnerForRCB :: bool
  sIedServer_syncIntegrityReportTimes :: bool
  sIedServer_rcbSettingsWritable :: uint8
  sIedServer_dataModelLock :: ptr
  sIedServer_clientConnectionsLock :: ptr
  sIedServer_logServiceEnabled :: bool
  sIedServer_serverThread :: ptr
  sIedServer_vendorName :: "string option"
  sIedServer_modelName :: "string option"
  sIedServer_revision :: "string option"
  sIedServer_enableEditSG :: bool
  sIedServer_hasSGCBResvTms :: bool
  sIedServer_edition :: uint8
  sIedServer_timeQuality :: uint8
  sIedServer_ignoreReadAccess :: bool
  sIedServer_running :: bool

definition ALLOW_WRITE_ACCESS_DC :: int where "ALLOW_WRITE_ACCESS_DC = 1"

definition ALLOW_WRITE_ACCESS_CF :: int where "ALLOW_WRITE_ACCESS_CF = 2"

definition ALLOW_WRITE_ACCESS_SP :: int where "ALLOW_WRITE_ACCESS_SP = 4"

definition ALLOW_WRITE_ACCESS_SV :: int where "ALLOW_WRITE_ACCESS_SV = 8"

definition ALLOW_WRITE_ACCESS_SE :: int where "ALLOW_WRITE_ACCESS_SE = 16"

definition ALLOW_WRITE_ACCESS_BL :: int where "ALLOW_WRITE_ACCESS_BL = 32"

section \<open>Reports\<close>

record ReportBufferEntry =
  ReportBufferEntry_entryId :: "uint8 list"
  ReportBufferEntry_timeOfEntry :: uint64
  ReportBufferEntry_entryLength :: "30 word"
  ReportBufferEntry_flags :: "2 word"
  ReportBufferEntry_next :: ptr

record ReportBuffer =
  ReportBuffer_memoryBlock :: ptr
  ReportBuffer_memoryBlockSize :: int32
  ReportBuffer_reportsCount :: int32
  ReportBuffer_oldestReport :: ptr
  ReportBuffer_lastEnqueuedReport :: ptr
  ReportBuffer_nextToTransmit :: ptr
  ReportBuffer_isOverflow :: bool
  ReportBuffer_lock :: ptr

record ReportControl =
  ReportControl_name :: "string option"
  ReportControl_domain :: ptr
  ReportControl_parentLN :: ptr
  ReportControl_rcbValues :: ptr
  ReportControl_rcbValuesLock :: ptr
  ReportControl_inclusionField :: ptr
  ReportControl_dataSet :: ptr
  ReportControl_isDynamicDataSet :: bool
  ReportControl_enabled :: bool
  ReportControl_reserved :: bool
  ReportControl_buffered :: bool
  ReportControl_bufferedDataSetValues :: ptr
  ReportControl_valueReferences :: ptr
  ReportControl_gi :: bool
  ReportControl_sqNum :: uint16
  ReportControl_intgPd :: uint32
  ReportControl_bufTm :: uint32
  ReportControl_nextIntgReportTime :: uint64
  ReportControl_reservationTimeout :: uint64
  ReportControl_clientConnection :: ptr
  ReportControl_lastEntryId :: uint64
  ReportControl_triggerOps :: int32
  ReportControl_hasOwner :: bool
  ReportControl_segmented :: bool
  ReportControl_startIndexForNextSegment :: int32
  ReportControl_subSeqVal :: ptr
  ReportControl_segmentedReportTimestamp :: uint64
  ReportControl_createNotificationsMutex :: ptr
  ReportControl_inclusionFlags :: ptr
  ReportControl_triggered :: bool
  ReportControl_reportTime :: uint64
  ReportControl_isBuffering :: bool
  ReportControl_isResync :: bool
  ReportControl_resvTms :: int32
  ReportControl_reportBuffer :: ptr
  ReportControl_timeOfEntry :: ptr
  ReportControl_rcb :: ptr
  ReportControl_sibling :: ptr
  ReportControl_server :: ptr

section \<open>Controls\<close>

datatype (plugins only: code size) ControlServiceCDC =
  CST_NONE | CST_SPCTRK | CST_DPCTRK | CST_INCTRK | CST_ENCTRK1 | CST_APCFTRK | CST_APCINTTRK |
  CST_BSCTRK | CST_ISCTRK | CST_BACTRK

primrec ControlServiceCDC_code :: "ControlServiceCDC \<Rightarrow> int" where
  "ControlServiceCDC_code CST_NONE = 0"
| "ControlServiceCDC_code CST_SPCTRK = 1"
| "ControlServiceCDC_code CST_DPCTRK = 2"
| "ControlServiceCDC_code CST_INCTRK = 3"
| "ControlServiceCDC_code CST_ENCTRK1 = 4"
| "ControlServiceCDC_code CST_APCFTRK = 5"
| "ControlServiceCDC_code CST_APCINTTRK = 6"
| "ControlServiceCDC_code CST_BSCTRK = 7"
| "ControlServiceCDC_code CST_ISCTRK = 8"
| "ControlServiceCDC_code CST_BACTRK = 9"

definition ControlServiceCDC_all :: "ControlServiceCDC list" where
  "ControlServiceCDC_all = [
    CST_NONE, CST_SPCTRK, CST_DPCTRK, CST_INCTRK, CST_ENCTRK1, CST_APCFTRK, CST_APCINTTRK,
    CST_BSCTRK, CST_ISCTRK, CST_BACTRK]"

definition ControlServiceCDC_decode :: "int \<Rightarrow> ControlServiceCDC option" where
  "ControlServiceCDC_decode = find_code ControlServiceCDC_code ControlServiceCDC_all"

lemma ControlServiceCDC_all_complete [enum_simps]: "e \<in> set ControlServiceCDC_all"
  by (cases e) (simp_all add: ControlServiceCDC_all_def)

interpretation ControlServiceCDC: c_enum ControlServiceCDC_code ControlServiceCDC_decode
  unfolding ControlServiceCDC_decode_def
  by (rule c_enum_find_code [OF _ ControlServiceCDC_all_complete]) (simp add: ControlServiceCDC_all_def)

record ControlObject =
  ControlObject_mmsDomain :: ptr
  ControlObject_iedServer :: ptr
  ControlObject_lnName :: "string option"
  ControlObject_name :: "string option"
  ControlObject_state :: "4 word"
  ControlObject_ctlModel :: "4 word"
  ControlObject_pendingEvents :: "8 word"
  ControlObject_testMode :: "1 word"
  ControlObject_interlockCheck :: "1 word"
  ControlObject_synchroCheck :: "1 word"
  ControlObject_timeActivatedOperate :: "1 word"
  ControlObject_operateOnce :: "1 word"
  ControlObject_isSelect :: "1 word"
  ControlObject_addCauseValue :: "6 word"
  ControlObject_errorValue :: "2 word"
  ControlObject_stateLock :: ptr
  ControlObject_pendingEventsLock :: ptr
  ControlObject_mmsValue :: ptr
  ControlObject_typeSpec :: ptr
  ControlObject_oper :: ptr
  ControlObject_sbo :: ptr
  ControlObject_sbow :: ptr
  ControlObject_cancel :: ptr
  ControlObject_ctlVal :: ptr
  ControlObject_ctlNum :: ptr
  ControlObject_origin :: ptr
  ControlObject_timestamp :: ptr
  ControlObject_T :: Timestamp
  ControlObject_ctlNumSt :: ptr
  ControlObject_originSt :: ptr
  ControlObject_stSeld :: ptr
  ControlObject_opRcvd :: ptr
  ControlObject_opOk :: ptr
  ControlObject_tOpOk :: ptr
  ControlObject_error :: ptr
  ControlObject_addCause :: ptr
  ControlObject_selectTime :: uint64
  ControlObject_selectTimeout :: uint32
  ControlObject_sboClass :: ptr
  ControlObject_sboTimeout :: ptr
  ControlObject_operateTime :: uint64
  ControlObject_mmsConnection :: ptr
  ControlObject_operateInvokeId :: uint32
  ControlObject_operateHandler :: ptr
  ControlObject_operateHandlerParameter :: ptr
  ControlObject_checkHandler :: ptr
  ControlObject_checkHandlerParameter :: ptr
  ControlObject_waitForExecutionHandler :: ptr
  ControlObject_waitForExecutionHandlerParameter :: ptr
  ControlObject_selectStateChangedHandler :: ptr
  ControlObject_selectStateChangedHandlerParameter :: ptr
  ControlObject_cdc :: ControlServiceCDC
  ControlObject_dataObject :: ptr

end
