(* ===== verification/Mapping_Types.thy ===== *)
theory Mapping_Types
  imports Server_Types
begin

text \<open>
  The mapping of the data model to MMS (\<open>mms_mapping_internal.h\<close>): service tracking instances,
  the mapping itself and its attribute codes.
\<close>

record sServiceTrkInstance =
  sServiceTrkInstance_dobj :: ptr
  sServiceTrkInstance_objRef :: ptr
  sServiceTrkInstance_serviceType :: ptr
  sServiceTrkInstance_errorCode :: ptr
  sServiceTrkInstance_originatorID :: ptr
  sServiceTrkInstance_t :: ptr

record sBrcbTrkInstance =
  sBrcbTrkInstance_dobj :: ptr
  sBrcbTrkInstance_objRef :: ptr
  sBrcbTrkInstance_serviceType :: ptr
  sBrcbTrkInstance_errorCode :: ptr
  sBrcbTrkInstance_originatorID :: ptr
  sBrcbTrkInstance_t :: ptr
  sBrcbTrkInstance_rptID :: ptr
  sBrcbTrkInstance_rptEna :: ptr
  sBrcbTrkInstance_datSet :: ptr
  sBrcbTrkInstance_confRev :: ptr
  sBrcbTrkInstance_optFlds :: ptr
  sBrcbTrkInstance_bufTm :: ptr
  sBrcbTrkInstance_sqNum :: ptr
  sBrcbTrkInstance_trgOps :: ptr
  sBrcbTrkInstance_intgPd :: ptr
  sBrcbTrkInstance_gi :: ptr
  sBrcbTrkInstance_purgeBuf :: ptr
  sBrcbTrkInstance_entryID :: ptr
  sBrcbTrkInstance_timeOfEntry :: ptr
  sBrcbTrkInstance_resvTms :: ptr

record sUrcbTrkInstance =
  sUrcbTrkInstance_dobj :: ptr
  sUrcbTrkInstance_objRef :: ptr
  sUrcbTrkInstance_serviceType :: ptr
  sUrcbTrkInstance_errorCode :: ptr
  sUrcbTrkInstance_originatorID :: ptr
  sUrcbTrkInstance_t :: ptr
  sUrcbTrkInstance_rptID :: ptr
  sUrcbTrkInstance_rptEna :: ptr
  sUrcbTrkInstance_resv :: ptr
  sUrcbTrkInstance_datSet :: ptr
  sUrcbTrkInstance_confRev :: ptr
  sUrcbTrkInstance_optFlds :: ptr
  sUrcbTrkInstance_bufTm :: ptr
  sUrcbTrkInstance_sqNum :: ptr
  sUrcbTrkInstance_trgOps :: ptr
  sUrcbTrkInstance_intgPd :: ptr
  sUrcbTrkInstance_gi :: ptr

record sGocbTrkInstance =
  sGocbTrkInstance_dobj :: ptr
  sGocbTrkInstance_objRef :: ptr
  sGocbTrkInstance_serviceType :: ptr
  sGocbTrkInstance_errorCode :: ptr
  sGocbTrkInstance_originatorID :: ptr
  sGocbTrkInstance_t :: ptr
  sGocbTrkInstance_goEna :: ptr
  sGocbTrkInstance_goID :: ptr
  sGocbTrkInstance_datSet :: ptr
  sGocbTrkInstance_confRev :: ptr
  sGocbTrkInstance_ndsCom :: ptr
  sGocbTrkInstance_dstAddress :: ptr

record sControlTrkInstance =
  sControlTrkInstance_dobj :: ptr
  sControlTrkInstance_objRef :: ptr
  sControlTrkInstance_serviceType :: ptr
  sControlTrkInstance_errorCode :: ptr
  sControlTrkInstance_originatorID :: ptr
  sControlTrkInstance_t :: ptr
  sControlTrkInstance_ctlVal :: ptr
  sControlTrkInstance_operTm :: ptr
  sControlTrkInstance_origin :: ptr
  sControlTrkInstance_ctlNum :: ptr
  sControlTrkInstance_T :: ptr
  sControlTrkInstance_Test :: ptr
  sControlTrkInstance_Check :: ptr
  sControlTrkInstance_respAddCause :: ptr

record sSgcbTrkInstance =
  sSgcbTrkInstance_dobj :: ptr
  sSgcbTrkInstance_objRef :: ptr
  sSgcbTrkInstance_serviceType :: ptr
  sSgcbTrkInstance_errorCode :: ptr
  sSgcbTrkInstance_originatorID :: ptr
  sSgcbTrkInstance_t :: ptr
  sSgcbTrkInstance_numOfSG :: ptr
  sSgcbTrkInstance_actSG :: ptr
  sSgcbTrkInstance_editSG :: ptr
  sSgcbTrkInstance_cnfEdit :: ptr
  sSgcbTrkInstance_lActTm :: ptr

record sLocbTrkInstance =
  sLocbTrkInstance_dobj :: ptr
  sLocbTrkInstance_objRef :: ptr
  sLocbTrkInstance_serviceType :: ptr
  sLocbTrkInstance_errorCode :: ptr
  sLocbTrkInstance_originatorID :: ptr
  sLocbTrkInstance_t :: ptr
  sLocbTrkInstance_logEna :: ptr
  sLocbTrkInstance_datSet :: ptr
  sLocbTrkInstance_trgOps :: ptr
  sLocbTrkInstance_intgPd :: ptr
  sLocbTrkInstance_logRef :: ptr

record MmsMapping =
  MmsMapping_model :: ptr
  MmsMapping_mmsDevice :: ptr
  MmsMapping_mmsServer :: ptr
  MmsMapping_reportControls :: ptr
  MmsMapping_logControls :: ptr
  MmsMapping_logInstances :: ptr
  MmsMapping_useIntegratedPublisher :: bool
  MmsMapping_gseControls :: ptr
  MmsMapping_gooseInterfaceId :: "string option"
  MmsMapping_goCbHandler :: ptr
  MmsMapping_goCbHandlerParameter :: ptr
  MmsMapping_svControls :: ptr
  MmsMapping_svInterfaceId :: "string option"
  MmsMapping_controlObjects :: ptr
  MmsMapping_nextControlTimeout :: uint64
  MmsMapping_attributeAccessHandlers :: ptr
  MmsMapping_readAccessHandler :: ptr
  MmsMapping_readAccessHandlerParameter :: ptr
  MmsMapping_allowEditSg :: bool
  MmsMapping_settingGroups :: ptr
  MmsMapping_reportThreadRunning :: bool
  MmsMapping_reportWorkerThread :: ptr
  MmsMapping_brcbTrk :: ptr
  MmsMapping_urcbTrk :: ptr
  MmsMapping_gocbTrk :: ptr
  MmsMapping_spcTrk :: ptr
  MmsMapping_dpcTrk :: ptr
  MmsMapping_incTrk :: ptr
  MmsMapping_encTrk1 :: ptr
  MmsMapping_apcFTrk :: ptr
  MmsMapping_apcIntTrk :: ptr
  MmsMapping_bscTrk :: ptr
  MmsMapping_iscTrk :: ptr
  MmsMapping_bacTrk :: ptr
  MmsMapping_sgcbTrk :: ptr
  MmsMapping_genTrk :: ptr
  MmsMapping_locbTrk :: ptr
  MmsMapping_isModelLocked :: bool
  MmsMapping_isModelLockedMutex :: ptr
  MmsMapping_iedServer :: ptr
  MmsMapping_connectionIndicationHandler :: ptr
  MmsMapping_connectionIndicationHandlerParameter :: ptr
  MmsMapping_rcbEventHandler :: ptr
  MmsMapping_rcbEventHandlerParameter :: ptr
  MmsMapping_dataSetAccessHandler :: ptr
  MmsMapping_dataSetAccessHandlerParameter :: ptr
  MmsMapping_directoryAccessHandler :: ptr
  MmsMapping_directoryAccessHandlerParameter :: ptr
  MmsMapping_listObjectsAccessHandler :: ptr
  MmsMapping_listObjectsAccessHandlerParameter :: ptr
  MmsMapping_controlBlockAccessHandler :: ptr
  MmsMapping_controlBlockAccessHandlerParameter :: ptr

definition IEC61850_SERVICE_TYPE_UNKOWN :: int where "IEC61850_SERVICE_TYPE_UNKOWN = 0"

definition IEC61850_SERVICE_TYPE_ASSOCIATE :: int where "IEC61850_SERVICE_TYPE_ASSOCIATE = 1"

definition IEC61850_SERVICE_TYPE_ABORT :: int where "IEC61850_SERVICE_TYPE_ABORT = 2"

definition IEC61850_SERVICE_TYPE_RELEASE :: int where "IEC61850_SERVICE_TYPE_RELEASE = 3"

definition IEC61850_SERVICE_TYPE_GET_SERVER_DIRECTORY :: int where "IEC61850_SERVICE_TYPE_GET_SERVER_DIRECTORY = 4"

definition IEC61850_SERVICE_TYPE_GET_LOGICAL_DEVICE_DIRECTORY :: int where "IEC61850_SERVICE_TYPE_GET_LOGICAL_DEVICE_DIRECTORY = 5"

definition IEC61850_SERVICE_TYPE_GET_ALL_DATA_VALUES :: int where "IEC61850_SERVICE_TYPE_GET_ALL_DATA_VALUES = 6"

definition IEC61850_SERVICE_TYPE_GET_DATA_VALUES :: int where "IEC61850_SERVICE_TYPE_GET_DATA_VALUES = 7"

definition IEC61850_SERVICE_TYPE_SET_DATA_VALUES :: int where "IEC61850_SERVICE_TYPE_SET_DATA_VALUES = 8"

definition IEC61850_SERVICE_TYPE_GET_DATA_DIRECTORY :: int where "IEC61850_SERVICE_TYPE_GET_DATA_DIRECTORY = 9"

definition IEC61850_SERVICE_TYPE_GET_DATA_DEFINITION :: int where "IEC61850_SERVICE_TYPE_GET_DATA_DEFINITION = 10"

definition IEC61850_SERVICE_TYPE_GET_DATA_SET_VALUES :: int where "IEC61850_SERVICE_TYPE_GET_DATA_SET_VALUES = 11"

definition IEC61850_SERVICE_TYPE_SET_DATA_SET_VALUES :: int where "IEC61850_SERVICE_TYPE_SET_DATA_SET_VALUES = 12"

definition IEC61850_SERVICE_TYPE_CREATE_DATA_SET :: int where "IEC61850_SERVICE_TYPE_CREATE_DATA_SET = 13"

definition IEC61850_SERVICE_TYPE_DELETE_DATA_SET :: int where "IEC61850_SERVICE_TYPE_DELETE_DATA_SET = 14"

definition IEC61850_SERVICE_TYPE_GET_DATA_SET_DIRECTORY :: int where "IEC61850_SERVICE_TYPE_GET_DATA_SET_DIRECTORY = 15"

definition IEC61850_SERVICE_TYPE_SELECT_ACTIVE_SG :: int where "IEC61850_SERVICE_TYPE_SELECT_ACTIVE_SG = 16"

definition IEC61850_SERVICE_TYPE_SELECT_EDIT_SG :: int where "IEC61850_SERVICE_TYPE_SELECT_EDIT_SG = 17"

definition IEC61850_SERVICE_TYPE_SET_EDIT_SG_VALUE :: int where "IEC61850_SERVICE_TYPE_SET_EDIT_SG_VALUE = 18"

definition IEC61850_SERVICE_TYPE_CONFIRM_EDIT_SG_VALUES :: int where "IEC61850_SERVICE_TYPE_CONFIRM_EDIT_SG_VALUES = 19"

definition IEC61850_SERVICE_TYPE_GET_EDIT_SG_VALUE :: int where "IEC61850_SERVICE_TYPE_GET_EDIT_SG_VALUE = 20"

definition IEC61850_SERVICE_TYPE_GET_SGCB_VALUES :: int where "IEC61850_SERVICE_TYPE_GET_SGCB_VALUES = 21"

definition IEC61850_SERVICE_TYPE_REPORT :: int where "IEC61850_SERVICE_TYPE_REPORT = 22"

definition IEC61850_SERVICE_TYPE_GET_BRCB_VALUES :: int where "IEC61850_SERVICE_TYPE_GET_BRCB_VALUES = 23"

definition IEC61850_SERVICE_TYPE_SET_BRCB_VALUES :: int where "IEC61850_SERVICE_TYPE_SET_BRCB_VALUES = 24"

definition IEC61850_SERVICE_TYPE_GET_URCB_VALUES :: int where "IEC61850_SERVICE_TYPE_GET_URCB_VALUES = 25"

definition IEC61850_SERVICE_TYPE_SET_URCB_VALUES :: int where "IEC61850_SERVICE_TYPE_SET_URCB_VALUES = 26"

definition IEC61850_SERVICE_TYPE_GET_LCB_VALUES :: int where "IEC61850_SERVICE_TYPE_GET_LCB_VALUES = 27"

definition IEC61850_SERVICE_TYPE_SET_LCB_VALUES :: int where "IEC61850_SERVICE_TYPE_SET_LCB_VALUES = 28"

definition IEC61850_SERVICE_TYPE_QUERY_LOG_BY_TIME :: int where "IEC61850_SERVICE_TYPE_QUERY_LOG_BY_TIME = 29"

definition IEC61850_SERVICE_TYPE_QUERY_LOG_AFTER :: int where "IEC61850_SERVICE_TYPE_QUERY_LOG_AFTER = 30"

definition IEC61850_SERVICE_TYPE_GET_LOG_STATUS :: int where "IEC61850_SERVICE_TYPE_GET_LOG_STATUS = 31"

definition IEC61850_SERVICE_TYPE_SEND_GOOSE_MESSAGE :: int where "IEC61850_SERVICE_TYPE_SEND_GOOSE_MESSAGE = 32"

definition IEC61850_SERVICE_TYPE_GET_GOCB_VALUES :: int where "IEC61850_SERVICE_TYPE_GET_GOCB_VALUES = 33"

definition IEC61850_SERVICE_TYPE_SET_GOCB_VALUES :: int where "IEC61850_SERVICE_TYPE_SET_GOCB_VALUES = 34"

definition IEC61850_SERVICE_TYPE_GET_GO_REFERENCE :: int where "IEC61850_SERVICE_TYPE_GET_GO_REFERENCE = 35"

definition IEC61850_SERVICE_TYPE_GET_GOOSE_ELEMENT_NUMBER :: int where "IEC61850_SERVICE_TYPE_GET_GOOSE_ELEMENT_NUMBER = 36"

definition IEC61850_SERVICE_TYPE_SEND_MSV_MESSAGE :: int where "IEC61850_SERVICE_TYPE_SEND_MSV_MESSAGE = 37"

definition IEC61850_SERVICE_TYPE_GET_MSVCB_VALUES :: int where "IEC61850_SERVICE_TYPE_GET_MSVCB_VALUES = 38"

definition IEC61850_SERVICE_TYPE_SET_MSVCB_VALUES :: int where "IEC61850_SERVICE_TYPE_SET_MSVCB_VALUES = 39"

definition IEC61850_SERVICE_TYPE_SEND_USV_MESSAGE :: int where "IEC61850_SERVICE_TYPE_SEND_USV_MESSAGE = 40"

definition IEC61850_SERVICE_TYPE_GET_USVCB_VALUES :: int where "IEC61850_SERVICE_TYPE_GET_USVCB_VALUES = 41"

definition IEC61850_SERVICE_TYPE_SET_USVCB_VALUES :: int where "IEC61850_SERVICE_TYPE_SET_USVCB_VALUES = 42"

definition IEC61850_SERVICE_TYPE_SELECT :: int where "IEC61850_SERVICE_TYPE_SELECT = 43"

definition IEC61850_SERVICE_TYPE_SELECT_WITH_VALUES :: int where "IEC61850_SERVICE_TYPE_SELECT_WITH_VALUES = 44"

definition IEC61850_SERVICE_TYPE_CANCEL :: int where "IEC61850_SERVICE_TYPE_CANCEL = 45"

definition IEC61850_SERVICE_TYPE_OPERATE :: int where "IEC61850_SERVICE_TYPE_OPERATE = 46"

definition IEC61850_SERVICE_TYPE_COMMAND_TERMINATION :: int where "IEC61850_SERVICE_TYPE_COMMAND_TERMINATION = 47"

definition IEC61850_SERVICE_TYPE_TIME_ACTIVATED_OPERATE :: int where "IEC61850_SERVICE_TYPE_TIME_ACTIVATED_OPERATE = 48"

definition IEC61850_SERVICE_TYPE_GET_FILE :: int where "IEC61850_SERVICE_TYPE_GET_FILE = 49"

definition IEC61850_SERVICE_TYPE_SET_FILE :: int where "IEC61850_SERVICE_TYPE_SET_FILE = 50"

definition IEC61850_SERVICE_TYPE_DELETE_FILE :: int where "IEC61850_SERVICE_TYPE_DELETE_FILE = 51"

definition IEC61850_SERVICE_TYPE_GET_FILE_ATTRIBUTE_VALUES :: int where "IEC61850_SERVICE_TYPE_GET_FILE_ATTRIBUTE_VALUES = 52"

definition IEC61850_SERVICE_TYPE_TIME_SYNCHRONISATION :: int where "IEC61850_SERVICE_TYPE_TIME_SYNCHRONISATION = 53"

definition IEC61850_SERVICE_TYPE_INTERNAL_CHANGE :: int where "IEC61850_SERVICE_TYPE_INTERNAL_CHANGE = 54"

definition IEC61850_SERVICE_ERROR_NO_ERROR :: int where "IEC61850_SERVICE_ERROR_NO_ERROR = 0"

definition IEC61850_SERVICE_ERROR_INSTANCE_NOT_AVAILABLE :: int where "IEC61850_SERVICE_ERROR_INSTANCE_NOT_AVAILABLE = 1"

definition IEC61850_SERVICE_ERROR_INSTANCE_IN_USE :: int where "IEC61850_SERVICE_ERROR_INSTANCE_IN_USE = 2"

definition IEC61850_SERVICE_ERROR_ACCESS_VIOLATION :: int where "IEC61850_SERVICE_ERROR_ACCESS_VIOLATION = 3"

definition IEC61850_SERVICE_ERROR_ACCESS_NOT_ALLOWED_IN_CURRENT_STATE :: int where "IEC61850_SERVICE_ERROR_ACCESS_NOT_ALLOWED_IN_CURRENT_STATE = 4"

definition IEC61850_SERVICE_ERROR_PARAMETER_VALUE_INAPPROPRIATE :: int where "IEC61850_SERVICE_ERROR_PARAMETER_VALUE_INAPPROPRIATE = 5"

definition IEC61850_SERVICE_ERROR_PARAMETER_VALUE_INCONSISTENT :: int where "IEC61850_SERVICE_ERROR_PARAMETER_VALUE_INCONSISTENT = 6"

definition IEC61850_SERVICE_ERROR_CLASS_NOT_SUPPORTED :: int where "IEC61850_SERVICE_ERROR_CLASS_NOT_SUPPORTED = 7"

definition IEC61850_SERVICE_ERROR_INSTANCE_LOCKED_BY_OTHER_CLIENT :: int where "IEC61850_SERVICE_ERROR_INSTANCE_LOCKED_BY_OTHER_CLIENT = 8"

definition IEC61850_SERVICE_ERROR_CONTROL_MUST_BE_SELECTED :: int where "IEC61850_SERVICE_ERROR_CONTROL_MUST_BE_SELECTED = 9"

definition IEC61850_SERVICE_ERROR_TYPE_CONFLICT :: int where "IEC61850_SERVICE_ERROR_TYPE_CONFLICT = 10"

definition IEC61850_SERVICE_ERROR_FAILED_DUE_TO_COMMUNICATION_CONSTRAINT :: int where "IEC61850_SERVICE_ERROR_FAILED_DUE_TO_COMMUNICATION_CONSTRAINT = 11"

definition IEC61850_SERVICE_ERROR_FAILED_DUE_TO_SERVER_CONSTRAINT :: int where "IEC61850_SERVICE_ERROR_FAILED_DUE_TO_SERVER_CONSTRAINT = 12"

end
