(* ===== verification/Iso_Types.thy ===== *)
theory Iso_Types
  imports C_Common Mms_Types
begin

text \<open>
  The ISO transport, session, presentation and association layers below MMS: connection states
  and indications, selectors and connection parameters.
\<close>

section \<open>Connection parameters\<close>

datatype (plugins only: code size) AcseAuthenticationMechanism =
  ACSE_AUTH_NONE | ACSE_AUTH_PASSWORD | ACSE_AUTH_CERTIFICATE | ACSE_AUTH_TLS

primrec AcseAuthenticationMechanism_code :: "AcseAuthenticationMechanism \<Rightarrow> int" where
  "AcseAuthenticationMechanism_code ACSE_AUTH_NONE = 0"
| "AcseAuthenticationMechanism_code ACSE_AUTH_PASSWORD = 1"
| "AcseAuthenticationMechanism_code ACSE_AUTH_CERTIFICATE = 2"
| "AcseAuthenticationMechanism_code ACSE_AUTH_TLS = 3"

definition AcseAuthenticationMechanism_all :: "AcseAuthenticationMechanism list" where
  "AcseAuthenticationMechanism_all = [
    ACSE_AUTH_NONE, ACSE_AUTH_PASSWORD, ACSE_AUTH_CERTIFICATE, ACSE_AUTH_TLS]"

definition AcseAuthenticationMechanism_decode :: "int \<Rightarrow> AcseAuthenticationMechanism option" where
  "AcseAuthenticationMechanism_decode = find_code AcseAuthenticationMechanism_code AcseAuthenticationMechanism_all"

lemma AcseAuthenticationMechanism_all_complete [enum_simps]: "e \<in> set AcseAuthenticationMechanism_all"
  by (cases e) (simp_all add: AcseAuthenticationMechanism_all_def)

interpretation AcseAuthenticationMechanism: c_enum AcseAuthenticationMechanism_code AcseAuthenticationMechanism_decode
  unfolding AcseAuthenticationMechanism_decode_def
  by (rule c_enum_find_code [OF _ AcseAuthenticationMechanism_all_complete]) (simp add: AcseAuthenticationMechanism_all_def)

record TSelector =
  TSelector_size :: uint8
  TSelector_value :: "uint8 list"

record SSelector =
  SSelector_size :: uint8
  SSelector_value :: "uint8 list"

record PSelector =
  PSelector_size :: uint8
  PSelector_value :: "uint8 list"

record sAcseAuthenticationParameter_value_password =
  sAcseAuthenticationParameter_value_password_octetString :: ptr
  sAcseAuthenticationParameter_value_password_passwordLength :: int32

record sAcseAuthenticationParameter_value_certificate =
  sAcseAuthenticationParameter_value_certificate_buf :: ptr
  sAcseAuthenticationParameter_value_certificate_length :: int32

datatype (plugins only: code size) sAcseAuthenticationParameter_value =
    sAcseAuthenticationParameter_value_password sAcseAuthenticationParameter_value_password
  | sAcseAuthenticationParameter_value_certificate sAcseAuthenticationParameter_value_certificate

record sAcseAuthenticationParameter =
  sAcseAuthenticationParameter_mechanism :: AcseAuthenticationMechanism
  sAcseAuthenticationParameter_value :: sAcseAuthenticationParameter_value

record sIsoConnectionParameters =
  sIsoConnectionParameters_acseAuthParameter :: ptr
  sIsoConnectionParameters_tlsConfiguration :: ptr
  sIsoConnectionParameters_hostname :: "string option"
  sIsoConnectionParameters_tcpPort :: int32
  sIsoConnectionParameters_localIpAddress :: "string option"
  sIsoConnectionParameters_localTcpPort :: int32
  sIsoConnectionParameters_remoteApTitle :: "uint8 list"
  sIsoConnectionParameters_remoteApTitleLen :: int32
  sIsoConnectionParameters_remoteAEQualifier :: int32
  sIsoConnectionParameters_remotePSelector :: PSelector
  sIsoConnectionParameters_remoteSSelector :: SSelector
  sIsoConnectionParameters_remoteTSelector :: TSelector
  sIsoConnectionParameters_localApTitle :: "uint8 list"
  sIsoConnectionParameters_localApTitleLen :: int32
  sIsoConnectionParameters_localAEQualifier :: int32
  sIsoConnectionParameters_localPSelector :: PSelector
  sIsoConnectionParameters_localSSelector :: SSelector
  sIsoConnectionParameters_localTSelector :: TSelector

datatype (plugins only: code size) IsoIndication =
  ISO_IND_ASSOCIATION_SUCCESS | ISO_IND_ASSOCIATION_FAILED | ISO_IND_CLOSED | ISO_IND_DATA |
  ISO_IND_TICK

primrec IsoIndication_code :: "IsoIndication \<Rightarrow> int" where
  "IsoIndication_code ISO_IND_ASSOCIATION_SUCCESS = 0"
| "IsoIndication_code ISO_IND_ASSOCIATION_FAILED = 1"
| "IsoIndication_code ISO_IND_CLOSED = 2"
| "IsoIndication_code ISO_IND_DATA = 3"
| "IsoIndication_code ISO_IND_TICK = 4"

definition IsoIndication_all :: "IsoIndication list" where
  "IsoIndication_all = [
    ISO_IND_ASSOCIATION_SUCCESS, ISO_IND_ASSOCIATION_FAILED, ISO_IND_CLOSED, ISO_IND_DATA,
    ISO_IND_TICK]"

definition IsoIndication_decode :: "int \<Rightarrow> IsoIndication option" where
  "IsoIndication_decode = find_code IsoIndication_code IsoIndication_all"

lemma IsoIndication_all_complete [enum_simps]: "e \<in> set IsoIndication_all"
  by (cases e) (simp_all add: IsoIndication_all_def)

interpretation IsoIndication: c_enum IsoIndication_code IsoIndication_decode
  unfolding IsoIndication_decode_def
  by (rule c_enum_find_code [OF _ IsoIndication_all_complete]) (simp add: IsoIndication_all_def)

section \<open>Transport\<close>

record CotpOptions =
  CotpOptions_tSelSrc :: TSelector
  CotpOptions_tSelDst :: TSelector
  CotpOptions_tpduSize :: uint8

datatype (plugins only: code size) CotpIndication =
  COTP_OK | COTP_ERROR | COTP_CONNECT_INDICATION | COTP_DATA_INDICATION |
  COTP_DISCONNECT_INDICATION | COTP_MORE_FRAGMENTS_FOLLOW

primrec CotpIndication_code :: "CotpIndication \<Rightarrow> int" where
  "CotpIndication_code COTP_OK = 0"
| "CotpIndication_code COTP_ERROR = 1"
| "CotpIndication_code COTP_CONNECT_INDICATION = 2"
| "CotpIndication_code COTP_DATA_INDICATION = 3"
| "CotpIndication_code COTP_DISCONNECT_INDICATION = 4"
| "CotpIndication_code COTP_MORE_FRAGMENTS_FOLLOW = 5"

definition CotpIndication_all :: "CotpIndication list" where
  "CotpIndication_all = [
    COTP_OK, COTP_ERROR, COTP_CONNECT_INDICATION, COTP_DATA_INDICATION,
    COTP_DISCONNECT_INDICATION, COTP_MORE_FRAGMENTS_FOLLOW]"

definition CotpIndication_decode :: "int \<Rightarrow> CotpIndication option" where
  "CotpIndication_decode = find_code CotpIndication_code CotpIndication_all"

lemma CotpIndication_all_complete [enum_simps]: "e \<in> set CotpIndication_all"
  by (cases e) (simp_all add: CotpIndication_all_def)

interpretation CotpIndication: c_enum CotpIndication_code CotpIndication_decode
  unfolding CotpIndication_decode_def
  by (rule c_enum_find_code [OF _ CotpIndication_all_complete]) (simp add: CotpIndication_all_def)

datatype (plugins only: code size) TpktState =
  TPKT_PACKET_COMPLETE | TPKT_WAITING | TPKT_ERROR

primrec TpktState_code :: "TpktState \<Rightarrow> int" where
  "TpktState_code TPKT_PACKET_COMPLETE = 0"
| "TpktState_code TPKT_WAITING = 1"
| "TpktState_code TPKT_ERROR = 2"

definition TpktState_all :: "TpktState list" where
  "TpktState_all = [
    TPKT_PACKET_COMPLETE, TPKT_WAITING, TPKT_ERROR]"

definition TpktState_decode :: "int \<Rightarrow> TpktState option" where
  "TpktState_decode = find_code TpktState_code TpktState_all"

lemma TpktState_all_complete [enum_simps]: "e \<in> set TpktState_all"
  by (cases e) (simp_all add: TpktState_all_def)

interpretation TpktState: c_enum TpktState_code TpktState_decode
  unfolding TpktState_decode_def
  by (rule c_enum_find_code [OF _ TpktState_all_complete]) (simp add: TpktState_all_def)

record CotpConnection =
  CotpConnection_state :: int32
  CotpConnection_remoteRef :: int32
  CotpConnection_localRef :: int32
  CotpConnection_protocolClass :: int32
  CotpConnection_handleSet :: ptr
  CotpConnection_socket :: ptr
  CotpConnection_tlsSocket :: ptr
  CotpConnection_options :: CotpOptions
  CotpConnection_isLastDataUnit :: bool
  CotpConnection_payload :: ptr
  CotpConnection_writeBuffer :: ptr
  CotpConnection_readBuffer :: ptr
  CotpConnection_packetSize :: uint16
  CotpConnection_socketExtensionBuffer :: ptr
  CotpConnection_socketExtensionBufferSize :: int32
  CotpConnection_socketExtensionBufferFill :: int32

section \<open>Session and presentation\<close>

record IsoSession =
  IsoSession_callingSessionSelector :: SSelector
  IsoSession_calledSessionSelector :: SSelector
  IsoSession_sessionRequirement :: uint16
  IsoSession_protocolOptions :: uint8
  IsoSession_userData :: ByteBuffer

datatype (plugins only: code size) IsoSessionIndication =
  SESSION_OK | SESSION_ERROR | SESSION_CONNECT | SESSION_GIVE_TOKEN | SESSION_DATA |
  SESSION_ABORT | SESSION_FINISH | SESSION_DISCONNECT | SESSION_NOT_FINISHED

primrec IsoSessionIndication_code :: "IsoSessionIndication \<Rightarrow> int" where
  "IsoSessionIndication_code SESSION_OK = 0"
| "IsoSessionIndication_code SESSION_ERROR = 1"
| "IsoSessionIndication_code SESSION_CONNECT = 2"
| "IsoSessionIndication_code SESSION_GIVE_TOKEN = 3"
| "IsoSessionIndication_code SESSION_DATA = 4"
| "IsoSessionIndication_code SESSION_ABORT = 5"
| "IsoSessionIndication_code SESSION_FINISH = 6"
| "IsoSessionIndication_code SESSION_DISCONNECT = 7"
| "IsoSessionIndication_code SESSION_NOT_FINISHED = 8"

definition IsoSessionIndication_all :: "IsoSessionIndication list" where
  "IsoSessionIndication_all = [
    SESSION_OK, SESSION_ERROR, SESSION_CONNECT, SESSION_GIVE_TOKEN, SESSION_DATA,
    SESSION_ABORT, SESSION_FINISH, SESSION_DISCONNECT, SESSION_NOT_FINISHED]"

definition IsoSessionIndication_decode :: "int \<Rightarrow> IsoSessionIndication option" where
  "IsoSessionIndication_decode = find_code IsoSessionIndication_code IsoSessionIndication_all"

lemma IsoSessionIndication_all_complete [enum_simps]: "e \<in> set IsoSessionIndication_all"
  by (cases e) (simp_all add: IsoSessionIndication_all_def)

interpretation IsoSessionIndication: c_enum IsoSessionIndication_code IsoSessionIndication_decode
  unfolding IsoSessionIndication_decode_def
  by (rule c_enum_find_code [OF _ IsoSessionIndication_all_complete]) (simp add: IsoSessionIndication_all_def)

record IsoPresentation =
  IsoPresentation_callingPresentationSelector :: PSelector
  IsoPresentation_calledPresentationSelector :: PSelector
  IsoPresentation_nextContextId :: uint8
  IsoPresentation_acseContextId :: uint8
  IsoPresentation_mmsContextId :: uint8
  IsoPresentation_nextPayload :: ByteBuffer

section \<open>Association control\<close>

datatype (plugins only: code size) AcseConnectionState =
  idle | requestIndicated | connected

primrec AcseConnectionState_code :: "AcseConnectionState \<Rightarrow> int" where
  "AcseConnectionState_code idle = 0"
| "AcseConnectionState_code requestIndicated = 1"
| "AcseConnectionState_code connected = 2"

definition AcseConnectionState_all :: "AcseConnectionState list" where
  "AcseConnectionState_all = [
    idle, requestIndicated, connected]"

definition AcseConnectionState_decode :: "int \<Rightarrow> AcseConnectionState option" where
  "AcseConnectionState_decode = find_code AcseConnectionState_code AcseConnectionState_all"

lemma AcseConnectionState_all_complete [enum_simps]: "e \<in> set AcseConnectionState_all"
  by (cases e) (simp_all add: AcseConnectionState_all_def)

interpretation AcseConnectionState: c_enum AcseConnectionState_code AcseConnectionState_decode
  unfolding AcseConnectionState_decode_def
  by (rule c_enum_find_code [OF _ AcseConnectionState_all_complete]) (simp add: AcseConnectionState_all_def)

datatype (plugins only: code size) AcseIndication =
  ACSE_ERROR | ACSE_ASSOCIATE | ACSE_ASSOCIATE_FAILED | ACSE_OK | ACSE_ABORT |
  ACSE_RELEASE_REQUEST | ACSE_RELEASE_RESPONSE

primrec AcseIndication_code :: "AcseIndication \<Rightarrow> int" where
  "AcseIndication_code ACSE_ERROR = 0"
| "AcseIndication_code ACSE_ASSOCIATE = 1"
| "AcseIndication_code ACSE_ASSOCIATE_FAILED = 2"
| "AcseIndication_code ACSE_OK = 3"
| "AcseIndication_code ACSE_ABORT = 4"
| "AcseIndication_code ACSE_RELEASE_REQUEST = 5"
| "AcseIndication_code ACSE_RELEASE_RESPONSE = 6"

definition AcseIndication_all :: "AcseIndication list" where
  "AcseIndication_all = [
    ACSE_ERROR, ACSE_ASSOCIATE, ACSE_ASSOCIATE_FAILED, ACSE_OK, ACSE_ABORT,
    ACSE_RELEASE_REQUEST, ACSE_RELEASE_RESPONSE]"

definition AcseIndication_decode :: "int \<Rightarrow> AcseIndication option" where
  "AcseIndication_decode = find_code AcseIndication_code AcseIndication_all"

lemma AcseIndication_all_complete [enum_simps]: "e \<in> set AcseIndication_all"
  by (cases e) (simp_all add: AcseIndication_all_def)

interpretation AcseIndication: c_enum AcseIndication_code AcseIndication_decode
  unfolding AcseIndication_decode_def
  by (rule c_enum_find_code [OF _ AcseIndication_all_complete]) (simp add: AcseIndication_all_def)

record AcseConnection =
  AcseConnection_state :: AcseConnectionState
  AcseConnection_nextReference :: int64
  AcseConnection_userDataBuffer :: ptr
  AcseConnection_userDataBufferSize :: int32
  AcseConnection_authentication :: ptr
  AcseConnection_authenticator :: ptr
  AcseConnection_applicationReference :: IsoApplicationReference
  AcseConnection_authenticatorParameter :: ptr
  AcseConnection_securityToken :: ptr
  AcseConnection_tlsSocket :: ptr

definition ACSE_RESULT_ACCEPT :: int where "ACSE_RESULT_ACCEPT = 0"

definition ACSE_RESULT_REJECT_PERMANENT :: int where "ACSE_RESULT_REJECT_PERMANENT = 1"

definition ACSE_RESULT_REJECT_TRANSIENT :: int where "ACSE_RESULT_REJECT_TRANSIENT = 2"

section \<open>Server\<close>

datatype (plugins only: code size) IsoServerState =
  ISO_SVR_STATE_IDLE | ISO_SVR_STATE_RUNNING | ISO_SVR_STATE_STOPPED | ISO_SVR_STATE_ERROR

primrec IsoServerState_code :: "IsoServerState \<Rightarrow> int" where
  "IsoServerState_code ISO_SVR_STATE_IDLE = 0"
| "IsoServerState_code ISO_SVR_STATE_RUNNING = 1"
| "IsoServerState_code ISO_SVR_STATE_STOPPED = 2"
| "IsoServerState_code ISO_SVR_STATE_ERROR = 3"

definition IsoServerState_all :: "IsoServerState list" where
  "IsoServerState_all = [
    ISO_SVR_STATE_IDLE, ISO_SVR_STATE_RUNNING, ISO_SVR_STATE_STOPPED, ISO_SVR_STATE_ERROR]"

definition IsoServerState_decode :: "int \<Rightarrow> IsoServerState option" where
  "IsoServerState_decode = find_code IsoServerState_code IsoServerState_all"

lemma IsoServerState_all_complete [enum_simps]: "e \<in> set IsoServerState_all"
  by (cases e) (simp_all add: IsoServerState_all_def)

interpretation IsoServerState: c_enum IsoServerState_code IsoServerState_decode
  unfolding IsoServerState_decode_def
  by (rule c_enum_find_code [OF _ IsoServerState_all_complete]) (simp add: IsoServerState_all_def)

datatype (plugins only: code size) IsoConnectionIndication =
  ISO_CONNECTION_OPENED | ISO_CONNECTION_CLOSED

primrec IsoConnectionIndication_code :: "IsoConnectionIndication \<Rightarrow> int" where
  "IsoConnectionIndication_code ISO_CONNECTION_OPENED = 0"
| "IsoConnectionIndication_code ISO_CONNECTION_CLOSED = 1"

definition IsoConnectionIndication_all :: "IsoConnectionIndication list" where
  "IsoConnectionIndication_all = [
    ISO_CONNECTION_OPENED, ISO_CONNECTION_CLOSED]"

definition IsoConnectionIndication_decode :: "int \<Rightarrow> IsoConnectionIndication option" where
  "IsoConnectionIndication_decode = find_code IsoConnectionIndication_code IsoConnectionIndication_all"

lemma IsoConnectionIndication_all_complete [enum_simps]: "e \<in> set IsoConnectionIndication_all"
  by (cases e) (simp_all add: IsoConnectionIndication_all_def)

interpretation IsoConnectionIndication: c_enum IsoConnectionIndication_code IsoConnectionIndication_decode
  unfolding IsoConnectionIndication_decode_def
  by (rule c_enum_find_code [OF _ IsoConnectionIndication_all_complete]) (simp add: IsoConnectionIndication_all_def)

record IsoServerCallbacks =
  IsoServerCallbacks_clientConnected :: ptr

end
