(* ===== verification/Mms_Structs.thy ===== *)
theory Mms_Structs
  imports Iso_Types
begin

text \<open>
  The MMS layer: values and files, devices, domains and variable lists, the client connection with
  its outstanding calls, and the server with its connections (\<open>mms/inc\<close>, \<open>mms/inc_private\<close>).
  Parts under a \<open>CONFIG_...\<close> switch are included.
\<close>

section \<open>Primitive values and files\<close>

record Asn1PrimitiveValue =
  Asn1PrimitiveValue_size :: uint8
  Asn1PrimitiveValue_maxSize :: uint8
  Asn1PrimitiveValue_octets :: ptr

record MmsFileReadStateMachine =
  MmsFileReadStateMachine_frsmId :: int32
  MmsFileReadStateMachine_readPosition :: uint32
  MmsFileReadStateMachine_fileSize :: uint32
  MmsFileReadStateMachine_fileHandle :: ptr
  MmsFileReadStateMachine_obtainRequest :: ptr

record MmsServiceError =
  MmsServiceError_errorClass :: int32
  MmsServiceError_errorCode :: int32

definition DEFAULT_DATA_STRUCTURE_NESTING_LEVEL :: int where "DEFAULT_DATA_STRUCTURE_NESTING_LEVEL = 10"

definition CONFIG_MMS_MAX_NUMBER_OF_OPEN_FILES_PER_CONNECTION :: int where "CONFIG_MMS_MAX_NUMBER_OF_OPEN_FILES_PER_CONNECTION = 5"

section \<open>Values\<close>

record MmsValue_uMmsValue_structure =
  MmsValue_uMmsValue_structure_size :: int32
  MmsValue_uMmsValue_structure_components :: ptr

record MmsValue_uMmsValue_floatingPoint =
  MmsValue_uMmsValue_floatingPoint_exponentWidth :: uint8
  MmsValue_uMmsValue_floatingPoint_formatWidth :: uint8
  MmsValue_uMmsValue_floatingPoint_buf :: "uint8 list"

record MmsValue_uMmsValue_octetString =
  MmsValue_uMmsValue_octetString_size :: uint16
  MmsValue_uMmsValue_octetString_maxSize :: int32
  MmsValue_uMmsValue_octetString_buf :: ptr

record MmsValue_uMmsValue_bitString =
  MmsValue_uMmsValue_bitString_size :: int32
  MmsValue_uMmsValue_bitString_buf :: ptr

record MmsValue_uMmsValue_visibleString =
  MmsValue_uMmsValue_visibleString_buf :: "string option"
  MmsValue_uMmsValue_visibleString_size :: "16 word"

record MmsValue_uMmsValue_binaryTime =
  MmsValue_uMmsValue_binaryTime_size :: uint8
  MmsValue_uMmsValue_binaryTime_buf :: "uint8 list"

datatype (plugins only: code size) MmsValue_uMmsValue =
    MmsValue_uMmsValue_dataAccessError MmsDataAccessError
  | MmsValue_uMmsValue_structure MmsValue_uMmsValue_structure
  | MmsValue_uMmsValue_boolean bool
  | MmsValue_uMmsValue_integer ptr
  | MmsValue_uMmsValue_floatingPoint MmsValue_uMmsValue_floatingPoint
  | MmsValue_uMmsValue_octetString MmsValue_uMmsValue_octetString
  | MmsValue_uMmsValue_bitString MmsValue_uMmsValue_bitString
  | MmsValue_uMmsValue_visibleString MmsValue_uMmsValue_visibleString
  | MmsValue_uMmsValue_utcTime "uint8 list"
  | MmsValue_uMmsValue_binaryTime MmsValue_uMmsValue_binaryTime

record MmsValue =
  MmsValue_type :: MmsType
  MmsValue_deleteValue :: uint8
  MmsValue_value :: MmsValue_uMmsValue

section \<open>Devices\<close>

record MmsDevice =
  MmsDevice_deviceName :: "string option"
  MmsDevice_namedVariablesCount :: int32
  MmsDevice_namedVariables :: ptr
  MmsDevice_namedVariableLists :: ptr
  MmsDevice_domainCount :: int32
  MmsDevice_domains :: ptr

record sMmsJournal =
  sMmsJournal_name :: "string option"
  sMmsJournal_logStorage :: ptr

record MmsDomain =
  MmsDomain_domainName :: "string option"
  MmsDomain_namedVariablesCount :: int32
  MmsDomain_namedVariables :: ptr
  MmsDomain_namedVariableLists :: ptr
  MmsDomain_journals :: ptr

record sMmsNamedVariableList =
  sMmsNamedVariableList_deletable :: bool
  sMmsNamedVariableList_domain :: ptr
  sMmsNamedVariableList_name :: "string option"
  sMmsNamedVariableList_listOfVariables :: ptr

section \<open>Client\<close>

record MmsConnectionParameters =
  MmsConnectionParameters_maxServOutstandingCalling :: int32
  MmsConnectionParameters_maxServOutstandingCalled :: int32
  MmsConnectionParameters_dataStructureNestingLevel :: int32
  MmsConnectionParameters_maxPduSize :: int32
  MmsConnectionParameters_servicesSupported :: "uint8 list"

record MmsServerIdentity =
  MmsServerIdentity_vendorName :: "string option"
  MmsServerIdentity_modelName :: "string option"
  MmsServerIdentity_revision :: "string option"

datatype (plugins only: code size) MmsConnectionState =
  MMS_CONNECTION_STATE_CLOSED | MMS_CONNECTION_STATE_CONNECTING |
  MMS_CONNECTION_STATE_CONNECTED | MMS_CONNECTION_STATE_CLOSING

primrec MmsConnectionState_code :: "MmsConnectionState \<Rightarrow> int" where
  "MmsConnectionState_code MMS_CONNECTION_STATE_CLOSED = 0"
| "MmsConnectionState_code MMS_CONNECTION_STATE_CONNECTING = 1"
| "MmsConnectionState_code MMS_CONNECTION_STATE_CONNECTED = 2"
| "MmsConnectionState_code MMS_CONNECTION_STATE_CLOSING = 3"

definition MmsConnectionState_all :: "MmsConnectionState list" where
  "MmsConnectionState_all = [
    MMS_CONNECTION_STATE_CLOSED, MMS_CONNECTION_STATE_CONNECTING,
    MMS_CONNECTION_STATE_CONNECTED, MMS_CONNECTION_STATE_CLOSING]"

definition MmsConnectionState_decode :: "int \<Rightarrow> MmsConnectionState option" where
  "MmsConnectionState_decode = find_code MmsConnectionState_code MmsConnectionState_all"

lemma MmsConnectionState_all_complete [enum_simps]: "e \<in> set MmsConnectionState_all"
  by (cases e) (simp_all add: MmsConnectionState_all_def)

interpretation MmsConnectionState: c_enum MmsConnectionState_code MmsConnectionState_decode
  unfolding MmsConnectionState_decode_def
  by (rule c_enum_find_code [OF _ MmsConnectionState_all_complete]) (simp add: MmsConnectionState_all_def)

record sMmsJournalEntry =
  sMmsJournalEntry_entryID :: ptr
  sMmsJournalEntry_occurenceTime :: ptr
  sMmsJournalEntry_journalVariables :: ptr

record sMmsJournalVariable =
  sMmsJournalVariable_tag :: "string option"
  sMmsJournalVariable_value :: ptr

datatype (plugins only: code size) eMmsOutstandingCallType =
  MMS_CALL_TYPE_NONE | MMS_CALL_TYPE_READ_VARIABLE | MMS_CALL_TYPE_READ_MULTIPLE_VARIABLES |
  MMS_CALL_TYPE_WRITE_VARIABLE | MMS_CALL_TYPE_WRITE_MULTIPLE_VARIABLES |
  MMS_CALL_TYPE_READ_NVL_DIRECTORY | MMS_CALL_TYPE_DEFINE_NVL | MMS_CALL_TYPE_DELETE_NVL |
  MMS_CALL_TYPE_GET_VAR_ACCESS_ATTR | MMS_CALL_TYPE_GET_SERVER_STATUS |
  MMS_CALL_TYPE_IDENTIFY | MMS_CALL_TYPE_READ_JOURNAL | MMS_CALL_TYPE_GET_NAME_LIST |
  MMS_CALL_TYPE_FILE_OPEN | MMS_CALL_TYPE_FILE_READ | MMS_CALL_TYPE_FILE_CLOSE |
  MMS_CALL_TYPE_FILE_DELETE | MMS_CALL_TYPE_FILE_RENAME | MMS_CALL_TYPE_OBTAIN_FILE |
  MMS_CALL_TYPE_GET_FILE_DIR

primrec eMmsOutstandingCallType_code :: "eMmsOutstandingCallType \<Rightarrow> int" where
  "eMmsOutstandingCallType_code MMS_CALL_TYPE_NONE = 0"
| "eMmsOutstandingCallType_code MMS_CALL_TYPE_READ_VARIABLE = 1"
| "eMmsOutstandingCallType_code MMS_CALL_TYPE_READ_MULTIPLE_VARIABLES = 2"
| "eMmsOutstandingCallType_code MMS_CALL_TYPE_WRITE_VARIABLE = 3"
| "eMmsOutstandingCallType_code MMS_CALL_TYPE_WRITE_MULTIPLE_VARIABLES = 4"
| "eMmsOutstandingCallType_code MMS_CALL_TYPE_READ_NVL_DIRECTORY = 5"
| "eMmsOutstandingCallType_code MMS_CALL_TYPE_DEFINE_NVL = 6"
| "eMmsOutstandingCallType_code MMS_CALL_TYPE_DELETE_NVL = 7"
| "eMmsOutstandingCallType_code MMS_CALL_TYPE_GET_VAR_ACCESS_ATTR = 8"
| "eMmsOutstandingCallType_code MMS_CALL_TYPE_GET_SERVER_STATUS = 9"
| "eMmsOutstandingCallType_code MMS_CALL_TYPE_IDENTIFY = 10"
| "eMmsOutstandingCallType_code MMS_CALL_TYPE_READ_JOURNAL = 11"
| "eMmsOutstandingCallType_code MMS_CALL_TYPE_GET_NAME_LIST = 12"
| "eMmsOutstandingCallType_code MMS_CALL_TYPE_FILE_OPEN = 13"
| "eMmsOutstandingCallType_code MMS_CALL_TYPE_FILE_READ = 14"
| "eMmsOutstandingCallType_code MMS_CALL_TYPE_FILE_CLOSE = 15"
| "eMmsOutstandingCallType_code MMS_CALL_TYPE_FILE_DELETE = 16"
| "eMmsOutstandingCallType_code MMS_CALL_TYPE_FILE_RENAME = 17"
| "eMmsOutstandingCallType_code MMS_CALL_TYPE_OBTAIN_FILE = 18"
| "eMmsOutstandingCallType_code MMS_CALL_TYPE_GET_FILE_DIR = 19"

definition eMmsOutstandingCallType_all :: "eMmsOutstandingCallType list" where
  "eMmsOutstandingCallType_all = [
    MMS_CALL_TYPE_NONE, MMS_CALL_TYPE_READ_VARIABLE, MMS_CALL_TYPE_READ_MULTIPLE_VARIABLES,
    MMS_CALL_TYPE_WRITE_VARIABLE, MMS_CALL_TYPE_WRITE_MULTIPLE_VARIABLES,
    MMS_CALL_TYPE_READ_NVL_DIRECTORY, MMS_CALL_TYPE_DEFINE_NVL, MMS_CALL_TYPE_DELETE_NVL,
    MMS_CALL_TYPE_GET_VAR_ACCESS_ATTR, MMS_CALL_TYPE_GET_SERVER_STATUS, MMS_CALL_TYPE_IDENTIFY,
    MMS_CALL_TYPE_READ_JOURNAL, MMS_CALL_TYPE_GET_NAME_LIST, MMS_CALL_TYPE_FILE_OPEN,
    MMS_CALL_TYPE_FILE_READ, MMS_CALL_TYPE_FILE_CLOSE, MMS_CALL_TYPE_FILE_DELETE,
    MMS_CALL_TYPE_FILE_RENAME, MMS_CALL_TYPE_OBTAIN_FILE, MMS_CALL_TYPE_GET_FILE_DIR]"

definition eMmsOutstandingCallType_decode :: "int \<Rightarrow> eMmsOutstandingCallType option" where
  "eMmsOutstandingCallType_decode = find_code eMmsOutstandingCallType_code eMmsOutstandingCallType_all"

lemma eMmsOutstandingCallType_all_complete [enum_simps]: "e \<in> set eMmsOutstandingCallType_all"
  by (cases e) (simp_all add: eMmsOutstandingCallType_all_def)

interpretation eMmsOutstandingCallType: c_enum eMmsOutstandingCallType_code eMmsOutstandingCallType_decode
  unfolding eMmsOutstandingCallType_decode_def
  by (rule c_enum_find_code [OF _ eMmsOutstandingCallType_all_complete]) (simp add: eMmsOutstandingCallType_all_def)

datatype (plugins only: code size) MmsClientInternalParameter =
    MmsClientInternalParameter_i32 int32
  | MmsClientInternalParameter_u32 uint32
  | MmsClientInternalParameter_ptr ptr

record sMmsOutstandingCall =
  sMmsOutstandingCall_isUsed :: bool
  sMmsOutstandingCall_invokeId :: uint32
  sMmsOutstandingCall_type :: eMmsOutstandingCallType
  sMmsOutstandingCall_userCallback :: ptr
  sMmsOutstandingCall_userParameter :: ptr
  sMmsOutstandingCall_internalParameter :: MmsClientInternalParameter
  sMmsOutstandingCall_timeout :: uint64

record sMmsConnection =
  sMmsConnection_nextInvokeIdLock :: ptr
  sMmsConnection_nextInvokeId :: uint32
  sMmsConnection_outstandingCallsLock :: ptr
  sMmsConnection_outstandingCalls :: ptr
  sMmsConnection_maxOutstandingCalled :: int32
  sMmsConnection_maxOutstandingCalling :: int32
  sMmsConnection_requestTimeout :: uint32
  sMmsConnection_connectTimeout :: uint32
  sMmsConnection_isoClient :: ptr
  sMmsConnection_connectionHandlingThread :: ptr
  sMmsConnection_createThread :: bool
  sMmsConnection_connectionThreadRunning :: bool
  sMmsConnection_connectionState :: MmsConnectionState
  sMmsConnection_associationStateLock :: ptr
  sMmsConnection_parameters :: MmsConnectionParameters
  sMmsConnection_isoParameters :: ptr
  sMmsConnection_stateChangedHandler :: ptr
  sMmsConnection_stateChangedHandlerParameter :: ptr
  sMmsConnection_reportHandler :: ptr
  sMmsConnection_reportHandlerParameter :: ptr
  sMmsConnection_connectionLostHandler :: ptr
  sMmsConnection_connectionLostHandlerParameter :: ptr
  sMmsConnection_concludeHandler :: ptr
  sMmsConnection_concludeHandlerParameter :: ptr
  sMmsConnection_concludeTimeout :: uint64
  sMmsConnection_rawMmsMessageHandler :: ptr
  sMmsConnection_rawMmsMessageHandlerParameter :: ptr
  sMmsConnection_nextFrsmId :: int32
  sMmsConnection_frsms :: "MmsFileReadStateMachine list"
  sMmsConnection_filestoreBasepath :: "string option"

datatype (plugins only: code size) MmsObjectClass =
  MMS_OBJECT_CLASS_NAMED_VARIABLE | MMS_OBJECT_CLASS_NAMED_VARIABLE_LIST |
  MMS_OBJECT_CLASS_JOURNAL | MMS_OBJECT_CLASS_DOMAIN

primrec MmsObjectClass_code :: "MmsObjectClass \<Rightarrow> int" where
  "MmsObjectClass_code MMS_OBJECT_CLASS_NAMED_VARIABLE = 0"
| "MmsObjectClass_code MMS_OBJECT_CLASS_NAMED_VARIABLE_LIST = 2"
| "MmsObjectClass_code MMS_OBJECT_CLASS_JOURNAL = 8"
| "MmsObjectClass_code MMS_OBJECT_CLASS_DOMAIN = 9"

definition MmsObjectClass_all :: "MmsObjectClass list" where
  "MmsObjectClass_all = [
    MMS_OBJECT_CLASS_NAMED_VARIABLE, MMS_OBJECT_CLASS_NAMED_VARIABLE_LIST,
    MMS_OBJECT_CLASS_JOURNAL, MMS_OBJECT_CLASS_DOMAIN]"

definition MmsObjectClass_decode :: "int \<Rightarrow> MmsObjectClass option" where
  "MmsObjectClass_decode = find_code MmsObjectClass_code MmsObjectClass_all"

lemma MmsObjectClass_all_complete [enum_simps]: "e \<in> set MmsObjectClass_all"
  by (cases e) (simp_all add: MmsObjectClass_all_def)

interpretation MmsObjectClass: c_enum MmsObjectClass_code MmsObjectClass_decode
  unfolding MmsObjectClass_decode_def
  by (rule c_enum_find_code [OF _ MmsObjectClass_all_complete]) (simp add: MmsObjectClass_all_def)

definition CONFIG_MMS_RAW_MESSAGE_LOGGING :: int where "CONFIG_MMS_RAW_MESSAGE_LOGGING = 0"

definition DEBUG_MMS_CLIENT :: int where "DEBUG_MMS_CLIENT = 0"

definition CONCLUDE_STATE_CONNECTION_ACTIVE :: int where "CONCLUDE_STATE_CONNECTION_ACTIVE = 0"

definition CONCLUDE_STATE_REQUESTED :: int where "CONCLUDE_STATE_REQUESTED = 1"

definition CONCLUDE_STATE_REJECTED :: int where "CONCLUDE_STATE_REJECTED = 2"

definition CONCLUDE_STATE_ACCEPTED :: int where "CONCLUDE_STATE_ACCEPTED = 3"

section \<open>Server\<close>

datatype (plugins only: code size) MmsServerEvent =
  MMS_SERVER_NEW_CONNECTION | MMS_SERVER_CONNECTION_CLOSED | MMS_SERVER_CONNECTION_TICK

primrec MmsServerEvent_code :: "MmsServerEvent \<Rightarrow> int" where
  "MmsServerEvent_code MMS_SERVER_NEW_CONNECTION = 0"
| "MmsServerEvent_code MMS_SERVER_CONNECTION_CLOSED = 1"
| "MmsServerEvent_code MMS_SERVER_CONNECTION_TICK = 2"

definition MmsServerEvent_all :: "MmsServerEvent list" where
  "MmsServerEvent_all = [
    MMS_SERVER_NEW_CONNECTION, MMS_SERVER_CONNECTION_CLOSED, MMS_SERVER_CONNECTION_TICK]"

definition MmsServerEvent_decode :: "int \<Rightarrow> MmsServerEvent option" where
  "MmsServerEvent_decode = find_code MmsServerEvent_code MmsServerEvent_all"

lemma MmsServerEvent_all_complete [enum_simps]: "e \<in> set MmsServerEvent_all"
  by (cases e) (simp_all add: MmsServerEvent_all_def)

interpretation MmsServerEvent: c_enum MmsServerEvent_code MmsServerEvent_decode
  unfolding MmsServerEvent_decode_def
  by (rule c_enum_find_code [OF _ MmsServerEvent_all_complete]) (simp add: MmsServerEvent_all_def)

datatype (plugins only: code size) MmsVariableListType =
  MMS_DOMAIN_SPECIFIC | MMS_ASSOCIATION_SPECIFIC | MMS_VMD_SPECIFIC

primrec MmsVariableListType_code :: "MmsVariableListType \<Rightarrow> int" where
  "MmsVariableListType_code MMS_DOMAIN_SPECIFIC = 0"
| "MmsVariableListType_code MMS_ASSOCIATION_SPECIFIC = 1"
| "MmsVariableListType_code MMS_VMD_SPECIFIC = 2"

definition MmsVariableListType_all :: "MmsVariableListType list" where
  "MmsVariableListType_all = [
    MMS_DOMAIN_SPECIFIC, MMS_ASSOCIATION_SPECIFIC, MMS_VMD_SPECIFIC]"

definition MmsVariableListType_decode :: "int \<Rightarrow> MmsVariableListType option" where
  "MmsVariableListType_decode = find_code MmsVariableListType_code MmsVariableListType_all"

lemma MmsVariableListType_all_complete [enum_simps]: "e \<in> set MmsVariableListType_all"
  by (cases e) (simp_all add: MmsVariableListType_all_def)

interpretation MmsVariableListType: c_enum MmsVariableListType_code MmsVariableListType_decode
  unfolding MmsVariableListType_decode_def
  by (rule c_enum_find_code [OF _ MmsVariableListType_all_complete]) (simp add: MmsVariableListType_all_def)

datatype (plugins only: code size) MmsVariableListAccessType =
  MMS_VARLIST_CREATE | MMS_VARLIST_DELETE | MMS_VARLIST_READ | MMS_VARLIST_WRITE |
  MMS_VARLIST_GET_DIRECTORY

primrec MmsVariableListAccessType_code :: "MmsVariableListAccessType \<Rightarrow> int" where
  "MmsVariableListAccessType_code MMS_VARLIST_CREATE = 0"
| "MmsVariableListAccessType_code MMS_VARLIST_DELETE = 1"
| "MmsVariableListAccessType_code MMS_VARLIST_READ = 2"
| "MmsVariableListAccessType_code MMS_VARLIST_WRITE = 3"
| "MmsVariableListAccessType_code MMS_VARLIST_GET_DIRECTORY = 4"

definition MmsVariableListAccessType_all :: "MmsVariableListAccessType list" where
  "MmsVariableListAccessType_all = [
    MMS_VARLIST_CREATE, MMS_VARLIST_DELETE, MMS_VARLIST_READ, MMS_VARLIST_WRITE,
    MMS_VARLIST_GET_DIRECTORY]"

definition MmsVariableListAccessType_decode :: "int \<Rightarrow> MmsVariableListAccessType option" where
  "MmsVariableListAccessType_decode = find_code MmsVariableListAccessType_code MmsVariableListAccessType_all"

lemma MmsVariableListAccessType_all_complete [enum_simps]: "e \<in> set MmsVariableListAccessType_all"
  by (cases e) (simp_all add: MmsVariableListAccessType_all_def)

interpretation MmsVariableListAccessType: c_enum MmsVariableListAccessType_code MmsVariableListAccessType_decode
  unfolding MmsVariableListAccessType_decode_def
  by (rule c_enum_find_code [OF _ MmsVariableListAccessType_all_complete]) (simp add: MmsVariableListAccessType_all_def)

datatype (plugins only: code size) MmsGetNameListType =
  MMS_GETNAMELIST_DOMAINS | MMS_GETNAMELIST_JOURNALS | MMS_GETNAMELIST_DATASETS |
  MMS_GETNAMELIST_DATA

primrec MmsGetNameListType_code :: "MmsGetNameListType \<Rightarrow> int" where
  "MmsGetNameListType_code MMS_GETNAMELIST_DOMAINS = 0"
| "MmsGetNameListType_code MMS_GETNAMELIST_JOURNALS = 1"
| "MmsGetNameListType_code MMS_GETNAMELIST_DATASETS = 2"
| "MmsGetNameListType_code MMS_GETNAMELIST_DATA = 3"

definition MmsGetNameListType_all :: "MmsGetNameListType list" where
  "MmsGetNameListType_all = [
    MMS_GETNAMELIST_DOMAINS, MMS_GETNAMELIST_JOURNALS, MMS_GETNAMELIST_DATASETS,
    MMS_GETNAMELIST_DATA]"

definition MmsGetNameListType_decode :: "int \<Rightarrow> MmsGetNameListType option" where
  "MmsGetNameListType_decode = find_code MmsGetNameListType_code MmsGetNameListType_all"

lemma MmsGetNameListType_all_complete [enum_simps]: "e \<in> set MmsGetNameListType_all"
  by (cases e) (simp_all add: MmsGetNameListType_all_def)

interpretation MmsGetNameListType: c_enum MmsGetNameListType_code MmsGetNameListType_decode
  unfolding MmsGetNameListType_decode_def
  by (rule c_enum_find_code [OF _ MmsGetNameListType_all_complete]) (simp add: MmsGetNameListType_all_def)

datatype (plugins only: code size) MmsFileServiceType =
  MMS_FILE_ACCESS_TYPE_READ_DIRECTORY | MMS_FILE_ACCESS_TYPE_OPEN |
  MMS_FILE_ACCESS_TYPE_OBTAIN | MMS_FILE_ACCESS_TYPE_DELETE | MMS_FILE_ACCESS_TYPE_RENAME

primrec MmsFileServiceType_code :: "MmsFileServiceType \<Rightarrow> int" where
  "MmsFileServiceType_code MMS_FILE_ACCESS_TYPE_READ_DIRECTORY = 0"
| "MmsFileServiceType_code MMS_FILE_ACCESS_TYPE_OPEN = 1"
| "MmsFileServiceType_code MMS_FILE_ACCESS_TYPE_OBTAIN = 2"
| "MmsFileServiceType_code MMS_FILE_ACCESS_TYPE_DELETE = 3"
| "MmsFileServiceType_code MMS_FILE_ACCESS_TYPE_RENAME = 4"

definition MmsFileServiceType_all :: "MmsFileServiceType list" where
  "MmsFileServiceType_all = [
    MMS_FILE_ACCESS_TYPE_READ_DIRECTORY, MMS_FILE_ACCESS_TYPE_OPEN,
    MMS_FILE_ACCESS_TYPE_OBTAIN, MMS_FILE_ACCESS_TYPE_DELETE, MMS_FILE_ACCESS_TYPE_RENAME]"

definition MmsFileServiceType_decode :: "int \<Rightarrow> MmsFileServiceType option" where
  "MmsFileServiceType_decode = find_code MmsFileServiceType_code MmsFileServiceType_all"

lemma MmsFileServiceType_all_complete [enum_simps]: "e \<in> set MmsFileServiceType_all"
  by (cases e) (simp_all add: MmsFileServiceType_all_def)

interpretation MmsFileServiceType: c_enum MmsFileServiceType_code MmsFileServiceType_decode
  unfolding MmsFileServiceType_decode_def
  by (rule c_enum_find_code [OF _ MmsFileServiceType_all_complete]) (simp add: MmsFileServiceType_all_def)

definition MMS_LOGICAL_STATE_STATE_CHANGES_ALLOWED :: int where "MMS_LOGICAL_STATE_STATE_CHANGES_ALLOWED = 0"

definition MMS_LOGICAL_STATE_NO_STATE_CHANGES_ALLOWED :: int where "MMS_LOGICAL_STATE_NO_STATE_CHANGES_ALLOWED = 1"

definition MMS_LOGICAL_STATE_LIMITED_SERVICES_PERMITTED :: int where "MMS_LOGICAL_STATE_LIMITED_SERVICES_PERMITTED = 2"

definition MMS_LOGICAL_STATE_SUPPORT_SERVICES_ALLOWED :: int where "MMS_LOGICAL_STATE_SUPPORT_SERVICES_ALLOWED = 3"

definition MMS_PHYSICAL_STATE_OPERATIONAL :: int where "MMS_PHYSICAL_STATE_OPERATIONAL = 0"

definition MMS_PHYSICAL_STATE_PARTIALLY_OPERATIONAL :: int where "MMS_PHYSICAL_STATE_PARTIALLY_OPERATIONAL = 1"

definition MMS_PHYSICAL_STATE_INOPERATIONAL :: int where "MMS_PHYSICAL_STATE_INOPERATIONAL = 2"

definition MMS_PHYSICAL_STATE_NEEDS_COMMISSIONING :: int where "MMS_PHYSICAL_STATE_NEEDS_COMMISSIONING = 3"

record sMmsObtainFileTask =
  sMmsObtainFileTask_connection :: ptr
  sMmsObtainFileTask_lastRequestInvokeId :: uint32
  sMmsObtainFileTask_obtainFileRequestInvokeId :: uint32
  sMmsObtainFileTask_fileHandle :: ptr
  sMmsObtainFileTask_destinationFilename :: string
  sMmsObtainFileTask_nextTimeout :: uint64
  sMmsObtainFileTask_frmsId :: int32
  sMmsObtainFileTask_state :: int32
  sMmsObtainFileTask_taskLock :: ptr

record sMmsServer =
  sMmsServer_isoServerList :: ptr
  sMmsServer_device :: ptr
  sMmsServer_readHandler :: ptr
  sMmsServer_readHandlerParameter :: ptr
  sMmsServer_readAccessHandler :: ptr
  sMmsServer_readAccessHandlerParameter :: ptr
  sMmsServer_writeHandler :: ptr
  sMmsServer_writeHandlerParameter :: ptr
  sMmsServer_listAccessHandler :: ptr
  sMmsServer_listAccessHandlerParameter :: ptr
  sMmsServer_connectionHandler :: ptr
  sMmsServer_connectionHandlerParameter :: ptr
  sMmsServer_variableListAccessHandler :: ptr
  sMmsServer_variableListAccessHandlerParameter :: ptr
  sMmsServer_readJournalHandler :: ptr
  sMmsServer_readJournalHandlerParameter :: ptr
  sMmsServer_getNameListHandler :: ptr
  sMmsServer_getNameListHandlerParameter :: ptr
  sMmsServer_authenticator :: ptr
  sMmsServer_authenticatorParameter :: ptr
  sMmsServer_openConnectionsLock :: ptr
  sMmsServer_openConnections :: ptr
  sMmsServer_valueCaches :: ptr
  sMmsServer_blockRequests :: bool
  sMmsServer_transmitBuffer :: ptr
  sMmsServer_transmitBufferMutex :: ptr
  sMmsServer_modelMutex :: ptr
  sMmsServer_vmdLogicalStatus :: int32
  sMmsServer_vmdPhysicalStatus :: int32
  sMmsServer_statusRequestListener :: ptr
  sMmsServer_statusRequestListenerParameter :: ptr
  sMmsServer_vendorName :: "string option"
  sMmsServer_modelName :: "string option"
  sMmsServer_revision :: "string option"
  sMmsServer_obtainFileHandler :: ptr
  sMmsServer_obtainFileHandlerParameter :: ptr
  sMmsServer_getFileCompleteHandler :: ptr
  sMmsServer_getFileCompleteHandlerParameter :: ptr
  sMmsServer_fileUploadTasks :: "sMmsObtainFileTask list"
  sMmsServer_fileAccessHandler :: ptr
  sMmsServer_fileAccessHandlerParameter :: ptr
  sMmsServer_filestoreBasepath :: "string option"
  sMmsServer_maxConnections :: int32
  sMmsServer_fileServiceEnabled :: bool
  sMmsServer_dynamicVariableListServiceEnabled :: bool
  sMmsServer_maxDataSetEntries :: int32
  sMmsServer_journalServiceEnabled :: bool
  sMmsServer_maxAssociationSpecificDataSets :: int32
  sMmsServer_maxDomainSpecificDataSets :: int32

record sMmsServerConnection =
  sMmsServerConnection_maxServOutstandingCalling :: int32
  sMmsServerConnection_maxServOutstandingCalled :: int32
  sMmsServerConnection_dataStructureNestingLevel :: int32
  sMmsServerConnection_negotiatedParameterCBC :: "uint8 list"
  sMmsServerConnection_maxPduSize :: uint32
  sMmsServerConnection_isoConnection :: ptr
  sMmsServerConnection_server :: ptr
  sMmsServerConnection_lastInvokeId :: uint32
  sMmsServerConnection_lastRequestInvokeId :: uint32
  sMmsServerConnection_namedVariableLists :: ptr
  sMmsServerConnection_nextFrsmId :: int32
  sMmsServerConnection_frsms :: "MmsFileReadStateMachine list"

definition DEBUG_MMS_SERVER :: int where "DEBUG_MMS_SERVER = 0"

definition MMS_STATUS_SERVICE :: int where "MMS_STATUS_SERVICE = 1"

definition MMS_IDENTIFY_SERVICE :: int where "MMS_IDENTIFY_SERVICE = 1"

definition MMS_FILE_SERVICE :: int where "MMS_FILE_SERVICE = 1"

definition CONFIG_MMS_SERVER_MAX_GET_FILE_TASKS :: int where "CONFIG_MMS_SERVER_MAX_GET_FILE_TASKS = 5"

definition MMS_FILE_UPLOAD_STATE_NOT_USED :: int where "MMS_FILE_UPLOAD_STATE_NOT_USED = 0"

definition MMS_FILE_UPLOAD_STATE_READY :: int where "MMS_FILE_UPLOAD_STATE_READY = 1"

definition MMS_FILE_UPLOAD_STATE_FILE_OPEN_SENT :: int where "MMS_FILE_UPLOAD_STATE_FILE_OPEN_SENT = 2"

definition MMS_FILE_UPLOAD_STATE_SEND_FILE_READ :: int where "MMS_FILE_UPLOAD_STATE_SEND_FILE_READ = 3"

definition MMS_FILE_UPLOAD_STATE_FILE_READ_SENT :: int where "MMS_FILE_UPLOAD_STATE_FILE_READ_SENT = 4"

definition MMS_FILE_UPLOAD_STATE_SEND_FILE_CLOSE :: int where "MMS_FILE_UPLOAD_STATE_SEND_FILE_CLOSE = 5"

definition MMS_FILE_UPLOAD_STATE_FILE_CLOSE_SENT :: int where "MMS_FILE_UPLOAD_STATE_FILE_CLOSE_SENT = 6"

definition MMS_FILE_UPLOAD_STATE_SEND_OBTAIN_FILE_ERROR_SOURCE :: int where "MMS_FILE_UPLOAD_STATE_SEND_OBTAIN_FILE_ERROR_SOURCE = 8"

definition MMS_FILE_UPLOAD_STATE_SEND_OBTAIN_FILE_ERROR_DESTINATION :: int where "MMS_FILE_UPLOAD_STATE_SEND_OBTAIN_FILE_ERROR_DESTINATION = 9"

definition MMS_FILE_UPLOAD_STATE_SEND_OBTAIN_FILE_RESPONSE :: int where "MMS_FILE_UPLOAD_STATE_SEND_OBTAIN_FILE_RESPONSE = 10"

definition MMS_FILE_UPLOAD_STATE_INTERRUPTED :: int where "MMS_FILE_UPLOAD_STATE_INTERRUPTED = 11"

end
