(* ===== verification/Model_Types.thy ===== *)
theory Model_Types
  imports C_Common Client_Types
begin

text \<open>
  The data model of the IEC 61850 server (\<open>iec61850_model.h\<close>): attribute and node types, the
  node, its kinds, data sets, report, log, setting group, GOOSE and sampled value control blocks.
  The kinds of node begin with the fields of \<open>ModelNode\<close>, so that a pointer to any of them
  can be read as a pointer to a node.
\<close>

section \<open>Attribute and node types\<close>

datatype (plugins only: code size) DataAttributeType =
  IEC61850_UNKNOWN_TYPE | IEC61850_BOOLEAN | IEC61850_INT8 | IEC61850_INT16 | IEC61850_INT32 |
  IEC61850_INT64 | IEC61850_INT128 | IEC61850_INT8U | IEC61850_INT16U | IEC61850_INT24U |
  IEC61850_INT32U | IEC61850_FLOAT32 | IEC61850_FLOAT64 | IEC61850_ENUMERATED |
  IEC61850_OCTET_STRING_64 | IEC61850_OCTET_STRING_6 | IEC61850_OCTET_STRING_8 |
  IEC61850_VISIBLE_STRING_32 | IEC61850_VISIBLE_STRING_64 | IEC61850_VISIBLE_STRING_65 |
  IEC61850_VISIBLE_STRING_129 | IEC61850_VISIBLE_STRING_255 | IEC61850_UNICODE_STRING_255 |
  IEC61850_TIMESTAMP | IEC61850_QUALITY | IEC61850_CHECK | IEC61850_CODEDENUM |
  IEC61850_GENERIC_BITSTRING | IEC61850_CONSTRUCTED | IEC61850_ENTRY_TIME |
  IEC61850_PHYCOMADDR | IEC61850_CURRENCY | IEC61850_OPTFLDS | IEC61850_TRGOPS

primrec DataAttributeType_code :: "DataAttributeType \<Rightarrow> int" where
  "DataAttributeType_code IEC61850_UNKNOWN_TYPE = -1"
| "DataAttributeType_code IEC61850_BOOLEAN = 0"
| "DataAttributeType_code IEC61850_INT8 = 1"
| "DataAttributeType_code IEC61850_INT16 = 2"
| "DataAttributeType_code IEC61850_INT32 = 3"
| "DataAttributeType_code IEC61850_INT64 = 4"
| "DataAttributeType_code IEC61850_INT128 = 5"
| "DataAttributeType_code IEC61850_INT8U = 6"
| "DataAttributeType_code IEC61850_INT16U = 7"
| "DataAttributeType_code IEC61850_INT24U = 8"
| "DataAttributeType_code IEC61850_INT32U = 9"
| "DataAttributeType_code IEC61850_FLOAT32 = 10"
| "DataAttributeType_code IEC61850_FLOAT64 = 11"
| "DataAttributeType_code IEC61850_ENUMERATED = 12"
| "DataAttributeType_code IEC61850_OCTET_STRING_64 = 13"
| "DataAttributeType_code IEC61850_OCTET_STRING_6 = 14"
| "DataAttributeType_code IEC61850_OCTET_STRING_8 = 15"
| "DataAttributeType_code IEC61850_VISIBLE_STRING_32 = 16"
| "DataAttributeType_code IEC61850_VISIBLE_STRING_64 = 17"
| "DataAttributeType_code IEC61850_VISIBLE_STRING_65 = 18"
| "DataAttributeType_code IEC61850_VISIBLE_STRING_129 = 19"
| "DataAttributeType_code IEC61850_VISIBLE_STRING_255 = 20"
| "DataAttributeType_code IEC61850_UNICODE_STRING_255 = 21"
| "DataAttributeType_code IEC61850_TIMESTAMP = 22"
| "DataAttributeType_code IEC61850_QUALITY = 23"
| "DataAttributeType_code IEC61850_CHECK = 24"
| "DataAttributeType_code IEC61850_CODEDENUM = 25"
| "DataAttributeType_code IEC61850_GENERIC_BITSTRING = 26"
| "DataAttributeType_code IEC61850_CONSTRUCTED = 27"
| "DataAttributeType_code IEC61850_ENTRY_TIME = 28"
| "DataAttributeType_code IEC61850_PHYCOMADDR = 29"
| "DataAttributeType_code IEC61850_CURRENCY = 30"
| "DataAttributeType_code IEC61850_OPTFLDS = 31"
| "DataAttributeType_code IEC61850_TRGOPS = 32"

definition DataAttributeType_all :: "DataAttributeType list" where
  "DataAttributeType_all = [
    IEC61850_UNKNOWN_TYPE, IEC61850_BOOLEAN, IEC61850_INT8, IEC61850_INT16, IEC61850_INT32,
    IEC61850_INT64, IEC61850_INT128, IEC61850_INT8U, IEC61850_INT16U, IEC61850_INT24U,
    IEC61850_INT32U, IEC61850_FLOAT32, IEC61850_FLOAT64, IEC61850_ENUMERATED,
    IEC61850_OCTET_STRING_64, IEC61850_OCTET_STRING_6, IEC61850_OCTET_STRING_8,
    IEC61850_VISIBLE_STRING_32, IEC61850_VISIBLE_STRING_64, IEC61850_VISIBLE_STRING_65,
    IEC61850_VISIBLE_STRING_129, IEC61850_VISIBLE_STRING_255, IEC61850_UNICODE_STRING_255,
    IEC61850_TIMESTAMP, IEC61850_QUALITY, IEC61850_CHECK, IEC61850_CODEDENUM,
    IEC61850_GENERIC_BITSTRING, IEC61850_CONSTRUCTED, IEC61850_ENTRY_TIME, IEC61850_PHYCOMADDR,
    IEC61850_CURRENCY, IEC61850_OPTFLDS, IEC61850_TRGOPS]"

definition DataAttributeType_decode :: "int \<Rightarrow> DataAttributeType option" where
  "DataAttributeType_decode = find_code DataAttributeType_code DataAttributeType_all"

lemma DataAttributeType_all_complete [enum_simps]: "e \<in> set DataAttributeType_all"
  by (cases e) (simp_all add: DataAttributeType_all_def)

interpretation DataAttributeType: c_enum DataAttributeType_code DataAttributeType_decode
  unfolding DataAttributeType_decode_def
  by (rule c_enum_find_code [OF _ DataAttributeType_all_complete]) (simp add: DataAttributeType_all_def)

datatype (plugins only: code size) ModelNodeType =
  LogicalDeviceModelType | LogicalNodeModelType | DataObjectModelType | DataAttributeModelType

primrec ModelNodeType_code :: "ModelNodeType \<Rightarrow> int" where
  "ModelNodeType_code LogicalDeviceModelType = 0"
| "ModelNodeType_code LogicalNodeModelType = 1"
| "ModelNodeType_code DataObjectModelType = 2"
| "ModelNodeType_code DataAttributeModelType = 3"

definition ModelNodeType_all :: "ModelNodeType list" where
  "ModelNodeType_all = [
    LogicalDeviceModelType, LogicalNodeModelType, DataObjectModelType, DataAttributeModelType]"

definition ModelNodeType_decode :: "int \<Rightarrow> ModelNodeType option" where
  "ModelNodeType_decode = find_code ModelNodeType_code ModelNodeType_all"

lemma ModelNodeType_all_complete [enum_simps]: "e \<in> set ModelNodeType_all"
  by (cases e) (simp_all add: ModelNodeType_all_def)

interpretation ModelNodeType: c_enum ModelNodeType_code ModelNodeType_decode
  unfolding ModelNodeType_decode_def
  by (rule c_enum_find_code [OF _ ModelNodeType_all_complete]) (simp add: ModelNodeType_all_def)

section \<open>Model, devices, nodes and attributes\<close>

record IedModel =
  IedModel_name :: "string option"
  IedModel_firstChild :: ptr
  IedModel_dataSets :: ptr
  IedModel_rcbs :: ptr
  IedModel_gseCBs :: ptr
  IedModel_svCBs :: ptr
  IedModel_sgcbs :: ptr
  IedModel_lcbs :: ptr
  IedModel_logs :: ptr
  IedModel_initializer :: ptr

record ModelNode =
  ModelNode_modelType :: ModelNodeType
  ModelNode_name :: "string option"
  ModelNode_parent :: ptr
  ModelNode_sibling :: ptr
  ModelNode_firstChild :: ptr

record LogicalDevice =
  LogicalDevice_modelType :: ModelNodeType
  LogicalDevice_name :: "string option"
  LogicalDevice_parent :: ptr
  LogicalDevice_sibling :: ptr
  LogicalDevice_firstChild :: ptr
  LogicalDevice_ldName :: "string option"

record LogicalNode =
  LogicalNode_modelType :: ModelNodeType
  LogicalNode_name :: "string option"
  LogicalNode_parent :: ptr
  LogicalNode_sibling :: ptr
  LogicalNode_firstChild :: ptr

record DataObject =
  DataObject_modelType :: ModelNodeType
  DataObject_name :: "string option"
  DataObject_parent :: ptr
  DataObject_sibling :: ptr
  DataObject_firstChild :: ptr
  DataObject_elementCount :: int32
  DataObject_arrayIndex :: int32

record DataAttribute =
  DataAttribute_modelType :: ModelNodeType
  DataAttribute_name :: "string option"
  DataAttribute_parent :: ptr
  DataAttribute_sibling :: ptr
  DataAttribute_firstChild :: ptr
  DataAttribute_elementCount :: int32
  DataAttribute_arrayIndex :: int32
  DataAttribute_fc :: FunctionalConstraint
  DataAttribute_type :: DataAttributeType
  DataAttribute_triggerOptions :: uint8
  DataAttribute_mmsValue :: ptr
  DataAttribute_sAddr :: uint32

section \<open>Data sets\<close>

record DataSetEntry =
  DataSetEntry_logicalDeviceName :: "string option"
  DataSetEntry_isLDNameDynamicallyAllocated :: bool
  DataSetEntry_variableName :: "string option"
  DataSetEntry_index :: int32
  DataSetEntry_componentName :: "string option"
  DataSetEntry_value :: ptr
  DataSetEntry_sibling :: ptr

record DataSet =
  DataSet_logicalDeviceName :: "string option"
  DataSet_name :: "string option"
  DataSet_elementCount :: int32
  DataSet_fcdas :: ptr
  DataSet_sibling :: ptr

section \<open>Control blocks\<close>

record ReportControlBlock =
  ReportControlBlock_parent :: ptr
  ReportControlBlock_name :: "string option"
  ReportControlBlock_rptId :: "string option"
  ReportControlBlock_buffered :: bool
  ReportControlBlock_dataSetName :: "string option"
  ReportControlBlock_confRef :: uint32
  ReportControlBlock_trgOps :: uint8
  ReportControlBlock_options :: uint8
  ReportControlBlock_bufferTime :: uint32
  ReportControlBlock_intPeriod :: uint32
  ReportControlBlock_clientReservation :: "uint8 list"
  ReportControlBlock_sibling :: ptr

record LogControlBlock =
  LogControlBlock_parent :: ptr
  LogControlBlock_name :: "string option"
  LogControlBlock_dataSetName :: "string option"
  LogControlBlock_logRef :: "string option"
  LogControlBlock_trgOps :: uint8
  LogControlBlock_intPeriod :: uint32
  LogControlBlock_logEna :: bool
  LogControlBlock_reasonCode :: bool
  LogControlBlock_sibling :: ptr

record Log =
  Log_parent :: ptr
  Log_name :: "string option"
  Log_sibling :: ptr

record SettingGroupControlBlock =
  SettingGroupControlBlock_parent :: ptr
  SettingGroupControlBlock_actSG :: uint8
  SettingGroupControlBlock_numOfSGs :: uint8
  SettingGroupControlBlock_editSG :: uint8
  SettingGroupControlBlock_cnfEdit :: bool
  SettingGroupControlBlock_timestamp :: uint64
  SettingGroupControlBlock_resvTms :: uint16
  SettingGroupControlBlock_sibling :: ptr

record GSEControlBlock =
  GSEControlBlock_parent :: ptr
  GSEControlBlock_name :: "string option"
  GSEControlBlock_appId :: "string option"
  GSEControlBlock_dataSetName :: "string option"
  GSEControlBlock_confRev :: uint32
  GSEControlBlock_fixedOffs :: bool
  GSEControlBlock_address :: ptr
  GSEControlBlock_minTime :: int32
  GSEControlBlock_maxTime :: int32
  GSEControlBlock_sibling :: ptr

record SVControlBlock =
  SVControlBlock_parent :: ptr
  SVControlBlock_name :: "string option"
  SVControlBlock_svId :: "string option"
  SVControlBlock_dataSetName :: "string option"
  SVControlBlock_optFlds :: uint8
  SVControlBlock_smpMod :: uint8
  SVControlBlock_smpRate :: uint16
  SVControlBlock_confRev :: uint32
  SVControlBlock_dstAddress :: ptr
  SVControlBlock_isUnicast :: bool
  SVControlBlock_noASDU :: int32
  SVControlBlock_sibling :: ptr

end
