(* ===== verification/Report_Concurrency.thy ===== *)
theory Report_Concurrency
  imports Report_Subscribe
begin

text \<open>
  Reports under concurrency (\<open>iec61850_report.go\<close>): the same operations as in
  \<open>Report_Subscribe\<close>, cut at every point where another goroutine or the library's receive thread
  can run, as a step relation over the registry, the installed callbacks and the program counter
  of each thread. A step is one access to the shared state: an atomic increment, one critical
  section of \<open>reportMu\<close>, or one call that changes which callback is installed. \<open>Close\<close>
  (\<open>iec61850_client.go\<close>) is one more step: the library forgets the callbacks of a connection it
  destroys, and nothing else that reports use changes.
\<close>

section \<open>Threads\<close>

text \<open>
  Where a thread is in \<open>SubscribeReport\<close> (after the control block was read), in
  \<open>UnsubscribeReport\<close> (after reporting was disabled) or in a callback. The identifier is the one
  the thread drew, or the one the library passed to the callback.
\<close>

datatype ('h, 'c) pc =
    Idle
  | SubAlloc 'c string 'h
  | SubRegister int32 'c string 'h
  | SubInstall int32 'c string
  | SubEnable int32 'c string
  | SubDelete int32 'c string
  | SubUninstall int32 'c string
  | UnsubUninstall 'c string
  | UnsubDelete string
  | CallbackLookup 'c string int32
  | CallbackCall 'c string int32 "'h reportHandlerEntry"

text \<open>
  The last four fields observe the run: who drew an identifier, how many were drawn, which were
  deleted from the registry, and the handler calls, each with the connection and reference whose
  callback made it.
\<close>

record ('t, 'h, 'c) shared =
  registry :: "int \<rightharpoonup> 'h reportHandlerEntry"
  next_id :: int32
  callbacks :: "'c \<times> string \<rightharpoonup> int32"
  pcs :: "'t \<Rightarrow> ('h, 'c) pc"
  owner :: "int32 \<rightharpoonup> 'c \<times> string \<times> 'h"
  allocs :: nat
  deleted :: "int32 set"
  delivered :: "('c \<times> string \<times> 'h) list"

definition goto :: "'t \<Rightarrow> ('h, 'c) pc \<Rightarrow> ('t, 'h, 'c) shared \<Rightarrow> ('t, 'h, 'c) shared" where
  "goto t p s = s\<lparr>pcs := (pcs s)(t := p)\<rparr>"

lemma goto_simps [simp]:
  "registry (goto t p s) = registry s" "next_id (goto t p s) = next_id s"
  "callbacks (goto t p s) = callbacks s" "pcs (goto t p s) = (pcs s)(t := p)"
  "owner (goto t p s) = owner s" "allocs (goto t p s) = allocs s"
  "deleted (goto t p s) = deleted s" "delivered (goto t p s) = delivered s"
  by (simp_all add: goto_def)

inductive conc_step :: "('t, 'h, 'c) shared \<Rightarrow> ('t, 'h, 'c) shared \<Rightarrow> bool" where
  step_subscribe: "pcs s t = Idle \<Longrightarrow> conc_step s (goto t (SubAlloc c r h) s)"
| step_alloc: "pcs s t = SubAlloc c r h \<Longrightarrow> hid = next_id s + 1 \<Longrightarrow>
    conc_step s (goto t (SubRegister hid c r h) (s\<lparr>next_id := hid, allocs := Suc (allocs s),
      owner := (owner s)(hid \<mapsto> (c, r, h))\<rparr>))"
| step_register: "pcs s t = SubRegister hid c r h \<Longrightarrow>
    conc_step s (goto t (SubInstall hid c r)
      (s\<lparr>registry := (registry s)(sint hid \<mapsto> \<lparr>handler = h, entry_rcbRef = r\<rparr>)\<rparr>))"
| step_install: "pcs s t = SubInstall hid c r \<Longrightarrow>
    conc_step s (goto t (SubEnable hid c r) (s\<lparr>callbacks := (callbacks s)((c, r) \<mapsto> hid)\<rparr>))"
| step_enabled: "pcs s t = SubEnable hid c r \<Longrightarrow> conc_step s (goto t Idle s)"
| step_refused: "pcs s t = SubEnable hid c r \<Longrightarrow> conc_step s (goto t (SubDelete hid c r) s)"
| step_rollback: "pcs s t = SubDelete hid c r \<Longrightarrow>
    conc_step s (goto t (SubUninstall hid c r)
      (s\<lparr>registry := (registry s)(sint hid := None), deleted := insert hid (deleted s)\<rparr>))"
| step_uninstall: "pcs s t = SubUninstall hid c r \<Longrightarrow>
    conc_step s (goto t Idle (s\<lparr>callbacks := (callbacks s)((c, r) := None)\<rparr>))"
| step_unsubscribe: "pcs s t = Idle \<Longrightarrow> conc_step s (goto t (UnsubUninstall c r) s)"
| step_unsub_uninstall: "pcs s t = UnsubUninstall c r \<Longrightarrow>
    conc_step s (goto t (UnsubDelete r) (s\<lparr>callbacks := (callbacks s)((c, r) := None)\<rparr>))"
| step_unsub_delete: "pcs s t = UnsubDelete r \<Longrightarrow> registry s (sint hid) = Some e \<Longrightarrow> entry_rcbRef e = r \<Longrightarrow>
    conc_step s (goto t Idle
      (s\<lparr>registry := (registry s)(sint hid := None), deleted := insert hid (deleted s)\<rparr>))"
| step_unsub_none: "pcs s t = UnsubDelete r \<Longrightarrow> \<forall>e \<in> ran (registry s). entry_rcbRef e \<noteq> r \<Longrightarrow>
    conc_step s (goto t Idle s)"
| step_report: "pcs s t = Idle \<Longrightarrow> callbacks s (c, r) = Some hid \<Longrightarrow>
    conc_step s (goto t (CallbackLookup c r hid) s)"
| step_found: "pcs s t = CallbackLookup c r hid \<Longrightarrow> registry s (sint hid) = Some e \<Longrightarrow>
    conc_step s (goto t (CallbackCall c r hid e) s)"
| step_dropped: "pcs s t = CallbackLookup c r hid \<Longrightarrow> registry s (sint hid) = None \<Longrightarrow>
    conc_step s (goto t Idle s)"
| step_call: "pcs s t = CallbackCall c r hid e \<Longrightarrow>
    conc_step s (goto t Idle (s\<lparr>delivered := delivered s @ [(c, r, handler e)]\<rparr>))"
| step_conn_close: "pcs s t = Idle \<Longrightarrow>
    conc_step s (goto t Idle (s\<lparr>callbacks := (\<lambda>(c', r). if c' = c then None else callbacks s (c', r))\<rparr>))"

inductive_cases conc_stepE: "conc_step s s'"

definition conc_start :: "('t, 'h, 'c) shared" where
  "conc_start = \<lparr>registry = Map.empty, next_id = 0, callbacks = Map.empty, pcs = (\<lambda>_. Idle),
     owner = Map.empty, allocs = 0, deleted = {}, delivered = []\<rparr>"

inductive conc_reach :: "('t, 'h, 'c) shared \<Rightarrow> bool" where
  conc_init: "conc_reach conc_start"
| conc_next: "conc_reach s \<Longrightarrow> conc_step s s' \<Longrightarrow> conc_reach s'"

section \<open>Invariant\<close>

text \<open>What a thread knows about the identifier it holds.\<close>

fun pc_ok :: "('t, 'h, 'c) shared \<Rightarrow> ('h, 'c) pc \<Rightarrow> bool" where
  "pc_ok s (SubRegister hid c r h) \<longleftrightarrow> owner s hid = Some (c, r, h)"
| "pc_ok s (SubInstall hid c r) \<longleftrightarrow> (\<exists>h. owner s hid = Some (c, r, h)) \<and>
     (registry s (sint hid) \<noteq> None \<or> hid \<in> deleted s)"
| "pc_ok s (SubEnable hid c r) \<longleftrightarrow> (\<exists>h. owner s hid = Some (c, r, h))"
| "pc_ok s (SubDelete hid c r) \<longleftrightarrow> (\<exists>h. owner s hid = Some (c, r, h))"
| "pc_ok s (SubUninstall hid c r) \<longleftrightarrow> (\<exists>h. owner s hid = Some (c, r, h))"
| "pc_ok s (CallbackLookup c r hid) \<longleftrightarrow> (\<exists>h. owner s hid = Some (c, r, h))"
| "pc_ok s (CallbackCall c r hid e) \<longleftrightarrow> owner s hid = Some (c, r, handler e)"
| "pc_ok s _ \<longleftrightarrow> True"

definition routed :: "('t, 'h, 'c) shared \<Rightarrow> bool" where
  "routed s \<longleftrightarrow>
     next_id s = of_nat (allocs s) \<and> dom (owner s) = of_nat ` {1..allocs s} \<and>
     (\<forall>hid e. registry s (sint hid) = Some e \<longrightarrow> (\<exists>c. owner s hid = Some (c, entry_rcbRef e, handler e))) \<and>
     (\<forall>c r hid. callbacks s (c, r) = Some hid \<longrightarrow> (\<exists>h. owner s hid = Some (c, r, h)) \<and>
        (registry s (sint hid) \<noteq> None \<or> hid \<in> deleted s)) \<and>
     (\<forall>t. pc_ok s (pcs s t)) \<and> set (delivered s) \<subseteq> ran (owner s)"

definition kept :: "('t, 'h, 'c) shared \<Rightarrow> int32 \<Rightarrow> bool" where
  "kept s hid \<longleftrightarrow> registry s (sint hid) \<noteq> None \<or> hid \<in> deleted s"

lemma sint_inject: "sint (a :: int32) = sint b \<longleftrightarrow> a = b"
  by (auto intro: signed_word_eqI)

lemma map_le_Some: "f \<subseteq>\<^sub>m g \<Longrightarrow> f k = Some v \<Longrightarrow> g k = Some v"
  by (metis domI map_le_def)

lemma pc_ok_mono:
  assumes "pc_ok s p" and "owner s \<subseteq>\<^sub>m owner s'" and "\<And>hid. kept s hid \<Longrightarrow> kept s' hid"
  shows "pc_ok s' p"
proof -
  have own: "owner s hid = Some x \<Longrightarrow> owner s' hid = Some x" for hid x
    using assms(2) by (rule map_le_Some)
  from assms(1) show ?thesis
    using assms(3) by (cases p) (auto dest: own simp: kept_def)
qed

lemma routed_pc: "routed s \<Longrightarrow> pcs s t = p \<Longrightarrow> pc_ok s p"
  unfolding routed_def by metis

lemma routed_callback:
  "routed s \<Longrightarrow> callbacks s (c, r) = Some hid \<Longrightarrow> (\<exists>h. owner s hid = Some (c, r, h)) \<and> kept s hid"
  unfolding routed_def kept_def by blast

lemma routed_registry:
  "routed s \<Longrightarrow> registry s (sint hid) = Some e \<Longrightarrow> \<exists>c. owner s hid = Some (c, entry_rcbRef e, handler e)"
  unfolding routed_def by blast

lemma routedI:
  assumes "routed s" and "owner s \<subseteq>\<^sub>m owner s'" and "\<And>hid. kept s hid \<Longrightarrow> kept s' hid"
    and "next_id s' = of_nat (allocs s')" and "dom (owner s') = of_nat ` {1..allocs s'}"
    and "\<And>hid e. registry s' (sint hid) = Some e \<Longrightarrow> registry s (sint hid) = Some e \<or>
      (\<exists>c. owner s' hid = Some (c, entry_rcbRef e, handler e))"
    and "\<And>c r hid. callbacks s' (c, r) = Some hid \<Longrightarrow> callbacks s (c, r) = Some hid \<or>
      (\<exists>h. owner s' hid = Some (c, r, h)) \<and> kept s' hid"
    and "pc_ok s' p" and "pcs s' = (pcs s)(t := p)"
    and "set (delivered s') \<subseteq> set (delivered s) \<union> ran (owner s')"
  shows "routed s'"
proof -
  have own: "owner s hid = Some x \<Longrightarrow> owner s' hid = Some x" for hid x
    using assms(2) by (rule map_le_Some)
  then have "ran (owner s) \<subseteq> ran (owner s')" unfolding ran_def by blast
  moreover have "\<forall>t. pc_ok s' (pcs s' t)"
    using assms(1) pc_ok_mono [OF _ assms(2,3)] assms(8,9) by (auto simp: routed_def)
  moreover have "\<exists>c. owner s' hid = Some (c, entry_rcbRef e, handler e)"
    if "registry s' (sint hid) = Some e" for hid e
    using assms(6) [OF that] routed_registry [OF assms(1)] own by blast
  moreover have "(\<exists>h. owner s' hid = Some (c, r, h)) \<and> kept s' hid"
    if "callbacks s' (c, r) = Some hid" for c r hid
    using assms(7) [OF that] routed_callback [OF assms(1), of c r hid] own assms(3) by blast
  moreover have "set (delivered s) \<subseteq> ran (owner s)" using assms(1) by (simp add: routed_def)
  ultimately show ?thesis
    unfolding routed_def kept_def [symmetric] using assms(4,5,10) by (intro conjI allI impI) auto
qed

lemma routed_start: "routed conc_start"
  by (simp add: routed_def conc_start_def)

lemma fresh_owner:
  assumes "routed s" and "Suc (allocs s) < 4294967296"
  shows "owner s (next_id s + 1) = None"
proof (rule ccontr)
  assume "owner s (next_id s + 1) \<noteq> None"
  then have "next_id s + 1 \<in> dom (owner s)" by blast
  with assms(1) obtain k where k: "next_id s + 1 = of_nat k" "1 \<le> k" "k \<le> allocs s"
    by (auto simp: routed_def)
  with assms(1) have "(of_nat (Suc (allocs s)) :: int32) = of_nat k"
    by (simp add: routed_def add.commute)
  with k assms(2) have "Suc (allocs s) = k"
    by (simp add: word_of_nat_eq_iff take_bit_nat_eq_self del: of_nat_Suc)
  with k show False by simp
qed

lemma atLeast1_Suc: "{1..Suc n} = insert (Suc n) {1..n}"
  by auto

lemma routed_alloc:
  assumes "routed s" and "Suc (allocs s) < 4294967296" and "hid = next_id s + 1"
  shows "routed (goto t (SubRegister hid c r h) (s\<lparr>next_id := hid, allocs := Suc (allocs s),
    owner := (owner s)(hid \<mapsto> (c, r, h))\<rparr>))"
proof -
  have fresh: "owner s hid = None"
    unfolding assms(3) by (rule fresh_owner [OF assms(1,2)])
  from assms(1) have "next_id s = of_nat (allocs s)" and dom: "dom (owner s) = of_nat ` {1..allocs s}"
    unfolding routed_def by blast+
  with assms(3) have nxt: "hid = of_nat (Suc (allocs s))" by simp
  have "dom ((owner s)(hid \<mapsto> (c, r, h))) = of_nat ` {1..Suc (allocs s)}"
    unfolding atLeast1_Suc image_insert dom_fun_upd by (simp only: nxt dom option.distinct if_False)
  then show ?thesis
    by (intro routedI [OF assms(1), where t = t and p = "SubRegister hid c r h"])
      (use nxt fresh in \<open>auto simp: kept_def map_le_def simp del: of_nat_Suc dom_fun_upd\<close>)
qed

text \<open>A step that draws no identifier keeps owners and counter.\<close>

lemma routed_same_owner:
  assumes "routed s" and "owner s' = owner s" and "next_id s' = next_id s" and "allocs s' = allocs s"
    and "\<And>hid. kept s hid \<Longrightarrow> kept s' hid"
    and "\<And>hid e. registry s' (sint hid) = Some e \<Longrightarrow> registry s (sint hid) = Some e \<or>
      (\<exists>c. owner s hid = Some (c, entry_rcbRef e, handler e))"
    and "\<And>c r hid. callbacks s' (c, r) = Some hid \<Longrightarrow> callbacks s (c, r) = Some hid \<or>
      (\<exists>h. owner s hid = Some (c, r, h)) \<and> kept s' hid"
    and "pc_ok s' p" and "pcs s' = (pcs s)(t := p)"
    and "set (delivered s') \<subseteq> set (delivered s) \<union> ran (owner s)"
  shows "routed s'"
proof -
  have "next_id s' = of_nat (allocs s')" and "dom (owner s') = of_nat ` {1..allocs s'}"
    using assms(1-4) by (auto simp: routed_def)
  then show ?thesis
    using assms(2,5-10) by (intro routedI [OF assms(1), where t = t and p = p]) simp_all
qed

text \<open>The kinds of such steps: moving on, removing callbacks, deleting an entry.\<close>

lemma pc_ok_goto: "pc_ok s p \<Longrightarrow> owner s' = owner s \<Longrightarrow> (\<And>hid. kept s hid \<Longrightarrow> kept s' hid) \<Longrightarrow> pc_ok (goto t q s') p"
  by (rule pc_ok_mono [of s p "goto t q s'"]) (auto simp: kept_def)

lemma routed_goto: "routed s \<Longrightarrow> pc_ok s p \<Longrightarrow> routed (goto t p s)"
  by (rule routed_same_owner [where t = t and p = p]) (auto simp: kept_def intro: pc_ok_goto)

lemma routed_callbacks_off:
  assumes "routed s" and "pc_ok s p" and "\<And>k. cbs k = None \<or> cbs k = callbacks s k"
  shows "routed (goto t p (s\<lparr>callbacks := cbs\<rparr>))"
  using assms(1)
proof (rule routed_same_owner [where t = t and p = p])
  fix c r hid assume "callbacks (goto t p (s\<lparr>callbacks := cbs\<rparr>)) (c, r) = Some hid"
  with assms(3) [of "(c, r)"]
  show "callbacks s (c, r) = Some hid \<or>
      (\<exists>h. owner s hid = Some (c, r, h)) \<and> kept (goto t p (s\<lparr>callbacks := cbs\<rparr>)) hid" by auto
qed (use assms(2) in \<open>auto simp: kept_def intro: pc_ok_goto\<close>)

lemma routed_entry_off:
  "routed s \<Longrightarrow> pc_ok s p \<Longrightarrow>
    routed (goto t p (s\<lparr>registry := (registry s)(sint hid := None), deleted := insert hid (deleted s)\<rparr>))"
  by (rule routed_same_owner [where t = t and p = p])
    (auto simp: kept_def sint_inject split: if_splits intro!: pc_ok_goto)

lemma routed_step:
  assumes "conc_step s s'" and "routed s" and "allocs s' < 4294967296"
  shows "routed s'"
  using assms(1)
proof (cases rule: conc_step.cases)
  case (step_alloc t c r h hid)
  with assms(2,3) show ?thesis by (simp add: routed_alloc)
next
  case (step_register t hid c r h)
  from routed_pc [OF assms(2) step_register(2)] step_register(1) show ?thesis
    by (intro routed_same_owner [OF assms(2), where t = t and p = "SubInstall hid c r"])
      (auto simp: kept_def sint_inject split: if_splits)
next
  case (step_install t hid c r)
  from routed_pc [OF assms(2) step_install(2)] step_install(1) show ?thesis
    by (intro routed_same_owner [OF assms(2), where t = t and p = "SubEnable hid c r"])
      (auto simp: kept_def split: if_splits)
next
  case (step_call t c r hid e)
  from routed_pc [OF assms(2) step_call(2)] step_call(1) show ?thesis
    by (intro routed_same_owner [OF assms(2), where t = t and p = Idle]) (auto simp: kept_def intro: ranI)
next
  case (step_report t c r hid)
  with routed_callback [OF assms(2) step_report(3)] show ?thesis by (simp add: assms(2) routed_goto)
next
  case (step_found t c r hid e)
  with routed_pc [OF assms(2) step_found(2)] routed_registry [OF assms(2) step_found(3)]
  show ?thesis by (auto simp: assms(2) routed_goto)
next
  case (step_uninstall t hid c r)
  then show ?thesis by (simp only:) (rule routed_callbacks_off, simp_all add: assms(2))
next
  case (step_unsub_uninstall t c r)
  then show ?thesis by (simp only:) (rule routed_callbacks_off, simp_all add: assms(2))
next
  case (step_conn_close t c)
  then show ?thesis by (simp only:) (rule routed_callbacks_off, auto simp: assms(2))
next
  case (step_rollback t hid c r)
  with routed_pc [OF assms(2) step_rollback(2)] show ?thesis
    by (simp only:) (rule routed_entry_off, simp_all add: assms(2))
next
  case (step_unsub_delete t r hid e)
  then show ?thesis by (simp only:) (rule routed_entry_off, simp_all add: assms(2))
qed (use assms(2) in \<open>auto dest: routed_pc intro!: routed_goto\<close>)

lemma allocs_step: "conc_step s s' \<Longrightarrow> allocs s \<le> allocs s'"
  by (elim conc_stepE) auto

lemma routed_reach: "conc_reach s \<Longrightarrow> allocs s < 4294967296 \<Longrightarrow> routed s"
proof (induction rule: conc_reach.induct)
  case conc_init
  show ?case by (rule routed_start)
next
  case (conc_next s s')
  then show ?case using allocs_step [of s s'] routed_step by fastforce
qed

section \<open>The sequential operations are schedules\<close>

text \<open>The shared state of \<open>Report_Subscribe\<close>, where a callback's parameter is a cast identifier.\<close>

definition matches :: "('t, 'h, 'c) shared \<Rightarrow> ('h, 'c, 'b) report_state \<Rightarrow> bool" where
  "matches s st \<longleftrightarrow> registry s = reportHandlers st \<and> next_id s = nextHandlerID st \<and>
     (\<lambda>k. map_option scast (callbacks s k)) = installed (report_calls st)"

lemma matches_callbacks:
  "matches s st \<Longrightarrow> (\<lambda>k. map_option scast (((callbacks s)(x := p)) k))
     = (installed (report_calls st))(x := map_option scast p)"
  by (auto simp: matches_def fun_eq_iff)

lemma goto_goto [simp]: "goto t p (goto t q s) = goto t p s"
  by (simp add: goto_def)

text \<open>A subscription up to its request, and what a refused one does.\<close>

lemma subscribe_installs:
  assumes "pcs s t = Idle" and "hid = next_id s + 1"
  shows "\<exists>s'. conc_step\<^sup>*\<^sup>* s s' \<and> next_id s' = hid
    \<and> registry s' = (registry s)(sint hid \<mapsto> \<lparr>handler = h, entry_rcbRef = ref\<rparr>)
    \<and> callbacks s' = (callbacks s)((conn, ref) \<mapsto> hid) \<and> pcs s' = (pcs s)(t := SubEnable hid conn ref)"
proof -
  define s1 where "s1 = goto t (SubAlloc conn ref h) s"
  define s2 where "s2 = goto t (SubRegister hid conn ref h) (s1\<lparr>next_id := hid, allocs := Suc (allocs s1),
    owner := (owner s1)(hid \<mapsto> (conn, ref, h))\<rparr>)"
  define s3 where "s3 = goto t (SubInstall hid conn ref)
    (s2\<lparr>registry := (registry s2)(sint hid \<mapsto> \<lparr>handler = h, entry_rcbRef = ref\<rparr>)\<rparr>)"
  define s4 where "s4 = goto t (SubEnable hid conn ref) (s3\<lparr>callbacks := (callbacks s3)((conn, ref) \<mapsto> hid)\<rparr>)"
  have "conc_step s s1" unfolding s1_def using assms(1) by (rule step_subscribe)
  moreover have "conc_step s1 s2" unfolding s2_def by (rule step_alloc) (simp_all add: s1_def assms(2))
  moreover have "conc_step s2 s3" unfolding s3_def by (rule step_register) (simp add: s2_def)
  moreover have "conc_step s3 s4" unfolding s4_def by (rule step_install) (simp add: s3_def)
  ultimately have "conc_step\<^sup>*\<^sup>* s s4" by (meson converse_rtranclp_into_rtranclp rtranclp.rtrancl_refl)
  then show ?thesis by (intro exI [of _ s4]) (simp add: s4_def s3_def s2_def s1_def)
qed

lemma refused_removes:
  assumes "pcs s t = SubEnable hid conn ref"
  shows "\<exists>s'. conc_step\<^sup>*\<^sup>* s s' \<and> next_id s' = next_id s \<and> registry s' = (registry s)(sint hid := None)
    \<and> callbacks s' = (callbacks s)((conn, ref) := None) \<and> pcs s' = (pcs s)(t := Idle)"
proof -
  define s1 where "s1 = goto t (SubDelete hid conn ref) s"
  define s2 where "s2 = goto t (SubUninstall hid conn ref)
    (s1\<lparr>registry := (registry s1)(sint hid := None), deleted := insert hid (deleted s1)\<rparr>)"
  define s3 where "s3 = goto t Idle (s2\<lparr>callbacks := (callbacks s2)((conn, ref) := None)\<rparr>)"
  have "conc_step s s1" unfolding s1_def using assms by (rule step_refused)
  moreover have "conc_step s1 s2" unfolding s2_def by (rule step_rollback) (simp add: s1_def)
  moreover have "conc_step s2 s3" unfolding s3_def by (rule step_uninstall [where hid = hid]) (simp add: s2_def)
  ultimately have "conc_step\<^sup>*\<^sup>* s s3" by (meson converse_rtranclp_into_rtranclp rtranclp.rtrancl_refl)
  then show ?thesis by (intro exI [of _ s3]) (simp add: s3_def s2_def s1_def)
qed

lemma SubscribeReport_schedule:
  assumes "matches s st" and "pcs s t = Idle"
  shows "\<exists>s'. conc_step\<^sup>*\<^sup>* s s' \<and> matches s' (snd (SubscribeReport lib conn ref cfg h st)) \<and> pcs s' = pcs s"
proof -
  obtain err rcb where get: "lib_getRCBValues lib (report_calls st) conn ref = (err, rcb)" by fastforce
  show ?thesis
  proof (cases "err = 0")
    case False
    with SubscribeReport_unread [OF get] assms(1) show ?thesis by (auto simp: matches_def)
  next
    case True
    with get have get: "lib_getRCBValues lib (report_calls st) conn ref = (0, rcb)" by simp
    define hid where "hid = nextHandlerID st + 1"
    obtain rptId e where st': "snd (SubscribeReport lib conn ref cfg h st)
        = \<lparr>reportHandlers = (reportHandlers st)(sint hid := if e = 0 then Some \<lparr>handler = h, entry_rcbRef = ref\<rparr> else None),
           nextHandlerID = hid,
           report_calls = report_calls st @ subscribe_calls conn ref cfg rcb rptId hid e\<rparr>"
      using SubscribeReport_read [OF get, of cfg h] unfolding hid_def by metis
    have hid: "hid = next_id s + 1" using assms(1) by (simp add: matches_def hid_def)
    obtain s1 where s1: "conc_step\<^sup>*\<^sup>* s s1" "next_id s1 = hid"
      "registry s1 = (registry s)(sint hid \<mapsto> \<lparr>handler = h, entry_rcbRef = ref\<rparr>)"
      "callbacks s1 = (callbacks s)((conn, ref) \<mapsto> hid)" "pcs s1 = (pcs s)(t := SubEnable hid conn ref)"
      using subscribe_installs [OF assms(2) hid] by blast
    have pc: "pcs s1 t = SubEnable hid conn ref" by (simp add: s1)
    obtain s2 where "conc_step\<^sup>*\<^sup>* s1 s2" "next_id s2 = hid" "pcs s2 = (pcs s1)(t := Idle)"
      "registry s2 = (if e = 0 then registry s1 else (registry s1)(sint hid := None))"
      "callbacks s2 = (if e = 0 then callbacks s1 else (callbacks s1)((conn, ref) := None))"
    proof (cases "e = 0")
      case True
      with step_enabled [OF pc] s1(2) show ?thesis by (intro that [of "goto t Idle s1"]) auto
    next
      case False
      with refused_removes [OF pc] s1(2) show ?thesis using that by auto
    qed
    with s1 assms(2) matches_callbacks [OF assms(1)] show ?thesis
      unfolding st' by (intro exI [of _ s2]) (use assms(1) in \<open>auto simp: matches_def fun_eq_iff\<close>)
  qed
qed

lemma delete_first_cases:
  "(\<exists>k e. m k = Some e \<and> entry_rcbRef e = ref \<and> delete_first order ref m = m(k := None)) \<or>
   (\<forall>k \<in> set order. \<forall>e. m k = Some e \<longrightarrow> entry_rcbRef e \<noteq> ref) \<and> delete_first order ref m = m"
proof (induction order)
  case (Cons k ks)
  show ?case
  proof (cases "\<exists>e. m k = Some e \<and> entry_rcbRef e = ref")
    case True
    then have "delete_first (k # ks) ref m = m(k := None)" by auto
    with True show ?thesis by blast
  next
    case False
    then have "delete_first (k # ks) ref m = delete_first ks ref m" by (auto split: option.split)
    with Cons.IH False show ?thesis by auto
  qed
qed simp

lemma UnsubscribeReport_schedule:
  assumes "matches s st" and "pcs s t = Idle" and "set order = dom (reportHandlers st)"
    and "dom (reportHandlers st) \<subseteq> range (sint :: int32 \<Rightarrow> int)"
  shows "\<exists>s'. conc_step\<^sup>*\<^sup>* s s' \<and> matches s' (UnsubscribeReport lib conn order ref st) \<and> pcs s' = pcs s"
proof -
  obtain pre where st': "UnsubscribeReport lib conn order ref st = \<lparr>
       reportHandlers = delete_first order ref (reportHandlers st), nextHandlerID = nextHandlerID st,
       report_calls = report_calls st @ pre @ [InstallReportHandler conn ref None None]\<rparr>"
    and "(\<exists>e rcb. e \<noteq> 0 \<and> pre = [GetRCBValues conn ref e rcb]) \<or>
      (\<exists>rcb e. pre = [GetRCBValues conn ref 0 rcb, SetRptEna rcb False,
         SetRCBValues conn rcb (word_of_int RCB_ELEMENT_RPT_ENA) True e, DestroyRCB rcb])"
    by (rule UnsubscribeReport_result)
  then have inst: "installed (report_calls (UnsubscribeReport lib conn order ref st))
      = (installed (report_calls st))((conn, ref) := None)"
    by (auto simp: installed_def)
  define s1 where "s1 = goto t (UnsubUninstall conn ref) s"
  define s2 where "s2 = goto t (UnsubDelete ref) (s1\<lparr>callbacks := (callbacks s1)((conn, ref) := None)\<rparr>)"
  have "conc_step s s1" unfolding s1_def using assms(2) by (rule step_unsubscribe)
  moreover have "conc_step s1 s2" unfolding s2_def by (rule step_unsub_uninstall) (simp add: s1_def)
  ultimately have s2: "conc_step\<^sup>*\<^sup>* s s2" by (meson converse_rtranclp_into_rtranclp rtranclp.rtrancl_refl)
  have reg: "registry s2 = reportHandlers st" using assms(1) by (simp add: s2_def s1_def matches_def)
  have pc2: "pcs s2 t = UnsubDelete ref" by (simp add: s2_def)
  obtain s3 where s3: "conc_step s2 s3" "registry s3 = delete_first order ref (reportHandlers st)"
    "callbacks s3 = callbacks s2" "next_id s3 = next_id s2" "pcs s3 = (pcs s2)(t := Idle)"
    using delete_first_cases [of "reportHandlers st" ref order]
  proof (elim disjE exE conjE)
    fix k e
    assume k: "reportHandlers st k = Some e" "entry_rcbRef e = ref"
      "delete_first order ref (reportHandlers st) = (reportHandlers st)(k := None)"
    then obtain hid :: int32 where "k = sint hid" using assms(4) by blast
    with k reg show ?thesis
      by (intro that [OF step_unsub_delete [OF pc2, of hid e]]) simp_all
  next
    assume "\<forall>k \<in> set order. \<forall>e. reportHandlers st k = Some e \<longrightarrow> entry_rcbRef e \<noteq> ref"
      and "delete_first order ref (reportHandlers st) = reportHandlers st"
    with assms(3) reg show ?thesis
      by (intro that [OF step_unsub_none [OF pc2]]) (auto simp: ran_def dom_def)
  qed
  have "conc_step\<^sup>*\<^sup>* s s3" using s2 s3(1) by (rule rtranclp.rtrancl_into_rtrancl)
  moreover have "matches s3 (UnsubscribeReport lib conn order ref st)"
    using assms(1) s3(2-4) inst matches_callbacks [OF assms(1), of "(conn, ref)" None] unfolding st'
    by (simp add: matches_def s2_def s1_def)
  moreover have "pcs s3 = pcs s" using assms(2) s3(5) by (auto simp: s2_def s1_def fun_eq_iff)
  ultimately show ?thesis by blast
qed

lemma reach_ids:
  assumes "report_reach lib cs n st"
  shows "dom (reportHandlers st) \<subseteq> range (sint :: int32 \<Rightarrow> int)"
  using ids_ok_reach [OF assms] by (auto simp: ids_ok_def)

lemma reach_schedule:
  assumes "report_reach lib cs n st"
  shows "\<exists>s. conc_step\<^sup>*\<^sup>* (conc_start :: ('t, 'h, 'c) shared) s \<and> matches s st \<and> (\<forall>t. pcs s t = Idle)"
  using assms
proof (induction rule: report_reach.induct)
  case reach_start
  have "matches conc_start no_reports" by (simp add: matches_def conc_start_def no_reports_def)
  moreover have "\<forall>t. pcs (conc_start :: ('t, 'h, 'c) shared) t = Idle" by (simp add: conc_start_def)
  ultimately show ?case by blast
next
  case (reach_subscribe n st conn ref cfg h)
  then obtain s :: "('t, 'h, 'c) shared" where s: "conc_step\<^sup>*\<^sup>* conc_start s" "matches s st" "\<forall>t. pcs s t = Idle"
    by blast
  obtain s' where "conc_step\<^sup>*\<^sup>* s s'" "matches s' (snd (SubscribeReport lib conn ref cfg h st))" "pcs s' = pcs s"
    using SubscribeReport_schedule [OF s(2)] s(3) by blast
  moreover from this(1) have "conc_step\<^sup>*\<^sup>* conc_start s'" by (rule rtranclp_trans [OF s(1)])
  ultimately show ?case using s(3) by metis
next
  case (reach_unsubscribe n st conn order ref)
  then obtain s :: "('t, 'h, 'c) shared" where s: "conc_step\<^sup>*\<^sup>* conc_start s" "matches s st" "\<forall>t. pcs s t = Idle"
    by blast
  obtain s' where "conc_step\<^sup>*\<^sup>* s s'" "matches s' (UnsubscribeReport lib conn order ref st)" "pcs s' = pcs s"
    using UnsubscribeReport_schedule [OF s(2) _ reach_unsubscribe(4) reach_ids [OF reach_unsubscribe(1)]] s(3)
    by blast
  moreover from this(1) have "conc_step\<^sup>*\<^sup>* conc_start s'" by (rule rtranclp_trans [OF s(1)])
  ultimately show ?case using s(3) by metis
qed

lemma reach_rtranclp: "conc_step\<^sup>*\<^sup>* s s' \<Longrightarrow> conc_reach s \<Longrightarrow> conc_reach s'"
  by (induction rule: rtranclp_induct) (auto intro: conc_next)

section \<open>Properties\<close>

text \<open>
  C13: in every interleaving of subscriptions, cancellations, reports and closed connections, by any
  number of threads and clients, a handler is only ever called for the callback of the connection and
  reference it was subscribed with; and an installed callback lacks its handler only after the
  handler's entry was deleted, so that registering before installing leaves no window at the
  start of a subscription.
\<close>

theorem interleaved_delivery:
  assumes "conc_reach s" and "allocs s < 4294967296"
  shows "(\<forall>(c, r, h) \<in> set (delivered s). \<exists>hid. owner s hid = Some (c, r, h)) \<and>
    (\<forall>c r hid. callbacks s (c, r) = Some hid \<longrightarrow> hid \<notin> deleted s \<longrightarrow>
      (\<exists>e. registry s (sint hid) = Some e \<and> entry_rcbRef e = r \<and> owner s hid = Some (c, r, handler e)))"
proof (intro conjI ballI allI impI)
  note inv = routed_reach [OF assms]
  fix x assume "x \<in> set (delivered s)"
  with inv have "x \<in> ran (owner s)" by (auto simp: routed_def)
  then show "case x of (c, r, h) \<Rightarrow> \<exists>hid. owner s hid = Some (c, r, h)" by (auto simp: ran_def)
next
  note inv = routed_reach [OF assms]
  fix c r hid assume "callbacks s (c, r) = Some hid" and "hid \<notin> deleted s"
  with routed_callback [OF inv] obtain h e where "owner s hid = Some (c, r, h)"
    and e: "registry s (sint hid) = Some e" unfolding kept_def by blast
  with routed_registry [OF inv e]
  show "\<exists>e. registry s (sint hid) = Some e \<and> entry_rcbRef e = r \<and> owner s hid = Some (c, r, handler e)"
    by auto
qed

text \<open>
  A run: thread 0 subscribes to a reference, thread 1 receives a report and finds the handler,
  thread 0 unsubscribes and is done, and only then thread 1 calls the handler.
\<close>

lemma late_run:
  obtains s s' :: "(nat, 'h, 'c) shared" where "conc_reach s" "conc_step s s'" "allocs s' = 1"
    "registry s = Map.empty" "callbacks s = Map.empty" "pcs s 0 = Idle" "delivered s = []"
    "delivered s' = [(c, r, h)]"
proof -
  define e where "e = \<lparr>handler = h, entry_rcbRef = r\<rparr>"
  define s1 where "s1 = goto 0 (SubAlloc c r h) (conc_start :: (nat, 'h, 'c) shared)"
  define s2 where "s2 = goto 0 (SubRegister 1 c r h) (s1\<lparr>next_id := 1, allocs := Suc (allocs s1),
    owner := (owner s1)(1 \<mapsto> (c, r, h))\<rparr>)"
  define s3 where "s3 = goto 0 (SubInstall 1 c r) (s2\<lparr>registry := (registry s2)(sint (1 :: int32) \<mapsto> e)\<rparr>)"
  define s4 where "s4 = goto 0 (SubEnable 1 c r) (s3\<lparr>callbacks := (callbacks s3)((c, r) \<mapsto> 1)\<rparr>)"
  define s5 where "s5 = goto 0 Idle s4"
  define s6 where "s6 = goto 1 (CallbackLookup c r 1) s5"
  define s7 where "s7 = goto 1 (CallbackCall c r 1 e) s6"
  define s8 where "s8 = goto 0 (UnsubUninstall c r) s7"
  define s9 where "s9 = goto 0 (UnsubDelete r) (s8\<lparr>callbacks := (callbacks s8)((c, r) := None)\<rparr>)"
  define s10 where "s10 = goto 0 Idle (s9\<lparr>registry := (registry s9)(sint (1 :: int32) := None),
    deleted := insert 1 (deleted s9)\<rparr>)"
  define s11 where "s11 = goto 1 Idle (s10\<lparr>delivered := delivered s10 @ [(c, r, handler e)]\<rparr>)"
  note defs = s1_def s2_def s3_def s4_def s5_def s6_def s7_def s8_def s9_def s10_def s11_def conc_start_def
  have "conc_step conc_start s1" unfolding s1_def by (rule step_subscribe) (simp add: defs)
  moreover have "conc_step s1 s2" unfolding s2_def by (rule step_alloc) (simp_all add: defs)
  moreover have "conc_step s2 s3" unfolding s3_def e_def by (rule step_register) (simp add: defs)
  moreover have "conc_step s3 s4" unfolding s4_def by (rule step_install) (simp add: defs)
  moreover have "conc_step s4 s5" unfolding s5_def by (rule step_enabled) (simp add: defs)
  moreover have "conc_step s5 s6" unfolding s6_def by (rule step_report) (simp_all add: defs)
  moreover have "conc_step s6 s7" unfolding s7_def by (rule step_found) (simp_all add: defs)
  moreover have "conc_step s7 s8" unfolding s8_def by (rule step_unsubscribe) (simp add: defs)
  moreover have "conc_step s8 s9" unfolding s9_def by (rule step_unsub_uninstall) (simp add: defs)
  moreover have "conc_step s9 s10" unfolding s10_def
    by (rule step_unsub_delete [of _ _ r _ e]) (simp_all add: defs e_def)
  ultimately have "conc_reach s10" by (meson conc_init conc_next)
  moreover have "conc_step s10 s11" unfolding s11_def by (rule step_call) (simp add: defs)
  ultimately show ?thesis
    by (rule that) (simp_all add: defs e_def fun_upd_idem)
qed

theorem interleaved_delivery_witness:
  "\<exists>s :: (nat, char, nat) shared. delivered s = [(1, ''r'', CHR ''h'')] \<and>
    (\<forall>(c, r, h) \<in> set (delivered s). \<exists>hid. owner s hid = Some (c, r, h)) \<and>
    (\<forall>c r hid. callbacks s (c, r) = Some hid \<longrightarrow> hid \<notin> deleted s \<longrightarrow>
      (\<exists>e. registry s (sint hid) = Some e \<and> entry_rcbRef e = r \<and> owner s hid = Some (c, r, handler e)))"
proof -
  obtain s s' :: "(nat, char, nat) shared" where r: "conc_reach s" "conc_step s s'" "allocs s' = 1"
    "delivered s' = [(1, ''r'', CHR ''h'')]"
    by (rule late_run [of 1 "''r''" "CHR ''h''"]) blast
  from r(1,2) have "conc_reach s'" by (rule conc_next)
  with interleaved_delivery [of s'] r(3,4) show ?thesis by (intro exI [of _ s']) simp
qed

text \<open>
  C15: every history of whole operations is a schedule of the steps, one operation after the
  other: the interleaved model reaches a state with the same registry, counter and installed
  callbacks, all threads idle.
\<close>

theorem histories_are_schedules:
  assumes "report_reach lib cs n st"
  shows "\<exists>s :: ('t, 'h, 'c) shared. conc_reach s \<and> matches s st \<and> (\<forall>t. pcs s t = Idle)"
proof -
  obtain s :: "('t, 'h, 'c) shared" where "conc_step\<^sup>*\<^sup>* conc_start s" "matches s st" "\<forall>t. pcs s t = Idle"
    using reach_schedule [OF assms] by blast
  with reach_rtranclp [OF _ conc_init] show ?thesis by blast
qed

theorem histories_are_schedules_witness:
  "\<exists>s :: (nat, char, nat) shared. conc_reach s \<and> matches s subscribed \<and> (\<forall>t. pcs s t = Idle)"
  by (rule histories_are_schedules [OF subscribed_reach])

text \<open>
  \<open>UnsubscribeReport\<close> does not wait for callbacks in flight: a handler can be called after
  the operation that removed it has returned, with the registry empty and no callback installed.
\<close>

theorem handler_called_after_unsubscribe:
  "\<exists>s s' :: (nat, char, nat) shared. conc_reach s \<and> conc_step s s' \<and> registry s = Map.empty \<and>
     callbacks s = Map.empty \<and> pcs s 0 = Idle \<and> delivered s = [] \<and> delivered s' = [(1, ''r'', CHR ''h'')]"
  by (rule late_run [of 1 "''r''" "CHR ''h''"]) blast

end
