(* ===== verification/Report_Liveness.thy ===== *)
theory Report_Liveness
  imports Report_Concurrency
begin

text \<open>
  Every operation on reports returns: the critical sections of \<open>iec61850_report.go\<close> are short and never
  nested, so that a thread in the middle of \<open>SubscribeReport\<close>, \<open>UnsubscribeReport\<close> or a callback can
  always go on, and ends after a bounded number of its own steps whatever the others do. A step here is a
  call or critical section that returns; that the library's calls and the user's handler do return is
  what the fairness of a run stands for.
\<close>

section \<open>Steps of one thread\<close>

text \<open>The steps a thread has left at most.\<close>

fun remaining :: "('h, 'c) pc \<Rightarrow> nat" where
  "remaining Idle = 0"
| "remaining (SubAlloc c r h) = 6"
| "remaining (SubRegister hid c r h) = 5"
| "remaining (SubInstall hid c r) = 4"
| "remaining (SubEnable hid c r) = 3"
| "remaining (SubDelete hid c r) = 2"
| "remaining (SubUninstall hid c r) = 1"
| "remaining (UnsubUninstall c r) = 2"
| "remaining (UnsubDelete r) = 1"
| "remaining (CallbackLookup c r hid) = 2"
| "remaining (CallbackCall c r hid e) = 1"

lemma remaining_0_iff: "remaining p = 0 \<longleftrightarrow> p = Idle"
  by (cases p) simp_all

definition moved :: "('t, 'h, 'c) shared \<Rightarrow> ('t, 'h, 'c) shared \<Rightarrow> bool" where
  "moved s s' \<longleftrightarrow> (\<exists>t p. pcs s' = (pcs s)(t := p) \<and> (pcs s t \<noteq> Idle \<longrightarrow> remaining p < remaining (pcs s t)))"

lemma goto_moved:
  "pcs s1 = pcs s \<Longrightarrow> (pcs s t \<noteq> Idle \<Longrightarrow> remaining p < remaining (pcs s t)) \<Longrightarrow> moved s (goto t p s1)"
  unfolding moved_def by auto

lemma step_moved: "conc_step s s' \<Longrightarrow> moved s s'"
  by (cases rule: conc_step.cases) (auto intro!: goto_moved)

lemma thread_moves:
  assumes "conc_step s s'" and "pcs s t \<noteq> Idle" and "pcs s' t \<noteq> pcs s t"
  shows "remaining (pcs s' t) < remaining (pcs s t)"
  using step_moved [OF assms(1)] assms(2,3) unfolding moved_def by (metis fun_upd_apply)

section \<open>Progress\<close>

text \<open>The identifiers in the registry are C integers.\<close>

definition keys_ok :: "('t, 'h, 'c) shared \<Rightarrow> bool" where
  "keys_ok s \<longleftrightarrow> dom (registry s) \<subseteq> range (sint :: int32 \<Rightarrow> int)"

lemma keys_ok_reach: "conc_reach s \<Longrightarrow> keys_ok s"
proof (induction rule: conc_reach.induct)
  case conc_init
  then show ?case by (simp add: keys_ok_def conc_start_def)
next
  case (conc_next s s')
  from conc_next(2,3) show ?case
    by (cases rule: conc_step.cases) (auto simp: keys_ok_def)
qed

lemma unsubscribe_enabled:
  assumes "keys_ok s" and "pcs s t = UnsubDelete r"
  shows "\<exists>s'. conc_step s s' \<and> pcs s' t = Idle"
proof (cases "\<exists>e \<in> ran (registry s). entry_rcbRef e = r")
  case True
  then obtain k e where "registry s k = Some e" "entry_rcbRef e = r" by (auto simp: ran_def)
  moreover from this(1) assms(1) obtain hid :: int32 where "k = sint hid" by (auto simp: keys_ok_def)
  ultimately show ?thesis using step_unsub_delete [OF assms(2)] by (metis goto_simps(4) fun_upd_same)
next
  case False
  then show ?thesis using step_unsub_none [OF assms(2)] by (metis goto_simps(4) fun_upd_same)
qed

lemma callback_enabled:
  assumes "pcs s t = CallbackLookup c r hid"
  shows "\<exists>s'. conc_step s s' \<and> pcs s' t \<noteq> pcs s t"
  using step_found [OF assms] step_dropped [OF assms] assms
  by (cases "registry s (sint hid)") (metis goto_simps(4) fun_upd_same pc.distinct)+

lemma thread_enabled:
  assumes "keys_ok s" and "pcs s t \<noteq> Idle"
  shows "\<exists>s'. conc_step s s' \<and> pcs s' t \<noteq> pcs s t"
proof -
  have via: "\<exists>s'. conc_step s s' \<and> pcs s' t \<noteq> pcs s t"
    if "conc_step s (goto t p s1)" and "p \<noteq> pcs s t" for p s1
    using that by (intro exI [of _ "goto t p s1"]) simp
  show ?thesis
  proof (cases "pcs s t")
    case Idle
    with assms(2) show ?thesis by simp
  next
    case (SubAlloc c r h)
    from step_alloc [OF SubAlloc refl] show ?thesis by (rule via) (simp add: SubAlloc)
  next
    case (SubRegister hid c r h)
    from step_register [OF SubRegister] show ?thesis by (rule via) (simp add: SubRegister)
  next
    case (SubInstall hid c r)
    from step_install [OF SubInstall] show ?thesis by (rule via) (simp add: SubInstall)
  next
    case (SubEnable hid c r)
    from step_enabled [OF SubEnable] show ?thesis by (rule via) (simp add: SubEnable)
  next
    case (SubDelete hid c r)
    from step_rollback [OF SubDelete] show ?thesis by (rule via) (simp add: SubDelete)
  next
    case (SubUninstall hid c r)
    from step_uninstall [OF SubUninstall] show ?thesis by (rule via) (simp add: SubUninstall)
  next
    case (UnsubUninstall c r)
    from step_unsub_uninstall [OF UnsubUninstall] show ?thesis by (rule via) (simp add: UnsubUninstall)
  next
    case (UnsubDelete r)
    with unsubscribe_enabled [OF assms(1) UnsubDelete] show ?thesis by force
  next
    case (CallbackLookup c r hid)
    then show ?thesis by (rule callback_enabled)
  next
    case (CallbackCall c r hid e)
    from step_call [OF CallbackCall] show ?thesis by (rule via) (simp add: CallbackCall)
  qed
qed

section \<open>Fair runs\<close>

text \<open>
  A run of all threads, possibly with pauses, in which no thread is passed over for ever: again and
  again it is idle or makes a step.
\<close>

definition fair_run :: "(nat \<Rightarrow> ('t, 'h, 'c) shared) \<Rightarrow> bool" where
  "fair_run \<sigma> \<longleftrightarrow> \<sigma> 0 = conc_start \<and>
     (\<forall>n. \<sigma> (Suc n) = \<sigma> n \<or> conc_step (\<sigma> n) (\<sigma> (Suc n))) \<and>
     (\<forall>t n. \<exists>m \<ge> n. pcs (\<sigma> m) t = Idle \<or> pcs (\<sigma> (Suc m)) t \<noteq> pcs (\<sigma> m) t)"

lemma fair_run_reach: "fair_run \<sigma> \<Longrightarrow> conc_reach (\<sigma> n)"
proof (induction n)
  case 0
  then show ?case by (simp add: fair_run_def conc_init)
next
  case (Suc n)
  then have "\<sigma> (Suc n) = \<sigma> n \<or> conc_step (\<sigma> n) (\<sigma> (Suc n))" by (simp add: fair_run_def)
  with Suc show ?case by (metis conc_next)
qed

lemma run_remaining:
  assumes "fair_run \<sigma>" and "\<forall>k. n \<le> k \<and> k < m \<longrightarrow> pcs (\<sigma> (Suc k)) t = pcs (\<sigma> k) t" and "n \<le> m"
  shows "pcs (\<sigma> m) t = pcs (\<sigma> n) t"
  using assms(3,2)
proof (induction m rule: dec_induct)
  case (step m)
  then show ?case by (metis less_Suc_eq order_less_imp_le le_SucI lessI)
qed simp

lemma fair_run_returns:
  assumes "fair_run \<sigma>"
  shows "\<exists>m \<ge> n. pcs (\<sigma> m) t = Idle"
proof (induction "remaining (pcs (\<sigma> n) t)" arbitrary: n rule: less_induct)
  case less
  let ?ready = "\<lambda>m. n \<le> m \<and> (pcs (\<sigma> m) t = Idle \<or> pcs (\<sigma> (Suc m)) t \<noteq> pcs (\<sigma> m) t)"
  define m where "m = (LEAST m. ?ready m)"
  have "\<exists>m. ?ready m" using assms by (auto simp: fair_run_def)
  then have m: "?ready m" unfolding m_def by (rule LeastI_ex)
  have "\<forall>k. n \<le> k \<and> k < m \<longrightarrow> pcs (\<sigma> (Suc k)) t = pcs (\<sigma> k) t"
    unfolding m_def using not_less_Least [of _ ?ready] by blast
  with m have same: "pcs (\<sigma> m) t = pcs (\<sigma> n) t" using run_remaining [OF assms] by blast
  show ?case
  proof (cases "pcs (\<sigma> m) t = Idle")
    case True
    with m show ?thesis by blast
  next
    case False
    with m have "pcs (\<sigma> (Suc m)) t \<noteq> pcs (\<sigma> m) t" by blast
    moreover from this assms have "conc_step (\<sigma> m) (\<sigma> (Suc m))" unfolding fair_run_def by metis
    ultimately have "remaining (pcs (\<sigma> (Suc m)) t) < remaining (pcs (\<sigma> n) t)"
      using thread_moves False same by metis
    from less [OF this] m show ?thesis by (meson le_Suc_eq le_trans)
  qed
qed

section \<open>Properties\<close>


text \<open>A run in which one thread cancels a subscription, and then nothing happens.\<close>

definition sample_run :: "nat \<Rightarrow> (nat, char, nat) shared" where
  "sample_run n =
     (let s1 = goto 0 (UnsubUninstall 1 ''r'') conc_start;
          s2 = goto 0 (UnsubDelete ''r'') (s1\<lparr>callbacks := (callbacks s1)((1, ''r'') := None)\<rparr>) in
      if n = 0 then conc_start else if n = 1 then s1 else if n = 2 then s2 else goto 0 Idle s2)"

lemma sample_run_fair: "fair_run sample_run"
proof -
  define s1 where "s1 = goto 0 (UnsubUninstall 1 ''r'') (conc_start :: (nat, char, nat) shared)"
  define s2 where "s2 = goto 0 (UnsubDelete ''r'') (s1\<lparr>callbacks := (callbacks s1)((1, ''r'') := None)\<rparr>)"
  have runs: "sample_run 0 = conc_start" "sample_run 1 = s1" "sample_run 2 = s2" "sample_run 3 = goto 0 Idle s2"
    by (simp_all add: sample_run_def s1_def s2_def)
  have "conc_step (sample_run 0) (sample_run 1)"
    unfolding runs s1_def by (rule step_unsubscribe) (simp add: conc_start_def)
  moreover have "conc_step (sample_run 1) (sample_run 2)"
    unfolding runs s2_def by (rule step_unsub_uninstall) (simp add: s1_def)
  moreover have "conc_step (sample_run 2) (sample_run 3)"
    unfolding runs by (rule step_unsub_none) (simp_all add: s2_def s1_def conc_start_def)
  moreover have "sample_run (Suc n) = sample_run n" if "3 \<le> n" for n
    using that by (simp add: sample_run_def)
  ultimately have "sample_run (Suc n) = sample_run n \<or> conc_step (sample_run n) (sample_run (Suc n))" for n
    by (cases "n = 0 \<or> n = 1 \<or> n = 2") (auto simp: numeral_2_eq_2 numeral_3_eq_3)
  moreover have "pcs (sample_run (max n 3)) t = Idle" for n t
    by (auto simp: sample_run_def Let_def conc_start_def max_def)
  then have "\<exists>m \<ge> n. pcs (sample_run m) t = Idle \<or> pcs (sample_run (Suc m)) t \<noteq> pcs (sample_run m) t" for n t
    by (meson max.cobounded1)
  ultimately show ?thesis using runs(1) by (simp add: fair_run_def)
qed


end
