(* ===== verification/Server_Model.thy ===== *)
theory Server_Model
  imports Model_Types C_Session
begin

text \<open>
  Building and running a server (\<open>model.go\<close>, \<open>iec61850_server.go\<close>): wrappers that pass names
  and handles to the library, with the C strings they allocate, and \<open>SetTriggerOptions\<close>, the one
  place where Go writes into an object of the data model itself.
\<close>

section \<open>Calls into the library\<close>

text \<open>
  A request names the C function; \<open>nat\<close> arguments are the addresses of C strings, \<open>ptr\<close> ones
  handles. The library is the pointer it returns for a request (null where it returns nothing),
  given all calls so far.
\<close>

datatype model_request =
    IedModel_create nat | IedModel_destroy ptr
  | LogicalDevice_create nat ptr | LogicalNode_create nat ptr
  | CDC_ENS_create nat ptr uint32 | CDC_VSS_create nat ptr uint32
  | CDC_SAV_create nat ptr uint32 bool | CDC_APC_create nat ptr uint32 uint32 bool
  | ModelNode_getChild ptr nat
  | DataSet_create nat ptr | DataSetEntry_create ptr nat int32 "nat option"
  | ReportControlBlock_create nat ptr nat bool nat uint32 uint8 uint8 uint32 uint32
  | IedServer_create ptr | IedServer_start ptr int32 | IedServer_stop ptr | IedServer_destroy ptr
  | IedServer_lockDataModel ptr | IedServer_unlockDataModel ptr
  | IedServer_updateUTCTime ptr ptr uint64 | IedServer_updateFloat ptr ptr c_float
  | IedServer_updateInt32 ptr ptr int32 | IedServer_updateVisibleString ptr ptr nat

datatype model_call = ModelCString string nat | ModelFree nat | Request model_request ptr

record model_lib =
  lib_alloc :: "model_call list \<Rightarrow> string \<Rightarrow> nat"
  lib_answer :: "model_call list \<Rightarrow> model_request \<Rightarrow> ptr"
  lib_isRunning :: "model_call list \<Rightarrow> ptr \<Rightarrow> bool"

definition request :: "model_lib \<Rightarrow> model_request \<Rightarrow> model_call list \<Rightarrow> ptr \<times> model_call list" where
  "request lib r calls = (let p = lib_answer lib calls r in (p, calls @ [Request r p]))"

definition new_string :: "model_lib \<Rightarrow> string \<Rightarrow> model_call list \<Rightarrow> nat \<times> model_call list" where
  "new_string lib s calls = (let p = lib_alloc lib calls s in (p, calls @ [ModelCString s p]))"

text \<open>A request with a name, freed again or not.\<close>

definition call_named :: "bool \<Rightarrow> model_lib \<Rightarrow> string \<Rightarrow> (nat \<Rightarrow> model_request) \<Rightarrow> model_call list \<Rightarrow>
    ptr \<times> model_call list" where
  "call_named frees lib s r calls =
     (let (p, calls) = new_string lib s calls; (res, calls) = request lib (r p) calls in
      (res, if frees then calls @ [ModelFree p] else calls))"

section \<open>The data model\<close>

definition NewIedModel :: "model_lib \<Rightarrow> string \<Rightarrow> model_call list \<Rightarrow> ptr \<times> model_call list" where
  "NewIedModel lib nm = call_named False lib nm IedModel_create"

definition DestroyModel :: "model_lib \<Rightarrow> ptr \<Rightarrow> model_call list \<Rightarrow> model_call list" where
  "DestroyModel lib m calls = snd (request lib (IedModel_destroy m) calls)"

definition CreateLogicalDevice :: "model_lib \<Rightarrow> ptr \<Rightarrow> string \<Rightarrow> model_call list \<Rightarrow> ptr \<times> model_call list" where
  "CreateLogicalDevice lib m nm = call_named False lib nm (\<lambda>p. LogicalDevice_create p m)"

definition CreateLogicalNode :: "model_lib \<Rightarrow> ptr \<Rightarrow> string \<Rightarrow> model_call list \<Rightarrow> ptr \<times> model_call list" where
  "CreateLogicalNode lib d nm = call_named False lib nm (\<lambda>p. LogicalNode_create p d)"

definition CreateDataObjectCDC_ENS :: "model_lib \<Rightarrow> ptr \<Rightarrow> string \<Rightarrow> model_call list \<Rightarrow> ptr \<times> model_call list" where
  "CreateDataObjectCDC_ENS lib n nm = call_named False lib nm (\<lambda>p. CDC_ENS_create p n 0)"

definition CreateDataObjectCDC_VSS :: "model_lib \<Rightarrow> ptr \<Rightarrow> string \<Rightarrow> model_call list \<Rightarrow> ptr \<times> model_call list" where
  "CreateDataObjectCDC_VSS lib n nm = call_named False lib nm (\<lambda>p. CDC_VSS_create p n 0)"

definition CreateDataObjectCDC_SAV :: "model_lib \<Rightarrow> ptr \<Rightarrow> string \<Rightarrow> bool \<Rightarrow> model_call list \<Rightarrow>
    ptr \<times> model_call list" where
  "CreateDataObjectCDC_SAV lib n nm isInteger = call_named False lib nm (\<lambda>p. CDC_SAV_create p n 0 isInteger)"

definition CreateDataObjectCDC_APC :: "model_lib \<Rightarrow> ptr \<Rightarrow> string \<Rightarrow> int \<Rightarrow> model_call list \<Rightarrow>
    ptr \<times> model_call list" where
  "CreateDataObjectCDC_APC lib n nm ctlModel =
     call_named False lib nm (\<lambda>p. CDC_APC_create p n 0 (word_of_int ctlModel) False)"

text \<open>The child is cast to a data attribute, whatever kind of node it is, null included.\<close>

definition GetChild :: "model_lib \<Rightarrow> ptr \<Rightarrow> string \<Rightarrow> model_call list \<Rightarrow> ptr \<times> model_call list" where
  "GetChild lib ob nm = call_named True lib nm (ModelNode_getChild ob)"

definition CreateDataSet :: "model_lib \<Rightarrow> ptr \<Rightarrow> string \<Rightarrow> model_call list \<Rightarrow> ptr \<times> model_call list" where
  "CreateDataSet lib ln nm = call_named True lib nm (\<lambda>p. DataSet_create p ln)"

definition AddDataSetEntry :: "model_lib \<Rightarrow> ptr \<Rightarrow> string \<Rightarrow> model_call list \<Rightarrow> model_call list" where
  "AddDataSetEntry lib ds ref calls =
     snd (call_named True lib ref (\<lambda>p. DataSetEntry_create ds p (- 1) None) calls)"

definition CreateReportControlBlock :: "model_lib \<Rightarrow> ptr \<Rightarrow> string \<Rightarrow> string \<Rightarrow> bool \<Rightarrow> string \<Rightarrow> uint32 \<Rightarrow>
    uint8 \<Rightarrow> uint8 \<Rightarrow> uint32 \<Rightarrow> uint32 \<Rightarrow> model_call list \<Rightarrow> ptr \<times> model_call list" where
  "CreateReportControlBlock lib n nm rptId buffered dataSetName confRef trgOps rptOpts bufTm intgPd calls =
     (let (cName, calls) = new_string lib nm calls;
          (cRptId, calls) = new_string lib rptId calls;
          (cDataSet, calls) = new_string lib dataSetName calls;
          (rcb, calls) = request lib (ReportControlBlock_create cName n cRptId buffered cDataSet confRef
            trgOps rptOpts bufTm intgPd) calls in
      (rcb, calls @ [ModelFree cDataSet, ModelFree cRptId, ModelFree cName]))"

section \<open>Trigger options\<close>

text \<open>
  The nodes of a model at their addresses. Writing \<open>triggerOptions\<close> through a null pointer, or
  through a pointer to a smaller kind of node, is a fault.
\<close>

datatype model_node =
  NodeDevice LogicalDevice | NodeLogical LogicalNode | NodeObject DataObject | NodeAttribute DataAttribute

definition SetTriggerOptions :: "uint8 \<Rightarrow> ptr \<Rightarrow> (nat \<rightharpoonup> model_node) \<Rightarrow> c_fault + (nat \<rightharpoonup> model_node)" where
  "SetTriggerOptions opts da nodes = (case da of
      NULL \<Rightarrow> Inl NullDeref
    | Ptr a \<Rightarrow> (case nodes a of
        Some (NodeAttribute x) \<Rightarrow> Inr (nodes(a \<mapsto> NodeAttribute (x\<lparr>DataAttribute_triggerOptions := opts\<rparr>)))
      | _ \<Rightarrow> Inl BadIndex))"

section \<open>The server\<close>

definition NewIedServer :: "model_lib \<Rightarrow> ptr \<Rightarrow> model_call list \<Rightarrow> ptr \<times> model_call list" where
  "NewIedServer lib m = request lib (IedServer_create m)"

definition Start :: "model_lib \<Rightarrow> ptr \<Rightarrow> int \<Rightarrow> model_call list \<Rightarrow> model_call list" where
  "Start lib s port calls = snd (request lib (IedServer_start s (word_of_int port)) calls)"

definition IsRunning :: "model_lib \<Rightarrow> ptr \<Rightarrow> model_call list \<Rightarrow> bool" where
  "IsRunning lib s calls = lib_isRunning lib calls s"

definition Stop :: "model_lib \<Rightarrow> ptr \<Rightarrow> model_call list \<Rightarrow> model_call list" where
  "Stop lib s calls = snd (request lib (IedServer_stop s) calls)"

definition DestroyServer :: "model_lib \<Rightarrow> ptr \<Rightarrow> model_call list \<Rightarrow> model_call list" where
  "DestroyServer lib s calls = snd (request lib (IedServer_destroy s) calls)"

definition LockDataModel :: "model_lib \<Rightarrow> ptr \<Rightarrow> model_call list \<Rightarrow> model_call list" where
  "LockDataModel lib s calls = snd (request lib (IedServer_lockDataModel s) calls)"

definition UnlockDataModel :: "model_lib \<Rightarrow> ptr \<Rightarrow> model_call list \<Rightarrow> model_call list" where
  "UnlockDataModel lib s calls = snd (request lib (IedServer_unlockDataModel s) calls)"

definition UpdateUTCTimeAttributeValue :: "model_lib \<Rightarrow> ptr \<Rightarrow> ptr \<Rightarrow> int64 \<Rightarrow> model_call list \<Rightarrow> model_call list" where
  "UpdateUTCTimeAttributeValue lib s attr v calls = snd (request lib (IedServer_updateUTCTime s attr v) calls)"

definition UpdateFloatAttributeValue :: "model_lib \<Rightarrow> ptr \<Rightarrow> ptr \<Rightarrow> c_float \<Rightarrow> model_call list \<Rightarrow> model_call list" where
  "UpdateFloatAttributeValue lib s attr v calls = snd (request lib (IedServer_updateFloat s attr v) calls)"

definition UpdateInt32AttributeValue :: "model_lib \<Rightarrow> ptr \<Rightarrow> ptr \<Rightarrow> int32 \<Rightarrow> model_call list \<Rightarrow> model_call list" where
  "UpdateInt32AttributeValue lib s attr v calls = snd (request lib (IedServer_updateInt32 s attr v) calls)"

definition UpdateVisibleStringAttributeValue :: "model_lib \<Rightarrow> ptr \<Rightarrow> ptr \<Rightarrow> string \<Rightarrow> model_call list \<Rightarrow>
    model_call list" where
  "UpdateVisibleStringAttributeValue lib s attr v calls =
     snd (call_named False lib v (IedServer_updateVisibleString s attr) calls)"


section \<open>Sessions\<close>

text \<open>What a program building and running servers does, in any order, on any handles.\<close>

datatype server_op =
    OpNewIedModel string | OpDestroyModel ptr | OpCreateLogicalDevice ptr string
  | OpCreateLogicalNode ptr string | OpCreateENS ptr string | OpCreateVSS ptr string
  | OpCreateSAV ptr string bool | OpCreateAPC ptr string int | OpGetChild ptr string
  | OpCreateDataSet ptr string | OpAddDataSetEntry ptr string
  | OpCreateReportControlBlock ptr string string bool string uint32 uint8 uint8 uint32 uint32
  | OpNewIedServer ptr | OpStart ptr int | OpStop ptr | OpDestroyServer ptr
  | OpLock ptr | OpUnlock ptr | OpUpdateUTCTime ptr ptr int64 | OpUpdateFloat ptr ptr c_float
  | OpUpdateInt32 ptr ptr int32 | OpUpdateVisibleString ptr ptr string

fun server_step :: "model_lib \<Rightarrow> server_op \<Rightarrow> model_call list \<Rightarrow> model_call list" where
  "server_step lib (OpNewIedModel nm) calls = snd (NewIedModel lib nm calls)"
| "server_step lib (OpDestroyModel m) calls = DestroyModel lib m calls"
| "server_step lib (OpCreateLogicalDevice m nm) calls = snd (CreateLogicalDevice lib m nm calls)"
| "server_step lib (OpCreateLogicalNode d nm) calls = snd (CreateLogicalNode lib d nm calls)"
| "server_step lib (OpCreateENS n nm) calls = snd (CreateDataObjectCDC_ENS lib n nm calls)"
| "server_step lib (OpCreateVSS n nm) calls = snd (CreateDataObjectCDC_VSS lib n nm calls)"
| "server_step lib (OpCreateSAV n nm i) calls = snd (CreateDataObjectCDC_SAV lib n nm i calls)"
| "server_step lib (OpCreateAPC n nm c) calls = snd (CreateDataObjectCDC_APC lib n nm c calls)"
| "server_step lib (OpGetChild n nm) calls = snd (GetChild lib n nm calls)"
| "server_step lib (OpCreateDataSet n nm) calls = snd (CreateDataSet lib n nm calls)"
| "server_step lib (OpAddDataSetEntry ds ref) calls = AddDataSetEntry lib ds ref calls"
| "server_step lib (OpCreateReportControlBlock n nm rid buf ds cr t r bt ip) calls =
     snd (CreateReportControlBlock lib n nm rid buf ds cr t r bt ip calls)"
| "server_step lib (OpNewIedServer m) calls = snd (NewIedServer lib m calls)"
| "server_step lib (OpStart s port) calls = Start lib s port calls"
| "server_step lib (OpStop s) calls = Stop lib s calls"
| "server_step lib (OpDestroyServer s) calls = DestroyServer lib s calls"
| "server_step lib (OpLock s) calls = LockDataModel lib s calls"
| "server_step lib (OpUnlock s) calls = UnlockDataModel lib s calls"
| "server_step lib (OpUpdateUTCTime s a v) calls = UpdateUTCTimeAttributeValue lib s a v calls"
| "server_step lib (OpUpdateFloat s a v) calls = UpdateFloatAttributeValue lib s a v calls"
| "server_step lib (OpUpdateInt32 s a v) calls = UpdateInt32AttributeValue lib s a v calls"
| "server_step lib (OpUpdateVisibleString s a v) calls = UpdateVisibleStringAttributeValue lib s a v calls"

lemmas server_op_defs = NewIedModel_def DestroyModel_def CreateLogicalDevice_def CreateLogicalNode_def
  CreateDataObjectCDC_ENS_def CreateDataObjectCDC_VSS_def CreateDataObjectCDC_SAV_def
  CreateDataObjectCDC_APC_def GetChild_def CreateDataSet_def AddDataSetEntry_def
  NewIedServer_def Start_def Stop_def DestroyServer_def
  LockDataModel_def UnlockDataModel_def UpdateUTCTimeAttributeValue_def UpdateFloatAttributeValue_def
  UpdateInt32AttributeValue_def UpdateVisibleStringAttributeValue_def

section \<open>Memory\<close>

fun string_acquired :: "model_call \<Rightarrow> nat option" where
  "string_acquired (ModelCString s p) = Some p"
| "string_acquired _ = None"

fun string_released :: "model_call \<Rightarrow> nat option" where
  "string_released (ModelFree p) = Some p"
| "string_released _ = None"

text \<open>
  The requests whose string argument the wrapper allocates in the call itself, so that nothing
  holds its address afterwards.
\<close>

fun unowned_string :: "model_request \<Rightarrow> nat option" where
  "unowned_string (IedModel_create p) = Some p"
| "unowned_string (LogicalDevice_create p m) = Some p"
| "unowned_string (LogicalNode_create p d) = Some p"
| "unowned_string (CDC_ENS_create p n opts) = Some p"
| "unowned_string (CDC_VSS_create p n opts) = Some p"
| "unowned_string (CDC_SAV_create p n opts i) = Some p"
| "unowned_string (CDC_APC_create p n opts c h) = Some p"
| "unowned_string (IedServer_updateVisibleString s a p) = Some p"
| "unowned_string _ = None"

fun lost_strings :: "model_call list \<Rightarrow> nat list" where
  "lost_strings [] = []"
| "lost_strings (Request r res # calls) =
     (case unowned_string r of None \<Rightarrow> lost_strings calls | Some p \<Rightarrow> p # lost_strings calls)"
| "lost_strings (_ # calls) = lost_strings calls"

lemma lost_strings_append [simp]: "lost_strings (xs @ ys) = lost_strings xs @ lost_strings ys"
  by (induction xs rule: lost_strings.induct) (auto split: option.split)

lemma request_calls:
  "snd (request lib r calls) = calls @ [Request r (lib_answer lib calls r)]"
  by (simp add: request_def Let_def)

lemma call_named_calls:
  "\<exists>p res. snd (call_named frees lib s r calls)
     = calls @ [ModelCString s p, Request (r p) res] @ (if frees then [ModelFree p] else [])"
  by (simp add: call_named_def new_string_def request_def Let_def)

text \<open>The two ways an operation may treat its strings.\<close>

definition accounts :: "model_call list \<Rightarrow> model_call list \<Rightarrow> bool" where
  "accounts calls calls' \<longleftrightarrow> (\<exists>cs. calls' = calls @ cs
     \<and> (\<forall>live. resource_run string_acquired string_released live cs = Some (live + mset (lost_strings cs))))"

lemma request_accounts:
  "unowned_string r = None \<Longrightarrow> accounts calls (snd (request lib r calls))"
  by (simp add: accounts_def request_calls)

lemma named_accounts:
  assumes "\<And>p. unowned_string (r p) = (if frees then None else Some p)"
  shows "accounts calls (snd (call_named frees lib s r calls))"
proof -
  obtain p res where c: "snd (call_named frees lib s r calls)
      = calls @ [ModelCString s p, Request (r p) res] @ (if frees then [ModelFree p] else [])"
    using call_named_calls by blast
  show ?thesis unfolding accounts_def c using assms by (intro exI conjI) auto
qed

lemma rcb_accounts:
  "accounts calls (snd (CreateReportControlBlock lib n nm rid buf ds cr t r bt ip calls))"
  unfolding accounts_def CreateReportControlBlock_def
  by (simp add: new_string_def request_def Let_def add_mset_commute)

lemma server_step_accounts: "accounts calls (server_step lib op calls)"
  by (cases op) (simp_all add: server_op_defs request_accounts named_accounts rcb_accounts)

interpretation server_strings: c_session string_acquired string_released lost_strings
  "\<lambda>calls. calls" "server_step lib" for lib
proof unfold_locales
  show "string_acquired c = Some p \<Longrightarrow> string_released c = None" for c p
    by (cases c) simp_all
qed (use server_step_accounts in \<open>simp_all add: accounts_def\<close>)


text \<open>The operations that lose a string, and the trace of one of them.\<close>

fun loses_string :: "server_op \<Rightarrow> bool" where
  "loses_string (OpNewIedModel nm) = True"
| "loses_string (OpCreateLogicalDevice m nm) = True"
| "loses_string (OpCreateLogicalNode d nm) = True"
| "loses_string (OpCreateENS n nm) = True"
| "loses_string (OpCreateVSS n nm) = True"
| "loses_string (OpCreateSAV n nm i) = True"
| "loses_string (OpCreateAPC n nm c) = True"
| "loses_string (OpUpdateVisibleString s a v) = True"
| "loses_string _ = False"

lemma named_lost:
  assumes "\<And>p. unowned_string (r p) = (if frees then None else Some p)"
  shows "length (lost_strings (snd (call_named frees lib s r calls)))
    = length (lost_strings calls) + (if frees then 0 else 1)"
proof -
  obtain p res where c: "snd (call_named frees lib s r calls)
      = calls @ [ModelCString s p, Request (r p) res] @ (if frees then [ModelFree p] else [])"
    using call_named_calls by blast
  show ?thesis unfolding c using assms by auto
qed

lemma rcb_lost:
  "lost_strings (snd (CreateReportControlBlock lib n nm rid buf ds cr t r bt ip calls)) = lost_strings calls"
  by (simp add: CreateReportControlBlock_def new_string_def request_def Let_def)

lemma server_step_lost:
  "length (lost_strings (server_step lib op calls))
    = length (lost_strings calls) + (if loses_string op then 1 else 0)"
  by (cases op) (simp_all add: server_op_defs request_calls named_lost rcb_lost)

lemma session_lost:
  "length (lost_strings (fold (server_step lib) ops calls))
    = length (lost_strings calls) + length (filter loses_string ops)"
  by (induction ops arbitrary: calls) (simp_all add: server_step_lost)

section \<open>Properties\<close>


text \<open>
  A child that is not found cannot be given trigger options: the write goes through a null
  pointer.
\<close>

lemma missing_child_faults:
  "fst (GetChild lib ob nm calls) = NULL \<Longrightarrow>
   SetTriggerOptions opts (fst (GetChild lib ob nm calls)) nodes = Inl NullDeref"
  by (simp add: SetTriggerOptions_def)

end
