(* ===== verification/Tls_Ciphers.thy ===== *)
theory Tls_Ciphers
  imports Iec_Prelude
begin

text \<open>
  The table of TLS cipher suites (\<open>hal/inc/tls_ciphers.h\<close>): name and IANA code of each, in the
  order of the header.
\<close>

definition tls_cipher_suites_1 :: "(string \<times> int) list" where
  "tls_cipher_suites_1 = [
    (''TLS_NULL_WITH_NULL_NULL'', 0),
    (''TLS_RSA_WITH_NULL_MD5'', 1),
    (''TLS_RSA_WITH_NULL_SHA'', 2),
    (''TLS_RSA_EXPORT_WITH_RC4_40_MD5'', 3),
    (''TLS_RSA_WITH_RC4_128_MD5'', 4),
    (''TLS_RSA_WITH_RC4_128_SHA'', 5),
    (''TLS_RSA_EXPORT_WITH_RC2_CBC_40_MD5'', 6),
    (''TLS_RSA_WITH_IDEA_CBC_SHA'', 7),
    (''TLS_RSA_EXPORT_WITH_DES40_CBC_SHA'', 8),
    (''TLS_RSA_WITH_DES_CBC_SHA'', 9),
    (''TLS_RSA_WITH_3DES_EDE_CBC_SHA'', 10),
    (''TLS_DH_DSS_EXPORT_WITH_DES40_CBC_SHA'', 11),
    (''TLS_DH_DSS_WITH_DES_CBC_SHA'', 12),
    (''TLS_DH_DSS_WITH_3DES_EDE_CBC_SHA'', 13),
    (''TLS_DH_RSA_EXPORT_WITH_DES40_CBC_SHA'', 14),
    (''TLS_DH_RSA_WITH_DES_CBC_SHA'', 15),
    (''TLS_DH_RSA_WITH_3DES_EDE_CBC_SHA'', 16),
    (''TLS_DHE_DSS_EXPORT_WITH_DES40_CBC_SHA'', 17),
    (''TLS_DHE_DSS_WITH_DES_CBC_SHA'', 18),
    (''TLS_DHE_DSS_WITH_3DES_EDE_CBC_SHA'', 19),
    (''TLS_DHE_RSA_EXPORT_WITH_DES40_CBC_SHA'', 20),
    (''TLS_DHE_RSA_WITH_DES_CBC_SHA'', 21),
    (''TLS_DHE_RSA_WITH_3DES_EDE_CBC_SHA'', 22),
    (''TLS_DH_anon_EXPORT_WITH_RC4_40_MD5'', 23),
    (''TLS_DH_anon_WITH_RC4_128_MD5'', 24),
    (''TLS_DH_anon_EXPORT_WITH_DES40_CBC_SHA'', 25),
    (''TLS_DH_anon_WITH_DES_CBC_SHA'', 26),
    (''TLS_DH_anon_WITH_3DES_EDE_CBC_SHA'', 27),
    (''TLS_RSA_WITH_AES_128_CBC_SHA'', 47),
    (''TLS_DH_DSS_WITH_AES_128_CBC_SHA'', 48),
    (''TLS_DH_RSA_WITH_AES_128_CBC_SHA'', 49),
    (''TLS_DHE_DSS_WITH_AES_128_CBC_SHA'', 50),
    (''TLS_DHE_RSA_WITH_AES_128_CBC_SHA'', 51),
    (''TLS_DH_anon_WITH_AES_128_CBC_SHA'', 52),
    (''TLS_RSA_WITH_AES_256_CBC_SHA'', 53),
    (''TLS_DH_DSS_WITH_AES_256_CBC_SHA'', 54),
    (''TLS_DH_RSA_WITH_AES_256_CBC_SHA'', 55),
    (''TLS_DHE_DSS_WITH_AES_256_CBC_SHA'', 56),
    (''TLS_DHE_RSA_WITH_AES_256_CBC_SHA'', 57),
    (''TLS_DH_anon_WITH_AES_256_CBC_SHA'', 58),
    (''TLS_RSA_WITH_NULL_SHA256'', 59),
    (''TLS_RSA_WITH_AES_128_CBC_SHA256'', 60),
    (''TLS_RSA_WITH_AES_256_CBC_SHA256'', 61),
    (''TLS_DH_DSS_WITH_AES_128_CBC_SHA256'', 62),
    (''TLS_DH_RSA_WITH_AES_128_CBC_SHA256'', 63),
    (''TLS_DHE_DSS_WITH_AES_128_CBC_SHA256'', 64),
    (''TLS_RSA_WITH_CAMELLIA_128_CBC_SHA'', 65),
    (''TLS_DH_DSS_WITH_CAMELLIA_128_CBC_SHA'', 66),
    (''TLS_DH_RSA_WITH_CAMELLIA_128_CBC_SHA'', 67),
    (''TLS_DHE_DSS_WITH_CAMELLIA_128_CBC_SHA'', 68),
    (''TLS_DHE_RSA_WITH_CAMELLIA_128_CBC_SHA'', 69),
    (''TLS_DH_anon_WITH_CAMELLIA_128_CBC_SHA'', 70),
    (''TLS_DHE_RSA_WITH_AES_128_CBC_SHA256'', 103),
    (''TLS_DH_DSS_WITH_AES_256_CBC_SHA256'', 104),
    (''TLS_DH_RSA_WITH_AES_256_CBC_SHA256'', 105),
    (''TLS_DHE_DSS_WITH_AES_256_CBC_SHA256'', 106),
    (''TLS_DHE_RSA_WITH_AES_256_CBC_SHA256'', 107),
    (''TLS_DH_anon_WITH_AES_128_CBC_SHA256'', 108),
    (''TLS_DH_anon_WITH_AES_256_CBC_SHA256'', 109),
    (''TLS_RSA_WITH_CAMELLIA_256_CBC_SHA'', 132),
    (''TLS_DH_DSS_WITH_CAMELLIA_256_CBC_SHA'', 133),
    (''TLS_DH_RSA_WITH_CAMELLIA_256_CBC_SHA'', 134),
    (''TLS_DHE_DSS_WITH_CAMELLIA_256_CBC_SHA'', 135),
    (''TLS_DHE_RSA_WITH_CAMELLIA_256_CBC_SHA'', 136),
    (''TLS_DH_anon_WITH_CAMELLIA_256_CBC_SHA'', 137),
    (''TLS_RSA_WITH_SEED_CBC_SHA'', 150),
    (''TLS_DH_DSS_WITH_SEED_CBC_SHA'', 151),
    (''TLS_DH_RSA_WITH_SEED_CBC_SHA'', 152),
    (''TLS_DHE_DSS_WITH_SEED_CBC_SHA'', 153),
    (''TLS_DHE_RSA_WITH_SEED_CBC_SHA'', 154),
    (''TLS_DH_anon_WITH_SEED_CBC_SHA'', 155),
    (''TLS_RSA_WITH_AES_128_GCM_SHA256'', 156),
    (''TLS_RSA_WITH_AES_256_GCM_SHA384'', 157),
    (''TLS_DHE_RSA_WITH_AES_128_GCM_SHA256'', 158),
    (''TLS_DHE_RSA_WITH_AES_256_GCM_SHA384'', 159),
    (''TLS_DH_RSA_WITH_AES_128_GCM_SHA256'', 160),
    (''TLS_DH_RSA_WITH_AES_256_GCM_SHA384'', 161),
    (''TLS_DHE_DSS_WITH_AES_128_GCM_SHA256'', 162),
    (''TLS_DHE_DSS_WITH_AES_256_GCM_SHA384'', 163),
    (''TLS_DH_DSS_WITH_AES_128_GCM_SHA256'', 164),
    (''TLS_DH_DSS_WITH_AES_256_GCM_SHA384'', 165),
    (''TLS_DH_anon_WITH_AES_128_GCM_SHA256'', 166),
    (''TLS_DH_anon_WITH_AES_256_GCM_SHA384'', 167),
    (''TLS_PSK_WITH_AES_128_CBC_SHA'', 140),
    (''TLS_PSK_WITH_AES_256_CBC_SHA'', 141),
    (''TLS_DHE_PSK_WITH_AES_128_CBC_SHA'', 142),
    (''TLS_DHE_PSK_WITH_AES_256_CBC_SHA'', 143),
    (''TLS_RSA_PSK_WITH_AES_128_CBC_SHA'', 144),
    (''TLS_RSA_PSK_WITH_AES_256_CBC_SHA'', 145),
    (''TLS_PSK_WITH_AES_128_CBC_SHA256'', 174),
    (''TLS_PSK_WITH_AES_256_CBC_SHA384'', 175),
    (''TLS_DHE_PSK_WITH_AES_128_CBC_SHA256'', 176),
    (''TLS_DHE_PSK_WITH_AES_256_CBC_SHA384'', 177),
    (''TLS_RSA_PSK_WITH_AES_128_CBC_SHA256'', 178),
    (''TLS_RSA_PSK_WITH_AES_256_CBC_SHA384'', 179),
    (''TLS_PSK_WITH_NULL_SHA'', 44),
    (''TLS_DHE_PSK_WITH_NULL_SHA'', 45),
    (''TLS_RSA_PSK_WITH_NULL_SHA'', 46),
    (''TLS_PSK_WITH_NULL_SHA256'', 180),
    (''TLS_PSK_WITH_NULL_SHA384'', 181),
    (''TLS_DHE_PSK_WITH_NULL_SHA256'', 182),
    (''TLS_DHE_PSK_WITH_NULL_SHA384'', 183),
    (''TLS_RSA_PSK_WITH_NULL_SHA256'', 184),
    (''TLS_RSA_PSK_WITH_NULL_SHA384'', 185),
    (''TLS_ECDH_ECDSA_WITH_NULL_SHA'', 49153),
    (''TLS_ECDH_ECDSA_WITH_RC4_128_SHA'', 49154),
    (''TLS_ECDH_ECDSA_WITH_3DES_EDE_CBC_SHA'', 49155),
    (''TLS_ECDH_ECDSA_WITH_AES_128_CBC_SHA'', 49156),
    (''TLS_ECDH_ECDSA_WITH_AES_256_CBC_SHA'', 49157),
    (''TLS_ECDHE_ECDSA_WITH_NULL_SHA'', 49158),
    (''TLS_ECDHE_ECDSA_WITH_RC4_128_SHA'', 49159),
    (''TLS_ECDHE_ECDSA_WITH_3DES_EDE_CBC_SHA'', 49160),
    (''TLS_ECDHE_ECDSA_WITH_AES_128_CBC_SHA'', 49161),
    (''TLS_ECDHE_ECDSA_WITH_AES_256_CBC_SHA'', 49162),
    (''TLS_ECDH_RSA_WITH_NULL_SHA'', 49163),
    (''TLS_ECDH_RSA_WITH_RC4_128_SHA'', 49164),
    (''TLS_ECDH_RSA_WITH_3DES_EDE_CBC_SHA'', 49165),
    (''TLS_ECDH_RSA_WITH_AES_128_CBC_SHA'', 49166),
    (''TLS_ECDH_RSA_WITH_AES_256_CBC_SHA'', 49167),
    (''TLS_ECDHE_RSA_WITH_NULL_SHA'', 49168),
    (''TLS_ECDHE_RSA_WITH_RC4_128_SHA'', 49169),
    (''TLS_ECDHE_RSA_WITH_3DES_EDE_CBC_SHA'', 49170),
    (''TLS_ECDHE_RSA_WITH_AES_128_CBC_SHA'', 49171),
    (''TLS_ECDHE_RSA_WITH_AES_256_CBC_SHA'', 49172)]"

definition tls_cipher_suites_2 :: "(string \<times> int) list" where
  "tls_cipher_suites_2 = [
    (''TLS_ECDH_anon_WITH_NULL_SHA'', 49173),
    (''TLS_ECDH_anon_WITH_RC4_128_SHA'', 49174),
    (''TLS_ECDH_anon_WITH_3DES_EDE_CBC_SHA'', 49175),
    (''TLS_ECDH_anon_WITH_AES_128_CBC_SHA'', 49176),
    (''TLS_ECDH_anon_WITH_AES_256_CBC_SHA'', 49177),
    (''TLS_ECDHE_ECDSA_WITH_AES_128_CBC_SHA256'', 49187),
    (''TLS_ECDHE_ECDSA_WITH_AES_256_CBC_SHA384'', 49188),
    (''TLS_ECDH_ECDSA_WITH_AES_128_CBC_SHA256'', 49189),
    (''TLS_ECDH_ECDSA_WITH_AES_256_CBC_SHA384'', 49190),
    (''TLS_ECDHE_RSA_WITH_AES_128_CBC_SHA256'', 49191),
    (''TLS_ECDHE_RSA_WITH_AES_256_CBC_SHA384'', 49192),
    (''TLS_ECDH_RSA_WITH_AES_128_CBC_SHA256'', 49193),
    (''TLS_ECDH_RSA_WITH_AES_256_CBC_SHA384'', 49194),
    (''TLS_ECDHE_ECDSA_WITH_AES_128_GCM_SHA256'', 49195),
    (''TLS_ECDHE_ECDSA_WITH_AES_256_GCM_SHA384'', 49196),
    (''TLS_ECDH_ECDSA_WITH_AES_128_GCM_SHA256'', 49197),
    (''TLS_ECDH_ECDSA_WITH_AES_256_GCM_SHA384'', 49198),
    (''TLS_ECDHE_RSA_WITH_AES_128_GCM_SHA256'', 49199),
    (''TLS_ECDHE_RSA_WITH_AES_256_GCM_SHA384'', 49200),
    (''TLS_ECDH_RSA_WITH_AES_128_GCM_SHA256'', 49201),
    (''TLS_ECDH_RSA_WITH_AES_256_GCM_SHA384'', 49202),
    (''TLS_ECDHE_PSK_WITH_AES_128_CBC_SHA'', 49205),
    (''TLS_ECDHE_PSK_WITH_AES_256_CBC_SHA'', 49206),
    (''TLS_ECDHE_PSK_WITH_AES_128_CBC_SHA256'', 49207),
    (''TLS_ECDHE_PSK_WITH_AES_256_CBC_SHA384'', 49208),
    (''TLS_ECDHE_PSK_WITH_NULL_SHA'', 49209),
    (''TLS_ECDHE_PSK_WITH_NULL_SHA256'', 49210),
    (''TLS_ECDHE_PSK_WITH_NULL_SHA384'', 49211),
    (''TLS_ECDHE_ECDSA_WITH_CAMELLIA_128_CBC_SHA256'', 49266),
    (''TLS_ECDHE_ECDSA_WITH_CAMELLIA_256_CBC_SHA384'', 49267),
    (''TLS_ECDH_ECDSA_WITH_CAMELLIA_128_CBC_SHA256'', 49268),
    (''TLS_ECDH_ECDSA_WITH_CAMELLIA_256_CBC_SHA384'', 49269),
    (''TLS_ECDHE_RSA_WITH_CAMELLIA_128_CBC_SHA256'', 49270),
    (''TLS_ECDHE_RSA_WITH_CAMELLIA_256_CBC_SHA384'', 49271),
    (''TLS_ECDH_RSA_WITH_CAMELLIA_128_CBC_SHA256'', 49272),
    (''TLS_ECDH_RSA_WITH_CAMELLIA_256_CBC_SHA384'', 49273),
    (''TLS_RSA_WITH_ARIA_128_CBC_SHA256'', 49212),
    (''TLS_RSA_WITH_ARIA_256_CBC_SHA384'', 49213),
    (''TLS_DH_DSS_WITH_ARIA_128_CBC_SHA256'', 49214),
    (''TLS_DH_DSS_WITH_ARIA_256_CBC_SHA384'', 49215),
    (''TLS_DH_RSA_WITH_ARIA_128_CBC_SHA256'', 49216),
    (''TLS_DH_RSA_WITH_ARIA_256_CBC_SHA384'', 49217),
    (''TLS_DHE_DSS_WITH_ARIA_128_CBC_SHA256'', 49218),
    (''TLS_DHE_DSS_WITH_ARIA_256_CBC_SHA384'', 49219),
    (''TLS_DHE_RSA_WITH_ARIA_128_CBC_SHA256'', 49220),
    (''TLS_DHE_RSA_WITH_ARIA_256_CBC_SHA384'', 49221),
    (''TLS_DH_anon_WITH_ARIA_128_CBC_SHA256'', 49222),
    (''TLS_DH_anon_WITH_ARIA_256_CBC_SHA384'', 49223),
    (''TLS_ECDHE_ECDSA_WITH_ARIA_128_CBC_SHA256'', 49224),
    (''TLS_ECDHE_ECDSA_WITH_ARIA_256_CBC_SHA384'', 49225),
    (''TLS_ECDH_ECDSA_WITH_ARIA_128_CBC_SHA256'', 49226),
    (''TLS_ECDH_ECDSA_WITH_ARIA_256_CBC_SHA384'', 49227),
    (''TLS_ECDHE_RSA_WITH_ARIA_128_CBC_SHA256'', 49228),
    (''TLS_ECDHE_RSA_WITH_ARIA_256_CBC_SHA384'', 49229),
    (''TLS_ECDH_RSA_WITH_ARIA_128_CBC_SHA256'', 49230),
    (''TLS_ECDH_RSA_WITH_ARIA_256_CBC_SHA384'', 49231),
    (''TLS_RSA_WITH_ARIA_128_GCM_SHA256'', 49232),
    (''TLS_RSA_WITH_ARIA_256_GCM_SHA384'', 49233),
    (''TLS_DHE_RSA_WITH_ARIA_128_GCM_SHA256'', 49234),
    (''TLS_DHE_RSA_WITH_ARIA_256_GCM_SHA384'', 49235),
    (''TLS_DH_RSA_WITH_ARIA_128_GCM_SHA256'', 49236),
    (''TLS_DH_RSA_WITH_ARIA_256_GCM_SHA384'', 49237),
    (''TLS_DHE_DSS_WITH_ARIA_128_GCM_SHA256'', 49238),
    (''TLS_DHE_DSS_WITH_ARIA_256_GCM_SHA384'', 49239),
    (''TLS_DH_DSS_WITH_ARIA_128_GCM_SHA256'', 49240),
    (''TLS_DH_DSS_WITH_ARIA_256_GCM_SHA384'', 49241),
    (''TLS_DH_anon_WITH_ARIA_128_GCM_SHA256'', 49242),
    (''TLS_DH_anon_WITH_ARIA_256_GCM_SHA384'', 49243),
    (''TLS_ECDHE_ECDSA_WITH_ARIA_128_GCM_SHA256'', 49244),
    (''TLS_ECDHE_ECDSA_WITH_ARIA_256_GCM_SHA384'', 49245),
    (''TLS_ECDH_ECDSA_WITH_ARIA_128_GCM_SHA256'', 49246),
    (''TLS_ECDH_ECDSA_WITH_ARIA_256_GCM_SHA384'', 49247),
    (''TLS_ECDHE_RSA_WITH_ARIA_128_GCM_SHA256'', 49248),
    (''TLS_ECDHE_RSA_WITH_ARIA_256_GCM_SHA384'', 49249),
    (''TLS_ECDH_RSA_WITH_ARIA_128_GCM_SHA256'', 49250),
    (''TLS_ECDH_RSA_WITH_ARIA_256_GCM_SHA384'', 49251),
    (''TLS_PSK_WITH_ARIA_128_CBC_SHA256'', 49252),
    (''TLS_PSK_WITH_ARIA_256_CBC_SHA384'', 49253),
    (''TLS_DHE_PSK_WITH_ARIA_128_CBC_SHA256'', 49254),
    (''TLS_DHE_PSK_WITH_ARIA_256_CBC_SHA384'', 49255),
    (''TLS_RSA_PSK_WITH_ARIA_128_CBC_SHA256'', 49256),
    (''TLS_RSA_PSK_WITH_ARIA_256_CBC_SHA384'', 49257),
    (''TLS_PSK_WITH_ARIA_128_GCM_SHA256'', 49258),
    (''TLS_PSK_WITH_ARIA_256_GCM_SHA384'', 49259),
    (''TLS_DHE_PSK_WITH_ARIA_128_GCM_SHA256'', 49260),
    (''TLS_DHE_PSK_WITH_ARIA_256_GCM_SHA384'', 49261),
    (''TLS_RSA_PSK_WITH_ARIA_128_GCM_SHA256'', 49262),
    (''TLS_RSA_PSK_WITH_ARIA_256_GCM_SHA384'', 49263),
    (''TLS_ECDHE_PSK_WITH_ARIA_128_CBC_SHA256'', 49264),
    (''TLS_ECDHE_PSK_WITH_ARIA_256_CBC_SHA384'', 49265),
    (''TLS_ECDHE_ECDSA_WITH_CAMELLIA_128_GCM_SHA256'', 49270),
    (''TLS_ECDHE_ECDSA_WITH_CAMELLIA_256_GCM_SHA384'', 49271),
    (''TLS_ECDH_ECDSA_WITH_CAMELLIA_128_GCM_SHA256'', 49272),
    (''TLS_ECDH_ECDSA_WITH_CAMELLIA_256_GCM_SHA384'', 49273),
    (''TLS_ECDHE_RSA_WITH_CAMELLIA_128_GCM_SHA256'', 49274),
    (''TLS_ECDHE_RSA_WITH_CAMELLIA_256_GCM_SHA384'', 49275),
    (''TLS_ECDH_RSA_WITH_CAMELLIA_128_GCM_SHA256'', 49276),
    (''TLS_ECDH_RSA_WITH_CAMELLIA_256_GCM_SHA384'', 49277),
    (''TLS_PSK_WITH_CAMELLIA_128_GCM_SHA256'', 49278),
    (''TLS_PSK_WITH_CAMELLIA_256_GCM_SHA384'', 49279),
    (''TLS_DHE_PSK_WITH_CAMELLIA_128_GCM_SHA256'', 49280),
    (''TLS_DHE_PSK_WITH_CAMELLIA_256_GCM_SHA384'', 49281),
    (''TLS_RSA_PSK_WITH_CAMELLIA_128_GCM_SHA256'', 49282),
    (''TLS_RSA_PSK_WITH_CAMELLIA_256_GCM_SHA384'', 49283),
    (''TLS_ECDHE_PSK_WITH_CAMELLIA_128_GCM_SHA256'', 49284),
    (''TLS_ECDHE_PSK_WITH_CAMELLIA_256_GCM_SHA384'', 49285),
    (''TLS_RSA_WITH_AES_128_CCM'', 49308),
    (''TLS_RSA_WITH_AES_256_CCM'', 49309),
    (''TLS_DHE_RSA_WITH_AES_128_CCM'', 49310),
    (''TLS_DHE_RSA_WITH_AES_256_CCM'', 49311),
    (''TLS_RSA_WITH_AES_128_CCM_8'', 49312),
    (''TLS_RSA_WITH_AES_256_CCM_8'', 49313),
    (''TLS_DHE_RSA_WITH_AES_128_CCM_8'', 49314),
    (''TLS_DHE_RSA_WITH_AES_256_CCM_8'', 49315),
    (''TLS_PSK_WITH_AES_128_CCM'', 49316),
    (''TLS_PSK_WITH_AES_256_CCM'', 49317),
    (''TLS_DHE_PSK_WITH_AES_128_CCM'', 49318),
    (''TLS_DHE_PSK_WITH_AES_256_CCM'', 49319),
    (''TLS_PSK_WITH_AES_128_CCM_8'', 49320),
    (''TLS_PSK_WITH_AES_256_CCM_8'', 49321),
    (''TLS_PSK_DHE_WITH_AES_128_CCM_8'', 49322),
    (''TLS_PSK_DHE_WITH_AES_256_CCM_8'', 49323),
    (''TLS_ECDHE_ECDSA_WITH_AES_128_CCM'', 49324)]"

definition tls_cipher_suites :: "(string \<times> int) list" where
  "tls_cipher_suites = tls_cipher_suites_1 @ tls_cipher_suites_2"

definition named_twice :: "int list" where
  "named_twice = [0xC076, 0xC077, 0xC078, 0xC079]"

lemma tls_cipher_codes_shared:
  "List.map (count_list (List.map snd tls_cipher_suites)) named_twice = [2, 2, 2, 2]"
  by code_simp

lemma tls_cipher_codes_16_bit:
  "list_all (\<lambda>c. 0 \<le> c \<and> c < 2 ^ 16) (List.map snd tls_cipher_suites)"
  by code_simp

end
