(* ===== verification/Spec2Isabelle.thy ===== *)
theory Spec2Isabelle
  imports Asn_Output Asn_Pdus Cdc_Options Client_Browse Client_Conn Client_Structs Control_Concurrency
    Dataset_Memory End_To_End Goose_Types Hal_Types Mapping_Types Mms_Structs Model_Types Report_Liveness Scl_Parse
    Server_Model Tls_Ciphers
begin

text \<open>
  Verification library of go-libiec61850, a Go binding of the C library libiec61850 for IEC 61850
  clients and servers (MMS over TCP). Paths below are relative to \<open>src/iec61850/\<close>.

  \<^bold>\<open>The program.\<close> A client (\<open>iec61850_client.go\<close>) opens a connection, reads single attributes and whole
  data sets, browses the model of a server and reads its description from an SCL file
  (\<open>scl_xml/scl.go\<close>); a schema (\<open>iec61850_schema.go\<close>) names the values of a data set after that
  description. Reports (\<open>iec61850_report.go\<close>) are subscribed on report control blocks and arrive on a
  thread of the library through a bridge in C (\<open>report_bridge.c\<close>), which flattens the values to
  tokens the Go side decodes; a registry of handlers shared by all clients connects the two. Controls
  (\<open>iec61850_control.go\<close>) are operated through a cache of control objects. The server side
  (\<open>model.go\<close>, \<open>iec61850_server.go\<close>) builds a data model and runs a server. \<open>types.go\<close> repeats
  constants of the C headers under \<open>inc/\<close>. The C library itself is in the repository only as a binary.

  \<^bold>\<open>The library as a parameter.\<close> What the code calls of it is an argument of the definitions: a record
  of functions (\<open>mms_api\<close>, \<open>conn_lib\<close>, \<open>browse_lib\<close>, \<open>model_lib\<close> and the answers of the report and
  control operations), each a function of the calls made so far, so that it may answer differently
  every time. State that the code shares with the library is the trace of those calls.

  \<^bold>\<open>Foundations.\<close> \<open>Iec_Prelude\<close>: results and faults (null dereference, overflow, fuel), words, lists
  and maps. \<open>C_Resource\<close>: the locale of one kind of owned object, replayed over a trace;
  \<open>C_Session\<close> extends it to sessions of operations, \<open>C_Usage\<close> by the objects a call is
  passed, which have to be owned then. Interpretations: control objects, control blocks,
  name lists, client memory and server strings.

  \<^bold>\<open>Components.\<close>
  \<^item> \<open>Report_Bridge\<close>: \<open>count_mms_elements\<close>, \<open>flatten_mms_value\<close>, \<open>flattenReportDataSet\<close>. Bounds of the
    token array, failure of \<open>malloc\<close>, overflow of a C \<open>int\<close>, null elements. Values nest to any depth:
    no fuel.
  \<^item> \<open>Report_Decode\<close>: \<open>extractFlatValue\<close>, \<open>buildReport\<close>. Round trip with the bridge, and that decoding
    returns on every token array; the measure is the number of tokens left.
  \<^item> \<open>Report_Subscribe\<close>: the registry, \<open>SubscribeReport\<close> and its rollback, candidates,
    \<open>UnsubscribeReport\<close>, delivery. Exact calls on every path, refinement of a map from references to
    handlers, routing through the casts of the identifier, destruction of control blocks.
  \<^item> \<open>Report_Concurrency\<close>: the same operations cut at the points where another thread can run, as a
    step relation; the invariant of every interleaving, and that whole operations are schedules of it. \<open>Close\<close> runs against callbacks in flight.
    Identifiers are 32-bit words: the theorems assume fewer than \<open>2 ^ 32\<close> were drawn.
    \<open>Report_Liveness\<close>: in every fair run each operation that has begun comes to its end.
  \<^item> \<open>Control_Client\<close>: the cache, the three \<open>DirectWithNormalSecurity...\<close> operations, \<open>Close\<close>.
    \<open>Control_Concurrency\<close>: the same from several threads, \<open>Close\<close> in three steps.
  \<^item> \<open>Client_Conn\<close>: \<open>NewIedClient\<close> and its options, \<open>Connect\<close>, \<open>State\<close>, \<open>ReadBoolean\<close> to
    \<open>ReadUnsigned32\<close>. Memory of whole sessions, timeouts.
  \<^item> \<open>Client_Browse\<close>: \<open>BrowseModel\<close>, \<open>BrowseModelToSCL\<close>. The recursion follows what a server answers,
    which may never end; it has fuel, and fuel equal to the deepest directory is proved enough.
  \<^item> \<open>Scl_Xml\<close>: the document, \<open>GetDataSet\<close>, \<open>GetDOType\<close> and its cache, printing.
  \<^item> \<open>Go_Xml\<close>, \<open>Scl_Parse\<close>: what the struct tags ask of \<open>encoding/xml\<close>, \<open>GetSCL\<close> and
    \<open>GetSCLFromFd\<close>. Every document up to foreign content, order and white space is read back; which
    documents can be read at all, and when reading fails. The tokeniser is a parameter.
  \<^item> \<open>Dataset_Schema\<close>: \<open>BuildDataSetSchema\<close>, \<open>ApplySchema\<close>, \<open>ExplainDataSetValues\<close>.
  \<^item> \<open>Mms_Api\<close>, \<open>Dataset_Read\<close>: values behind library handles, \<open>resolveValue\<close> and its inlined copy,
    \<open>ReadDataSetValues\<close>, \<open>ReadDataSetFlat\<close>. Values in C memory may in principle be cyclic; fuel equal
    to the depth of a value is enough. Each value has the Go type of the MMS type it comes with.
    \<open>Dataset_Memory\<close>: the strings and data sets of these reads, with the results of \<open>Dataset_Read\<close>.
  \<^item> \<open>End_To_End\<close> and the end of this file: from a subscription to its handler, from a file to values.
  \<^item> \<open>Server_Model\<close>: the wrappers of \<open>model.go\<close> and \<open>iec61850_server.go\<close> and the strings they leave.
  \<^item> \<open>Go_Types\<close>: \<open>types.go\<close>, its agreement with the headers, rendering of errors and reasons.

  \<^bold>\<open>The C headers.\<close> \<open>Common_Types\<close>, \<open>Mms_Types\<close>, \<open>Client_Types\<close>, \<open>C_Common\<close>, \<open>Hal_Types\<close>,
  \<open>Tls_Ciphers\<close>, \<open>Iso_Types\<close>, \<open>Mms_Structs\<close>, \<open>Goose_Types\<close>, \<open>Client_Structs\<close>, \<open>Server_Types\<close>,
  \<open>Mapping_Types\<close>, \<open>Model_Types\<close>, \<open>Cdc_Options\<close>, \<open>Asn_Runtime\<close>, \<open>Asn_Output\<close>, \<open>Asn_Errors\<close>,
  \<open>Asn_Variables\<close>, \<open>Asn_Services\<close>, \<open>Asn_Pdus\<close> hold their enumerations
  with codes, option masks, structs as records at the widths of the C types, and the tag arithmetic,
  stack check and output macros of the ASN.1 runtime. Pointers are \<open>ptr\<close>, null or an address; opaque types stay opaque.

  \<^bold>\<open>Properties.\<close> Each stands after a text block with its number, with a witness at concrete values where it
  has hypotheses. Some are runs in which the code does what its comments or callers do not expect.

  \<^bold>\<open>Not modelled.\<close> The prototypes of the headers, since the functions are only in the binary;
  file input and the splitting of an XML text into tags; cgo configuration; tests and the demo; the
  remaining transport headers. What is left of the headers are prototypes, whose behaviour cannot be
  read here. The C strings browsing passes to the library are not traced.
\<close>

section \<open>From a report to its subscriber\<close>



section \<open>From a file to the values of a data set\<close>



end
